(* ===== verification/Prelude.thy ===== *)
theory Prelude
  imports Main "HOL-Library.Word" "HOL-Library.AList"
begin

text \<open>
  The shared part of the library.  It fixes the machine integers of the Rust
  code, the result type of its fallible functions, the association lists that
  stand for its hash maps, and the generic notions (an invariant of a step
  system, a keyed map) that the component theories instantiate.

  Arithmetic that overflows is the value \<open>Panic\<close>, as in a build with overflow
  checks; the \<open>checked_\<close> operations of the standard library return \<open>None\<close>.
\<close>

unbundle bit_operations_syntax

named_theorems result_simps
named_theorems inv_intros
named_theorems op_defs

subsection \<open>Machine integers\<close>

type_synonym u8 = "8 word"
type_synonym u16 = "16 word"
type_synonym u32 = "32 word"
type_synonym u64 = "64 word"
type_synonym u128 = "128 word"
type_synonym bytes = "8 word list"

definition checked_add :: "'a::len word \<Rightarrow> 'a word \<Rightarrow> 'a word option" where
  "checked_add a b = (if unat a + unat b < 2 ^ LENGTH('a) then Some (a + b) else None)"

definition checked_sub :: "'a::len word \<Rightarrow> 'a word \<Rightarrow> 'a word option" where
  "checked_sub a b = (if b \<le> a then Some (a - b) else None)"

lemma checked_add_Some_iff:
  "checked_add a b = Some c \<longleftrightarrow> unat a + unat b < 2 ^ LENGTH('a) \<and> unat c = unat a + unat b"
  for a b c :: "'a::len word"
proof
  assume "checked_add a b = Some c"
  then show "unat a + unat b < 2 ^ LENGTH('a) \<and> unat c = unat a + unat b"
    by (auto simp: checked_add_def unat_word_ariths split: if_splits)
next
  assume *: "unat a + unat b < 2 ^ LENGTH('a) \<and> unat c = unat a + unat b"
  then have "unat c = unat (a + b)"
    by (simp add: unat_word_ariths)
  then have "c = a + b"
    by (simp only: word_unat_eq_iff)
  with * show "checked_add a b = Some c"
    by (simp add: checked_add_def)
qed

lemma checked_add_None_iff:
  "checked_add a b = None \<longleftrightarrow> 2 ^ LENGTH('a) \<le> unat a + unat b"
  for a b :: "'a::len word"
  by (auto simp: checked_add_def)

lemma checked_add_le: "checked_add a b = Some c \<Longrightarrow> a \<le> c"
  by (simp add: checked_add_Some_iff word_le_nat_alt)

lemma checked_add_zero [simp]: "checked_add a 0 = Some a"
  using unsigned_less [of a] by (simp add: checked_add_def)

lemma checked_sub_Some_iff:
  "checked_sub a b = Some c \<longleftrightarrow> b \<le> a \<and> c = a - b"
  by (auto simp: checked_sub_def)

text \<open>The big-endian bytes of a word, as \<open>to_be_bytes\<close> returns them.\<close>

definition be_bytes :: "'a::len word \<Rightarrow> bytes" where
  "be_bytes w = map (\<lambda>i. ucast (drop_bit (8 * i) w)) (rev [0..<LENGTH('a) div 8])"

lemma length_be_bytes [simp]: "length (be_bytes (w :: 'a::len word)) = LENGTH('a) div 8"
  by (simp add: be_bytes_def)

subsection \<open>Results of fallible functions\<close>

text \<open>
  \<open>Ok\<close> and \<open>Err\<close> are the constructors of \<open>std::result::Result\<close>.  \<open>Panic\<close> is a
  failed \<open>unwrap\<close>, \<open>expect\<close> or index, an arithmetic overflow, or \<open>todo!()\<close>.
\<close>

datatype ('e, 'a) result = Ok 'a | Err 'e | Panic

fun rbind :: "('e, 'a) result \<Rightarrow> ('a \<Rightarrow> ('e, 'b) result) \<Rightarrow> ('e, 'b) result" where
  "rbind (Ok x) f = f x"
| "rbind (Err e) f = Err e"
| "rbind Panic f = Panic"

fun map_err :: "('e \<Rightarrow> 'f) \<Rightarrow> ('e, 'a) result \<Rightarrow> ('f, 'a) result" where
  "map_err f (Ok x) = Ok x"
| "map_err f (Err e) = Err (f e)"
| "map_err f Panic = Panic"

fun ok_or :: "'e \<Rightarrow> 'a option \<Rightarrow> ('e, 'a) result" where
  "ok_or e None = Err e"
| "ok_or e (Some x) = Ok x"

fun is_ok :: "('e, 'a) result \<Rightarrow> bool" where
  "is_ok (Ok x) = True"
| "is_ok (Err e) = False"
| "is_ok Panic = False"

fun unwrap :: "'a option \<Rightarrow> ('e, 'a) result" where
  "unwrap None = Panic"
| "unwrap (Some x) = Ok x"

lemma rbind_Ok_iff [result_simps]:
  "rbind r f = Ok y \<longleftrightarrow> (\<exists>x. r = Ok x \<and> f x = Ok y)"
  by (cases r) auto

lemma rbind_Err_iff [result_simps]:
  "rbind r f = Err e \<longleftrightarrow> r = Err e \<or> (\<exists>x. r = Ok x \<and> f x = Err e)"
  by (cases r) auto

lemma rbind_Panic_iff [result_simps]:
  "rbind r f = Panic \<longleftrightarrow> r = Panic \<or> (\<exists>x. r = Ok x \<and> f x = Panic)"
  by (cases r) auto

lemma ok_or_iffs [result_simps]:
  "ok_or e x = Ok y \<longleftrightarrow> x = Some y"
  "ok_or e x = Err e' \<longleftrightarrow> x = None \<and> e' = e"
  "ok_or e x \<noteq> Panic"
  by (cases x; auto)+

lemma unwrap_Ok_iff [result_simps]: "unwrap x = Ok y \<longleftrightarrow> x = Some y"
  by (cases x) auto

lemma map_err_iffs [result_simps]:
  "map_err f r = Ok y \<longleftrightarrow> r = Ok y"
  "map_err f r = Panic \<longleftrightarrow> r = Panic"
  by (cases r; simp)+

lemma is_ok_iff [result_simps]: "is_ok r \<longleftrightarrow> (\<exists>x. r = Ok x)"
  by (cases r) auto

lemma rbind_assoc: "rbind (rbind r f) g = rbind r (\<lambda>x. rbind (f x) g)"
  by (cases r) simp_all

text \<open>A loop whose body may fail: the first failure ends it.\<close>

fun rfold :: "('a \<Rightarrow> 's \<Rightarrow> ('e, 's) result) \<Rightarrow> 'a list \<Rightarrow> 's \<Rightarrow> ('e, 's) result" where
  "rfold f [] s = Ok s"
| "rfold f (x # xs) s = rbind (f x s) (rfold f xs)"

lemma rfold_append: "rfold f (xs @ ys) s = rbind (rfold f xs s) (rfold f ys)"
proof (induction xs arbitrary: s)
  case (Cons x xs)
  then show ?case by (cases "f x s") simp_all
qed simp

lemma rfold_invariant:
  assumes "rfold f xs s = Ok t" and "P s"
    and "\<And>x u v. x \<in> set xs \<Longrightarrow> P u \<Longrightarrow> f x u = Ok v \<Longrightarrow> P v"
  shows "P t"
  using assms
proof (induction xs arbitrary: s)
  case (Cons x xs)
  then obtain u where u: "f x s = Ok u" "rfold f xs u = Ok t"
    by (auto simp: result_simps)
  moreover from u Cons.prems have "P u" by auto
  ultimately show ?case using Cons.IH Cons.prems(3) by (meson list.set_intros(2))
qed simp

text \<open>The plain operators \<open>+\<close> and \<open>-\<close> of Rust.\<close>

definition add_or_panic :: "'a::len word \<Rightarrow> 'a word \<Rightarrow> ('e, 'a word) result" where
  "add_or_panic a b = (case checked_add a b of Some c \<Rightarrow> Ok c | None \<Rightarrow> Panic)"

definition sub_or_panic :: "'a::len word \<Rightarrow> 'a word \<Rightarrow> ('e, 'a word) result" where
  "sub_or_panic a b = (case checked_sub a b of Some c \<Rightarrow> Ok c | None \<Rightarrow> Panic)"

lemma add_or_panic_Ok_iff [result_simps]: "add_or_panic a b = Ok c \<longleftrightarrow> checked_add a b = Some c"
  by (simp add: add_or_panic_def split: option.splits)

lemma sub_or_panic_Ok_iff [result_simps]: "sub_or_panic a b = Ok c \<longleftrightarrow> checked_sub a b = Some c"
  by (simp add: sub_or_panic_def split: option.splits)

subsection \<open>Maps\<close>

text \<open>
  \<open>HashMap\<close>, \<open>BTreeMap\<close>, \<open>LinkedHashMap\<close> and \<open>IndexMap\<close> are association lists
  with distinct keys.  The position of an entry is the order in which an iterator
  visits it; no property rests on that order unless the map is a \<open>BTreeMap\<close>.
\<close>

type_synonym ('k, 'v) amap = "('k \<times> 'v) list"

abbreviation keys :: "('k, 'v) amap \<Rightarrow> 'k list" where
  "keys m \<equiv> map fst m"

abbreviation vals :: "('k, 'v) amap \<Rightarrow> 'v list" where
  "vals m \<equiv> map snd m"

definition wf_map :: "('k, 'v) amap \<Rightarrow> bool" where
  "wf_map m = distinct (keys m)"

definition map_insert :: "'k \<Rightarrow> 'v \<Rightarrow> ('k, 'v) amap \<Rightarrow> ('k, 'v) amap" where
  "map_insert k v m = AList.update k v m"

definition map_remove :: "'k \<Rightarrow> ('k, 'v) amap \<Rightarrow> ('k, 'v) amap" where
  "map_remove k m = AList.delete k m"

definition map_contains :: "'k \<Rightarrow> ('k, 'v) amap \<Rightarrow> bool" where
  "map_contains k m = (map_of m k \<noteq> None)"

fun map_extend :: "('k \<times> 'v) list \<Rightarrow> ('k, 'v) amap \<Rightarrow> ('k, 'v) amap" where
  "map_extend [] m = m"
| "map_extend ((k, v) # kvs) m = map_extend kvs (map_insert k v m)"

text \<open>\<open>entry(k).or_insert(v)\<close> keeps a value that is already there.\<close>

definition map_or_insert :: "'k \<Rightarrow> 'v \<Rightarrow> ('k, 'v) amap \<Rightarrow> ('k, 'v) amap" where
  "map_or_insert k v m = (if map_contains k m then m else map_insert k v m)"

definition map_retain :: "('k \<Rightarrow> 'v \<Rightarrow> bool) \<Rightarrow> ('k, 'v) amap \<Rightarrow> ('k, 'v) amap" where
  "map_retain P m = filter (\<lambda>(k, v). P k v) m"

text \<open>The interface of a keyed map and what its clients rely on.\<close>

locale keyed_map =
  fixes emp :: 'm
    and ins :: "'k \<Rightarrow> 'v \<Rightarrow> 'm \<Rightarrow> 'm"
    and del :: "'k \<Rightarrow> 'm \<Rightarrow> 'm"
    and look :: "'m \<Rightarrow> 'k \<Rightarrow> 'v option"
    and ok :: "'m \<Rightarrow> bool"
  assumes look_emp: "look emp k = None"
    and look_ins: "ok m \<Longrightarrow> look (ins k v m) = (look m)(k \<mapsto> v)"
    and look_del: "ok m \<Longrightarrow> look (del k m) = (look m)(k := None)"
    and ok_emp: "ok emp"
    and ok_ins: "ok m \<Longrightarrow> ok (ins k v m)"
    and ok_del: "ok m \<Longrightarrow> ok (del k m)"
begin

lemma ok_fold_ins: "ok m \<Longrightarrow> ok (fold (\<lambda>(k, v). ins k v) kvs m)"
  by (induction kvs arbitrary: m) (auto intro: ok_ins)

lemma look_fold_ins:
  "ok m \<Longrightarrow> look (fold (\<lambda>(k, v). ins k v) kvs m) = look m ++ map_of (rev kvs)"
proof (induction kvs arbitrary: m)
  case (Cons kv kvs)
  obtain k v where kv: "kv = (k, v)" by (cases kv)
  have "look (fold (\<lambda>(k, v). ins k v) kvs (ins k v m)) = look (ins k v m) ++ map_of (rev kvs)"
    by (rule Cons.IH) (rule ok_ins [OF Cons.prems])
  also have "\<dots> = (look m)(k \<mapsto> v) ++ map_of (rev kvs)"
    by (simp only: look_ins [OF Cons.prems])
  also have "\<dots> = look m ++ map_of (rev kvs @ [(k, v)])"
    by (auto simp: fun_eq_iff map_add_def split: option.splits)
  finally show ?case by (simp add: kv)
qed simp

lemma ok_fold_del: "ok m \<Longrightarrow> ok (fold del ks m)"
  by (induction ks arbitrary: m) (auto intro: ok_del)

lemma look_fold_del:
  "ok m \<Longrightarrow> look (fold del ks m) k = (if k \<in> set ks then None else look m k)"
  by (induction ks arbitrary: m) (auto simp: look_del ok_del)

end

interpretation amap: keyed_map "[]" map_insert map_remove map_of wf_map
  by unfold_locales
    (auto simp: map_insert_def map_remove_def wf_map_def update_conv' distinct_update
      delete_conv' distinct_delete)

lemmas amap_simps [simp] = amap.look_ins amap.look_del amap.look_emp

lemma wf_map_Nil [simp]: "wf_map []"
  by (rule amap.ok_emp)

lemma wf_map_insert [simp, intro]: "wf_map m \<Longrightarrow> wf_map (map_insert k v m)"
  by (rule amap.ok_ins)

lemma wf_map_remove [simp, intro]: "wf_map m \<Longrightarrow> wf_map (map_remove k m)"
  by (rule amap.ok_del)

lemma map_of_map_insert [simp]: "map_of (map_insert k v m) = (map_of m)(k \<mapsto> v)"
  by (simp add: map_insert_def update_conv')

lemma map_of_map_remove [simp]: "map_of (map_remove k m) = (map_of m)(k := None)"
  by (simp add: map_remove_def delete_conv')

lemma set_keys_insert [simp]: "set (keys (map_insert k v m)) = insert k (set (keys m))"
  by (simp add: map_insert_def dom_update)

lemma set_map_insert_subset: "set (map_insert k v m) \<subseteq> insert (k, v) (set m)"
  by (induction m) (auto simp: map_insert_def)

lemma set_map_remove_subset: "set (map_remove k m) \<subseteq> set m"
  by (auto simp: map_remove_def AList.delete_eq)

lemma map_extend_fold: "map_extend kvs m = fold (\<lambda>(k, v). map_insert k v) kvs m"
  by (induction kvs m rule: map_extend.induct) simp_all

lemma wf_map_extend [simp, intro]: "wf_map m \<Longrightarrow> wf_map (map_extend kvs m)"
  by (simp add: map_extend_fold amap.ok_fold_ins)

lemma map_of_map_extend: "wf_map m \<Longrightarrow> map_of (map_extend kvs m) = map_of m ++ map_of (rev kvs)"
  by (simp add: map_extend_fold amap.look_fold_ins)

lemma map_of_map_extend_distinct:
  "wf_map m \<Longrightarrow> distinct (keys kvs) \<Longrightarrow> map_of (map_extend kvs m) = map_of m ++ map_of kvs"
  using map_of_inject_set [of "rev kvs" kvs] by (simp add: map_of_map_extend flip: rev_map)

lemma map_contains_iff: "map_contains k m \<longleftrightarrow> k \<in> set (keys m)"
  by (auto simp: map_contains_def map_of_eq_None_iff)

lemma wf_map_retain [simp, intro]: "wf_map m \<Longrightarrow> wf_map (map_retain P m)"
  by (simp add: wf_map_def map_retain_def distinct_map_filter)

lemma map_of_map_retain:
  assumes "wf_map m"
  shows "map_of (map_retain P m) k = (case map_of m k of None \<Rightarrow> None | Some v \<Rightarrow> if P k v then Some v else None)"
  using assms
proof (induction m)
  case (Cons kv m)
  then have nin: "map_of m (fst kv) = None" and wf: "wf_map m"
    by (auto simp: wf_map_def map_of_eq_None_iff)
  show ?case
    using Cons.IH [OF wf] nin
    by (cases kv) (auto simp: map_retain_def split: option.splits)
qed (simp add: map_retain_def)

lemma wf_map_or_insert [simp, intro]: "wf_map m \<Longrightarrow> wf_map (map_or_insert k v m)"
  by (simp add: map_or_insert_def)

lemma map_of_map_or_insert:
  "map_of (map_or_insert k v m) = (if map_of m k = None then (map_of m)(k \<mapsto> v) else map_of m)"
  by (simp add: map_or_insert_def map_contains_def)

subsection \<open>Step systems and their invariants\<close>

inductive reachable :: "('s \<Rightarrow> bool) \<Rightarrow> ('s \<Rightarrow> 's \<Rightarrow> bool) \<Rightarrow> 's \<Rightarrow> bool"
  for init :: "'s \<Rightarrow> bool" and step :: "'s \<Rightarrow> 's \<Rightarrow> bool" where
  reach_init: "init s \<Longrightarrow> reachable init step s"
| reach_step: "reachable init step s \<Longrightarrow> step s t \<Longrightarrow> reachable init step t"

locale invariant_system =
  fixes init :: "'s \<Rightarrow> bool"
    and step :: "'s \<Rightarrow> 's \<Rightarrow> bool"
    and inv :: "'s \<Rightarrow> bool"
  assumes inv_init: "init s \<Longrightarrow> inv s"
    and inv_step: "inv s \<Longrightarrow> step s t \<Longrightarrow> inv t"
begin

lemma reachable_inv: "reachable init step s \<Longrightarrow> inv s"
  by (induction rule: reachable.induct) (auto intro: inv_init inv_step)

lemma steps_inv: "step\<^sup>*\<^sup>* s t \<Longrightarrow> inv s \<Longrightarrow> inv t"
  by (induction rule: rtranclp_induct) (auto intro: inv_step)

end

end
