(* ===== verification/Primitives.thy ===== *)
theory Primitives
  imports Prelude
begin

text \<open>
  The crate \<open>primitives\<close>, the text formatting of the standard library that
  the digests of the program depend on, and the interface of the cryptographic
  and serialisation crates.  Those crates are not part of the repository: they
  are the record \<open>crypto\<close>, an argument of every definition that calls them, and
  \<open>hex_laws\<close>, \<open>sha_laws\<close>, \<open>secp_laws\<close> state what their documentation promises.
\<close>

subsection \<open>Opaque key material\<close>

text \<open>A public key is its 33-byte compressed serialisation; a signature and a
  secret key are byte strings the model never looks into.\<close>

type_synonym public_key = bytes
type_synonym secret_key = bytes
type_synonym ecdsa_sig = bytes
type_synonym raw_signature = bytes
type_synonym node_id = string

text \<open>\<open>U256\<close> is an array of four 64-bit limbs, least significant first.\<close>

type_synonym u256 = "u64 \<times> u64 \<times> u64 \<times> u64"

type_synonym round = u128
type_synonym epoch = u128
type_synonym seed = u64

text \<open>The values the code hands to a serialiser (\<open>serde_json\<close>, \<open>bincode\<close>).\<close>

datatype sval = SInt int | SStr string | SBytes bytes | SBool bool | SSeq "sval list"

record crypto =
  cr_sha256 :: "bytes \<Rightarrow> bytes"
  cr_hex :: "bytes \<Rightarrow> string"
  cr_unhex :: "string \<Rightarrow> bytes option"
  cr_json :: "sval \<Rightarrow> bytes"
  cr_bincode :: "sval \<Rightarrow> bytes"
  cr_pk_parse :: "string \<Rightarrow> public_key option"
  cr_pk_slice :: "bytes \<Rightarrow> public_key option"
  cr_msg_slice :: "bytes \<Rightarrow> bytes option"
  cr_sign :: "secret_key \<Rightarrow> bytes \<Rightarrow> ecdsa_sig"
  cr_verify :: "public_key \<Rightarrow> bytes \<Rightarrow> ecdsa_sig \<Rightarrow> bool"
  cr_pk_of :: "secret_key \<Rightarrow> public_key"
  cr_sk_slice :: "bytes \<Rightarrow> secret_key option"
  cr_sig_display :: "ecdsa_sig \<Rightarrow> string"
  cr_sig_parse :: "string \<Rightarrow> ecdsa_sig option"
  cr_u256_be :: "bytes \<Rightarrow> u256"
  cr_debug :: "sval \<Rightarrow> string"
  cr_sig_parse_error :: "string \<Rightarrow> string"
  cr_verify_error :: string

definition is_hex_char :: "char \<Rightarrow> bool" where
  "is_hex_char c = (c \<in> set ''0123456789abcdef'')"

definition hex_laws :: "crypto \<Rightarrow> bool" where
  "hex_laws cr \<longleftrightarrow> (\<forall>b. cr_unhex cr (cr_hex cr b) = Some b)
     \<and> (\<forall>b. length (cr_hex cr b) = 2 * length b)
     \<and> (\<forall>b. list_all is_hex_char (cr_hex cr b))
     \<and> (\<forall>s b. cr_unhex cr s = Some b \<longrightarrow> length s = 2 * length b)"

definition sha_laws :: "crypto \<Rightarrow> bool" where
  "sha_laws cr \<longleftrightarrow> (\<forall>b. length (cr_sha256 cr b) = 32)"

definition secp_laws :: "crypto \<Rightarrow> bool" where
  "secp_laws cr \<longleftrightarrow> (\<forall>b. cr_msg_slice cr b = (if length b = 32 then Some b else None))
     \<and> (\<forall>b pk. cr_pk_slice cr b = Some pk \<longrightarrow> length b = 33 \<or> length b = 65)
     \<and> (\<forall>s pk. cr_pk_parse cr s = Some pk \<longrightarrow> length s = 66 \<or> length s = 130)
     \<and> (\<forall>sk m. cr_verify cr (cr_pk_of cr sk) m (cr_sign cr sk m))
     \<and> (\<forall>sg. cr_sig_parse cr (cr_sig_display cr sg) = Some sg)"

lemma hex_lawsD:
  assumes "hex_laws cr"
  shows "cr_unhex cr (cr_hex cr b) = Some b" "length (cr_hex cr b) = 2 * length b"
    "CHR '','' \<notin> set (cr_hex cr b)" "CHR 0x0A \<notin> set (cr_hex cr b)"
    "cr_unhex cr s = Some b \<Longrightarrow> length s = 2 * length b"
  using assms by (auto simp: hex_laws_def list_all_iff is_hex_char_def)

lemma hex_inj: "hex_laws cr \<Longrightarrow> cr_hex cr a = cr_hex cr b \<longleftrightarrow> a = b"
  by (metis hex_lawsD(1) option.inject)

lemma sha_lawsD: "sha_laws cr \<Longrightarrow> length (cr_sha256 cr b) = 32"
  by (simp add: sha_laws_def)

lemma secp_lawsD:
  assumes "secp_laws cr"
  shows "cr_msg_slice cr b = (if length b = 32 then Some b else None)"
    "cr_pk_slice cr b = Some pk \<Longrightarrow> length b = 33 \<or> length b = 65"
    "cr_pk_parse cr s = Some pk \<Longrightarrow> length s = 66 \<or> length s = 130"
    "cr_verify cr (cr_pk_of cr sk) m (cr_sign cr sk m)"
    "cr_sig_parse cr (cr_sig_display cr sg) = Some sg"
  using assms by (auto simp: secp_laws_def)

subsection \<open>Text\<close>

definition str_bytes :: "string \<Rightarrow> bytes" where
  "str_bytes s = map of_char s"

lemma length_str_bytes [simp]: "length (str_bytes s) = length s"
  by (simp add: str_bytes_def)

lemma of_char_word_inj: "(of_char c :: 8 word) = of_char d \<longleftrightarrow> c = d"
proof
  assume "(of_char c :: 8 word) = of_char d"
  then have "unat (of_nat (of_char c) :: 8 word) = unat (of_nat (of_char d) :: 8 word)"
    by (simp only: of_nat_of_char)
  moreover have "(of_char c :: nat) < 256" "(of_char d :: nat) < 256"
    by simp_all
  ultimately have "(of_char c :: nat) = of_char d"
    by (simp add: unat_of_nat)
  then show "c = d" by simp
qed simp

lemma str_bytes_inj: "str_bytes s = str_bytes t \<longleftrightarrow> s = t"
  unfolding str_bytes_def
  by (rule inj_map_eq_map) (simp add: inj_on_def of_char_word_inj)

text \<open>Decimal display of integers.\<close>

definition digit_char :: "nat \<Rightarrow> char" where
  "digit_char n = char_of (48 + n)"

fun dec_nat :: "nat \<Rightarrow> string" where
  "dec_nat n = (if n < 10 then [digit_char n] else dec_nat (n div 10) @ [digit_char (n mod 10)])"

declare dec_nat.simps [simp del]

definition dec_int :: "int \<Rightarrow> string" where
  "dec_int i = (if i < 0 then CHR ''-'' # dec_nat (nat (- i)) else dec_nat (nat i))"

definition dec_val :: "string \<Rightarrow> nat" where
  "dec_val s = foldl (\<lambda>a c. 10 * a + (of_char c - 48)) 0 s"

lemma of_char_digit [simp]: "n < 10 \<Longrightarrow> of_char (digit_char n) = 48 + n"
  by (simp add: digit_char_def)

lemma dec_val_dec_nat [simp]: "dec_val (dec_nat n) = n"
proof (induction n rule: dec_nat.induct)
  case (1 n)
  show ?case
  proof (cases "n < 10")
    case True
    then show ?thesis by (simp add: dec_nat.simps [of n] dec_val_def)
  next
    case False
    then have "dec_val (dec_nat (n div 10)) = n div 10" by (rule 1)
    with False show ?thesis by (simp add: dec_nat.simps [of n] dec_val_def)
  qed
qed

lemma dec_nat_inj: "dec_nat m = dec_nat n \<longleftrightarrow> m = n"
  by (metis dec_val_dec_nat)

lemma dec_nat_digits: "c \<in> set (dec_nat n) \<Longrightarrow> 48 \<le> (of_char c :: nat) \<and> (of_char c :: nat) < 58"
proof (induction n rule: dec_nat.induct)
  case (1 n)
  then show ?case
    by (subst (asm) (2) dec_nat.simps) (auto split: if_splits)
qed

lemma dec_nat_no_comma [simp]: "CHR '','' \<notin> set (dec_nat n)"
  using dec_nat_digits [of "CHR '',''" n] by auto

lemma dec_nat_no_minus [simp]: "CHR ''-'' \<notin> set (dec_nat n)"
  using dec_nat_digits [of "CHR ''-''" n] by auto

lemma dec_int_no_comma [simp]: "CHR '','' \<notin> set (dec_int i)"
  by (simp add: dec_int_def)

lemma dec_int_inj: "dec_int i = dec_int j \<longleftrightarrow> i = j"
proof
  assume eq: "dec_int i = dec_int j"
  have nm: "dec_nat n \<noteq> CHR ''-'' # xs" for n xs
    by (metis dec_nat_no_minus list.set_intros(1))
  show "i = j"
  proof (cases "i < 0")
    case True
    with eq nm nm [symmetric] have "j < 0" by (auto simp: dec_int_def split: if_splits)
    with True eq show ?thesis by (simp add: dec_int_def dec_nat_inj)
  next
    case False
    with eq nm have "\<not> j < 0" by (auto simp: dec_int_def split: if_splits)
    with False eq show ?thesis by (simp add: dec_int_def dec_nat_inj)
  qed
qed simp

text \<open>Reading a text up to the first separator that a field cannot contain.\<close>

lemma split_at_sep:
  assumes "c \<notin> set xs" "c \<notin> set ys" "xs @ c # us = ys @ c # vs"
  shows "xs = ys \<and> us = vs"
  using assms
proof (induction xs arbitrary: ys)
  case Nil
  then show ?case by (cases ys) auto
next
  case (Cons x xs)
  then show ?case by (cases ys) auto
qed

lemma split_at_last_sep:
  assumes "c \<notin> set us" "c \<notin> set vs" "xs @ c # us = ys @ c # vs"
  shows "xs = ys \<and> us = vs"
proof -
  from assms(3) have "rev us @ c # rev xs = rev vs @ c # rev ys"
    by (metis append.assoc append_Cons append_Nil rev.simps(2) rev_append)
  with assms show ?thesis using split_at_sep [of c "rev us" "rev vs" "rev xs" "rev ys"] by simp
qed

subsection \<open>Addresses and digests\<close>

text \<open>\<open>Address\<close> wraps a public key; both display as its hexadecimal form.\<close>

datatype address = Address public_key

fun address_public_key :: "address \<Rightarrow> public_key" where
  "address_public_key (Address pk) = pk"

definition pk_display :: "crypto \<Rightarrow> public_key \<Rightarrow> string" where
  "pk_display cr pk = cr_hex cr pk"

definition address_display :: "crypto \<Rightarrow> address \<Rightarrow> string" where
  "address_display cr a = pk_display cr (address_public_key a)"

definition public_key_bytes :: "crypto \<Rightarrow> address \<Rightarrow> bytes" where
  "public_key_bytes cr a = str_bytes (pk_display cr (address_public_key a))"

definition address_default :: "crypto \<Rightarrow> ('e, address) result" where
  "address_default cr = rbind (unwrap (cr_pk_parse cr ''null-address'')) (\<lambda>pk. Ok (Address pk))"

definition address_from_str :: "crypto \<Rightarrow> string \<Rightarrow> address option" where
  "address_from_str cr s = map_option Address (cr_pk_parse cr s)"

definition address_from_string :: "crypto \<Rightarrow> string \<Rightarrow> ('e, address) result" where
  "address_from_string cr s =
     (case address_from_str cr s of Some a \<Rightarrow> Ok a | None \<Rightarrow> address_default cr)"

lemma address_display_no_comma: "hex_laws cr \<Longrightarrow> CHR '','' \<notin> set (address_display cr a)"
  by (simp add: address_display_def pk_display_def hex_lawsD)

lemma address_display_inj:
  "hex_laws cr \<Longrightarrow> address_display cr a = address_display cr b \<longleftrightarrow> a = b"
  by (cases a; cases b) (simp add: address_display_def pk_display_def hex_inj)

lemma address_default_panics: "secp_laws cr \<Longrightarrow> address_default cr = Panic"
  by (cases "cr_pk_parse cr ''null-address''")
    (auto simp: address_default_def dest!: secp_lawsD(3))

text \<open>\<open>Digest\<close> is an array of 32 bytes; a vector of another length becomes zeros.\<close>

definition DIGEST_LENGTH :: nat where
  "DIGEST_LENGTH = 32"

definition digest_from :: "bytes \<Rightarrow> bytes" where
  "digest_from b = (if length b = DIGEST_LENGTH then b else replicate DIGEST_LENGTH 0)"

definition digest_is_empty :: "bytes \<Rightarrow> bool" where
  "digest_is_empty d = (length d = 0)"

lemma length_digest_from [simp]: "length (digest_from b) = 32"
  by (simp add: digest_from_def DIGEST_LENGTH_def)

subsection \<open>Nodes\<close>

datatype quorum_kind = QHarvester | QFarmer | QMiner

definition quorum_kind_display :: "quorum_kind \<Rightarrow> string" where
  "quorum_kind_display k = (case k of QHarvester \<Rightarrow> ''Harvester'' | QFarmer \<Rightarrow> ''Farmer'' | QMiner \<Rightarrow> ''Miner'')"

datatype node_type = NFull | NBootstrap | NMiner | NValidator | NMasterNode

definition node_type_from_str :: "string \<Rightarrow> node_type option" where
  "node_type_from_str s =
     (if s = ''full'' then Some NFull
      else if s = ''miner'' then Some NMiner
      else if s = ''bootstrap'' then Some NBootstrap
      else if s = ''validator'' then Some NValidator
      else if s = ''master'' \<or> s = ''masternode'' then Some NMasterNode
      else None)"

definition ascii_lower_char :: "char \<Rightarrow> char" where
  "ascii_lower_char c = (if 65 \<le> (of_char c :: nat) \<and> (of_char c :: nat) \<le> 90 then char_of ((of_char c :: nat) + 32) else c)"

definition node_type_from_string :: "string \<Rightarrow> node_type" where
  "node_type_from_string src =
     (let s = map ascii_lower_char src in
      if s = ''miner'' then NMiner
      else if s = ''bootstrap'' then NBootstrap
      else if s = ''validator'' then NValidator
      else if s = ''master'' \<or> s = ''masternode'' then NMasterNode
      else NFull)"

definition node_type_from_usize :: "nat \<Rightarrow> node_type" where
  "node_type_from_usize n =
     (if n = 0 then NFull else if n = 1 then NBootstrap else if n = 2 then NMiner
      else if n = 3 then NValidator else if n = 4 then NMasterNode else NFull)"

definition node_type_code :: "node_type \<Rightarrow> nat" where
  "node_type_code t = (case t of NFull \<Rightarrow> 0 | NBootstrap \<Rightarrow> 1 | NMiner \<Rightarrow> 2 | NValidator \<Rightarrow> 3 | NMasterNode \<Rightarrow> 4)"

lemma node_type_code_roundtrip: "node_type_from_usize (node_type_code t) = t"
  by (cases t) (simp_all add: node_type_from_usize_def node_type_code_def)

lemma ascii_lower_fixed:
  "list_all (\<lambda>c. 97 \<le> (of_char c :: nat)) s \<Longrightarrow> map ascii_lower_char s = s"
  by (induction s) (auto simp: ascii_lower_char_def)

datatype environment = Local | Testnet | Mainnet

definition environment_display :: "environment \<Rightarrow> string" where
  "environment_display e = (case e of Local \<Rightarrow> ''local'' | Testnet \<Rightarrow> ''testnet'' | Mainnet \<Rightarrow> ''mainnet'')"

definition environment_from_str :: "string \<Rightarrow> environment option" where
  "environment_from_str s =
     (if s = ''local'' \<or> s = ''dev'' then Some Local
      else if s = ''testnet'' \<or> s = ''test'' \<or> s = ''stg'' then Some Testnet
      else if s = ''mainnet'' \<or> s = ''main'' \<or> s = ''prod'' then Some Mainnet
      else None)"

text \<open>\<open>get_vrrb_environment\<close> reads the variable (\<open>None\<close> when it is not set) and
  falls back to the default twice.\<close>

definition get_vrrb_environment :: "string option \<Rightarrow> environment" where
  "get_vrrb_environment var =
     (case environment_from_str (case var of Some s \<Rightarrow> s | None \<Rightarrow> environment_display Local) of
        Some e \<Rightarrow> e | None \<Rightarrow> Local)"

lemma environment_roundtrip: "environment_from_str (environment_display e) = Some e"
  by (cases e) (simp_all add: environment_from_str_def environment_display_def)

end
