(* ===== verification/Crypto_Example.thy ===== *)
theory Crypto_Example
  imports Primitives
begin

text \<open>
  One concrete value of the record \<open>crypto\<close>, with hexadecimal as the \<open>hex\<close>
  crate prints it and a checksum in the place of the hash.  It shows that the
  laws of \<open>Primitives\<close> can hold together; the closed examples evaluate on it.
\<close>

definition hex_digits :: string where
  "hex_digits = ''0123456789abcdef''"

definition hex_digit :: "nat \<Rightarrow> char" where
  "hex_digit n = hex_digits ! n"

definition hex_digit_val :: "char \<Rightarrow> nat option" where
  "hex_digit_val c = (let n = of_char c :: nat in
     if 48 \<le> n \<and> n < 58 then Some (n - 48)
     else if 97 \<le> n \<and> n < 103 then Some (n - 87)
     else None)"

fun hex_enc :: "bytes \<Rightarrow> string" where
  "hex_enc [] = []"
| "hex_enc (b # bs) = hex_digit (unat b div 16) # hex_digit (unat b mod 16) # hex_enc bs"

fun hex_dec :: "string \<Rightarrow> bytes option" where
  "hex_dec [] = Some []"
| "hex_dec [c] = None"
| "hex_dec (c # d # cs) =
     (case (hex_digit_val c, hex_digit_val d, hex_dec cs) of
        (Some x, Some y, Some bs) \<Rightarrow> Some (of_nat (16 * x + y) # bs)
      | _ \<Rightarrow> None)"

lemma nat_lt_16_cases:
  assumes "n < (16::nat)"
  shows "n \<in> {0,1,2,3,4,5,6,7,8,9,10,11,12,13,14,15}"
  using assms by (auto simp: less_Suc_eq numeral_eq_Suc)

lemma hex_digit_val_digit [simp]: "n < 16 \<Longrightarrow> hex_digit_val (hex_digit n) = Some n"
  by (drule nat_lt_16_cases) (auto simp: hex_digit_def hex_digits_def hex_digit_val_def)

lemma hex_digit_is_hex [simp]: "n < 16 \<Longrightarrow> is_hex_char (hex_digit n)"
  by (drule nat_lt_16_cases) (auto simp: hex_digit_def hex_digits_def is_hex_char_def)

lemma byte_nibbles [simp]: "unat (b :: 8 word) div 16 < 16" "unat (b :: 8 word) mod 16 < 16"
  using unsigned_less [of b, where 'a = nat] by simp_all

lemma hex_dec_enc [simp]: "hex_dec (hex_enc b) = Some b"
  by (induction b) simp_all

lemma length_hex_enc [simp]: "length (hex_enc b) = 2 * length b"
  by (induction b) simp_all

lemma hex_enc_chars [simp]: "list_all is_hex_char (hex_enc b)"
  by (induction b) simp_all

definition checksum :: "bytes \<Rightarrow> bytes" where
  "checksum b = replicate 31 0 @ [fold (\<lambda>x a. x + 2 * a) b 1]"

fun sval_bytes :: "sval \<Rightarrow> bytes" where
  "sval_bytes (SInt i) = str_bytes (dec_int i)"
| "sval_bytes (SStr s) = str_bytes s"
| "sval_bytes (SBytes b) = b"
| "sval_bytes (SBool b) = [if b then 1 else 0]"
| "sval_bytes (SSeq xs) = concat (map sval_bytes xs)"

fun word_of_bytes :: "bytes \<Rightarrow> u64" where
  "word_of_bytes bs = foldl (\<lambda>a b. 256 * a + ucast b) 0 bs"

definition be_limbs :: "bytes \<Rightarrow> u256" where
  "be_limbs b = (word_of_bytes (take 8 (drop 24 b)), word_of_bytes (take 8 (drop 16 b)),
     word_of_bytes (take 8 (drop 8 b)), word_of_bytes (take 8 b))"

definition example_crypto :: crypto where
  "example_crypto =
     \<lparr> cr_sha256 = checksum, cr_hex = hex_enc, cr_unhex = hex_dec,
       cr_json = sval_bytes, cr_bincode = sval_bytes,
       cr_pk_parse = (\<lambda>s. if length s = 66 then hex_dec s else None),
       cr_pk_slice = (\<lambda>b. if length b = 33 then Some b else None),
       cr_msg_slice = (\<lambda>b. if length b = 32 then Some b else None),
       cr_sign = (\<lambda>sk m. sk @ m),
       cr_verify = (\<lambda>pk m s. s = pk @ m),
       cr_pk_of = (\<lambda>sk. sk),
       cr_sk_slice = (\<lambda>b. Some b),
       cr_sig_display = hex_enc,
       cr_sig_parse = hex_dec,
       cr_u256_be = be_limbs,
       cr_debug = (\<lambda>v. hex_enc (sval_bytes v)),
       cr_sig_parse_error = (\<lambda>s. ''malformed signature''),
       cr_verify_error = ''signature failed verification'' \<rparr>"

lemma example_crypto_sel [simp]:
  "cr_sha256 example_crypto = checksum"
  "cr_hex example_crypto = hex_enc"
  "cr_unhex example_crypto = hex_dec"
  "cr_json example_crypto = sval_bytes"
  "cr_bincode example_crypto = sval_bytes"
  "cr_pk_slice example_crypto b = (if length b = 33 then Some b else None)"
  "cr_pk_parse example_crypto s = (if length s = 66 then hex_dec s else None)"
  "cr_msg_slice example_crypto b = (if length b = 32 then Some b else None)"
  "cr_sign example_crypto sk m = sk @ m"
  "cr_verify example_crypto pk m sg = (sg = pk @ m)"
  "cr_pk_of example_crypto sk = sk"
  "cr_sk_slice example_crypto b = Some b"
  "cr_sig_display example_crypto = hex_enc"
  "cr_sig_parse example_crypto = hex_dec"
  "cr_u256_be example_crypto = be_limbs"
  by (simp_all add: example_crypto_def)

lemma length_hex_dec: "hex_dec s = Some b \<Longrightarrow> length s = 2 * length b"
  by (induction s arbitrary: b rule: hex_dec.induct) (auto split: option.splits)

lemma example_hex_laws [simp]: "hex_laws example_crypto"
  by (simp add: hex_laws_def length_hex_dec)

lemma example_sha_laws [simp]: "sha_laws example_crypto"
  by (simp add: sha_laws_def checksum_def)

lemma example_secp_laws [simp]: "secp_laws example_crypto"
  by (simp add: secp_laws_def)

text \<open>Three keys for the closed examples.\<close>

definition key_a :: public_key where
  "key_a = 2 # replicate 32 1"

definition key_b :: public_key where
  "key_b = 3 # replicate 32 2"

definition key_c :: public_key where
  "key_c = 2 # replicate 32 3"

lemma keys_distinct [simp]:
  "key_a \<noteq> key_b" "key_b \<noteq> key_a" "key_a \<noteq> key_c" "key_c \<noteq> key_a" "key_b \<noteq> key_c" "key_c \<noteq> key_b"
  by (simp_all add: key_a_def key_b_def key_c_def)

end
