(* ===== verification/Transactions.thy ===== *)
theory Transactions
  imports Primitives Crypto_Example
begin

text \<open>
  \<open>vrrb_core/src/transactions\<close>: tokens, transaction digests, transfers, the
  transfer builder and \<open>TransactionKind\<close>.  The trait \<open>Transaction\<close> is the locale
  \<open>transaction\<close>, interpreted for \<open>Transfer\<close> and for \<open>TransactionKind\<close>.
\<close>

subsection \<open>Tokens and digests\<close>

record token =
  tok_name :: string
  tok_symbol :: string
  tok_decimals :: u8

definition token_default :: token where
  "token_default = \<lparr> tok_name = ''VRRB'', tok_symbol = ''VRRB'', tok_decimals = 18 \<rparr>"

definition token_display :: "token \<Rightarrow> string" where
  "token_display t = ''Token(name: '' @ tok_name t @ '', symbol: '' @ tok_symbol t
     @ '', decimals: '' @ dec_nat (unat (tok_decimals t)) @ '')''"

text \<open>\<open>{:?}\<close> of a string of the standard library: quoted, with escapes.\<close>

definition hex_nat :: "nat \<Rightarrow> string" where
  "hex_nat n = (if n < 16 then [hex_digit n] else [hex_digit (n div 16), hex_digit (n mod 16)])"

definition debug_char :: "char \<Rightarrow> string" where
  "debug_char c =
     (if c = CHR 0x22 then [CHR 0x5C, CHR 0x22]
      else if c = CHR 0x5C then [CHR 0x5C, CHR 0x5C]
      else if c = CHR 0x0A then [CHR 0x5C, CHR ''n'']
      else if c = CHR 0x0D then [CHR 0x5C, CHR ''r'']
      else if c = CHR 0x09 then [CHR 0x5C, CHR ''t'']
      else if c = CHR 0x00 then [CHR 0x5C, CHR ''0'']
      else if (of_char c :: nat) < 32 \<or> (of_char c :: nat) = 127
        then [CHR 0x5C, CHR ''u'', CHR ''{''] @ hex_nat (of_char c) @ ''}''
      else [c])"

definition debug_str :: "string \<Rightarrow> string" where
  "debug_str s = CHR 0x22 # concat (map debug_char s) @ [CHR 0x22]"

definition token_debug :: "token \<Rightarrow> string" where
  "token_debug t = ''Token { name: '' @ debug_str (tok_name t) @ '', symbol: '' @ debug_str (tok_symbol t)
     @ '', decimals: '' @ dec_nat (unat (tok_decimals t)) @ '' }''"

record transaction_digest =
  td_inner :: bytes
  td_digest_string :: string

definition td_default :: transaction_digest where
  "td_default = \<lparr> td_inner = replicate DIGEST_LENGTH 0, td_digest_string = [] \<rparr>"

definition td_is_empty :: "transaction_digest \<Rightarrow> bool" where
  "td_is_empty d = (digest_is_empty (td_inner d) \<and> td_digest_string d = [])"

definition td_from_bytes :: "crypto \<Rightarrow> bytes \<Rightarrow> transaction_digest" where
  "td_from_bytes cr b = \<lparr> td_inner = digest_from b, td_digest_string = cr_hex cr b \<rparr>"

definition td_display :: "transaction_digest \<Rightarrow> string" where
  "td_display d = td_digest_string d"

definition td_from_str :: "crypto \<Rightarrow> string \<Rightarrow> (string, transaction_digest) result" where
  "td_from_str cr s =
     (case cr_unhex cr s of
        None \<Rightarrow> Err ''failed to decode hex string''
      | Some b \<Rightarrow> Ok (td_from_bytes cr b))"

lemma td_roundtrip:
  "hex_laws cr \<Longrightarrow> td_from_str cr (td_display (td_from_bytes cr b)) = Ok (td_from_bytes cr b)"
  by (simp add: td_from_str_def td_display_def td_from_bytes_def hex_lawsD)

lemma td_from_bytes_inj:
  "hex_laws cr \<Longrightarrow> td_from_bytes cr a = td_from_bytes cr b \<longleftrightarrow> a = b"
  by (auto simp: td_from_bytes_def hex_inj)

subsection \<open>Debug output of strings can be read back\<close>

lemma hex_nat_chars: "n < 256 \<Longrightarrow> CHR ''}'' \<notin> set (hex_nat n)"
proof -
  have "hex_digit k \<noteq> CHR ''}''" if "k < 16" for k
    using hex_digit_val_digit [OF that] by (auto simp: hex_digit_val_def)
  then show "n < 256 \<Longrightarrow> CHR ''}'' \<notin> set (hex_nat n)"
    by (auto simp: hex_nat_def eq_commute [of "CHR ''}''"])
qed

lemma hex_digit_inj: "m < 16 \<Longrightarrow> n < 16 \<Longrightarrow> hex_digit m = hex_digit n \<longleftrightarrow> m = n"
  by (metis hex_digit_val_digit option.inject)

lemma hex_nat_inj:
  assumes "m < 256" "n < 256" "hex_nat m = hex_nat n"
  shows "m = n"
proof -
  have "m div 16 < 16" "n div 16 < 16" using assms by simp_all
  moreover from assms(3) have "m div 16 = n div 16 \<and> m mod 16 = n mod 16"
    using calculation by (auto simp: hex_nat_def hex_digit_inj split: if_splits)
  ultimately show ?thesis by (metis div_mult_mod_eq)
qed

lemma of_char_lt_256: "(of_char c :: nat) < 256"
  by simp

lemma hex_nat_append_inj:
  assumes "hex_nat (of_char c) @ CHR ''}'' # x = hex_nat (of_char d) @ CHR ''}'' # y"
  shows "c = d"
proof -
  have "hex_nat (of_char c) = hex_nat (of_char d)"
    using split_at_sep [OF _ _ assms] hex_nat_chars of_char_lt_256 by blast
  then have "(of_char c :: nat) = of_char d"
    by (rule hex_nat_inj [OF of_char_lt_256 of_char_lt_256])
  then show ?thesis by simp
qed

lemma debug_char_append_inj:
  assumes "debug_char c @ x = debug_char d @ y"
  shows "c = d \<and> x = y"
proof -
  from assms have "c = d"
    unfolding debug_char_def
    by (simp split: if_splits) (erule hex_nat_append_inj)
  with assms show ?thesis by simp
qed

lemma debug_char_not_quote: "debug_char c @ x \<noteq> CHR 0x22 # y"
  by (simp add: debug_char_def)

lemma debug_body_inj:
  "concat (map debug_char s) @ CHR 0x22 # x = concat (map debug_char t) @ CHR 0x22 # y
   \<Longrightarrow> s = t \<and> x = y"
proof (induction s arbitrary: t)
  case Nil
  then show ?case
    using debug_char_not_quote [symmetric] by (cases t) simp_all
next
  case (Cons c s)
  show ?case
  proof (cases t)
    case Nil
    with Cons.prems debug_char_not_quote show ?thesis by simp
  next
    case (Cons d t')
    with Cons.prems have "debug_char c @ (concat (map debug_char s) @ CHR 0x22 # x)
        = debug_char d @ (concat (map debug_char t') @ CHR 0x22 # y)"
      by simp
    from debug_char_append_inj [OF this] Cons.IH [of t'] show ?thesis by (simp add: Cons)
  qed
qed

lemma debug_str_append_inj: "debug_str s @ x = debug_str t @ y \<Longrightarrow> s = t \<and> x = y"
  using debug_body_inj [of s x t y] by (simp add: debug_str_def)

lemma token_debug_inj: "token_debug t = token_debug u \<longleftrightarrow> t = u"
proof
  assume eq: "token_debug t = token_debug u"
  then have "debug_str (tok_name t) @ ('', symbol: '' @ debug_str (tok_symbol t) @ '', decimals: ''
        @ dec_nat (unat (tok_decimals t)) @ '' }'')
      = debug_str (tok_name u) @ ('', symbol: '' @ debug_str (tok_symbol u) @ '', decimals: ''
        @ dec_nat (unat (tok_decimals u)) @ '' }'')"
    by (simp add: token_debug_def)
  from debug_str_append_inj [OF this] have n: "tok_name t = tok_name u"
    and r: "'', symbol: '' @ debug_str (tok_symbol t) @ '', decimals: '' @ dec_nat (unat (tok_decimals t)) @ '' }''
      = '', symbol: '' @ debug_str (tok_symbol u) @ '', decimals: '' @ dec_nat (unat (tok_decimals u)) @ '' }''"
    by simp_all
  from r have "debug_str (tok_symbol t) @ '', decimals: '' @ dec_nat (unat (tok_decimals t)) @ '' }''
      = debug_str (tok_symbol u) @ '', decimals: '' @ dec_nat (unat (tok_decimals u)) @ '' }''"
    by simp
  from debug_str_append_inj [OF this] have s: "tok_symbol t = tok_symbol u"
    and "dec_nat (unat (tok_decimals t)) = dec_nat (unat (tok_decimals u))"
    by simp_all
  then have "tok_decimals t = tok_decimals u"
    by (simp add: dec_nat_inj word_unat_eq_iff)
  with n s show "t = u" by simp
qed simp

subsection \<open>Transfers\<close>

type_synonym validator_votes = "(string, bool) amap"

record transfer =
  tr_id :: transaction_digest
  tr_timestamp :: int
  tr_sender_address :: address
  tr_sender_public_key :: public_key
  tr_receiver_address :: address
  tr_token :: token
  tr_amount :: u128
  tr_signature :: ecdsa_sig
  tr_validators :: "validator_votes option"
  tr_nonce :: u128

definition transfer_payload_string ::
  "crypto \<Rightarrow> int \<Rightarrow> string \<Rightarrow> public_key \<Rightarrow> string \<Rightarrow> token \<Rightarrow> u128 \<Rightarrow> u128 \<Rightarrow> string" where
  "transfer_payload_string cr ts sender pk receiver tok amount nonce =
     dec_int ts @ '','' @ sender @ '','' @ pk_display cr pk @ '','' @ receiver @ '',''
     @ dec_nat (unat amount) @ '','' @ token_debug tok @ '','' @ dec_nat (unat nonce)"

definition generate_transfer_digest_vec ::
  "crypto \<Rightarrow> int \<Rightarrow> string \<Rightarrow> public_key \<Rightarrow> string \<Rightarrow> token \<Rightarrow> u128 \<Rightarrow> u128 \<Rightarrow> bytes" where
  "generate_transfer_digest_vec cr ts sender pk receiver tok amount nonce =
     cr_sha256 cr (str_bytes (transfer_payload_string cr ts sender pk receiver tok amount nonce))"

record new_transfer_args =
  na_timestamp :: int
  na_sender_address :: address
  na_sender_public_key :: public_key
  na_receiver_address :: address
  na_token :: "token option"
  na_amount :: u128
  na_signature :: ecdsa_sig
  na_validators :: "validator_votes option"
  na_nonce :: u128

definition token_or_default :: "token option \<Rightarrow> token" where
  "token_or_default t = (case t of Some x \<Rightarrow> x | None \<Rightarrow> token_default)"

definition transfer_new :: "crypto \<Rightarrow> new_transfer_args \<Rightarrow> transfer" where
  "transfer_new cr a =
     (let tok = token_or_default (na_token a);
          digest = td_from_bytes cr (generate_transfer_digest_vec cr (na_timestamp a)
            (address_display cr (na_sender_address a)) (na_sender_public_key a)
            (address_display cr (na_receiver_address a)) tok (na_amount a) (na_nonce a))
      in \<lparr> tr_id = digest, tr_timestamp = na_timestamp a,
           tr_sender_address = na_sender_address a,
           tr_sender_public_key = na_sender_public_key a,
           tr_receiver_address = na_receiver_address a, tr_token = tok,
           tr_amount = na_amount a, tr_signature = na_signature a,
           tr_validators = na_validators a, tr_nonce = na_nonce a \<rparr>)"

record transfer_builder =
  tb_timestamp :: "int option"
  tb_sender_address :: "address option"
  tb_sender_public_key :: "public_key option"
  tb_receiver_address :: "address option"
  tb_token :: "token option"
  tb_amount :: "u128 option"
  tb_signature :: "ecdsa_sig option"
  tb_validators :: "validator_votes option"
  tb_nonce :: "u128 option"

definition builder_default :: transfer_builder where
  "builder_default = \<lparr> tb_timestamp = None, tb_sender_address = None, tb_sender_public_key = None,
     tb_receiver_address = None, tb_token = None, tb_amount = None, tb_signature = None,
     tb_validators = None, tb_nonce = None \<rparr>"

definition set_timestamp :: "int \<Rightarrow> transfer_builder \<Rightarrow> transfer_builder" where
  "set_timestamp x b = b \<lparr> tb_timestamp := Some x \<rparr>"

definition set_sender_address :: "address \<Rightarrow> transfer_builder \<Rightarrow> transfer_builder" where
  "set_sender_address x b = b \<lparr> tb_sender_address := Some x \<rparr>"

definition set_sender_public_key :: "public_key \<Rightarrow> transfer_builder \<Rightarrow> transfer_builder" where
  "set_sender_public_key x b = b \<lparr> tb_sender_public_key := Some x \<rparr>"

definition set_receiver_address :: "address \<Rightarrow> transfer_builder \<Rightarrow> transfer_builder" where
  "set_receiver_address x b = b \<lparr> tb_receiver_address := Some x \<rparr>"

definition set_token :: "token \<Rightarrow> transfer_builder \<Rightarrow> transfer_builder" where
  "set_token x b = b \<lparr> tb_token := Some x \<rparr>"

definition set_amount :: "u128 \<Rightarrow> transfer_builder \<Rightarrow> transfer_builder" where
  "set_amount x b = b \<lparr> tb_amount := Some x \<rparr>"

definition set_signature :: "ecdsa_sig \<Rightarrow> transfer_builder \<Rightarrow> transfer_builder" where
  "set_signature x b = b \<lparr> tb_signature := Some x \<rparr>"

definition set_validators :: "validator_votes \<Rightarrow> transfer_builder \<Rightarrow> transfer_builder" where
  "set_validators x b = b \<lparr> tb_validators := Some x \<rparr>"

definition set_nonce :: "u128 \<Rightarrow> transfer_builder \<Rightarrow> transfer_builder" where
  "set_nonce x b = b \<lparr> tb_nonce := Some x \<rparr>"

lemmas builder_setters = set_timestamp_def set_sender_address_def set_sender_public_key_def
  set_receiver_address_def set_token_def set_amount_def set_signature_def set_validators_def
  set_nonce_def builder_default_def

text \<open>\<open>build\<close> reads the fields in the order of the arguments of the digest; the
  signature comes last.\<close>

definition transfer_build :: "crypto \<Rightarrow> transfer_builder \<Rightarrow> (string, transfer) result" where
  "transfer_build cr b =
     rbind (ok_or ''timestamp is missing'' (tb_timestamp b)) (\<lambda>ts.
     rbind (ok_or ''sender_address is missing'' (tb_sender_address b)) (\<lambda>sa.
     rbind (ok_or ''sender_public_key is missing'' (tb_sender_public_key b)) (\<lambda>pk.
     rbind (ok_or ''receiver_address is missing'' (tb_receiver_address b)) (\<lambda>ra.
     rbind (ok_or ''amount is missing'' (tb_amount b)) (\<lambda>am.
     rbind (ok_or ''nonce is missing'' (tb_nonce b)) (\<lambda>no.
     let tok = token_or_default (tb_token b);
         id = generate_transfer_digest_vec cr ts (address_display cr sa) pk
                (address_display cr ra) tok am no in
     rbind (ok_or ''signature is missing'' (tb_signature b)) (\<lambda>sig.
     Ok \<lparr> tr_id = td_from_bytes cr id, tr_timestamp = ts, tr_sender_address = sa,
          tr_sender_public_key = pk, tr_receiver_address = ra, tr_token = tok,
          tr_amount = am, tr_signature = sig, tr_validators = tb_validators b,
          tr_nonce = no \<rparr>)))))))"

subsection \<open>The trait \<open>Transaction\<close>\<close>

definition BASE_FEE :: u128 where
  "BASE_FEE = 0x2D79883D2000"

definition transfer_fee :: "transfer \<Rightarrow> u128" where
  "transfer_fee t = BASE_FEE"

definition transfer_validator_fee_share :: "transfer \<Rightarrow> u128" where
  "transfer_validator_fee_share t = BASE_FEE div 2"

definition transfer_proposer_fee_share :: "transfer \<Rightarrow> u128" where
  "transfer_proposer_fee_share t = BASE_FEE div 2"

definition build_payload_digest :: "crypto \<Rightarrow> transfer \<Rightarrow> transaction_digest" where
  "build_payload_digest cr t = td_from_bytes cr (generate_transfer_digest_vec cr (tr_timestamp t)
     (address_display cr (tr_sender_address t)) (tr_sender_public_key t)
     (address_display cr (tr_receiver_address t)) (tr_token t) (tr_amount t) (tr_nonce t))"

definition generate_txn_digest_vec :: "crypto \<Rightarrow> transfer \<Rightarrow> bytes" where
  "generate_txn_digest_vec cr t = generate_transfer_digest_vec cr (tr_timestamp t)
     (address_display cr (tr_sender_address t)) (tr_sender_public_key t)
     (address_display cr (tr_receiver_address t)) (tr_token t) (tr_amount t) (tr_nonce t)"

definition transfer_eq :: "crypto \<Rightarrow> transfer \<Rightarrow> transfer \<Rightarrow> bool" where
  "transfer_eq cr s t = (generate_txn_digest_vec cr s = generate_txn_digest_vec cr t)"

text \<open>The macro \<open>hash_data!\<close> of the crate \<open>utils\<close>: the items are serialised as
  JSON one after the other and hashed.\<close>

definition hash_data :: "crypto \<Rightarrow> sval list \<Rightarrow> bytes" where
  "hash_data cr items = cr_sha256 cr (concat (map (cr_json cr) items))"

definition token_sval :: "token \<Rightarrow> sval" where
  "token_sval t = SSeq [SStr (tok_name t), SStr (tok_symbol t), SInt (uint (tok_decimals t))]"

definition address_sval :: "address \<Rightarrow> sval" where
  "address_sval a = SBytes (address_public_key a)"

definition build_payload :: "crypto \<Rightarrow> transfer \<Rightarrow> string" where
  "build_payload cr t = cr_hex cr (hash_data cr
     [address_sval (tr_sender_address t), SBytes (tr_sender_public_key t),
      address_sval (tr_receiver_address t), token_sval (tr_token t),
      SInt (uint (tr_amount t)), SInt (uint (tr_nonce t))])"

definition transfer_sign :: "crypto \<Rightarrow> secret_key \<Rightarrow> transfer \<Rightarrow> transfer" where
  "transfer_sign cr sk t =
     (case cr_msg_slice cr (str_bytes (build_payload cr t)) of
        Some msg \<Rightarrow> t \<lparr> tr_signature := cr_sign cr sk msg \<rparr>
      | None \<Rightarrow> t)"

text \<open>\<open>null_txn\<close> draws a key pair and reads the clock; both are arguments.\<close>

definition null_txn :: "crypto \<Rightarrow> int \<Rightarrow> secret_key \<Rightarrow> transfer" where
  "null_txn cr now sk =
     (let pk = cr_pk_of cr sk; addr = Address pk; a = address_display cr addr;
          digest = td_from_bytes cr (generate_transfer_digest_vec cr now a pk a token_default 0 0);
          payload = hash_data cr [SStr (dec_int now), SStr a, SStr (pk_display cr pk), SStr a,
            SStr (token_display token_default), SStr ''0'', SStr ''0''];
          sig = cr_sign cr sk (cr_sha256 cr payload)
      in \<lparr> tr_id = digest, tr_timestamp = now, tr_sender_address = addr,
           tr_sender_public_key = pk, tr_receiver_address = addr, tr_token = token_default,
           tr_amount = 0, tr_signature = sig, tr_validators = None, tr_nonce = 0 \<rparr>)"

definition is_null :: "crypto \<Rightarrow> int \<Rightarrow> secret_key \<Rightarrow> transfer \<Rightarrow> bool" where
  "is_null cr now sk t = transfer_eq cr t (null_txn cr now sk)"

text \<open>The decoders of \<open>serde_helpers\<close> are arguments: JSON is tried first.\<close>

definition transfer_from_byte_slice ::
  "(bytes \<Rightarrow> transfer option) \<Rightarrow> (bytes \<Rightarrow> transfer option) \<Rightarrow> transfer \<Rightarrow> bytes \<Rightarrow> transfer" where
  "transfer_from_byte_slice json_dec bin_dec null data =
     (case json_dec data of Some t \<Rightarrow> t
      | None \<Rightarrow> (case bin_dec data of Some t \<Rightarrow> t | None \<Rightarrow> null))"

datatype transaction_kind = Transfer transfer

fun kind_transfer :: "transaction_kind \<Rightarrow> transfer" where
  "kind_transfer (Transfer t) = t"

definition transfer_build_kind :: "crypto \<Rightarrow> transfer_builder \<Rightarrow> (string, transaction_kind) result" where
  "transfer_build_kind cr b =
     (case transfer_build cr b of Ok t \<Rightarrow> Ok (Transfer t) | _ \<Rightarrow> Panic)"

definition txn_id :: "transaction_kind \<Rightarrow> transaction_digest" where
  "txn_id k = tr_id (kind_transfer k)"

definition txn_timestamp :: "transaction_kind \<Rightarrow> int" where
  "txn_timestamp k = tr_timestamp (kind_transfer k)"

definition txn_sender_address :: "transaction_kind \<Rightarrow> address" where
  "txn_sender_address k = tr_sender_address (kind_transfer k)"

definition txn_sender_public_key :: "transaction_kind \<Rightarrow> public_key" where
  "txn_sender_public_key k = tr_sender_public_key (kind_transfer k)"

definition txn_receiver_address :: "transaction_kind \<Rightarrow> address" where
  "txn_receiver_address k = tr_receiver_address (kind_transfer k)"

definition txn_amount :: "transaction_kind \<Rightarrow> u128" where
  "txn_amount k = tr_amount (kind_transfer k)"

definition txn_signature :: "transaction_kind \<Rightarrow> ecdsa_sig" where
  "txn_signature k = tr_signature (kind_transfer k)"

definition txn_validators :: "transaction_kind \<Rightarrow> validator_votes option" where
  "txn_validators k = tr_validators (kind_transfer k)"

definition txn_nonce :: "transaction_kind \<Rightarrow> u128" where
  "txn_nonce k = tr_nonce (kind_transfer k)"

definition txn_fee :: "transaction_kind \<Rightarrow> u128" where
  "txn_fee k = transfer_fee (kind_transfer k)"

definition txn_validator_fee_share :: "transaction_kind \<Rightarrow> u128" where
  "txn_validator_fee_share k = transfer_validator_fee_share (kind_transfer k)"

definition txn_proposer_fee_share :: "transaction_kind \<Rightarrow> u128" where
  "txn_proposer_fee_share k = transfer_proposer_fee_share (kind_transfer k)"

definition txn_build_payload :: "crypto \<Rightarrow> transaction_kind \<Rightarrow> string" where
  "txn_build_payload cr k = build_payload cr (kind_transfer k)"

definition txn_sign :: "crypto \<Rightarrow> secret_key \<Rightarrow> transaction_kind \<Rightarrow> transaction_kind" where
  "txn_sign cr sk k = (case k of Transfer t \<Rightarrow> Transfer (transfer_sign cr sk t))"

lemmas txn_accessors = txn_id_def txn_timestamp_def txn_sender_address_def
  txn_sender_public_key_def txn_receiver_address_def txn_amount_def txn_signature_def
  txn_validators_def txn_nonce_def txn_fee_def txn_validator_fee_share_def
  txn_proposer_fee_share_def txn_build_payload_def

record vote_receipt =
  vr_farmer_id :: bytes
  vr_farmer_node_id :: u16
  vr_signature :: raw_signature

record quorum_certified_txn =
  qct_sender_farmer_id :: bytes
  qct_votes :: "vote_receipt list"
  qct_txn :: transaction_kind
  qct_signature :: raw_signature
  qct_is_txn_valid :: bool

definition quorum_certified_txn_new ::
  "bytes \<Rightarrow> vote_receipt list \<Rightarrow> transaction_kind \<Rightarrow> raw_signature \<Rightarrow> bool \<Rightarrow> quorum_certified_txn" where
  "quorum_certified_txn_new farmer votes txn sig valid =
     \<lparr> qct_sender_farmer_id = farmer, qct_votes = votes, qct_txn = txn,
       qct_signature = sig, qct_is_txn_valid = valid \<rparr>"

definition qct_fee :: "quorum_certified_txn \<Rightarrow> u128" where
  "qct_fee q = txn_fee (qct_txn q)"

definition qct_validator_fee_share :: "quorum_certified_txn \<Rightarrow> u128" where
  "qct_validator_fee_share q = txn_validator_fee_share (qct_txn q)"

definition qct_proposer_fee_share :: "quorum_certified_txn \<Rightarrow> u128" where
  "qct_proposer_fee_share q = txn_proposer_fee_share (qct_txn q)"

text \<open>What a client of the trait relies on: the two shares never exceed the fee,
  and signing changes nothing but the signature.\<close>

locale transaction =
  fixes fee vshare pshare :: "'t \<Rightarrow> u128"
    and ident :: "'t \<Rightarrow> transaction_digest"
    and sign :: "crypto \<Rightarrow> secret_key \<Rightarrow> 't \<Rightarrow> 't"
  assumes shares_le: "unat (vshare t) + unat (pshare t) \<le> unat (fee t)"
    and sign_ident: "ident (sign cr sk t) = ident t"
    and sign_fee: "fee (sign cr sk t) = fee t"
begin

lemma split_share_le:
  "n * (unat (vshare t) div n) + unat (pshare t) \<le> unat (fee t)"
  using shares_le [of t] times_div_less_eq_dividend [of n "unat (vshare t)"]
  by linarith

lemma share_le_fee: "vshare t \<le> fee t" "pshare t \<le> fee t"
  using shares_le [of t] by (simp_all add: word_le_nat_alt)

end

interpretation transfer_txn: transaction transfer_fee transfer_validator_fee_share
  transfer_proposer_fee_share tr_id transfer_sign
  by unfold_locales
    (simp_all add: transfer_fee_def transfer_validator_fee_share_def
      transfer_proposer_fee_share_def BASE_FEE_def transfer_sign_def split: option.splits)

interpretation kind_txn: transaction txn_fee txn_validator_fee_share
  txn_proposer_fee_share txn_id txn_sign
proof (unfold_locales, goal_cases)
  case (1 t)
  show ?case by (simp add: txn_accessors transfer_txn.shares_le)
next
  case (2 cr sk t)
  show ?case by (cases t) (simp add: txn_sign_def txn_accessors transfer_txn.sign_ident)
next
  case (3 cr sk t)
  show ?case by (cases t) (simp add: txn_sign_def txn_accessors transfer_txn.sign_fee)
qed

subsection \<open>Facts about transfers\<close>

lemma transfer_payload_string_inj:
  assumes "hex_laws cr"
  shows "transfer_payload_string cr ts (address_display cr sa) pk (address_display cr ra) tok am no
       = transfer_payload_string cr ts' (address_display cr sa') pk' (address_display cr ra') tok' am' no'
     \<longleftrightarrow> ts = ts' \<and> sa = sa' \<and> pk = pk' \<and> ra = ra' \<and> tok = tok' \<and> am = am' \<and> no = no'"
    (is "?L = ?L' \<longleftrightarrow> ?R")
proof
  assume eq: "?L = ?L'"
  note nc = dec_int_no_comma dec_nat_no_comma address_display_no_comma [OF assms] hex_lawsD(3) [OF assms]
  from split_at_sep [OF nc(1) nc(1), of ts _ ts'] eq
  have 1: "dec_int ts = dec_int ts'" and
    r1: "address_display cr sa @ CHR '','' # (pk_display cr pk @ '','' @ address_display cr ra @ '',''
        @ dec_nat (unat am) @ '','' @ token_debug tok @ '','' @ dec_nat (unat no))
      = address_display cr sa' @ CHR '','' # (pk_display cr pk' @ '','' @ address_display cr ra' @ '',''
        @ dec_nat (unat am') @ '','' @ token_debug tok' @ '','' @ dec_nat (unat no'))"
    by (simp_all add: transfer_payload_string_def)
  from split_at_sep [OF nc(3) nc(3) r1]
  have 2: "address_display cr sa = address_display cr sa'" and
    r2: "cr_hex cr pk @ CHR '','' # (address_display cr ra @ '',''
        @ dec_nat (unat am) @ '','' @ token_debug tok @ '','' @ dec_nat (unat no))
      = cr_hex cr pk' @ CHR '','' # (address_display cr ra' @ '',''
        @ dec_nat (unat am') @ '','' @ token_debug tok' @ '','' @ dec_nat (unat no'))"
    by (simp_all add: pk_display_def)
  from split_at_sep [OF nc(4) nc(4) r2]
  have 3: "cr_hex cr pk = cr_hex cr pk'" and
    r3: "address_display cr ra @ CHR '','' # (dec_nat (unat am) @ '','' @ token_debug tok @ '','' @ dec_nat (unat no))
      = address_display cr ra' @ CHR '','' # (dec_nat (unat am') @ '','' @ token_debug tok' @ '','' @ dec_nat (unat no'))"
    by simp_all
  from split_at_sep [OF nc(3) nc(3) r3]
  have 4: "address_display cr ra = address_display cr ra'" and
    r4: "dec_nat (unat am) @ CHR '','' # (token_debug tok @ '','' @ dec_nat (unat no))
      = dec_nat (unat am') @ CHR '','' # (token_debug tok' @ '','' @ dec_nat (unat no'))"
    by simp_all
  from split_at_sep [OF nc(2) nc(2) r4]
  have 5: "dec_nat (unat am) = dec_nat (unat am')" and
    r5: "token_debug tok @ CHR '','' # dec_nat (unat no) = token_debug tok' @ CHR '','' # dec_nat (unat no')"
    by simp_all
  from split_at_last_sep [OF nc(2) nc(2) r5]
  have 6: "token_debug tok = token_debug tok'" "dec_nat (unat no) = dec_nat (unat no')"
    by simp_all
  from 1 2 3 4 5 6 assms show ?R
    by (simp add: dec_int_inj dec_nat_inj address_display_inj hex_inj token_debug_inj word_unat_eq_iff)
qed simp

lemma transfer_new_id: "tr_id (transfer_new cr a) = build_payload_digest cr (transfer_new cr a)"
  by (simp add: transfer_new_def build_payload_digest_def Let_def)

lemma transfer_build_id: "transfer_build cr b = Ok t \<Longrightarrow> tr_id t = build_payload_digest cr t"
  by (auto simp: transfer_build_def build_payload_digest_def result_simps Let_def)

lemma build_payload_length:
  "hex_laws cr \<Longrightarrow> sha_laws cr \<Longrightarrow> length (build_payload cr t) = 64"
  by (simp add: build_payload_def hash_data_def hex_lawsD sha_lawsD)

subsection \<open>Properties\<close>

text \<open>The messages of the fields \<open>build\<close> finds missing, in the order it looks.\<close>

definition missing_fields :: "transfer_builder \<Rightarrow> string list" where
  "missing_fields b =
     (if tb_timestamp b = None then [''timestamp is missing''] else [])
   @ (if tb_sender_address b = None then [''sender_address is missing''] else [])
   @ (if tb_sender_public_key b = None then [''sender_public_key is missing''] else [])
   @ (if tb_receiver_address b = None then [''receiver_address is missing''] else [])
   @ (if tb_amount b = None then [''amount is missing''] else [])
   @ (if tb_nonce b = None then [''nonce is missing''] else [])
   @ (if tb_signature b = None then [''signature is missing''] else [])"

definition builder_args :: "transfer_builder \<Rightarrow> new_transfer_args" where
  "builder_args b =
     \<lparr> na_timestamp = the (tb_timestamp b), na_sender_address = the (tb_sender_address b),
       na_sender_public_key = the (tb_sender_public_key b),
       na_receiver_address = the (tb_receiver_address b), na_token = tb_token b,
       na_amount = the (tb_amount b), na_signature = the (tb_signature b),
       na_validators = tb_validators b, na_nonce = the (tb_nonce b) \<rparr>"

text \<open>C39: \<open>TransferBuilder::build\<close> succeeds exactly when no required field is
  missing, and then returns what \<open>Transfer::new\<close> returns for the same arguments;
  otherwise it reports the first missing field in the order timestamp, sender
  address, sender key, receiver address, amount, nonce, signature.\<close>

theorem transfer_build_agrees_with_new:
  "transfer_build cr b =
     (case missing_fields b of
        [] \<Rightarrow> Ok (transfer_new cr (builder_args b))
      | m # _ \<Rightarrow> Err m)"
proof (cases "missing_fields b = []")
  case True
  then obtain ts sa pk ra am no sg where
    "tb_timestamp b = Some ts" "tb_sender_address b = Some sa" "tb_sender_public_key b = Some pk"
    "tb_receiver_address b = Some ra" "tb_amount b = Some am" "tb_nonce b = Some no"
    "tb_signature b = Some sg"
    by (auto simp: missing_fields_def split: if_splits)
  then show ?thesis
    by (simp add: True transfer_build_def transfer_new_def builder_args_def Let_def)
next
  case False
  then show ?thesis
    by (cases "tb_timestamp b"; cases "tb_sender_address b"; cases "tb_sender_public_key b";
        cases "tb_receiver_address b"; cases "tb_amount b"; cases "tb_nonce b"; cases "tb_signature b")
      (simp_all add: missing_fields_def transfer_build_def Let_def)
qed

definition same_transfer :: "transfer \<Rightarrow> transfer \<Rightarrow> bool" where
  "same_transfer s t \<longleftrightarrow> tr_timestamp s = tr_timestamp t \<and> tr_sender_address s = tr_sender_address t
     \<and> tr_sender_public_key s = tr_sender_public_key t \<and> tr_receiver_address s = tr_receiver_address t
     \<and> tr_token s = tr_token t \<and> tr_amount s = tr_amount t \<and> tr_nonce s = tr_nonce t"

definition payload_of :: "crypto \<Rightarrow> transfer \<Rightarrow> bytes" where
  "payload_of cr t = str_bytes (transfer_payload_string cr (tr_timestamp t)
     (address_display cr (tr_sender_address t)) (tr_sender_public_key t)
     (address_display cr (tr_receiver_address t)) (tr_token t) (tr_amount t) (tr_nonce t))"

lemma payload_of_eq_iff: "hex_laws cr \<Longrightarrow> payload_of cr s = payload_of cr t \<longleftrightarrow> same_transfer s t"
  by (simp add: payload_of_def str_bytes_inj transfer_payload_string_inj same_transfer_def)

text \<open>C28: two transfers compare equal (\<open>PartialEq\<close> compares digests) exactly when
  they agree on the seven fields of the digest: the comma separated text that is
  hashed determines them all, also when token names contain commas or quotes, so
  only a collision of the hash function on the two texts could confuse them.\<close>

theorem transfer_eq_iff_same_fields:
  assumes "hex_laws cr"
    and "cr_sha256 cr (payload_of cr s) = cr_sha256 cr (payload_of cr t) \<Longrightarrow> payload_of cr s = payload_of cr t"
  shows "transfer_eq cr s t \<longleftrightarrow> same_transfer s t"
  using assms payload_of_eq_iff [OF assms(1), of s t]
  by (auto simp: transfer_eq_def generate_txn_digest_vec_def generate_transfer_digest_vec_def payload_of_def)

text \<open>A hash without collisions, for the closed example.\<close>

definition identity_crypto :: crypto where
  "identity_crypto = example_crypto \<lparr> cr_sha256 := (\<lambda>b. b) \<rparr>"

lemma identity_crypto_hex_laws [simp]: "hex_laws identity_crypto"
  by (simp add: hex_laws_def identity_crypto_def length_hex_dec)

definition example_args :: "u128 \<Rightarrow> u128 \<Rightarrow> new_transfer_args" where
  "example_args amount nonce = \<lparr> na_timestamp = 1700000000, na_sender_address = Address key_a,
     na_sender_public_key = key_a, na_receiver_address = Address key_b, na_token = None,
     na_amount = amount, na_signature = [], na_validators = None, na_nonce = nonce \<rparr>"

theorem transfer_eq_iff_same_fields_witness:
  "hex_laws identity_crypto \<and>
   \<not> transfer_eq identity_crypto (transfer_new identity_crypto (example_args 5 1))
       (transfer_new identity_crypto (example_args 7 1)) \<and>
   transfer_eq identity_crypto (transfer_new identity_crypto (example_args 5 1))
       (transfer_new identity_crypto (example_args 5 1))"
proof -
  have eq: "transfer_eq identity_crypto s t \<longleftrightarrow> same_transfer s t" for s t
    by (rule transfer_eq_iff_same_fields) (simp_all add: identity_crypto_def hex_laws_def length_hex_dec)
  show ?thesis
    unfolding eq by (simp add: same_transfer_def transfer_new_def example_args_def Let_def)
qed

text \<open>Signing a transfer never changes it.  \<open>sign\<close> passes the 64 hexadecimal
  characters of the payload hash to \<open>Message::from_slice\<close>, which accepts 32 bytes
  only, and the error branch is silently dropped.\<close>

theorem transfer_sign_is_noop:
  assumes "hex_laws cr" "sha_laws cr" "secp_laws cr"
  shows "transfer_sign cr sk t = t \<and> txn_sign cr sk (Transfer t) = Transfer t"
  using assms by (simp add: transfer_sign_def txn_sign_def secp_lawsD build_payload_length)

theorem transfer_sign_is_noop_witness:
  "tr_signature (transfer_sign example_crypto [7, 7] (transfer_new example_crypto (example_args 5 1))) = []"
  using transfer_sign_is_noop [of example_crypto "[7, 7]" "transfer_new example_crypto (example_args 5 1)"]
  by (simp add: transfer_new_def example_args_def Let_def)

end
