(* ===== verification/Accounts.thy ===== *)
theory Accounts
  imports Transactions
begin

text \<open>
  \<open>vrrb_core/src/account.rs\<close>: accounts, the digests they carry and the updates
  applied to them.  The main facts are the balance invariant (debits never
  exceed credits), the exact effect of \<open>update\<close> on every branch, and what a
  failing update leaves behind.
\<close>

subsection \<open>Digests of an account\<close>

record account_digests =
  ad_sent :: "transaction_digest set"
  ad_recv :: "transaction_digest set"
  ad_stake :: "transaction_digest set"

definition digests_default :: account_digests where
  "digests_default = \<lparr> ad_sent = {}, ad_recv = {}, ad_stake = {} \<rparr>"

definition digests_len :: "account_digests \<Rightarrow> nat" where
  "digests_len d = card (ad_sent d) + card (ad_recv d) + card (ad_stake d)"

definition digests_is_empty :: "account_digests \<Rightarrow> bool" where
  "digests_is_empty d = (digests_len d = 0)"

definition extend_all :: "account_digests \<Rightarrow> account_digests \<Rightarrow> account_digests" where
  "extend_all d e = \<lparr> ad_sent = ad_sent d \<union> ad_sent e, ad_recv = ad_recv d \<union> ad_recv e,
     ad_stake = ad_stake d \<union> ad_stake e \<rparr>"

definition insert_sent :: "transaction_digest \<Rightarrow> account_digests \<Rightarrow> account_digests" where
  "insert_sent x d = d \<lparr> ad_sent := insert x (ad_sent d) \<rparr>"

definition insert_recv :: "transaction_digest \<Rightarrow> account_digests \<Rightarrow> account_digests" where
  "insert_recv x d = d \<lparr> ad_recv := insert x (ad_recv d) \<rparr>"

definition insert_stake :: "transaction_digest \<Rightarrow> account_digests \<Rightarrow> account_digests" where
  "insert_stake x d = d \<lparr> ad_stake := insert x (ad_stake d) \<rparr>"

definition digests_consolidate :: "account_digests list \<Rightarrow> account_digests \<Rightarrow> account_digests" where
  "digests_consolidate others d = fold (\<lambda>e acc. extend_all acc e) others d"

lemma extend_all_sel [simp]:
  "ad_sent (extend_all d e) = ad_sent d \<union> ad_sent e"
  "ad_recv (extend_all d e) = ad_recv d \<union> ad_recv e"
  "ad_stake (extend_all d e) = ad_stake d \<union> ad_stake e"
  by (simp_all add: extend_all_def)

lemma digests_consolidate_sets:
  "ad_sent (digests_consolidate ds d) = ad_sent d \<union> (\<Union>e\<in>set ds. ad_sent e)"
  "ad_recv (digests_consolidate ds d) = ad_recv d \<union> (\<Union>e\<in>set ds. ad_recv e)"
  "ad_stake (digests_consolidate ds d) = ad_stake d \<union> (\<Union>e\<in>set ds. ad_stake e)"
  unfolding digests_consolidate_def by (induction ds arbitrary: d) auto

subsection \<open>Accounts\<close>

datatype account_field =
  Credits u128
| Debits u128
| Storage "string option"
| Code "string option"
| Digests account_digests

record update_args =
  ua_address :: address
  ua_nonce :: "u128 option"
  ua_credits :: "u128 option"
  ua_debits :: "u128 option"
  ua_storage :: "string option option"
  ua_code :: "string option option"
  ua_digests :: "account_digests option"

record account =
  acc_address :: address
  acc_hash :: string
  acc_nonce :: u128
  acc_credits :: u128
  acc_debits :: u128
  acc_storage :: "string option"
  acc_code :: "string option"
  acc_pubkey :: bytes
  acc_digests :: account_digests
  acc_created_at :: int
  acc_updated_at :: "int option"

datatype account_error = UpdateFailed account_field | NonceTooSmall u128 u128

definition opt_bytes :: "string option \<Rightarrow> bytes" where
  "opt_bytes s = (case s of None \<Rightarrow> [] | Some t \<Rightarrow> str_bytes t)"

definition account_hash_input :: "u128 \<Rightarrow> u128 \<Rightarrow> u128 \<Rightarrow> string option \<Rightarrow> string option \<Rightarrow> bytes" where
  "account_hash_input nonce credits debits storage code =
     be_bytes nonce @ be_bytes credits @ be_bytes debits @ opt_bytes storage @ opt_bytes code"

definition account_new :: "crypto \<Rightarrow> int \<Rightarrow> public_key \<Rightarrow> account" where
  "account_new cr now pk =
     \<lparr> acc_address = Address pk,
       acc_hash = cr_hex cr (cr_sha256 cr (be_bytes (0::u128) @ be_bytes (0::u128) @ be_bytes (0::u128))),
       acc_nonce = 0, acc_credits = 0, acc_debits = 0, acc_storage = None, acc_code = None,
       acc_pubkey = pk, acc_digests = digests_default, acc_created_at = now,
       acc_updated_at = None \<rparr>"

definition rehash :: "crypto \<Rightarrow> account \<Rightarrow> account" where
  "rehash cr a = a \<lparr> acc_hash := cr_hex cr (cr_sha256 cr
     (account_hash_input (acc_nonce a) (acc_credits a) (acc_debits a) (acc_storage a) (acc_code a))) \<rparr>"

text \<open>The methods that take \<open>&mut self\<close> return the result and the account as they
  leave it; an early return keeps the fields already written.\<close>

type_synonym 'a on_account = "account \<Rightarrow> (account_error, 'a) result \<times> account"

fun update_single_field_no_hash :: "account_field \<Rightarrow> unit on_account" where
  "update_single_field_no_hash (Credits c) a =
     (case checked_add (acc_credits a) c of
        Some n \<Rightarrow> (Ok (), a \<lparr> acc_credits := n \<rparr>)
      | None \<Rightarrow> (Err (UpdateFailed (Credits c)), a))"
| "update_single_field_no_hash (Debits d) a =
     (case checked_add (acc_debits a) d of
        Some n \<Rightarrow>
          if n \<le> acc_credits a then (Ok (), a \<lparr> acc_debits := n \<rparr>)
          else (Err (UpdateFailed (Debits d)), a)
      | None \<Rightarrow> (Err (UpdateFailed (Debits d)), a))"
| "update_single_field_no_hash (Storage s) a = (Ok (), a \<lparr> acc_storage := s \<rparr>)"
| "update_single_field_no_hash (Code c) a = (Ok (), a \<lparr> acc_code := c \<rparr>)"
| "update_single_field_no_hash (Digests d) a =
     (Ok (), a \<lparr> acc_digests := extend_all (acc_digests a) d \<rparr>)"

definition update_field :: "crypto \<Rightarrow> account_field \<Rightarrow> unit on_account" where
  "update_field cr f a = (let (res, a') = update_single_field_no_hash f a in (res, rehash cr a'))"

definition bump_nonce :: "unit on_account" where
  "bump_nonce a = (case checked_add (acc_nonce a) 1 of
     Some n \<Rightarrow> (Ok (), a \<lparr> acc_nonce := n \<rparr>) | None \<Rightarrow> (Panic, a))"

definition update_nonce :: "u128 \<Rightarrow> account \<Rightarrow> account" where
  "update_nonce n a = a \<lparr> acc_nonce := n \<rparr>"

definition set_credits :: "u128 \<Rightarrow> account \<Rightarrow> account" where
  "set_credits c a = a \<lparr> acc_credits := c \<rparr>"

text \<open>The head of \<open>update\<close>: \<open>nonce > self.nonce + 1\<close> overflows when the account's
  nonce is the largest value.\<close>

definition apply_nonce :: "u128 option \<Rightarrow> unit on_account" where
  "apply_nonce no a =
     (case no of
        None \<Rightarrow> (Ok (), a)
      | Some n \<Rightarrow>
          if n < acc_nonce a then (Err (NonceTooSmall n (acc_nonce a)), a)
          else (case checked_add (acc_nonce a) 1 of
                  None \<Rightarrow> (Panic, a)
                | Some m \<Rightarrow> if m < n then (Ok (), update_nonce n a) else bump_nonce a))"

fun if_some :: "('x \<Rightarrow> account_field) \<Rightarrow> 'x option \<Rightarrow> unit on_account" where
  "if_some f None a = (Ok (), a)"
| "if_some f (Some x) a = update_single_field_no_hash (f x) a"

text \<open>Sequencing with \<open>?\<close>.\<close>

definition seq_acc :: "unit on_account \<Rightarrow> unit on_account \<Rightarrow> unit on_account" where
  "seq_acc f g a = (case f a of (Ok u, a') \<Rightarrow> g a' | (r, a') \<Rightarrow> (r, a'))"

definition account_update :: "crypto \<Rightarrow> int \<Rightarrow> update_args \<Rightarrow> unit on_account" where
  "account_update cr now args =
     seq_acc (apply_nonce (ua_nonce args))
    (seq_acc (if_some Credits (ua_credits args))
    (seq_acc (if_some Debits (ua_debits args))
    (seq_acc (if_some Code (ua_code args))
    (seq_acc (if_some Storage (ua_storage args))
    (seq_acc (if_some Digests (ua_digests args))
      (\<lambda>a. (Ok (), rehash cr (a \<lparr> acc_updated_at := Some now \<rparr>))))))))"

text \<open>\<open>Ord for UpdateArgs\<close> compares the nonces; \<open>None\<close> is the least.\<close>

definition nonce_le :: "u128 option \<Rightarrow> u128 option \<Rightarrow> bool" where
  "nonce_le x y = (case x of None \<Rightarrow> True | Some a \<Rightarrow> (case y of None \<Rightarrow> False | Some b \<Rightarrow> a \<le> b))"

subsection \<open>The balance invariant\<close>

definition balance_inv :: "account \<Rightarrow> bool" where
  "balance_inv a = (acc_debits a \<le> acc_credits a)"

lemma balance_new [inv_intros]: "balance_inv (account_new cr now pk)"
  by (simp add: balance_inv_def account_new_def)

lemma balance_rehash [simp]: "balance_inv (rehash cr a) = balance_inv a"
  by (simp add: balance_inv_def rehash_def)

lemma balance_field [inv_intros]: "balance_inv a \<Longrightarrow> balance_inv (snd (update_single_field_no_hash f a))"
  by (cases f) (auto simp: balance_inv_def split: option.splits dest: checked_add_le)

lemma balance_if_some [inv_intros]: "balance_inv a \<Longrightarrow> balance_inv (snd (if_some f x a))"
  by (cases x) (auto intro: balance_field)

lemma balance_nonce [inv_intros]: "balance_inv a \<Longrightarrow> balance_inv (snd (apply_nonce n a))"
  by (auto simp: balance_inv_def apply_nonce_def bump_nonce_def update_nonce_def split: option.splits)

lemma seq_acc_inv:
  assumes "P a" "\<And>b. P b \<Longrightarrow> P (snd (f b))" "\<And>b. P b \<Longrightarrow> P (snd (g b))"
  shows "P (snd (seq_acc f g a))"
proof -
  obtain r b where fa: "f a = (r, b)" by (cases "f a")
  with assms(2) [OF assms(1)] have b: "P b" by simp
  from assms(3) [OF b] b show ?thesis
    by (cases r) (simp_all add: seq_acc_def fa)
qed

lemma balance_seq:
  assumes "balance_inv a" "\<And>b. balance_inv b \<Longrightarrow> balance_inv (snd (f b))"
    and "\<And>b. balance_inv b \<Longrightarrow> balance_inv (snd (g b))"
  shows "balance_inv (snd (seq_acc f g a))"
  using assms by (rule seq_acc_inv)

lemma balance_finish: "balance_inv a \<Longrightarrow> balance_inv (snd (Ok (), rehash cr (a \<lparr> acc_updated_at := t \<rparr>)))"
  by (simp add: balance_inv_def rehash_def)

lemma balance_update [inv_intros]: "balance_inv a \<Longrightarrow> balance_inv (snd (account_update cr now args a))"
  unfolding account_update_def
  by (erule balance_seq, erule balance_nonce, (erule balance_seq, erule balance_if_some)+,
      erule balance_finish)

lemma balance_update_field [inv_intros]: "balance_inv a \<Longrightarrow> balance_inv (snd (update_field cr f a))"
  using balance_field [of a f] by (simp add: update_field_def case_prod_beta)

text \<open>Every account the public interface can produce without \<open>set_credits\<close>.\<close>

inductive account_step :: "crypto \<Rightarrow> account \<Rightarrow> account \<Rightarrow> bool" for cr :: crypto where
  step_update: "account_step cr a (snd (account_update cr now args a))"
| step_field: "account_step cr a (snd (update_field cr f a))"
| step_bump: "account_step cr a (snd (bump_nonce a))"

inductive_cases account_stepE: "account_step cr a b"

definition account_init :: "crypto \<Rightarrow> account \<Rightarrow> bool" where
  "account_init cr a = (\<exists>now pk. a = account_new cr now pk)"

lemma balance_bump [inv_intros]: "balance_inv a \<Longrightarrow> balance_inv (snd (bump_nonce a))"
  by (simp add: bump_nonce_def balance_inv_def split: option.splits)

lemma account_step_balance:
  assumes "account_step cr a b" "balance_inv a"
  shows "balance_inv b"
  using assms(1)
proof cases
  case (step_update now args)
  with balance_update [OF assms(2)] show ?thesis by (simp only:)
next
  case (step_field f)
  with balance_update_field [OF assms(2)] show ?thesis by (simp only:)
next
  case step_bump
  with balance_bump [OF assms(2)] show ?thesis by (simp only:)
qed

interpretation account_balance: invariant_system "account_init cr" "account_step cr" balance_inv for cr
proof unfold_locales
  show "balance_inv s" if "account_init cr s" for s
    using that balance_new by (auto simp: account_init_def)
  show "balance_inv t" if "balance_inv s" "account_step cr s t" for s t
    by (rule account_step_balance [OF that(2,1)])
qed

subsection \<open>The effect of an update\<close>

definition opt_amount :: "u128 option \<Rightarrow> u128" where
  "opt_amount x = (case x of None \<Rightarrow> 0 | Some v \<Rightarrow> v)"

definition nonce_accepts :: "u128 option \<Rightarrow> account \<Rightarrow> bool" where
  "nonce_accepts no a = (case no of None \<Rightarrow> True
     | Some n \<Rightarrow> acc_nonce a \<le> n \<and> unat (acc_nonce a) + 1 < 2 ^ 128)"

definition next_nonce :: "u128 option \<Rightarrow> account \<Rightarrow> u128" where
  "next_nonce no a = (case no of None \<Rightarrow> acc_nonce a | Some n \<Rightarrow> max n (acc_nonce a + 1))"

text \<open>When an update is accepted, and the account it gives, written without the
  sequence of field updates.  Amounts are compared as natural numbers.\<close>

definition update_accepts :: "update_args \<Rightarrow> account \<Rightarrow> bool" where
  "update_accepts args a \<longleftrightarrow> nonce_accepts (ua_nonce args) a
     \<and> unat (acc_credits a) + unat (opt_amount (ua_credits args)) < 2 ^ 128
     \<and> (ua_debits args = None \<or>
        unat (acc_debits a) + unat (opt_amount (ua_debits args))
          \<le> unat (acc_credits a) + unat (opt_amount (ua_credits args)))"

definition update_result :: "crypto \<Rightarrow> int \<Rightarrow> update_args \<Rightarrow> account \<Rightarrow> account" where
  "update_result cr now args a = rehash cr (a
     \<lparr> acc_nonce := next_nonce (ua_nonce args) a,
       acc_credits := acc_credits a + opt_amount (ua_credits args),
       acc_debits := acc_debits a + opt_amount (ua_debits args),
       acc_code := (case ua_code args of None \<Rightarrow> acc_code a | Some c \<Rightarrow> c),
       acc_storage := (case ua_storage args of None \<Rightarrow> acc_storage a | Some s \<Rightarrow> s),
       acc_digests := (case ua_digests args of None \<Rightarrow> acc_digests a
         | Some d \<Rightarrow> extend_all (acc_digests a) d),
       acc_updated_at := Some now \<rparr>)"

lemma seq_acc_Ok_iff:
  "seq_acc f g a = (Ok (), b) \<longleftrightarrow> (\<exists>m. f a = (Ok (), m) \<and> g m = (Ok (), b))"
  by (auto simp: seq_acc_def split: prod.splits result.splits)

lemma seq_acc_Err_iff:
  "seq_acc f g a = (Err e, b) \<longleftrightarrow> f a = (Err e, b) \<or> (\<exists>m. f a = (Ok (), m) \<and> g m = (Err e, b))"
  by (auto simp: seq_acc_def split: prod.splits result.splits)

lemma apply_nonce_Ok_iff:
  "apply_nonce no a = (Ok (), b) \<longleftrightarrow> nonce_accepts no a \<and> b = a \<lparr> acc_nonce := next_nonce no a \<rparr>"
proof (cases no)
  case (Some n)
  show ?thesis
  proof (cases "unat (acc_nonce a) + 1 < 2 ^ 128")
    case True
    then have m: "checked_add (acc_nonce a) 1 = Some (acc_nonce a + 1)"
      by (simp add: checked_add_def)
    from True show ?thesis
      by (auto simp: Some apply_nonce_def nonce_accepts_def next_nonce_def bump_nonce_def
          update_nonce_def m max_def)
  next
    case False
    then show ?thesis
      by (simp add: Some apply_nonce_def nonce_accepts_def checked_add_def)
  qed
qed (auto simp: apply_nonce_def nonce_accepts_def next_nonce_def)

lemma if_some_Credits_Ok_iff:
  "if_some Credits x a = (Ok (), b) \<longleftrightarrow>
     unat (acc_credits a) + unat (opt_amount x) < 2 ^ 128 \<and>
     b = a \<lparr> acc_credits := acc_credits a + opt_amount x \<rparr>"
  using unsigned_less [of "acc_credits a", where 'a = nat]
  by (cases x) (auto simp: opt_amount_def checked_add_def)

lemma if_some_Debits_Ok_iff:
  "if_some Debits x a = (Ok (), b) \<longleftrightarrow>
     (x = None \<or> unat (acc_debits a) + unat (opt_amount x) \<le> unat (acc_credits a)) \<and>
     b = a \<lparr> acc_debits := acc_debits a + opt_amount x \<rparr>"
proof (cases x)
  case (Some d)
  show ?thesis
  proof (cases "unat (acc_debits a) + unat d < 2 ^ 128")
    case True
    then have "unat (acc_debits a + d) = unat (acc_debits a) + unat d"
      by (simp add: unat_word_ariths)
    with True show ?thesis
      by (auto simp: Some opt_amount_def checked_add_def word_le_nat_alt)
  next
    case False
    with unsigned_less [of "acc_credits a", where 'a = nat] show ?thesis
      by (auto simp: Some opt_amount_def checked_add_def)
  qed
qed (auto simp: opt_amount_def)

lemma if_some_other_Ok_iff:
  "if_some Code x a = (Ok (), b) \<longleftrightarrow> b = a \<lparr> acc_code := (case x of None \<Rightarrow> acc_code a | Some c \<Rightarrow> c) \<rparr>"
  "if_some Storage x a = (Ok (), b) \<longleftrightarrow> b = a \<lparr> acc_storage := (case x of None \<Rightarrow> acc_storage a | Some c \<Rightarrow> c) \<rparr>"
  "if_some Digests y a = (Ok (), b) \<longleftrightarrow>
     b = a \<lparr> acc_digests := (case y of None \<Rightarrow> acc_digests a | Some d \<Rightarrow> extend_all (acc_digests a) d) \<rparr>"
  by (cases x; cases y; auto)+

lemma if_some_Err:
  "if_some Code x a \<noteq> (Err e, b)"
  "if_some Storage x a \<noteq> (Err e, b)"
  "if_some Digests y a \<noteq> (Err e, b)"
  "if_some Credits z a = (Err e, b) \<Longrightarrow> b = a \<and> (\<exists>c. z = Some c \<and> e = UpdateFailed (Credits c))"
  "if_some Debits z a = (Err e, b) \<Longrightarrow> b = a \<and> (\<exists>d. z = Some d \<and> e = UpdateFailed (Debits d))"
  by (cases x; cases y; cases z; auto split: option.splits if_splits)+

lemma apply_nonce_Err:
  "apply_nonce no a = (Err e, b) \<Longrightarrow> b = a \<and> (\<exists>n. no = Some n \<and> n < acc_nonce a \<and> e = NonceTooSmall n (acc_nonce a))"
  by (auto simp: apply_nonce_def bump_nonce_def split: option.splits if_splits)

lemma unat_credits_after:
  "unat (acc_credits a) + unat x < 2 ^ 128 \<Longrightarrow> unat (acc_credits a + x) = unat (acc_credits a) + unat x"
  by (simp add: unat_word_ariths)

lemmas update_parts_Ok = seq_acc_Ok_iff apply_nonce_Ok_iff if_some_Credits_Ok_iff
  if_some_Debits_Ok_iff if_some_other_Ok_iff

lemma account_update_Ok_iff:
  "account_update cr now args a = (Ok (), b) \<longleftrightarrow> update_accepts args a \<and> b = update_result cr now args a"
  unfolding account_update_def update_parts_Ok
  by (cases "ua_code args"; cases "ua_storage args"; cases "ua_digests args")
    (auto simp: update_accepts_def update_result_def unat_credits_after)

lemma rehash_fields [simp]:
  "acc_nonce (rehash cr a) = acc_nonce a" "acc_credits (rehash cr a) = acc_credits a"
  "acc_debits (rehash cr a) = acc_debits a" "acc_storage (rehash cr a) = acc_storage a"
  "acc_code (rehash cr a) = acc_code a" "acc_digests (rehash cr a) = acc_digests a"
  "acc_address (rehash cr a) = acc_address a" "acc_pubkey (rehash cr a) = acc_pubkey a"
  "acc_updated_at (rehash cr a) = acc_updated_at a" "acc_created_at (rehash cr a) = acc_created_at a"
  by (simp_all add: rehash_def)

lemma account_update_Err:
  assumes "account_update cr now args a = (Err e, b)"
  shows "(\<exists>n. e = NonceTooSmall n (acc_nonce a) \<and> ua_nonce args = Some n \<and> n < acc_nonce a \<and> b = a)
     \<or> (\<exists>c. e = UpdateFailed (Credits c) \<and> ua_credits args = Some c \<and>
          b = a \<lparr> acc_nonce := next_nonce (ua_nonce args) a \<rparr>)
     \<or> (\<exists>d. e = UpdateFailed (Debits d) \<and> ua_debits args = Some d \<and>
          b = a \<lparr> acc_nonce := next_nonce (ua_nonce args) a,
                  acc_credits := acc_credits a + opt_amount (ua_credits args) \<rparr>)"
  using assms unfolding account_update_def
  by (auto simp: seq_acc_Err_iff update_parts_Ok if_some_Err(1,2,3) dest!: apply_nonce_Err if_some_Err(4,5))

subsection \<open>Properties\<close>

text \<open>C1: \<open>Account::update\<close> succeeds exactly when the update's nonce is not below
  the account's (and the account's nonce can still grow), the credits do not
  overflow and the debits stay covered by the credits; the account it leaves is
  then the closed form \<open>update_result\<close>: credits and debits grow by the given
  amounts, the nonce becomes the larger of the given one and the successor of the
  old one, storage and code are replaced only when given, and the hash is
  recomputed.\<close>

theorem account_update_correct:
  "account_update cr now args a = (Ok (), b) \<longleftrightarrow> update_accepts args a \<and> b = update_result cr now args a"
  by (rule account_update_Ok_iff)

text \<open>C2: debits never exceed credits on any account reached from \<open>Account::new\<close>
  by \<open>update\<close>, \<open>update_field\<close> and \<open>bump_nonce\<close>, whether those calls succeed, fail
  or abort half way.\<close>

theorem account_debits_covered:
  assumes "reachable (account_init cr) (account_step cr) a"
  shows "acc_debits a \<le> acc_credits a"
  using account_balance.reachable_inv [OF assms] by (simp add: balance_inv_def)

definition pay_in_args :: update_args where
  "pay_in_args = \<lparr> ua_address = Address key_a, ua_nonce = Some 1, ua_credits = Some 100,
     ua_debits = Some 30, ua_storage = None, ua_code = None, ua_digests = None \<rparr>"

theorem account_debits_covered_witness:
  "\<exists>a. reachable (account_init example_crypto) (account_step example_crypto) a \<and>
       acc_credits a = 100 \<and> acc_debits a = 30 \<and> acc_debits a \<le> acc_credits a"
proof -
  let ?a = "account_new example_crypto 0 key_a"
  let ?b = "snd (account_update example_crypto 1 pay_in_args ?a)"
  have r: "reachable (account_init example_crypto) (account_step example_crypto) ?b"
  proof (rule reach_step [where s = ?a])
    show "reachable (account_init example_crypto) (account_step example_crypto) ?a"
      by (rule reach_init) (auto simp: account_init_def)
  qed (rule step_update)
  have "account_update example_crypto 1 pay_in_args ?a = (Ok (), update_result example_crypto 1 pay_in_args ?a)"
    by (simp add: account_update_Ok_iff update_accepts_def nonce_accepts_def pay_in_args_def
        opt_amount_def account_new_def)
  then have "acc_credits ?b = 100 \<and> acc_debits ?b = 30"
    by (simp add: update_result_def pay_in_args_def opt_amount_def account_new_def)
  with r account_debits_covered [OF r] show ?thesis by blast
qed

text \<open>A failing \<open>update\<close> is not rolled back.  A too small nonce leaves the
  account as it was, but a credit that overflows leaves the new nonce behind, and
  a debit that is not covered leaves both the new nonce and the new credits
  behind; nothing else changes, and the stored hash is not recomputed.\<close>

theorem account_update_error_residue:
  assumes "account_update cr now args a = (Err e, b)"
  shows "(\<exists>n. e = NonceTooSmall n (acc_nonce a) \<and> n < acc_nonce a \<and> b = a)
     \<or> (\<exists>c. e = UpdateFailed (Credits c) \<and> b = a \<lparr> acc_nonce := next_nonce (ua_nonce args) a \<rparr>)
     \<or> (\<exists>d. e = UpdateFailed (Debits d) \<and>
          b = a \<lparr> acc_nonce := next_nonce (ua_nonce args) a,
                  acc_credits := acc_credits a + opt_amount (ua_credits args) \<rparr>)"
  using account_update_Err [OF assms] by blast

definition overdraw_args :: update_args where
  "overdraw_args = \<lparr> ua_address = Address key_a, ua_nonce = Some 1, ua_credits = Some 5,
     ua_debits = Some 30, ua_storage = None, ua_code = None, ua_digests = None \<rparr>"

lemma overdraw_update:
  "account_update example_crypto 1 overdraw_args (account_new example_crypto 0 key_a) =
     (Err (UpdateFailed (Debits 30)),
      account_new example_crypto 0 key_a \<lparr> acc_nonce := 1, acc_credits := 5 \<rparr>)"
  by (simp add: account_update_def seq_acc_def apply_nonce_def bump_nonce_def checked_add_def
      overdraw_args_def account_new_def)

theorem account_update_error_residue_witness:
  "account_new example_crypto 0 key_a \<lparr> acc_nonce := 1, acc_credits := 5 \<rparr> =
     account_new example_crypto 0 key_a
       \<lparr> acc_nonce := next_nonce (ua_nonce overdraw_args) (account_new example_crypto 0 key_a),
         acc_credits := acc_credits (account_new example_crypto 0 key_a) + opt_amount (ua_credits overdraw_args) \<rparr>"
  using account_update_error_residue [OF overdraw_update] by simp

end
