(* ===== verification/Keypairs.thy ===== *)
theory Keypairs
  imports Transactions
begin

text \<open>
  \<open>vrrb_core/src/keypair.rs\<close>: the two key pairs of a node, ECDSA signing and
  checking, and the text form of a key file.  The threshold keys are values of
  the crate \<open>hbbft\<close>: their serialiser, deserialiser and public key are arguments.
\<close>

datatype keypair_error =
  InvalidKeyPair | SerializeKeyError string string | FailedToReadFromFile string | InvalidHex
| IOError string | InvalidPublicKey | InvalidSignature string
| SignatureVerificationFailed string | InvalidKey string

record 'v validator_keys =
  vk_encode :: "'v \<Rightarrow> (string, bytes) result"
  vk_decode :: "bytes \<Rightarrow> 'v option"
  vk_public :: "'v \<Rightarrow> bytes"

record 'v keypair =
  kp_miner :: "secret_key \<times> public_key"
  kp_validator :: "'v \<times> bytes"

definition keypair_new :: "crypto \<Rightarrow> 'v validator_keys \<Rightarrow> 'v \<Rightarrow> secret_key \<Rightarrow> 'v keypair" where
  "keypair_new cr vk vsk msk = \<lparr> kp_miner = (msk, cr_pk_of cr msk), kp_validator = (vsk, vk_public vk vsk) \<rparr>"

definition keypair_from_bytes ::
  "crypto \<Rightarrow> 'v validator_keys \<Rightarrow> bytes \<Rightarrow> bytes \<Rightarrow> (keypair_error, 'v keypair) result" where
  "keypair_from_bytes cr vk vbytes mbytes =
     (case cr_sk_slice cr mbytes of
        None \<Rightarrow> Err InvalidKeyPair
      | Some msk \<Rightarrow>
          (case vk_decode vk vbytes of
             Some vsk \<Rightarrow> Ok (keypair_new cr vk vsk msk)
           | None \<Rightarrow> Err InvalidKeyPair))"

definition keypair_to_bytes :: "'v validator_keys \<Rightarrow> 'v keypair \<Rightarrow> (keypair_error, bytes \<times> bytes) result" where
  "keypair_to_bytes vk kp =
     (case vk_encode vk (fst (kp_validator kp)) of
        Ok b \<Rightarrow> Ok (b, fst (kp_miner kp))
      | Err msg \<Rightarrow> Err (SerializeKeyError ''validator secret'' msg)
      | Panic \<Rightarrow> Panic)"

definition from_miner_pk_bytes :: "crypto \<Rightarrow> bytes \<Rightarrow> (keypair_error, public_key) result" where
  "from_miner_pk_bytes cr b = ok_or InvalidPublicKey (cr_pk_slice cr b)"

definition ecdsa_sign :: "crypto \<Rightarrow> bytes \<Rightarrow> bytes \<Rightarrow> (keypair_error, string) result" where
  "ecdsa_sign cr msg sk =
     (case cr_sk_slice cr sk of
        Some k \<Rightarrow> Ok (cr_sig_display cr (cr_sign cr k (cr_sha256 cr msg)))
      | None \<Rightarrow> Err (InvalidKey ''Secret''))"

definition verify_ecdsa_sign :: "crypto \<Rightarrow> string \<Rightarrow> bytes \<Rightarrow> bytes \<Rightarrow> (keypair_error, unit) result" where
  "verify_ecdsa_sign cr sig msg pk =
     (case cr_pk_slice cr pk of
        None \<Rightarrow> Err (InvalidKey ''Public'')
      | Some k \<Rightarrow>
          (case cr_sig_parse cr sig of
             None \<Rightarrow> Err (InvalidSignature (cr_sig_parse_error cr sig))
           | Some s \<Rightarrow>
               if cr_verify cr k (cr_sha256 cr msg) s then Ok ()
               else Err (SignatureVerificationFailed (cr_verify_error cr))))"

subsection \<open>Key files\<close>

text \<open>\<open>contents.split('\n')\<close> of the standard library.\<close>

fun split_lines :: "string \<Rightarrow> string list" where
  "split_lines [] = [[]]"
| "split_lines (c # cs) =
     (if c = CHR 0x0A then [] # split_lines cs
      else (case split_lines cs of l # ls \<Rightarrow> (c # l) # ls | [] \<Rightarrow> [[c]]))"

text \<open>The contents are what the reader returned, or the text of its error.\<close>

definition get_key_bytes :: "crypto \<Rightarrow> string \<Rightarrow> bytes" where
  "get_key_bytes cr s = (case cr_unhex cr s of Some b \<Rightarrow> b | None \<Rightarrow> [])"

definition read_keypair :: "crypto \<Rightarrow> 'v validator_keys \<Rightarrow> (string, string) result \<Rightarrow> (keypair_error, 'v keypair) result" where
  "read_keypair cr vk contents =
     (case contents of
        Err msg \<Rightarrow> Err (FailedToReadFromFile msg)
      | Panic \<Rightarrow> Panic
      | Ok c \<Rightarrow>
          let ls = split_lines c; vb = get_key_bytes cr (hd ls) in
          if vb = [] then Err InvalidHex
          else (case ls of
              _ # l # _ \<Rightarrow>
                let mb = get_key_bytes cr l in
                if mb = [] then Err InvalidHex else keypair_from_bytes cr vk vb mb
            | _ \<Rightarrow> keypair_from_bytes cr vk vb []))"

text \<open>\<open>write_keypair\<close> returns the two encoded keys; the text it hands to the
  writer, which is taken to accept all of it, is the first component here.\<close>

definition write_keypair ::
  "crypto \<Rightarrow> 'v validator_keys \<Rightarrow> 'v keypair \<Rightarrow> (keypair_error, string \<times> string \<times> string) result" where
  "write_keypair cr vk kp =
     rbind (keypair_to_bytes vk kp) (\<lambda>(vb, mb).
       Ok (cr_hex cr vb @ CHR 0x0A # cr_hex cr mb, cr_hex cr vb, cr_hex cr mb))"

lemma split_lines_single: "CHR 0x0A \<notin> set s \<Longrightarrow> split_lines s = [s]"
  by (induction s) auto

lemma split_lines_two:
  "CHR 0x0A \<notin> set s \<Longrightarrow> CHR 0x0A \<notin> set t \<Longrightarrow> split_lines (s @ CHR 0x0A # t) = [s, t]"
  by (induction s) (auto simp: split_lines_single)

lemma ecdsa_roundtrip:
  assumes "secp_laws cr" "cr_sk_slice cr sk = Some k" "cr_pk_slice cr pk = Some (cr_pk_of cr k)"
    and "ecdsa_sign cr msg sk = Ok sg"
  shows "verify_ecdsa_sign cr sg msg pk = Ok ()"
  using assms by (auto simp: ecdsa_sign_def verify_ecdsa_sign_def secp_lawsD)

subsection \<open>Properties\<close>

text \<open>A key file written by \<open>write_keypair\<close> is read back by \<open>read_keypair\<close> as
  the same pair of secret keys with their public keys, provided the serialisers
  of the two key types invert each other and produce at least one byte.\<close>

theorem keypair_file_roundtrip:
  assumes "hex_laws cr"
    and "vk_encode vk vsk = Ok vb" "vk_decode vk vb = Some vsk" "vb \<noteq> []"
    and "cr_sk_slice cr msk = Some msk" "msk \<noteq> []"
  shows "\<exists>text a b. write_keypair cr vk (keypair_new cr vk vsk msk) = Ok (text, a, b)
           \<and> read_keypair cr vk (Ok text) = Ok (keypair_new cr vk vsk msk)"
  using assms
  by (simp add: write_keypair_def keypair_to_bytes_def keypair_new_def read_keypair_def
      split_lines_two hex_lawsD get_key_bytes_def keypair_from_bytes_def Let_def)

definition example_validator_keys :: "bytes validator_keys" where
  "example_validator_keys = \<lparr> vk_encode = (\<lambda>b. Ok (1 # b)), vk_decode = (\<lambda>b. Some (tl b)), vk_public = (\<lambda>b. b) \<rparr>"

theorem keypair_file_roundtrip_witness:
  "\<exists>text a b.
     write_keypair example_crypto example_validator_keys
       (keypair_new example_crypto example_validator_keys [9] [4, 5]) = Ok (text, a, b) \<and>
     read_keypair example_crypto example_validator_keys (Ok text)
       = Ok (keypair_new example_crypto example_validator_keys [9] [4, 5])"
  by (rule keypair_file_roundtrip [where vb = "[1, 9]"]) (simp_all add: example_validator_keys_def)

end
