(* ===== verification/Floats.thy ===== *)
theory Floats
  imports Prelude
begin

text \<open>
  The part of \<open>f64\<close> and \<open>f32\<close> arithmetic the program uses on non-negative numbers:
  conversion from integers, division of small integers, multiplication, and the
  conversions back (truncation of \<open>as\<close> casts, \<open>ceil\<close>).  A finite non-negative
  float is a pair of a mantissa and an exponent, its value being
  \<open>m * 2 ^ e\<close>; every operation rounds to the precision of its format (53
  significant bits for \<open>f64\<close>, 24 for \<open>f32\<close>), to nearest, ties to even.  The numbers of the program stay far from overflow and underflow of
  the exponent range, so the range is not modelled.
\<close>

type_synonym f64 = "nat \<times> int"

fun bits :: "nat \<Rightarrow> nat" where
  "bits n = (if n = 0 then 0 else Suc (bits (n div 2)))"

declare bits.simps [simp del]

definition round_even :: "nat \<Rightarrow> nat \<Rightarrow> nat" where
  "round_even n k =
     (if k = 0 then n
      else let q = n div 2 ^ k; r = n mod 2 ^ k; half = 2 ^ (k - 1) in
           if half < r \<or> (r = half \<and> odd q) then q + 1 else q)"

definition fp_norm :: "nat \<Rightarrow> nat \<Rightarrow> int \<Rightarrow> f64" where
  "fp_norm p n e = (if bits n \<le> p then (n, e)
     else let k = bits n - p in (round_even n k, e + int k))"

definition fp_of_nat :: "nat \<Rightarrow> nat \<Rightarrow> f64" where
  "fp_of_nat p n = fp_norm p n 0"

fun fp_mul :: "nat \<Rightarrow> f64 \<Rightarrow> f64 \<Rightarrow> f64" where
  "fp_mul p (a, e) (b, f) = fp_norm p (a * b) (e + f)"

text \<open>The quotient of two small integers: 120 fractional bits and a sticky bit
  decide the rounding.  A decimal literal is such a quotient.\<close>

definition fp_ratio :: "nat \<Rightarrow> nat \<Rightarrow> nat \<Rightarrow> f64" where
  "fp_ratio p x y = (let n = x * 2 ^ 120 in
     fp_norm p (2 * (n div y) + (if n mod y = 0 then 0 else 1)) (- 121))"

text \<open>The two formats: \<open>f64\<close> has 53 bits of precision, \<open>f32\<close> has 24.\<close>

abbreviation "f64_norm \<equiv> fp_norm 53"
abbreviation "f64_of_nat \<equiv> fp_of_nat 53"
abbreviation "f64_mul \<equiv> fp_mul 53"
abbreviation "f64_ratio \<equiv> fp_ratio 53"
abbreviation "f32_of_nat \<equiv> fp_of_nat 24"
abbreviation "f32_mul \<equiv> fp_mul 24"
abbreviation "f32_ratio \<equiv> fp_ratio 24"

fun f64_trunc :: "f64 \<Rightarrow> nat" where
  "f64_trunc (m, e) = (if 0 \<le> e then m * 2 ^ nat e else m div 2 ^ nat (- e))"

fun f64_ceil :: "f64 \<Rightarrow> nat" where
  "f64_ceil (m, e) = (if 0 \<le> e then m * 2 ^ nat e
     else let d = 2 ^ nat (- e) in if m mod d = 0 then m div d else m div d + 1)"

lemma bits_zero [simp]: "bits 0 = 0"
  by (simp add: bits.simps)

lemma bits_numeral [simp]:
  "bits (Suc 0) = 1"
  "bits (numeral Num.One) = 1"
  "bits (numeral (Num.Bit0 n)) = Suc (bits (numeral n))"
  "bits (numeral (Num.Bit1 n)) = Suc (bits (numeral n))"
  by (simp_all add: bits.simps [of "Suc 0"] bits.simps [of "numeral _"])

lemma less_two_power_bits: "n < 2 ^ bits n"
proof (induction n rule: bits.induct)
  case (1 n)
  show ?case
  proof (cases "n = 0")
    case False
    then have "n div 2 < 2 ^ bits (n div 2)" by (rule 1)
    moreover have "bits n = Suc (bits (n div 2))" using False by (simp add: bits.simps)
    ultimately show ?thesis by simp
  qed simp
qed

lemma two_power_bits_le: "0 < n \<Longrightarrow> 2 ^ (bits n - 1) \<le> n"
proof (induction n rule: bits.induct)
  case (1 n)
  then have b: "bits n = Suc (bits (n div 2))" by (simp add: bits.simps)
  show ?case
  proof (cases "n div 2 = 0")
    case True
    with 1(2) b show ?thesis by simp
  next
    case False
    then have "2 ^ (bits (n div 2) - 1) \<le> n div 2" using 1 by simp
    moreover have "0 < bits (n div 2)" using False by (simp add: bits.simps [of "n div 2"])
    then have "(2::nat) ^ bits (n div 2) = 2 * 2 ^ (bits (n div 2) - 1)"
      by (cases "bits (n div 2)") simp_all
    ultimately show ?thesis using b by simp
  qed
qed

lemma bits_le: "n < 2 ^ k \<Longrightarrow> bits n \<le> k"
proof (rule ccontr)
  assume n: "n < 2 ^ k" and "\<not> bits n \<le> k"
  then have "0 < n" "k \<le> bits n - 1" by (auto intro: gr0I)
  then have "2 ^ k \<le> n" using two_power_bits_le [of n]
    by (meson le_trans one_le_numeral power_increasing)
  with n show False by simp
qed

lemma f64_of_small [simp]: "n < 2 ^ 53 \<Longrightarrow> f64_of_nat n = (n, 0)"
  by (simp add: fp_of_nat_def fp_norm_def bits_le)

lemmas f64_eval_simps = fp_of_nat_def fp_norm_def fp_ratio_def round_even_def Let_def

text \<open>Rounding never passes an integer bound.\<close>

lemma round_even_le:
  assumes "n \<le> b * 2 ^ k"
  shows "round_even n k \<le> b"
proof (cases "k = 0")
  case False
  let ?q = "n div 2 ^ k" and ?r = "n mod 2 ^ k"
  have half: "(0::nat) < 2 ^ (k - 1)" by simp
  have n: "n = ?q * 2 ^ k + ?r" by (simp only: div_mult_mod_eq)
  have q: "?q \<le> b" using assms
    by (metis div_le_mono nonzero_mult_div_cancel_right power_not_zero zero_neq_numeral)
  show ?thesis
  proof (cases "?q = b")
    case True
    with n assms have "?r = 0" by simp
    with True False half show ?thesis by (simp add: round_even_def Let_def)
  next
    case False
    with q show ?thesis by (auto simp: round_even_def Let_def)
  qed
qed (use assms in \<open>simp add: round_even_def\<close>)

lemma f64_trunc_norm_le:
  assumes le: "n \<le> v * 2 ^ d" and v: "v < 2 ^ 53"
  shows "f64_trunc (f64_norm n (- int d)) \<le> v"
proof (cases "bits n \<le> 53")
  case True
  have "n div 2 ^ d \<le> v"
    using div_le_mono [OF le, of "2 ^ d"] by simp
  with True show ?thesis
    using le by (cases "d = 0") (simp_all add: fp_norm_def)
next
  case False
  let ?k = "bits n - 53"
  from False have "0 < n" by (auto intro: gr0I)
  then have "2 ^ (bits n - 1) \<le> n" by (rule two_power_bits_le)
  also have "n \<le> v * 2 ^ d" by (rule le)
  also have "\<dots> < 2 ^ 53 * 2 ^ d" using v by simp
  finally have "(2::nat) ^ (bits n - 1) < 2 ^ (53 + d)" by (simp only: power_add)
  then have "bits n - 1 < 53 + d" by (simp only: power_strict_increasing_iff)
  with False have kd: "?k \<le> d" by simp
  have "n \<le> (v * 2 ^ (d - ?k)) * 2 ^ ?k"
    using le kd by (simp add: mult.assoc flip: power_add)
  then have r: "round_even n ?k \<le> v * 2 ^ (d - ?k)" by (rule round_even_le)
  have e: "- int d + int ?k = - int (d - ?k)" using kd by simp
  have "round_even n ?k div 2 ^ (d - ?k) \<le> v"
    using div_le_mono [OF r, of "2 ^ (d - ?k)"] by simp
  moreover have "f64_norm n (- int d) = (round_even n ?k, - int (d - ?k))"
    using False e by (simp add: fp_norm_def Let_def)
  moreover have "f64_trunc (m, - int j) = m div 2 ^ j" for m j
    by (cases "j = 0") simp_all
  ultimately show ?thesis by (simp only:)
qed

text \<open>A quotient of at most one stays at most one.\<close>

lemma f64_norm_le_one:
  assumes "n \<le> 2 ^ d"
  obtains m j where "f64_norm n (- int d) = (m, - int j)" "m \<le> 2 ^ j"
proof (cases "bits n \<le> 53")
  case True
  with assms that [of n d] show ?thesis by (simp add: fp_norm_def)
next
  case False
  let ?k = "bits n - 53"
  have "n < 2 ^ Suc d" using assms by (rule le_less_trans) simp
  then have "bits n \<le> Suc d" by (rule bits_le)
  with False have kd: "?k \<le> d" by simp
  have "n \<le> 2 ^ (d - ?k) * 2 ^ ?k" using assms kd by (simp flip: power_add)
  then have "round_even n ?k \<le> 2 ^ (d - ?k)" by (rule round_even_le)
  moreover have "f64_norm n (- int d) = (round_even n ?k, - int (d - ?k))"
    using False kd by (simp add: fp_norm_def Let_def)
  ultimately show ?thesis by (rule that [rotated])
qed

lemma f64_ratio_le_one:
  assumes "p \<le> q" "0 < q"
  obtains m j where "f64_ratio p q = (m, - int j)" "m \<le> 2 ^ j"
proof -
  let ?n = "p * 2 ^ 120"
  have n: "?n = q * (?n div q) + ?n mod q" by (simp only: mult_div_mod_eq)
  have le: "?n \<le> q * 2 ^ 120" using assms(1) by simp
  have "2 * (?n div q) + (if ?n mod q = 0 then 0 else 1) \<le> 2 ^ 121"
  proof (cases "?n mod q = 0")
    case True
    have "?n div q \<le> q * 2 ^ 120 div q" using le by (rule div_le_mono)
    with True assms(2) show ?thesis by simp
  next
    case False
    with n le have "q * (?n div q) < q * 2 ^ 120" by linarith
    then have "?n div q < 2 ^ 120" using assms(2) by simp
    with False show ?thesis by simp
  qed
  from f64_norm_le_one [OF this] that show ?thesis
    by (auto simp: fp_ratio_def Let_def)
qed

text \<open>Rounding is monotone, hence so is the ceiling of a rounded product.\<close>

definition fp_scaled :: "nat \<Rightarrow> nat \<Rightarrow> nat" where
  "fp_scaled p n = round_even n (bits n - p) * 2 ^ (bits n - p)"

lemma fp_norm_scaled: "fp_norm p n e = (round_even n (bits n - p), e + int (bits n - p))"
  by (simp add: fp_norm_def round_even_def Let_def)

lemma round_even_mono:
  assumes "n \<le> m"
  shows "round_even n k \<le> round_even m k"
proof (cases "n div 2 ^ k = m div 2 ^ k")
  case True
  moreover have "n mod 2 ^ k \<le> m mod 2 ^ k"
    using assms True by (metis add_le_cancel_left mult_div_mod_eq)
  ultimately show ?thesis using assms by (auto simp: round_even_def Let_def)
next
  case False
  moreover have "n div 2 ^ k \<le> m div 2 ^ k" using assms by (rule div_le_mono)
  ultimately show ?thesis using assms by (auto simp: round_even_def Let_def)
qed

lemma round_even_ge: "n div 2 ^ k \<le> round_even n k"
  by (auto simp: round_even_def Let_def)

lemma bits_mono: "n \<le> m \<Longrightarrow> bits n \<le> bits m"
  by (rule bits_le) (use less_two_power_bits [of m] in simp)

lemma fp_scaled_le_power:
  assumes "0 < p"
  shows "fp_scaled p n \<le> 2 ^ bits n"
proof -
  let ?k = "bits n - p"
  have "n \<le> 2 ^ (bits n - ?k) * 2 ^ ?k"
    using less_two_power_bits [of n] by (simp flip: power_add)
  then have "round_even n ?k \<le> 2 ^ (bits n - ?k)" by (rule round_even_le)
  then have "fp_scaled p n \<le> 2 ^ (bits n - ?k) * 2 ^ ?k" by (simp add: fp_scaled_def)
  then show ?thesis by (simp flip: power_add)
qed

lemma fp_scaled_ge_power:
  assumes "0 < p" "0 < n"
  shows "2 ^ (bits n - 1) \<le> fp_scaled p n"
proof -
  let ?k = "bits n - p"
  have pos: "0 < bits n" using assms(2) by (simp add: bits.simps [of n])
  then have split: "bits n - 1 = (bits n - 1 - ?k) + ?k" using assms(1) by simp
  have "2 ^ (bits n - 1 - ?k) = (2::nat) ^ (bits n - 1) div 2 ^ ?k"
    using pos assms(1) by (intro power_diff) simp_all
  also have "\<dots> \<le> n div 2 ^ ?k" using two_power_bits_le [OF assms(2)] by (rule div_le_mono)
  also have "\<dots> \<le> round_even n ?k" by (rule round_even_ge)
  finally have "(2::nat) ^ (bits n - 1 - ?k) * 2 ^ ?k \<le> fp_scaled p n" by (simp add: fp_scaled_def)
  then show ?thesis by (subst split) (simp only: power_add)
qed

lemma fp_scaled_mono:
  assumes "0 < p" "n \<le> m"
  shows "fp_scaled p n \<le> fp_scaled p m"
proof (cases "bits n = bits m")
  case True
  with round_even_mono [OF assms(2)] show ?thesis by (simp add: fp_scaled_def)
next
  case False
  with bits_mono [OF assms(2)] have lt: "bits n \<le> bits m - 1" "0 < m" by (auto intro: gr0I)
  have "fp_scaled p n \<le> 2 ^ bits n" by (rule fp_scaled_le_power [OF assms(1)])
  also have "\<dots> \<le> 2 ^ (bits m - 1)" using lt(1) by (rule power_increasing) simp
  also have "\<dots> \<le> fp_scaled p m" by (rule fp_scaled_ge_power [OF assms(1) lt(2)])
  finally show ?thesis .
qed

definition ceil_div :: "nat \<Rightarrow> nat \<Rightarrow> nat" where
  "ceil_div a b = (if a mod b = 0 then a div b else a div b + 1)"

lemma ceil_div_mono:
  assumes "a \<le> b" "0 < c"
  shows "ceil_div a c \<le> ceil_div b c"
proof (cases "a div c = b div c")
  case True
  moreover have "a mod c \<le> b mod c"
    using assms True by (metis add_le_cancel_left mult_div_mod_eq)
  ultimately show ?thesis by (auto simp: ceil_div_def)
next
  case False
  moreover have "a div c \<le> b div c" using assms(1) by (rule div_le_mono)
  ultimately show ?thesis by (auto simp: ceil_div_def)
qed

lemma ceil_div_le:
  assumes "a \<le> b * c" "0 < c"
  shows "ceil_div a c \<le> b"
  using ceil_div_mono [OF assms] assms(2) by (simp add: ceil_div_def)

lemma f64_ceil_scaled: "f64_ceil (m, int k - int d) = ceil_div (m * 2 ^ k) (2 ^ d)"
proof (cases "d \<le> k")
  case True
  then have "(2::nat) ^ k = 2 ^ (k - d) * 2 ^ d" by (simp flip: power_add)
  with True show ?thesis by (simp add: ceil_div_def nat_diff_distrib' flip: mult.assoc)
next
  case False
  then have "(2::nat) ^ d = 2 ^ (d - k) * 2 ^ k" by (simp flip: power_add)
  with False show ?thesis
    by (simp add: ceil_div_def Let_def nat_diff_distrib' mod_mult_mult2)
qed

lemma f64_ceil_norm: "f64_ceil (fp_norm p n (- int d)) = ceil_div (fp_scaled p n) (2 ^ d)"
  using f64_ceil_scaled [of "round_even n (bits n - p)" "bits n - p" d]
  by (simp add: fp_norm_scaled fp_scaled_def add.commute)

lemma f64_ceil_norm_mono:
  "0 < p \<Longrightarrow> n \<le> m \<Longrightarrow> f64_ceil (fp_norm p n (- int d)) \<le> f64_ceil (fp_norm p m (- int d))"
  by (simp only: f64_ceil_norm) (rule ceil_div_mono [OF fp_scaled_mono]; simp)

text \<open>A multiple of a power of two that fits the precision is represented exactly,
  so a product with a factor of at most one does not exceed it.\<close>

lemma bits_mult_power: "0 < n \<Longrightarrow> bits (n * 2 ^ d) = bits n + d"
proof (induction d)
  case (Suc d)
  then have nz: "n * 2 ^ Suc d \<noteq> 0" and half: "n * 2 ^ Suc d div 2 = n * 2 ^ d" by simp_all
  have "bits (n * 2 ^ Suc d) = Suc (bits (n * 2 ^ d))"
    by (subst bits.simps) (simp only: nz half if_False)
  with Suc show ?case by simp
qed simp

lemma fp_scaled_exact:
  assumes "bits n \<le> p"
  shows "fp_scaled p (n * 2 ^ d) = n * 2 ^ d"
proof (cases "n = 0")
  case False
  let ?k = "bits n + d - p"
  have "n * 2 ^ d = n * 2 ^ (d - ?k) * 2 ^ ?k"
    using assms by (simp add: mult.assoc flip: power_add)
  moreover have "round_even (x * 2 ^ k) k = x" for x k by (simp add: round_even_def Let_def)
  ultimately have "round_even (n * 2 ^ d) ?k = n * 2 ^ (d - ?k)" by metis
  with False assms show ?thesis
    by (simp add: fp_scaled_def bits_mult_power mult.assoc flip: power_add)
qed (simp add: fp_scaled_def round_even_def)

lemma f64_ceil_mul_le:
  assumes "0 < p" "bits n \<le> p" "m \<le> 2 ^ d"
  shows "f64_ceil (fp_norm p (n * m) (- int d)) \<le> n"
proof -
  have "fp_scaled p (n * m) \<le> fp_scaled p (n * 2 ^ d)"
    using assms by (intro fp_scaled_mono) simp_all
  also have "\<dots> = n * 2 ^ d" by (rule fp_scaled_exact [OF assms(2)])
  finally show ?thesis by (simp only: f64_ceil_norm) (rule ceil_div_le; simp)
qed

end
