(* ===== verification/Claims.thy ===== *)
theory Claims
  imports Keypairs Floats
begin

text \<open>
  \<open>vrrb_core/src/staking.rs\<close> and \<open>vrrb_core/src/claim.rs\<close>: stake transactions,
  claims, the election value of a claim and the stake it has accumulated.
\<close>

subsection \<open>Stakes\<close>

definition MIN_STAKE_FARMER :: u128 where "MIN_STAKE_FARMER = 10000"
definition MIN_STAKE_VALIDATOR :: u128 where "MIN_STAKE_VALIDATOR = 50000"

datatype stake_error = InvalidPayload | StakeInvalidSignature | UncertifiedStake | InvalidCertificate | StakeOther string

datatype stake_update = Add u128 | Withdrawal u128 | Slash u8

type_synonym stake_certificate = "bytes \<times> bytes"

record stake =
  st_pubkey :: public_key
  st_from :: address
  st_to :: "address option"
  st_amount :: stake_update
  st_timestamp :: int
  st_signature :: ecdsa_sig
  st_quorum_key :: bytes
  st_certificate :: "stake_certificate option"

definition stake_update_sval :: "stake_update \<Rightarrow> sval" where
  "stake_update_sval u = (case u of
     Add v \<Rightarrow> SSeq [SStr ''Add'', SInt (uint v)]
   | Withdrawal v \<Rightarrow> SSeq [SStr ''Withdrawal'', SInt (uint v)]
   | Slash p \<Rightarrow> SSeq [SStr ''Slash'', SInt (uint p)])"

definition stake_items :: "public_key \<Rightarrow> address \<Rightarrow> address option \<Rightarrow> stake_update \<Rightarrow> int \<Rightarrow> sval list" where
  "stake_items pk from to amount ts =
     [SBytes pk, address_sval from,
      (case to of None \<Rightarrow> SSeq [] | Some a \<Rightarrow> SSeq [address_sval a]),
      stake_update_sval amount, SInt ts]"

definition stake_new ::
  "crypto \<Rightarrow> int \<Rightarrow> stake_update \<Rightarrow> secret_key \<Rightarrow> public_key \<Rightarrow> address \<Rightarrow> address option \<Rightarrow> stake option" where
  "stake_new cr now amount sk pk from to =
     (case cr_msg_slice cr (hash_data cr (stake_items pk from to amount now)) of
        Some m \<Rightarrow> Some \<lparr> st_pubkey = pk, st_from = from, st_to = to, st_amount = amount,
          st_timestamp = now, st_signature = cr_sign cr sk m, st_quorum_key = [],
          st_certificate = None \<rparr>
      | None \<Rightarrow> None)"

definition get_sender :: "stake \<Rightarrow> address" where
  "get_sender s = st_from s"

definition get_receiver :: "stake \<Rightarrow> address" where
  "get_receiver s = (case st_to s of Some a \<Rightarrow> a | None \<Rightarrow> st_from s)"

definition stake_payload :: "crypto \<Rightarrow> stake \<Rightarrow> bytes" where
  "stake_payload cr s = hash_data cr (stake_items (st_pubkey s) (st_from s) (st_to s) (st_amount s) (st_timestamp s))"

definition certify :: "stake_certificate \<Rightarrow> stake \<Rightarrow> (stake_error, unit) result \<times> stake" where
  "certify c s = (if length (fst c) \<noteq> 96 then (Err InvalidCertificate, s)
     else (Ok (), s \<lparr> st_certificate := Some c \<rparr>))"

definition stake_verify :: "crypto \<Rightarrow> stake \<Rightarrow> (stake_error, unit) result" where
  "stake_verify cr s =
     (case cr_msg_slice cr (stake_payload cr s) of
        Some m \<Rightarrow> if cr_verify cr (st_pubkey s) m (st_signature s) then Ok () else Err StakeInvalidSignature
      | None \<Rightarrow> Err InvalidPayload)"

subsection \<open>Claims\<close>

datatype claim_error = ClaimInvalidSignature | ClaimInvalidPublicKey | ClaimOther string

definition claim_error_of :: "keypair_error \<Rightarrow> claim_error" where
  "claim_error_of e = (case e of
     InvalidSignature _ \<Rightarrow> ClaimInvalidSignature
   | InvalidPublicKey \<Rightarrow> ClaimInvalidPublicKey
   | InvalidKey _ \<Rightarrow> ClaimOther ''Invalid Secret Key''
   | _ \<Rightarrow> ClaimOther ''Failed to validate claim'')"

datatype eligibility = EHarvester | EMiner | EFarmer | ENone

definition eligibility_display :: "eligibility \<Rightarrow> string" where
  "eligibility_display e = (case e of EHarvester \<Rightarrow> ''Harvester'' | EFarmer \<Rightarrow> ''Farmer''
     | EMiner \<Rightarrow> ''Miner'' | ENone \<Rightarrow> ''None'')"

text \<open>A socket address is the text it displays as.\<close>

type_synonym socket_addr = string

record claim =
  cl_public_key :: public_key
  cl_address :: address
  cl_hash :: u256
  cl_eligibility :: eligibility
  cl_ip_address :: socket_addr
  cl_signature :: string
  cl_node_id :: node_id
  cl_stake :: u128
  cl_stake_txns :: "stake list"

definition le_bytes :: "'a::len word \<Rightarrow> bytes" where
  "le_bytes w = rev (be_bytes w)"

fun u256_le_bytes :: "u256 \<Rightarrow> bytes" where
  "u256_le_bytes (a, b, c, d) = le_bytes a @ le_bytes b @ le_bytes c @ le_bytes d"

definition claim_hash :: "crypto \<Rightarrow> public_key \<Rightarrow> socket_addr \<Rightarrow> u256" where
  "claim_hash cr pk ip = cr_u256_be cr (cr_sha256 cr (str_bytes (pk_display cr pk) @ str_bytes ip))"

definition is_valid_claim :: "crypto \<Rightarrow> bytes \<Rightarrow> string \<Rightarrow> bytes \<Rightarrow> (claim_error, unit) result" where
  "is_valid_claim cr msg sig pk = map_err claim_error_of (verify_ecdsa_sign cr sig msg pk)"

definition claim_new ::
  "crypto \<Rightarrow> public_key \<Rightarrow> address \<Rightarrow> socket_addr \<Rightarrow> string \<Rightarrow> node_id \<Rightarrow> (claim_error, claim) result" where
  "claim_new cr pk addr ip sig node =
     (let h = claim_hash cr pk ip in
      rbind (is_valid_claim cr (u256_le_bytes h) sig pk) (\<lambda>_.
        Ok \<lparr> cl_public_key = pk, cl_address = addr, cl_hash = h, cl_eligibility = ENone,
             cl_ip_address = ip, cl_signature = sig, cl_node_id = node, cl_stake = 0,
             cl_stake_txns = [] \<rparr>))"

definition signature_for_valid_claim ::
  "crypto \<Rightarrow> public_key \<Rightarrow> socket_addr \<Rightarrow> bytes \<Rightarrow> (claim_error, string) result" where
  "signature_for_valid_claim cr pk ip sk =
     map_err claim_error_of (ecdsa_sign cr (u256_le_bytes (claim_hash cr pk ip)) sk)"

definition update_claim_socketaddr ::
  "crypto \<Rightarrow> string \<Rightarrow> public_key \<Rightarrow> socket_addr \<Rightarrow> claim \<Rightarrow> (claim_error, unit) result \<times> claim" where
  "update_claim_socketaddr cr sig pk ip c =
     (case is_valid_claim cr (u256_le_bytes (claim_hash cr pk ip)) sig pk of
        Ok _ \<Rightarrow> (Ok (), c \<lparr> cl_ip_address := ip \<rparr>)
      | r \<Rightarrow> (r, c))"

fun u256_xor :: "u256 \<Rightarrow> u64 \<Rightarrow> u256" where
  "u256_xor (a, b, c, d) s = (xor a s, xor b s, xor c s, xor d s)"

definition get_election_result :: "claim \<Rightarrow> u64 \<Rightarrow> u256" where
  "get_election_result c s = u256_xor (cl_hash c) s"

text \<open>The order of \<open>U256\<close> is the order of the integers it stands for.\<close>

fun u256_val :: "u256 \<Rightarrow> nat" where
  "u256_val (a, b, c, d) = unat a + 2 ^ 64 * (unat b + 2 ^ 64 * (unat c + 2 ^ 64 * unat d))"

subsection \<open>Accumulated stake\<close>

definition slash_amount :: "u8 \<Rightarrow> u128 \<Rightarrow> nat" where
  "slash_amount pct value = min (f64_trunc (f64_mul (f64_of_nat (unat value)) (f64_ratio (unat pct) 100))) (2 ^ 128 - 1)"

text \<open>\<open>value - slash\<close> aborts when the slash exceeds the value.\<close>

definition slash_calculator :: "u8 \<Rightarrow> u128 \<Rightarrow> (stake_error, u128) result" where
  "slash_calculator pct value =
     (case checked_sub value (of_nat (slash_amount pct value)) of Some v \<Rightarrow> Ok v | None \<Rightarrow> Panic)"

fun apply_stake :: "stake \<Rightarrow> u128 \<Rightarrow> (stake_error, u128) result" where
  "apply_stake s acc = (case st_amount s of
     Add v \<Rightarrow> Ok (case checked_add acc v of Some x \<Rightarrow> x | None \<Rightarrow> acc)
   | Withdrawal v \<Rightarrow> Ok (case checked_sub acc v of Some x \<Rightarrow> x | None \<Rightarrow> acc)
   | Slash p \<Rightarrow> slash_calculator p acc)"

definition check_stake_utxo :: "stake list \<Rightarrow> (stake_error, u128) result" where
  "check_stake_utxo txns = rfold apply_stake txns 0"

definition depositing_claim :: "claim \<Rightarrow> stake \<Rightarrow> bool" where
  "depositing_claim c s = (get_sender s = cl_address c)"

definition update_stake :: "stake \<Rightarrow> claim \<Rightarrow> (stake_error, unit) result \<times> claim" where
  "update_stake s c =
     (if \<not> depositing_claim c s then
        (Err (StakeOther ''This claim is not the intended receiver of the stake transaction''), c)
      else if st_certificate s = None then (Err UncertifiedStake, c)
      else
        let prev = cl_stake c; c1 = c \<lparr> cl_stake_txns := cl_stake_txns c @ [s] \<rparr> in
        (case check_stake_utxo (cl_stake_txns c1) of
           Ok v \<Rightarrow>
             if v = prev then (Ok (), c1 \<lparr> cl_stake := v, cl_stake_txns := butlast (cl_stake_txns c1) \<rparr>)
             else (Ok (), c1 \<lparr> cl_stake := v \<rparr>)
         | Err e \<Rightarrow> (Err e, c1)
         | Panic \<Rightarrow> (Panic, c1)))"

subsection \<open>Facts\<close>

lemma xor_cancel_left: "xor a s = xor b s \<longleftrightarrow> a = b" for a b s :: "'a::len word"
  by (metis xor.assoc xor.right_neutral xor_self_eq)

lemma u256_xor_inj: "u256_xor x s = u256_xor y s \<longleftrightarrow> x = y"
  by (cases x; cases y) (simp add: xor_cancel_left)

lemma u256_xor_xor: "u256_xor (u256_xor x s) s = x"
  by (cases x) (simp add: xor.assoc)

lemma slash_amount_le:
  assumes "unat value < 2 ^ 53" "unat pct \<le> 100"
  shows "slash_amount pct value \<le> unat value"
proof -
  obtain m d where r: "f64_ratio (unat pct) 100 = (m, - int d)" "m \<le> 2 ^ d"
    using f64_ratio_le_one [OF assms(2)] by auto
  then have "f64_trunc (f64_norm (unat value * m) (- int d)) \<le> unat value"
    using assms(1) by (intro f64_trunc_norm_le) simp_all
  with assms(1) r(1) show ?thesis by (simp add: slash_amount_def)
qed

lemma slash_calculator_Ok:
  assumes "unat value < 2 ^ 53" "unat pct \<le> 100"
  shows "\<exists>v. slash_calculator pct value = Ok v \<and> unat v = unat value - slash_amount pct value"
proof -
  have le: "slash_amount pct value \<le> unat value" by (rule slash_amount_le [OF assms])
  have u: "unat (of_nat (slash_amount pct value) :: u128) = slash_amount pct value"
    using le assms(1) by (simp add: unat_of_nat)
  with le have "of_nat (slash_amount pct value) \<le> value"
    by (simp add: word_le_nat_alt)
  then show ?thesis
    by (simp add: slash_calculator_def checked_sub_def unat_sub u)
qed

subsection \<open>The stake of a claim is the sum of its transactions\<close>

definition stake_inv :: "claim \<Rightarrow> bool" where
  "stake_inv c = (check_stake_utxo (cl_stake_txns c) = Ok (cl_stake c))"

lemma claim_new_Ok:
  "claim_new cr pk addr ip sig node = Ok c \<Longrightarrow> cl_stake c = 0 \<and> cl_stake_txns c = []
     \<and> cl_hash c = claim_hash cr pk ip \<and> cl_public_key c = pk \<and> cl_ip_address c = ip"
  by (auto simp: claim_new_def Let_def result_simps)

lemma stake_inv_new: "claim_new cr pk addr ip sig node = Ok c \<Longrightarrow> stake_inv c"
  by (drule claim_new_Ok) (simp add: stake_inv_def check_stake_utxo_def)

lemma stake_inv_update_stake:
  assumes "stake_inv c" "fst (update_stake s c) \<noteq> Panic"
  shows "stake_inv (snd (update_stake s c))"
proof -
  have no_err: "check_stake_utxo xs \<noteq> Err e" for xs e
  proof -
    have "rfold apply_stake ys a \<noteq> Err e" for ys a
    proof (induction ys arbitrary: a)
      case (Cons y ys)
      have "apply_stake y a \<noteq> Err e"
        by (auto simp: slash_calculator_def split: stake_update.splits option.splits)
      with Cons show ?case by (cases "apply_stake y a") (simp_all del: apply_stake.simps)
    qed simp
    then show ?thesis by (simp add: check_stake_utxo_def)
  qed
  from assms no_err show ?thesis
    by (auto simp: update_stake_def stake_inv_def Let_def split: result.splits if_splits)
qed

lemma stake_inv_socketaddr: "stake_inv c \<Longrightarrow> stake_inv (snd (update_claim_socketaddr cr sig pk ip c))"
  by (simp add: update_claim_socketaddr_def stake_inv_def split: result.splits)

text \<open>The life of a claim: it is created, and its stake and its address are
  updated by calls that return.\<close>

inductive claim_step :: "crypto \<Rightarrow> claim \<Rightarrow> claim \<Rightarrow> bool" for cr :: crypto where
  claim_step_stake: "fst (update_stake s c) \<noteq> Panic \<Longrightarrow> claim_step cr c (snd (update_stake s c))"
| claim_step_addr: "claim_step cr c (snd (update_claim_socketaddr cr sig pk ip c))"

definition claim_init :: "crypto \<Rightarrow> claim \<Rightarrow> bool" where
  "claim_init cr c = (\<exists>pk addr ip sig node. claim_new cr pk addr ip sig node = Ok c)"

interpretation claim_stakes: invariant_system "claim_init cr" "claim_step cr" stake_inv for cr
proof unfold_locales
  show "stake_inv s" if "claim_init cr s" for s
    using that stake_inv_new by (auto simp: claim_init_def)
  show "stake_inv t" if "stake_inv s" "claim_step cr s t" for s t
    using that(2,1) by cases (simp_all add: stake_inv_update_stake stake_inv_socketaddr)
qed

subsection \<open>Properties\<close>

text \<open>C4: the recorded stake of a claim is at all times the fold of its recorded
  stake transactions from zero (additions and withdrawals that would overflow or
  underflow leave it alone, a slash takes its percentage): in any life of the
  claim in which every call returned.\<close>

theorem claim_stake_is_fold_of_txns:
  assumes "reachable (claim_init cr) (claim_step cr) c"
  shows "check_stake_utxo (cl_stake_txns c) = Ok (cl_stake c)"
  using claim_stakes.reachable_inv [OF assms] by (simp add: stake_inv_def)

definition example_stake :: "stake_update \<Rightarrow> stake" where
  "example_stake u = \<lparr> st_pubkey = key_a, st_from = Address key_a, st_to = None, st_amount = u,
     st_timestamp = 0, st_signature = [], st_quorum_key = [],
     st_certificate = Some (replicate 96 0, []) \<rparr>"

definition example_claim_sig :: string where
  "example_claim_sig = hex_enc (key_a @ checksum (u256_le_bytes (claim_hash example_crypto key_a ''127.0.0.1:80'')))"

definition example_claim :: claim where
  "example_claim = \<lparr> cl_public_key = key_a, cl_address = Address key_a,
     cl_hash = claim_hash example_crypto key_a ''127.0.0.1:80'', cl_eligibility = ENone,
     cl_ip_address = ''127.0.0.1:80'', cl_signature = example_claim_sig, cl_node_id = ''node-a'',
     cl_stake = 0, cl_stake_txns = [] \<rparr>"

lemma length_key_a [simp]: "length key_a = 33"
  by (simp add: key_a_def)

lemma example_claim_new:
  "claim_new example_crypto key_a (Address key_a) ''127.0.0.1:80'' example_claim_sig ''node-a'' = Ok example_claim"
  by (simp add: claim_new_def Let_def is_valid_claim_def verify_ecdsa_sign_def example_claim_sig_def example_claim_def)

theorem claim_stake_is_fold_of_txns_witness:
  "check_stake_utxo (cl_stake_txns (snd (update_stake (example_stake (Add 20000)) example_claim)))
     = Ok (cl_stake (snd (update_stake (example_stake (Add 20000)) example_claim)))
   \<and> cl_stake (snd (update_stake (example_stake (Add 20000)) example_claim)) = 20000"
proof -
  have u: "update_stake (example_stake (Add 20000)) example_claim
      = (Ok (), example_claim \<lparr> cl_stake := 20000, cl_stake_txns := [example_stake (Add 20000)] \<rparr>)"
    by (simp add: update_stake_def example_stake_def example_claim_def depositing_claim_def
        get_sender_def check_stake_utxo_def checked_add_def)
  have "claim_init example_crypto example_claim"
    unfolding claim_init_def using example_claim_new by blast
  then have "reachable (claim_init example_crypto) (claim_step example_crypto) example_claim"
    by (rule reach_init)
  moreover have "claim_step example_crypto example_claim (snd (update_stake (example_stake (Add 20000)) example_claim))"
    by (rule claim_step_stake) (simp add: u)
  ultimately have "reachable (claim_init example_crypto) (claim_step example_crypto)
      (snd (update_stake (example_stake (Add 20000)) example_claim))"
    by (rule reach_step)
  from claim_stake_is_fold_of_txns [OF this] u show ?thesis by simp
qed

text \<open>Slashing by at most 100 percent a stake below \<open>2 ^ 53\<close> never aborts and
  never takes more than the stake, although the percentage is computed in
  floating point.\<close>

theorem slash_within_stake:
  assumes "unat value < 2 ^ 53" "unat pct \<le> 100"
  shows "\<exists>v. slash_calculator pct value = Ok v \<and> unat v = unat value - slash_amount pct value
           \<and> slash_amount pct value \<le> unat value"
  using slash_calculator_Ok [OF assms] slash_amount_le [OF assms] by blast

theorem slash_within_stake_witness:
  "slash_calculator 25 10000 = Ok 7500"
proof -
  have amount: "slash_amount 25 10000 = 2500"
    by (simp add: f64_eval_simps slash_amount_def)
  obtain v where "slash_calculator 25 10000 = Ok v" "unat v = unat (10000 :: u128) - slash_amount 25 10000"
    using slash_within_stake [of "10000 :: u128" 25] by auto
  then have "unat v = unat (7500 :: u128)" by (simp add: amount)
  then have "v = 7500" by (simp only: word_unat_eq_iff)
  with \<open>slash_calculator 25 10000 = Ok v\<close> show ?thesis by simp
qed

text \<open>Above \<open>2 ^ 53\<close> the conversion to floating point may round up, so that a
  full slash of a stake of \<open>2 ^ 53 + 3\<close> exceeds the stake and the subtraction
  aborts; the claim keeps the transaction in its list.\<close>

theorem full_slash_of_large_stake_aborts:
  "slash_amount 100 (2 ^ 53 + 3) = 2 ^ 53 + 4
   \<and> slash_calculator 100 (2 ^ 53 + 3) = Panic
   \<and> check_stake_utxo [example_stake (Add (2 ^ 53 + 3)), example_stake (Slash 100)] = Panic"
  by (simp add: f64_eval_simps slash_amount_def slash_calculator_def checked_sub_def
      check_stake_utxo_def checked_add_def example_stake_def)

text \<open>A stake delegated to a claim is refused by that claim, whoever sent it:
  \<open>update_stake\<close> compares the sender of the stake with the claim's address, while
  its error message (and the description of \<open>Stake\<close>) speak of the receiver.\<close>

theorem delegated_stake_refused:
  assumes "get_receiver s = cl_address c" "get_sender s \<noteq> cl_address c"
  shows "update_stake s c = (Err (StakeOther ''This claim is not the intended receiver of the stake transaction''), c)"
  using assms by (simp add: update_stake_def depositing_claim_def)

theorem delegated_stake_refused_witness:
  "update_stake (example_stake (Add 5) \<lparr> st_from := Address key_b, st_to := Some (Address key_a) \<rparr>) example_claim
     = (Err (StakeOther ''This claim is not the intended receiver of the stake transaction''), example_claim)"
  by (rule delegated_stake_refused)
    (simp_all add: get_receiver_def get_sender_def example_stake_def example_claim_def)

text \<open>Any key holder can redirect any claim.  \<open>update_claim_socketaddr\<close> checks
  the signature against the public key it is given, not against the key of the
  claim, and leaves the claim's hash (which commits to the old address) as it is.\<close>

theorem foreign_key_moves_claim:
  assumes "secp_laws cr" "cr_sk_slice cr sk = Some k" "cr_pk_slice cr pk = Some (cr_pk_of cr k)"
    and "signature_for_valid_claim cr pk ip sk = Ok sig"
  shows "update_claim_socketaddr cr sig pk ip c = (Ok (), c \<lparr> cl_ip_address := ip \<rparr>)"
  using assms ecdsa_roundtrip [OF assms(1-3)]
  by (simp add: update_claim_socketaddr_def is_valid_claim_def signature_for_valid_claim_def result_simps)

lemma length_key_b [simp]: "length key_b = 33"
  by (simp add: key_b_def)

theorem foreign_key_moves_claim_witness:
  "\<exists>sig. signature_for_valid_claim example_crypto key_b ''10.0.0.1:99'' key_b = Ok sig \<and>
     cl_ip_address (snd (update_claim_socketaddr example_crypto sig key_b ''10.0.0.1:99'' example_claim)) = ''10.0.0.1:99''
     \<and> cl_public_key example_claim = key_a"
proof -
  obtain sig where sig: "signature_for_valid_claim example_crypto key_b ''10.0.0.1:99'' key_b = Ok sig"
    by (simp add: signature_for_valid_claim_def ecdsa_sign_def)
  have "update_claim_socketaddr example_crypto sig key_b ''10.0.0.1:99'' example_claim
      = (Ok (), example_claim \<lparr> cl_ip_address := ''10.0.0.1:99'' \<rparr>)"
    by (rule foreign_key_moves_claim [where k = key_b and sk = key_b]) (simp_all add: sig)
  with sig show ?thesis by (simp add: example_claim_def)
qed

text \<open>For one block seed, distinct claim hashes have distinct election values,
  and applying the seed a second time gives the hash back.\<close>

theorem election_result_injective:
  "(get_election_result c s = get_election_result d s \<longleftrightarrow> cl_hash c = cl_hash d)
   \<and> u256_xor (get_election_result c s) s = cl_hash c"
  by (simp add: get_election_result_def u256_xor_inj u256_xor_xor)

text \<open>A stake created with a secret key verifies under the matching public key,
  also after it has been certified.\<close>

theorem stake_new_verifies:
  assumes "sha_laws cr" "secp_laws cr"
  shows "\<exists>s. stake_new cr now amount sk (cr_pk_of cr sk) from to = Some s \<and> stake_verify cr s = Ok ()
           \<and> stake_verify cr (snd (certify cert s)) = Ok ()"
  using assms
  by (simp add: stake_new_def stake_verify_def stake_payload_def certify_def hash_data_def
      secp_lawsD sha_lawsD)

theorem stake_new_verifies_witness:
  "\<exists>s. stake_new example_crypto 0 (Add 10) key_a key_a (Address key_a) None = Some s
       \<and> stake_verify example_crypto s = Ok ()"
  using stake_new_verifies [of example_crypto 0 "Add 10" key_a "Address key_a" None "([], [])"] by auto

end
