(* ===== verification/Ordered_Maps.thy ===== *)
theory Ordered_Maps
  imports Prelude
begin

text \<open>
  \<open>std::collections::BTreeMap\<close>: association lists sorted by their keys.  The
  order of the keys is given by a function into the natural numbers; the locale
  \<open>key_order\<close> states what such a function has to satisfy, and shows that the
  sorted lists are a keyed map whose first entry has the least key.
\<close>

fun bt_insert :: "('k \<Rightarrow> nat) \<Rightarrow> 'k \<Rightarrow> 'v \<Rightarrow> ('k, 'v) amap \<Rightarrow> ('k, 'v) amap" where
  "bt_insert ord k v [] = [(k, v)]"
| "bt_insert ord k v ((k', v') # m) =
     (if ord k < ord k' then (k, v) # (k', v') # m
      else if ord k = ord k' then (k, v) # m
      else (k', v') # bt_insert ord k v m)"

definition bt_remove :: "'k \<Rightarrow> ('k, 'v) amap \<Rightarrow> ('k, 'v) amap" where
  "bt_remove k m = filter (\<lambda>kv. fst kv \<noteq> k) m"

definition bt_collect :: "('k \<Rightarrow> nat) \<Rightarrow> ('k \<times> 'v) list \<Rightarrow> ('k, 'v) amap" where
  "bt_collect ord kvs = fold (\<lambda>(k, v). bt_insert ord k v) kvs []"

definition bt_wf :: "('k \<Rightarrow> nat) \<Rightarrow> ('k, 'v) amap \<Rightarrow> bool" where
  "bt_wf ord m = sorted_wrt (<) (map (\<lambda>kv. ord (fst kv)) m)"

lemma set_bt_insert_subset: "set (bt_insert ord k v m) \<subseteq> insert (k, v) (set m)"
  by (induction m) (auto split: if_splits)

lemma length_bt_insert_le: "length (bt_insert ord k v m) \<le> Suc (length m)"
  by (induction m) auto

locale key_order =
  fixes ord :: "'k \<Rightarrow> nat"
  assumes ord_inj: "ord a = ord b \<Longrightarrow> a = b"
begin

lemma bt_wf_insert: "bt_wf ord m \<Longrightarrow> bt_wf ord (bt_insert ord k v m)"
proof (induction m)
  case (Cons kv m)
  obtain k' v' where kv: "kv = (k', v')" by (cases kv)
  from Cons.prems have m: "bt_wf ord m" and lt: "\<forall>x\<in>set m. ord k' < ord (fst x)"
    by (auto simp: bt_wf_def kv)
  from Cons.IH [OF m] have ih: "bt_wf ord (bt_insert ord k v m)" .
  have "\<forall>x\<in>set (bt_insert ord k v m). x = (k, v) \<or> x \<in> set m"
    using set_bt_insert_subset [of ord k v m] by auto
  with lt ih Cons.prems show ?case
    by (auto simp: bt_wf_def kv)
qed (simp add: bt_wf_def)

lemma map_of_bt_insert: "map_of (bt_insert ord k v m) = (map_of m)(k \<mapsto> v)" if "bt_wf ord m"
  using that
proof (induction m)
  case (Cons kv m)
  obtain k' v' where kv: "kv = (k', v')" by (cases kv)
  from Cons.prems have m: "bt_wf ord m" by (auto simp: bt_wf_def)
  show ?case
    using Cons.IH [OF m] ord_inj [of k k'] by (auto simp: kv fun_eq_iff)
qed simp

lemma bt_wf_remove: "bt_wf ord m \<Longrightarrow> bt_wf ord (bt_remove k m)"
  by (simp add: bt_wf_def bt_remove_def sorted_wrt_map sorted_wrt_filter)

lemma map_of_bt_remove: "map_of (bt_remove k m) = (map_of m)(k := None)"
  by (induction m) (auto simp: bt_remove_def fun_eq_iff)

end

sublocale key_order \<subseteq> bt: keyed_map "[]" "bt_insert ord" bt_remove map_of "bt_wf ord"
  by unfold_locales
    (simp_all add: bt_wf_insert map_of_bt_insert bt_wf_remove map_of_bt_remove bt_wf_def [of ord "[]"])

context key_order
begin

lemma bt_wf_collect: "bt_wf ord (bt_collect ord kvs)"
  unfolding bt_collect_def by (rule bt.ok_fold_ins) (rule bt.ok_emp)

lemma map_of_bt_collect: "map_of (bt_collect ord kvs) = map_of (rev kvs)"
  unfolding bt_collect_def by (simp add: bt.look_fold_ins [OF bt.ok_emp])

lemma bt_wf_distinct: "bt_wf ord m \<Longrightarrow> distinct (keys m)"
  by (induction m) (auto simp: bt_wf_def)

lemma mem_bt_iff: "bt_wf ord m \<Longrightarrow> (k, v) \<in> set m \<longleftrightarrow> map_of m k = Some v"
  by (simp add: bt_wf_distinct)

lemma first_is_least:
  assumes "bt_wf ord ((k, v) # m)" "kv \<in> set ((k, v) # m)"
  shows "ord k \<le> ord (fst kv)"
  using assms by (auto simp: bt_wf_def intro: less_imp_le)

lemma bt_collect_Nil_iff: "bt_collect ord kvs = [] \<longleftrightarrow> kvs = []"
proof
  assume "bt_collect ord kvs = []"
  then have "map_of (rev kvs) = Map.empty" using map_of_bt_collect [of kvs] by simp
  then show "kvs = []" by (metis Nil_is_rev_conv map_of_eq_empty_iff)
qed (simp add: bt_collect_def)

text \<open>Collecting entries whose keys are pairwise distinct loses none of them.\<close>

lemma set_bt_collect:
  assumes "distinct (keys kvs)"
  shows "set (bt_collect ord kvs) = set kvs"
proof -
  have "map_of (bt_collect ord kvs) = map_of kvs"
    using assms map_of_inject_set [of "rev kvs" kvs] by (simp add: map_of_bt_collect flip: rev_map)
  then show ?thesis
    using assms map_of_inject_set [OF bt_wf_distinct [OF bt_wf_collect] assms] by blast
qed

lemma length_bt_collect:
  assumes "distinct (keys kvs)"
  shows "length (bt_collect ord kvs) = length kvs"
  using set_bt_collect [OF assms] bt_wf_distinct [OF bt_wf_collect [of kvs]] assms
  by (metis distinct_card distinct_map length_map list.set_map)

text \<open>The first entry of a collection is the last one given for the least key.\<close>

lemma bt_collect_first:
  assumes "bt_collect ord kvs = (k, v) # m"
  shows "(k, v) \<in> set kvs \<and> (\<forall>kv\<in>set kvs. ord k \<le> ord (fst kv))"
proof
  have wf: "bt_wf ord ((k, v) # m)" using bt_wf_collect [of kvs] assms by simp
  have "map_of (rev kvs) k = Some v"
    using map_of_bt_collect [of kvs] assms by (simp add: fun_eq_iff) (metis option.inject)
  then show "(k, v) \<in> set kvs" using map_of_SomeD by fastforce
  show "\<forall>kv\<in>set kvs. ord k \<le> ord (fst kv)"
  proof
    fix kv assume "kv \<in> set kvs"
    then have "map_of (rev kvs) (fst kv) \<noteq> None" by (auto simp: map_of_eq_None_iff)
    then obtain w where "map_of ((k, v) # m) (fst kv) = Some w"
      using map_of_bt_collect [of kvs] assms by (metis not_None_eq)
    then have "(fst kv, w) \<in> set ((k, v) # m)" by (rule map_of_SomeD)
    from first_is_least [OF wf this] show "ord k \<le> ord (fst kv)" by simp
  qed
qed

end

interpretation word_order: key_order "unat :: 'a::len word \<Rightarrow> nat"
  by unfold_locales (simp add: word_unat_eq_iff)

end
