(* ===== verification/Vvrf.thy ===== *)
theory Vvrf
  imports Prelude
begin

text \<open>
  \<open>consensus/vrrb_vrf/src/vvrf.rs\<close>: the verifiable random numbers.  The elliptic
  curve VRF, the ChaCha20 generator and the word list are other crates; the record
  \<open>vrf_ops\<close> holds the functions of them that are called, and \<open>vrf_laws\<close> what
  their documentation promises.
\<close>

record 'r vrf_ops =
  vo_derive_public_key :: "bytes \<Rightarrow> bytes option"
  vo_prove :: "bytes \<Rightarrow> bytes \<Rightarrow> bytes option"
  vo_proof_to_hash :: "bytes \<Rightarrow> bytes option"
  vo_verify :: "bytes \<Rightarrow> bytes \<Rightarrow> bytes \<Rightarrow> bytes option"
  vo_from_seed :: "bytes \<Rightarrow> 'r"
  vo_fill_bytes :: "nat \<Rightarrow> 'r \<Rightarrow> bytes \<times> 'r"
  vo_choose_word :: "'r \<Rightarrow> string \<times> 'r"

definition vrf_laws :: "'r vrf_ops \<Rightarrow> bool" where
  "vrf_laws vo = (\<forall>sk pk m pi. vo_derive_public_key vo sk = Some pk \<longrightarrow> vo_prove vo sk m = Some pi \<longrightarrow>
     length pi = 81 \<and> vo_verify vo pk pi m = vo_proof_to_hash vo pi
     \<and> (\<forall>h. vo_proof_to_hash vo pi = Some h \<longrightarrow> length h = 32))"

datatype invalid_vvrf = InvalidProofError | InvalidPubKeyError | InvalidMessageError

record 'r vvrf =
  vv_pubkey :: bytes
  vv_message :: bytes
  vv_proof :: bytes
  vv_hash :: bytes
  vv_rng :: 'r

definition from_be_bytes :: "bytes \<Rightarrow> 'a::len word" where
  "from_be_bytes bs = foldl (\<lambda>a b. a * 256 + ucast b) 0 bs"

text \<open>Draw \<open>n\<close> bytes and read them as a big-endian number.\<close>

definition draw :: "'r vrf_ops \<Rightarrow> nat \<Rightarrow> 'r vvrf \<Rightarrow> 'a::len word \<times> 'r vvrf" where
  "draw vo n v = (case vo_fill_bytes vo n (vv_rng v) of
     (bs, r) \<Rightarrow> (from_be_bytes bs, v \<lparr> vv_rng := r \<rparr>))"

definition generate_u8 :: "'r vrf_ops \<Rightarrow> 'r vvrf \<Rightarrow> u8 \<times> 'r vvrf" where "generate_u8 vo v = draw vo 1 v"
definition generate_u16 :: "'r vrf_ops \<Rightarrow> 'r vvrf \<Rightarrow> u16 \<times> 'r vvrf" where "generate_u16 vo v = draw vo 2 v"
definition generate_u32 :: "'r vrf_ops \<Rightarrow> 'r vvrf \<Rightarrow> u32 \<times> 'r vvrf" where "generate_u32 vo v = draw vo 4 v"
definition generate_u64 :: "'r vrf_ops \<Rightarrow> 'r vvrf \<Rightarrow> u64 \<times> 'r vvrf" where "generate_u64 vo v = draw vo 8 v"
definition generate_u128 :: "'r vrf_ops \<Rightarrow> 'r vvrf \<Rightarrow> u128 \<times> 'r vvrf" where "generate_u128 vo v = draw vo 16 v"

text \<open>\<open>usize\<close> has 64 bits; the eight bytes it is read from are never filled.\<close>

definition generate_usize :: "'r vvrf \<Rightarrow> u64 \<times> 'r vvrf" where
  "generate_usize v = (from_be_bytes (replicate 8 0), v)"

text \<open>\<open>x % (max - min + 1) + min\<close>.\<close>

definition reduce :: "'a::len word \<Rightarrow> 'a word \<Rightarrow> 'a word \<Rightarrow> (unit, 'a word) result" where
  "reduce lo hi x =
     rbind (sub_or_panic hi lo) (\<lambda>d.
     rbind (add_or_panic d 1) (\<lambda>m. add_or_panic (x mod m) lo))"

definition draw_in_range ::
  "'r vrf_ops \<Rightarrow> nat \<Rightarrow> 'a::len word \<Rightarrow> 'a word \<Rightarrow> 'r vvrf \<Rightarrow> (unit, 'a word) result \<times> 'r vvrf" where
  "draw_in_range vo n lo hi v = (case draw vo n v of
     (x, v') \<Rightarrow> (rbind (reduce lo hi x) (reduce lo hi), v'))"

definition generate_u8_in_range :: "'r vrf_ops \<Rightarrow> u8 \<Rightarrow> u8 \<Rightarrow> 'r vvrf \<Rightarrow> (unit, u8) result \<times> 'r vvrf" where
  "generate_u8_in_range vo = draw_in_range vo 1"
definition generate_u16_in_range :: "'r vrf_ops \<Rightarrow> u16 \<Rightarrow> u16 \<Rightarrow> 'r vvrf \<Rightarrow> (unit, u16) result \<times> 'r vvrf" where
  "generate_u16_in_range vo = draw_in_range vo 2"
definition generate_u32_in_range :: "'r vrf_ops \<Rightarrow> u32 \<Rightarrow> u32 \<Rightarrow> 'r vvrf \<Rightarrow> (unit, u32) result \<times> 'r vvrf" where
  "generate_u32_in_range vo = draw_in_range vo 4"
definition generate_u64_in_range :: "'r vrf_ops \<Rightarrow> u64 \<Rightarrow> u64 \<Rightarrow> 'r vvrf \<Rightarrow> (unit, u64) result \<times> 'r vvrf" where
  "generate_u64_in_range vo = draw_in_range vo 8"
definition generate_u128_in_range :: "'r vrf_ops \<Rightarrow> u128 \<Rightarrow> u128 \<Rightarrow> 'r vvrf \<Rightarrow> (unit, u128) result \<times> 'r vvrf" where
  "generate_u128_in_range vo = draw_in_range vo 16"

definition generate_usize_in_range :: "u64 \<Rightarrow> u64 \<Rightarrow> 'r vvrf \<Rightarrow> (unit, u64) result \<times> 'r vvrf" where
  "generate_usize_in_range lo hi v = (reduce lo hi (from_be_bytes (replicate 8 0)), v)"

text \<open>Words are ASCII, so white space is tab, line feed, vertical tab, form feed,
  carriage return and blank.\<close>

definition is_white :: "char \<Rightarrow> bool" where
  "is_white c = (c \<in> {CHR 0x09, CHR 0x0A, CHR 0x0B, CHR 0x0C, CHR 0x0D, CHR 0x20})"

definition trim_start :: "string \<Rightarrow> string" where
  "trim_start = dropWhile is_white"

text \<open>The word functions draw from a clone of the generator, so the generator of
  the value itself does not move.\<close>

definition generate_word :: "'r vrf_ops \<Rightarrow> 'r vvrf \<Rightarrow> string \<times> 'r vvrf" where
  "generate_word vo v = (trim_start (fst (vo_choose_word vo (vv_rng v))), v)"

fun draw_words :: "'r vrf_ops \<Rightarrow> nat \<Rightarrow> 'r \<Rightarrow> string list" where
  "draw_words vo 0 r = []"
| "draw_words vo (Suc n) r = (case vo_choose_word vo r of (w, r') \<Rightarrow> w # draw_words vo n r')"

definition generate_words :: "'r vrf_ops \<Rightarrow> nat \<Rightarrow> 'r vvrf \<Rightarrow> string list \<times> 'r vvrf" where
  "generate_words vo n v = (draw_words vo n (vv_rng v), v)"

definition generate_phrase :: "'r vrf_ops \<Rightarrow> nat \<Rightarrow> 'r vvrf \<Rightarrow> string \<times> 'r vvrf" where
  "generate_phrase vo n v =
     (trim_start (foldl (\<lambda>acc w. acc @ '' '' @ w) [] (draw_words vo n (vv_rng v))), v)"

text \<open>Copying into a fixed buffer aborts past its end and leaves zeros after a
  shorter input.\<close>

definition fill_buffer :: "nat \<Rightarrow> bytes \<Rightarrow> (unit, bytes) result" where
  "fill_buffer n bs = (if length bs \<le> n then Ok (bs @ replicate (n - length bs) 0) else Panic)"

definition vvrf_generate_seed ::
  "'r vrf_ops \<Rightarrow> bytes \<Rightarrow> bytes \<Rightarrow> (unit, (bytes \<times> bytes) option) result" where
  "vvrf_generate_seed vo msg sk = (case vo_prove vo sk msg of
     None \<Rightarrow> Ok None
   | Some pi \<Rightarrow> (case vo_proof_to_hash vo pi of
       None \<Rightarrow> Ok None
     | Some h \<Rightarrow> rbind (fill_buffer 81 pi) (\<lambda>p. rbind (fill_buffer 32 h) (\<lambda>b. Ok (Some (p, b))))))"

definition vvrf_new :: "'r vrf_ops \<Rightarrow> bytes \<Rightarrow> bytes \<Rightarrow> (unit, 'r vvrf) result" where
  "vvrf_new vo msg sk =
     rbind (unwrap (vo_derive_public_key vo sk)) (\<lambda>pk.
     rbind (vvrf_generate_seed vo msg sk) (\<lambda>seed.
     rbind (unwrap seed) (\<lambda>(proof, hash).
       Ok \<lparr> vv_pubkey = pk, vv_message = msg, vv_proof = proof, vv_hash = hash,
            vv_rng = vo_from_seed vo hash \<rparr>)))"

definition verify_seed :: "'r vrf_ops \<Rightarrow> 'r vvrf \<Rightarrow> (invalid_vvrf, unit) result" where
  "verify_seed vo v = (case vo_verify vo (vv_pubkey v) (vv_proof v) (vv_message v) of
     Some beta \<Rightarrow> if vv_hash v \<noteq> beta then Err InvalidProofError else Ok ()
   | None \<Rightarrow> Err InvalidProofError)"

subsection \<open>Facts\<close>

lemma reduce_Ok:
  fixes lo hi x :: "'a::len word"
  assumes "lo \<le> hi" "unat hi - unat lo + 1 < 2 ^ LENGTH('a)"
  shows "\<exists>y. reduce lo hi x = Ok y \<and> lo \<le> y \<and> y \<le> hi
           \<and> unat y = unat x mod (unat hi - unat lo + 1) + unat lo"
proof -
  have d: "unat (hi - lo) = unat hi - unat lo" using assms(1) by (simp add: unat_sub)
  obtain m where m: "checked_add (hi - lo) 1 = Some m" "unat m = unat hi - unat lo + 1"
  proof -
    have "unat (1 :: 'a word) = 1" by (metis unat_1)
    with d assms(2) have "checked_add (hi - lo) 1 = Some (hi - lo + 1)"
      by (simp add: checked_add_def)
    moreover from this have "unat (hi - lo + 1) = unat hi - unat lo + 1"
      using d \<open>unat (1 :: 'a word) = 1\<close> by (simp only: checked_add_Some_iff)
    ultimately show ?thesis by (rule that)
  qed
  have xm: "unat (x mod m) = unat x mod (unat hi - unat lo + 1)" by (simp add: unat_mod m(2))
  also have "\<dots> \<le> unat hi - unat lo" by (metis Suc_eq_plus1 less_Suc_eq_le mod_less_divisor zero_less_Suc)
  finally have le: "unat (x mod m) + unat lo \<le> unat hi"
    using assms(1) by (simp add: word_le_nat_alt)
  then have "unat (x mod m) + unat lo < 2 ^ LENGTH('a)"
    using unsigned_less [of hi, where 'a = nat] by (rule le_less_trans)
  then have a: "checked_add (x mod m) lo = Some (x mod m + lo)" by (simp add: checked_add_def)
  then have u: "unat (x mod m + lo) = unat (x mod m) + unat lo" by (simp only: checked_add_Some_iff)
  have "reduce lo hi x = Ok (x mod m + lo)"
    using assms(1) m(1) a by (simp add: reduce_def sub_or_panic_def checked_sub_def add_or_panic_def)
  with u xm le show ?thesis by (simp add: word_le_nat_alt)
qed

lemma reduce_Panic_iff:
  fixes lo hi x :: "'a::len word"
  shows "reduce lo hi x = Panic \<longleftrightarrow> hi < lo \<or> 2 ^ LENGTH('a) \<le> unat hi - unat lo + 1"
proof (cases "lo \<le> hi \<and> unat hi - unat lo + 1 < 2 ^ LENGTH('a)")
  case True
  with reduce_Ok [of lo hi x] show ?thesis by auto
next
  case False
  have one: "unat (1 :: 'a word) = 1" by (metis unat_1)
  from False have "hi < lo \<or> lo \<le> hi \<and> 2 ^ LENGTH('a) \<le> unat hi - unat lo + 1" by auto
  then show ?thesis
    by (auto simp: reduce_def sub_or_panic_def checked_sub_def add_or_panic_def checked_add_def
        unat_sub one split: option.splits)
qed

lemma draw_in_range_fst:
  "\<exists>x. fst (draw_in_range vo n lo hi v) = rbind (reduce lo hi x) (reduce lo hi)"
  by (cases "draw vo n v") (auto simp: draw_in_range_def case_prod_beta)

lemma draw_in_range_Ok:
  fixes lo hi :: "'a::len word"
  assumes "lo \<le> hi" "unat hi - unat lo + 1 < 2 ^ LENGTH('a)"
  shows "\<exists>y. fst (draw_in_range vo n lo hi v) = Ok y \<and> lo \<le> y \<and> y \<le> hi"
proof -
  obtain x where f: "fst (draw_in_range vo n lo hi v) = rbind (reduce lo hi x) (reduce lo hi)"
    using draw_in_range_fst by blast
  obtain y where y: "reduce lo hi x = Ok y" using reduce_Ok [OF assms] by blast
  obtain z where "reduce lo hi y = Ok z" "lo \<le> z" "z \<le> hi" using reduce_Ok [OF assms] by blast
  with y f show ?thesis by simp
qed

lemma draw_in_range_Panic:
  fixes lo hi :: "'a::len word"
  assumes "\<not> (lo \<le> hi \<and> unat hi - unat lo + 1 < 2 ^ LENGTH('a))"
  shows "fst (draw_in_range vo n lo hi v) = Panic"
proof -
  obtain x where f: "fst (draw_in_range vo n lo hi v) = rbind (reduce lo hi x) (reduce lo hi)"
    using draw_in_range_fst by blast
  from assms have "reduce lo hi x = Panic" by (auto simp: reduce_Panic_iff)
  with f show ?thesis by simp
qed

subsection \<open>Properties\<close>

text \<open>A number drawn in a range lies in the range, for every width; the call
  aborts exactly when the range is empty or is the whole type (the size of the
  range then overflows).\<close>

theorem in_range_bounds:
  fixes lo hi :: "'a::len word"
  shows "if lo \<le> hi \<and> unat hi - unat lo + 1 < 2 ^ LENGTH('a)
    then \<exists>y. fst (draw_in_range vo n lo hi v) = Ok y \<and> lo \<le> y \<and> y \<le> hi
    else fst (draw_in_range vo n lo hi v) = Panic"
  using draw_in_range_Ok [of lo hi vo n v] draw_in_range_Panic [of lo hi vo n v] by auto

text \<open>The platform-size draws are constants: \<open>generate_usize\<close> is zero and
  \<open>generate_usize_in_range\<close> is the lower bound of any range it does not abort on,
  whatever the generator; and repeated words are the same word.\<close>

theorem usize_draws_are_constant:
  "generate_usize v = (0, v)
   \<and> fst (generate_usize_in_range lo hi v)
       = (if lo \<le> hi \<and> unat hi - unat lo + 1 < 2 ^ 64 then Ok lo else Panic)
   \<and> fst (generate_word vo (snd (generate_word vo v))) = fst (generate_word vo v)"
proof (intro conjI)
  have z: "(from_be_bytes (replicate 8 0) :: u64) = 0" by (simp add: from_be_bytes_def eval_nat_numeral)
  then show "generate_usize v = (0, v)" by (simp add: generate_usize_def)
  show "fst (generate_usize_in_range lo hi v)
       = (if lo \<le> hi \<and> unat hi - unat lo + 1 < 2 ^ 64 then Ok lo else Panic)"
  proof (cases "lo \<le> hi \<and> unat hi - unat lo + 1 < 2 ^ 64")
    case True
    then obtain y where "reduce lo hi 0 = Ok y" "unat y = unat lo" using reduce_Ok [of lo hi 0] by auto
    then have "reduce lo hi 0 = Ok lo" by (simp add: word_unat_eq_iff)
    with True show ?thesis by (simp add: generate_usize_in_range_def z)
  next
    case False
    then have "reduce lo hi 0 = Panic" using reduce_Panic_iff [of lo hi 0] by auto
    with False show ?thesis by (auto simp: generate_usize_in_range_def z)
  qed
qed (simp add: generate_word_def)

text \<open>A value made from a message and a secret key verifies.\<close>

lemma verify_seed_new:
  assumes "vrf_laws vo" "vvrf_new vo msg sk = Ok v"
  shows "verify_seed vo v = Ok ()"
proof -
  from assms(2) obtain pk pi h p b where
    v: "vo_derive_public_key vo sk = Some pk" "vo_prove vo sk msg = Some pi"
      "vo_proof_to_hash vo pi = Some h" "fill_buffer 81 pi = Ok p" "fill_buffer 32 h = Ok b"
      "v = \<lparr> vv_pubkey = pk, vv_message = msg, vv_proof = p, vv_hash = b, vv_rng = vo_from_seed vo b \<rparr>"
    by (auto simp: vvrf_new_def vvrf_generate_seed_def result_simps split: option.splits)
  with assms(1) have len: "length pi = 81" "length h = 32" and ver: "vo_verify vo pk pi msg = Some h"
    unfolding vrf_laws_def by (blast, blast, metis)
  from len v(4,5) have "p = pi" "b = h" by (simp_all add: fill_buffer_def split: if_splits)
  with v(6) ver show ?thesis by (simp add: verify_seed_def)
qed

text \<open>One instance of the interface.\<close>

definition example_vrf :: "nat vrf_ops" where
  "example_vrf = \<lparr> vo_derive_public_key = Some, vo_prove = (\<lambda>sk m. Some (take 81 (m @ replicate 81 0))),
     vo_proof_to_hash = (\<lambda>pi. Some (take 32 pi)), vo_verify = (\<lambda>pk pi m. Some (take 32 pi)),
     vo_from_seed = (\<lambda>_. 0), vo_fill_bytes = (\<lambda>n r. (replicate n (of_nat r), r + 1)),
     vo_choose_word = (\<lambda>r. (''abacus'', r + 1)) \<rparr>"

lemma example_vrf_laws: "vrf_laws example_vrf"
  by (auto simp: vrf_laws_def example_vrf_def)

lemma example_vrf_new: "\<exists>v. vvrf_new example_vrf msg sk = Ok v"
  by (auto simp: vvrf_new_def vvrf_generate_seed_def example_vrf_def fill_buffer_def min_def)

end
