(* ===== verification/Quorums.thy ===== *)
theory Quorums
  imports Claims Ordered_Maps Vvrf
begin

text \<open>
  \<open>consensus/quorum/src/quorum.rs\<close>: the election of a quorum among claims.  The
  results of an election are a \<open>BTreeMap\<close> keyed by the election value, so that its
  first entries are the claims with the least values.
\<close>

datatype quorum_error = InvalidSeedError | InvalidPointerSumError "claim list"
  | InvalidChildBlockError | InsufficientNodesError | NoSeedError | QuorumClaimError

record quorum =
  qu_quorum_seed :: u64
  qu_master_pubkeys :: "string list"
  qu_quorum_pk :: string
  qu_election_block_height :: u128

definition check_validity :: "u128 \<Rightarrow> bool" where
  "check_validity height = (0 < height)"

definition quorum_new :: "u64 \<Rightarrow> u128 \<Rightarrow> (quorum_error, quorum) result" where
  "quorum_new seed height =
     (if \<not> check_validity height then Err InvalidChildBlockError
      else Ok \<lparr> qu_quorum_seed = seed, qu_master_pubkeys = [], qu_quorum_pk = [],
                qu_election_block_height = height \<rparr>)"

text \<open>The loop draws until the number is at least \<open>u32::MAX\<close>; it may not end.\<close>

partial_function (option) seed_loop :: "'r vrf_ops \<Rightarrow> u64 \<Rightarrow> 'r vvrf \<Rightarrow> u64 option" where
  "seed_loop vo x v = (if x < 0xFFFFFFFF
     then (case generate_u64 vo v of (y, v') \<Rightarrow> seed_loop vo y v')
     else Some x)"

definition quorum_generate_seed ::
  "'r vrf_ops \<Rightarrow> u128 \<times> string \<Rightarrow> bytes \<Rightarrow> (quorum_error, u64) result option" where
  "quorum_generate_seed vo payload sk =
     (if \<not> check_validity (fst payload) then Some (Err InvalidChildBlockError)
      else case vvrf_new vo (str_bytes (snd payload)) sk of
        Ok v \<Rightarrow>
          if \<not> is_ok (verify_seed vo v) then Some (Err InvalidSeedError)
          else (case generate_u64 vo v of (x, v') \<Rightarrow> map_option Ok (seed_loop vo x v'))
      | _ \<Rightarrow> Some Panic)"

definition get_eligible_claims :: "claim list \<Rightarrow> (quorum_error, claim list) result" where
  "get_eligible_claims claims =
     (let eligible = filter (\<lambda>c. cl_eligibility c = EHarvester \<and> cl_eligibility c = EFarmer) claims in
      if length eligible < 20 then Err InsufficientNodesError else Ok eligible)"

text \<open>\<open>((n as f32) * q).ceil() as usize\<close> for a decimal literal \<open>q\<close> in hundredths.\<close>

definition f32_share :: "nat \<Rightarrow> nat \<Rightarrow> nat" where
  "f32_share n pct = f64_ceil (f32_mul (f32_of_nat n) (f32_ratio pct 100))"

definition election_results :: "u64 \<Rightarrow> claim list \<Rightarrow> (u256, claim) amap" where
  "election_results seed claims =
     bt_collect u256_val (map (\<lambda>c. (get_election_result c seed, c)) claims)"

definition get_final_quorum ::
  "crypto \<Rightarrow> claim list \<Rightarrow> quorum \<Rightarrow> (quorum_error, unit) result \<times> quorum" where
  "get_final_quorum cr claims q =
     (if qu_quorum_seed q = 0 then (Err NoSeedError, q)
      else
        let num_claims = f32_share (length claims) 51;
            results = election_results (qu_quorum_seed q) claims in
        if length results < f32_share (length claims) 65 then (Err (InvalidPointerSumError claims), q)
        else
          let pubkeys = take num_claims (map (\<lambda>c. pk_display cr (cl_public_key c)) (vals results)) in
          if length pubkeys < num_claims then (Panic, q)
          else (Ok (), q \<lparr> qu_master_pubkeys := take num_claims pubkeys \<rparr>))"

definition run_election ::
  "crypto \<Rightarrow> claim list \<Rightarrow> quorum \<Rightarrow> (quorum_error, unit) result \<times> quorum" where
  "run_election cr ballot q =
     (if qu_election_block_height q = 0 then (Err InvalidChildBlockError, q)
      else case get_eligible_claims ballot of
        Ok eligible \<Rightarrow> get_final_quorum cr eligible q
      | Err e \<Rightarrow> (Err e, q)
      | Panic \<Rightarrow> (Panic, q))"

subsection \<open>Election values are ordered keys\<close>

lemma mixed_radix_inj:
  fixes a a' b b' :: nat
  assumes "a + r * b = a' + r * b'" "a < r" "a' < r"
  shows "a = a' \<and> b = b'"
proof -
  from assms have "(a + r * b) mod r = (a' + r * b') mod r" by simp
  then have "a = a'" using assms(2,3) by simp
  with assms show ?thesis by auto
qed

lemma u256_val_inj: "u256_val x = u256_val y \<Longrightarrow> x = y"
proof -
  obtain a b c d where x: "x = (a, b, c, d)" by (cases x)
  obtain a' b' c' d' where y: "y = (a', b', c', d')" by (cases y)
  have lt: "unat w < 2 ^ 64" for w :: u64 using unsigned_less [of w, where 'a = nat] by simp
  assume "u256_val x = u256_val y"
  then have "unat a + 2 ^ 64 * (unat b + 2 ^ 64 * (unat c + 2 ^ 64 * unat d))
      = unat a' + 2 ^ 64 * (unat b' + 2 ^ 64 * (unat c' + 2 ^ 64 * unat d'))"
    by (simp only: x y u256_val.simps)
  from mixed_radix_inj [OF this lt lt] have 1: "unat a = unat a'"
    and "unat b + 2 ^ 64 * (unat c + 2 ^ 64 * unat d) = unat b' + 2 ^ 64 * (unat c' + 2 ^ 64 * unat d')"
    by simp_all
  from mixed_radix_inj [OF this(2) lt lt] have 2: "unat b = unat b'"
    and "unat c + 2 ^ 64 * unat d = unat c' + 2 ^ 64 * unat d'" by simp_all
  from mixed_radix_inj [OF this(2) lt lt] have "unat c = unat c'" "unat d = unat d'" by simp_all
  with 1 2 show "x = y" by (simp add: x y word_unat_eq_iff)
qed

interpretation u256_order: key_order u256_val
  by unfold_locales (rule u256_val_inj)

lemma election_result_eq_iff: "get_election_result c s = get_election_result d s \<longleftrightarrow> cl_hash c = cl_hash d"
  by (simp add: get_election_result_def u256_xor_inj)

lemma length_election_results:
  assumes "distinct (map cl_hash claims)"
  shows "length (election_results s claims) = length claims"
proof -
  have "distinct (map (\<lambda>c. get_election_result c s) claims)"
    using assms by (auto simp: distinct_map inj_on_def election_result_eq_iff)
  then have "distinct (keys (map (\<lambda>c. (get_election_result c s, c)) claims))"
    by (simp add: comp_def)
  from u256_order.length_bt_collect [OF this] show ?thesis by (simp add: election_results_def)
qed

lemma election_results_entries:
  assumes "(k, c) \<in> set (election_results s claims)"
  shows "c \<in> set claims \<and> k = get_election_result c s"
proof -
  from assms have "map_of (election_results s claims) k = Some c"
    unfolding election_results_def
    by (simp only: u256_order.mem_bt_iff [OF u256_order.bt_wf_collect])
  then have "(k, c) \<in> set (rev (map (\<lambda>c. (get_election_result c s, c)) claims))"
    unfolding election_results_def u256_order.map_of_bt_collect by (rule map_of_SomeD)
  then show ?thesis by auto
qed

subsection \<open>Shares\<close>

lemma f32_ratio_51: "f32_ratio 51 100 = (8556380, - 24)"
  by (simp add: f64_eval_simps)

lemma f32_ratio_65: "f32_ratio 65 100 = (10905190, - 24)"
  by (simp add: f64_eval_simps)

lemma f32_share_mono: "f32_share n 51 \<le> f32_share n 65"
proof -
  obtain a k where a: "f32_of_nat n = (a, int k)"
    using that by (auto simp: fp_of_nat_def fp_norm_scaled)
  have "f32_mul (a, int k) (m, - 24) = fp_norm 24 (a * m) (int k - 24)" for m by simp
  have ceil: "f64_ceil (fp_norm 24 (a * m) (int k - 24)) = ceil_div (fp_scaled 24 (a * m) * 2 ^ k) (2 ^ 24)" for m
  proof -
    have "f64_ceil (r, int (j + k) - int 24) = ceil_div (r * 2 ^ (j + k)) (2 ^ 24)" for r j
      by (rule f64_ceil_scaled)
    from this [of "round_even (a * m) (bits (a * m) - 24)" "bits (a * m) - 24"] show ?thesis
      by (simp only: fp_norm_scaled fp_scaled_def power_add of_nat_add of_nat_numeral mult.assoc)
        (simp add: algebra_simps)
  qed
  have "fp_scaled 24 (a * 8556380) \<le> fp_scaled 24 (a * 10905190)" by (rule fp_scaled_mono) simp_all
  then have "ceil_div (fp_scaled 24 (a * 8556380) * 2 ^ k) (2 ^ 24)
      \<le> ceil_div (fp_scaled 24 (a * 10905190) * 2 ^ k) (2 ^ 24)"
    by (intro ceil_div_mono) simp_all
  then show ?thesis
    by (simp only: f32_share_def a f32_ratio_51 f32_ratio_65 fp_mul.simps add_uminus_conv_diff ceil)
qed

lemma f32_share_le:
  assumes "n < 2 ^ 24"
  shows "f32_share n 65 \<le> n"
proof -
  have "bits n \<le> 24" using assms by (rule bits_le)
  then have "f64_ceil (fp_norm 24 (n * 10905190) (- int 24)) \<le> n"
    by (intro f64_ceil_mul_le) simp_all
  with \<open>bits n \<le> 24\<close> show ?thesis
    by (simp add: f32_share_def f32_ratio_65 fp_of_nat_def fp_norm_def [of 24 n 0])
qed

lemma results_split_sorted:
  assumes "x \<in> set (take n (election_results s claims))" "y \<in> set (drop n (election_results s claims))"
  shows "u256_val (fst x) < u256_val (fst y)"
proof -
  have "sorted_wrt (\<lambda>x y. u256_val (fst x) < u256_val (fst y)) (election_results s claims)"
    using u256_order.bt_wf_collect [of "map (\<lambda>c. (get_election_result c s, c)) claims"]
    by (simp add: election_results_def bt_wf_def sorted_wrt_map)
  then have "sorted_wrt (\<lambda>x y. u256_val (fst x) < u256_val (fst y))
      (take n (election_results s claims) @ drop n (election_results s claims))" by simp
  with assms show ?thesis unfolding sorted_wrt_append by blast
qed

lemma get_final_quorum_cases:
  "get_final_quorum cr claims q =
     (if qu_quorum_seed q = 0 then (Err NoSeedError, q)
      else if length (election_results (qu_quorum_seed q) claims) < f32_share (length claims) 65
        then (Err (InvalidPointerSumError claims), q)
      else (Ok (), q \<lparr> qu_master_pubkeys := map (\<lambda>c. pk_display cr (cl_public_key c))
             (take (f32_share (length claims) 51) (vals (election_results (qu_quorum_seed q) claims))) \<rparr>))"
  using f32_share_mono [of "length claims"]
  by (auto simp: get_final_quorum_def Let_def take_map)

subsection \<open>Properties\<close>


definition example_quorum :: quorum where
  "example_quorum = \<lparr> qu_quorum_seed = 7, qu_master_pubkeys = [], qu_quorum_pk = [],
     qu_election_block_height = 1 \<rparr>"


text \<open>No quorum is ever elected.  \<open>get_eligible_claims\<close> asks for claims that are
  harvester and farmer at once, so whatever the ballot \<open>run_election\<close> returns an
  error and leaves the quorum as it was.\<close>

theorem run_election_never_elects:
  "run_election cr ballot q =
     (Err (if qu_election_block_height q = 0 then InvalidChildBlockError else InsufficientNodesError), q)"
  by (simp add: run_election_def get_eligible_claims_def)

text \<open>Choosing the final quorum never aborts: the slice of the keys is always
  within bounds, because the check for 65 percent of distinct results covers the
  51 percent that are taken, also after rounding in single precision.  The quorum
  changes only on success.\<close>

theorem get_final_quorum_never_aborts:
  "fst (get_final_quorum cr claims q) \<noteq> Panic
   \<and> (is_ok (fst (get_final_quorum cr claims q)) \<or> snd (get_final_quorum cr claims q) = q)"
  by (simp add: get_final_quorum_cases)

text \<open>The generator after \<open>n\<close> more draws.\<close>

primrec nth_draw :: "'r vrf_ops \<Rightarrow> nat \<Rightarrow> 'r vvrf \<Rightarrow> u64 \<times> 'r vvrf" where
  "nth_draw vo 0 v = generate_u64 vo v"
| "nth_draw vo (Suc n) v = nth_draw vo n (snd (generate_u64 vo v))"

lemma seed_loop_returns:
  assumes "0xFFFFFFFF \<le> fst (nth_draw vo n v)"
  shows "\<exists>y. seed_loop vo (fst (generate_u64 vo v)) (snd (generate_u64 vo v)) = Some y \<and> 0xFFFFFFFF \<le> y"
  using assms
proof (induction n arbitrary: v)
  case 0
  then show ?case by (subst seed_loop.simps) (auto simp: not_less)
next
  case (Suc n)
  show ?case
  proof (cases "fst (generate_u64 vo v) < 0xFFFFFFFF")
    case True
    have "\<exists>y. seed_loop vo (fst (generate_u64 vo (snd (generate_u64 vo v)))) (snd (generate_u64 vo (snd (generate_u64 vo v)))) = Some y
        \<and> 0xFFFFFFFF \<le> y"
      using Suc by simp
    with True show ?thesis by (subst seed_loop.simps) (simp add: case_prod_beta)
  next
    case False
    then show ?thesis by (subst seed_loop.simps) (auto simp: not_less)
  qed
qed

text \<open>Generating the seed of an election ends, without an error and with a seed of
  at least \<open>u32::MAX\<close>, as soon as some later draw of the generator is that large.\<close>

theorem quorum_seed_found:
  assumes "vrf_laws vo" "0 < height" "vvrf_new vo (str_bytes hash) sk = Ok v"
    and "0xFFFFFFFF \<le> fst (nth_draw vo n v)"
  shows "\<exists>seed. quorum_generate_seed vo (height, hash) sk = Some (Ok seed) \<and> 0xFFFFFFFF \<le> seed"
proof -
  obtain y where "seed_loop vo (fst (generate_u64 vo v)) (snd (generate_u64 vo v)) = Some y" "0xFFFFFFFF \<le> y"
    using seed_loop_returns [OF assms(4)] by blast
  with assms(2,3) verify_seed_new [OF assms(1,3)] show ?thesis
    by (simp add: quorum_generate_seed_def check_validity_def case_prod_beta)
qed

theorem quorum_seed_found_witness:
  "\<exists>seed. quorum_generate_seed example_vrf (1, ''ab'') [3] = Some (Ok seed) \<and> 0xFFFFFFFF \<le> seed"
proof -
  obtain v where v: "vvrf_new example_vrf (str_bytes ''ab'') [3] = Ok v" "vv_rng v = 0"
    by (simp add: vvrf_new_def vvrf_generate_seed_def example_vrf_def fill_buffer_def str_bytes_def)
  have "replicate 8 (1 :: u8) = [1, 1, 1, 1, 1, 1, 1, 1]" by (simp add: eval_nat_numeral)
  then have "0xFFFFFFFF \<le> fst (nth_draw example_vrf 1 v)"
    by (simp add: generate_u64_def draw_def example_vrf_def v(2) from_be_bytes_def)
  from quorum_seed_found [OF example_vrf_laws _ v(1) this] show ?thesis by simp
qed

end
