(* ===== verification/Rewards.thy ===== *)
theory Rewards
  imports Prelude "HOL-Library.Signed_Division"
begin

text \<open>
  \<open>consensus/reward/src/reward.rs\<close>: the reward of a block and its adjustment at
  the end of an epoch.  An \<open>i128\<close> is a 128-bit word read by \<open>sint\<close>; the signed
  division of Rust truncates toward zero, which is \<open>sdiv\<close>.
\<close>

definition SPECK :: u128 where "SPECK = 1"
definition TRIXIMO :: u128 where "TRIXIMO = 1000 * SPECK"
definition NIFADA :: u128 where "NIFADA = 1000 * TRIXIMO"
definition RIMA :: u128 where "RIMA = 1000 * NIFADA"
definition SITARI :: u128 where "SITARI = 1000 * RIMA"
definition PSIGMA :: u128 where "PSIGMA = 1000 * SITARI"
definition VRRB :: u128 where "VRRB = 1000 * PSIGMA"

definition BASELINE_REWARD :: u128 where "BASELINE_REWARD = 20"
definition MIN_BASELINE_REWARD :: u128 where "MIN_BASELINE_REWARD = 15"
definition MAX_BASELINE_REWARD :: u128 where "MAX_BASELINE_REWARD = 25"
definition NUMBER_OF_BLOCKS_PER_EPOCH :: u128 where "NUMBER_OF_BLOCKS_PER_EPOCH = 30000000"
definition GENESIS_REWARD :: u128 where "GENESIS_REWARD = 400000000"

lemmas reward_consts = BASELINE_REWARD_def MIN_BASELINE_REWARD_def MAX_BASELINE_REWARD_def
  NUMBER_OF_BLOCKS_PER_EPOCH_def GENESIS_REWARD_def

type_synonym i128 = "128 word"

record reward =
  rw_epoch :: u128
  rw_next_epoch_block :: u128
  rw_current_block :: u128
  rw_miner :: "string option"
  rw_amount :: u128

definition reward_genesis :: "string option \<Rightarrow> reward" where
  "reward_genesis miner = \<lparr> rw_epoch = 1, rw_next_epoch_block = NUMBER_OF_BLOCKS_PER_EPOCH,
     rw_current_block = 0, rw_miner = miner, rw_amount = BASELINE_REWARD \<rparr>"

definition reward_default :: reward where
  "reward_default = \<lparr> rw_epoch = 0, rw_next_epoch_block = NUMBER_OF_BLOCKS_PER_EPOCH,
     rw_current_block = 0, rw_miner = None, rw_amount = BASELINE_REWARD \<rparr>"

text \<open>\<open>self.amount as i128 + adjustment / NUMBER_OF_BLOCKS_PER_EPOCH as i128\<close>.\<close>

definition adjusted_amount :: "i128 \<Rightarrow> reward \<Rightarrow> (unit, int) result" where
  "adjusted_amount adj r =
     (let s = sint (rw_amount r) + sint adj sdiv sint NUMBER_OF_BLOCKS_PER_EPOCH in
      if - (2 ^ 127) \<le> s \<and> s < 2 ^ 127 then Ok s else Panic)"

definition generate_next_reward :: "i128 \<Rightarrow> reward \<Rightarrow> (unit, reward) result" where
  "generate_next_reward adj r =
     rbind (add_or_panic (rw_current_block r) 1) (\<lambda>next.
     if next mod NUMBER_OF_BLOCKS_PER_EPOCH = 0 then
       rbind (add_or_panic (rw_epoch r) 1) (\<lambda>epoch.
       rbind (add_or_panic (rw_next_epoch_block r) NUMBER_OF_BLOCKS_PER_EPOCH) (\<lambda>next_block.
       rbind (adjusted_amount adj r) (\<lambda>s.
         let a = word_of_int s;
             amount = (if a < MIN_BASELINE_REWARD then MIN_BASELINE_REWARD
                       else if MAX_BASELINE_REWARD < a then MAX_BASELINE_REWARD else a) in
         Ok \<lparr> rw_epoch = epoch, rw_next_epoch_block = next_block,
              rw_current_block = rw_current_block r, rw_miner = None, rw_amount = amount \<rparr>)))
     else Ok r)"

definition new_epoch :: "i128 \<Rightarrow> reward \<Rightarrow> (unit, reward) result" where
  "new_epoch adj r =
     rbind (add_or_panic (rw_epoch r) 1) (\<lambda>epoch.
     rbind (add_or_panic (rw_next_epoch_block r) NUMBER_OF_BLOCKS_PER_EPOCH) (\<lambda>next_block.
     rbind (adjusted_amount adj r) (\<lambda>s.
       let amount = (if s \<le> 0 then MIN_BASELINE_REWARD
                     else if sint MAX_BASELINE_REWARD \<le> s then MAX_BASELINE_REWARD
                     else word_of_int s) in
       Ok (r \<lparr> rw_epoch := epoch, rw_next_epoch_block := next_block, rw_amount := amount \<rparr>))))"

definition reward_update :: "i128 \<Rightarrow> reward \<Rightarrow> (unit, reward) result" where
  "reward_update adj r = new_epoch adj r"

definition reward_reset :: "reward \<Rightarrow> reward" where
  "reward_reset r = r \<lparr> rw_amount := BASELINE_REWARD \<rparr>"

definition valid_reward :: "reward \<Rightarrow> bool" where
  "valid_reward r = (MIN_BASELINE_REWARD \<le> rw_amount r \<or> rw_amount r \<le> MAX_BASELINE_REWARD)"

definition reward_receivable :: "reward \<Rightarrow> (unit, string) result" where
  "reward_receivable r = unwrap (rw_miner r)"

definition reward_payable :: "reward \<Rightarrow> string option" where
  "reward_payable r = None"

definition reward_get_amount :: "reward \<Rightarrow> u128" where
  "reward_get_amount r = rw_amount r"

definition reward_get_category :: "reward \<Rightarrow> string option" where
  "reward_get_category r = None"

subsection \<open>Facts\<close>

lemma next_reward_of_genesis: "generate_next_reward adj (reward_genesis m) = Ok (reward_genesis m)"
  by (simp add: generate_next_reward_def reward_genesis_def reward_consts add_or_panic_def checked_add_def)

lemma next_reward_of_default: "generate_next_reward adj reward_default = Ok reward_default"
  by (simp add: generate_next_reward_def reward_default_def reward_consts add_or_panic_def checked_add_def)

lemma next_reward_keeps_block:
  "generate_next_reward adj r = Ok r' \<Longrightarrow> rw_current_block r' = rw_current_block r"
  by (auto simp: generate_next_reward_def Let_def result_simps split: if_splits)

lemma small_word_of_int:
  assumes "0 \<le> s" "s < 2 ^ 127"
  shows "uint (word_of_int s :: u128) = s"
  using assms by (simp add: uint_word_of_int)

lemma negative_word_of_int:
  assumes "s < 0" "- (2 ^ 127) \<le> s"
  shows "MAX_BASELINE_REWARD < (word_of_int s :: u128)"
proof -
  have "s mod 2 ^ 128 = (s + 2 ^ 128) mod 2 ^ 128" by (simp only: mod_add_self2)
  also have "\<dots> = s + 2 ^ 128" using assms by (intro mod_pos_pos_trivial) simp_all
  finally have "uint (word_of_int s :: u128) = s + 2 ^ 128" by (simp add: uint_word_of_int)
  with assms show ?thesis by (simp add: MAX_BASELINE_REWARD_def word_less_def)
qed

text \<open>The amount \<open>generate_next_reward\<close> picks for an adjusted sum.\<close>

definition clamped :: "int \<Rightarrow> int" where
  "clamped s = (if s < 0 then 25 else if s < 15 then 15 else if 25 < s then 25 else s)"

lemma clamp_words:
  fixes a :: u128
  assumes "a = word_of_int s" "- (2 ^ 127) \<le> s" "s < 2 ^ 127"
  shows "uint (if a < MIN_BASELINE_REWARD then MIN_BASELINE_REWARD
               else if MAX_BASELINE_REWARD < a then MAX_BASELINE_REWARD else a) = clamped s"
proof (cases "s < 0")
  case True
  with assms negative_word_of_int have "MAX_BASELINE_REWARD < a" by blast
  then have "\<not> a < MIN_BASELINE_REWARD"
    by (simp add: word_less_def MAX_BASELINE_REWARD_def MIN_BASELINE_REWARD_def)
  with True \<open>MAX_BASELINE_REWARD < a\<close> show ?thesis
    by (simp add: clamped_def MAX_BASELINE_REWARD_def)
next
  case False
  with assms small_word_of_int have "uint a = s" by simp
  with False show ?thesis
    by (simp add: clamped_def word_less_def MAX_BASELINE_REWARD_def MIN_BASELINE_REWARD_def)
qed

subsection \<open>Properties\<close>

text \<open>\<open>generate_next_reward\<close> alone never ends an epoch.  It copies
  \<open>current_block\<close> unchanged, so that any number of successive calls, whatever
  their adjustments, leaves the genesis reward (and the default reward) as it is;
  only a caller that sets \<open>current_block\<close>, as \<open>BlockHeader::new\<close> does, moves it.\<close>

theorem next_reward_needs_current_block:
  "rfold generate_next_reward adjs (reward_genesis m) = Ok (reward_genesis m)
   \<and> rfold generate_next_reward adjs reward_default = Ok reward_default"
  by (induction adjs) (simp_all add: next_reward_of_genesis next_reward_of_default)

text \<open>On the last block of an epoch, when no counter overflows, the next reward
  has the clamped sum of the old amount and the adjustment per block.  The result
  is between the minimum and the maximum; a negative sum becomes the maximum,
  since it is cast to an unsigned number before it is compared.\<close>

theorem next_reward_at_epoch_end:
  assumes "unat (rw_current_block r) + 1 < 2 ^ 128"
    and "(rw_current_block r + 1) mod NUMBER_OF_BLOCKS_PER_EPOCH = 0"
    and "unat (rw_epoch r) + 1 < 2 ^ 128" "unat (rw_next_epoch_block r) + 30000000 < 2 ^ 128"
    and "adjusted_amount adj r = Ok s"
  shows "\<exists>r'. generate_next_reward adj r = Ok r' \<and> uint (rw_amount r') = clamped s
           \<and> 15 \<le> uint (rw_amount r') \<and> uint (rw_amount r') \<le> 25
           \<and> rw_epoch r' = rw_epoch r + 1 \<and> rw_miner r' = None"
proof -
  from assms(5) have s: "- (2 ^ 127) \<le> s" "s < 2 ^ 127"
    by (auto simp: adjusted_amount_def Let_def split: if_splits)
  from clamp_words [OF refl this] assms show ?thesis
    by (simp add: generate_next_reward_def add_or_panic_def checked_add_def Let_def
        NUMBER_OF_BLOCKS_PER_EPOCH_def clamped_def)
qed

definition last_of_epoch :: reward where
  "last_of_epoch = (reward_genesis None) \<lparr> rw_current_block := 29999999 \<rparr>"

theorem next_reward_at_epoch_end_witness:
  "\<exists>r'. generate_next_reward (- 630000000) last_of_epoch = Ok r' \<and> uint (rw_amount r') = 25"
proof -
  have "adjusted_amount (- 630000000) last_of_epoch = Ok (- 1)"
    by (simp add: adjusted_amount_def last_of_epoch_def reward_genesis_def reward_consts
        signed_divide_int_def)
  then have "\<exists>r'. generate_next_reward (- 630000000) last_of_epoch = Ok r'
      \<and> uint (rw_amount r') = clamped (- 1) \<and> 15 \<le> uint (rw_amount r') \<and> uint (rw_amount r') \<le> 25
      \<and> rw_epoch r' = rw_epoch last_of_epoch + 1 \<and> rw_miner r' = None"
    by (intro next_reward_at_epoch_end)
      (simp_all add: last_of_epoch_def reward_genesis_def reward_consts)
  then show ?thesis by (auto simp: clamped_def)
qed

text \<open>\<open>valid_reward\<close>, described as the check that the amount is between the
  bounds, accepts every reward, since it joins the two comparisons by a
  disjunction; the deprecated \<open>update\<close> does produce an amount below the minimum.\<close>

theorem valid_reward_accepts_everything:
  "valid_reward r
   \<and> (\<exists>r'. reward_update (- 570000000) (reward_genesis None) = Ok r' \<and> rw_amount r' = 1
        \<and> rw_amount r' < MIN_BASELINE_REWARD)"
  by (auto simp: valid_reward_def reward_update_def new_epoch_def adjusted_amount_def Let_def
      reward_genesis_def reward_consts signed_divide_int_def add_or_panic_def checked_add_def word_le_nat_alt)

end
