(* ===== verification/Blocks.thy ===== *)
theory Blocks
  imports Claims Rewards Vvrf Floats
begin

text \<open>
  The crate \<open>block\<close>: headers, proposal, convergence and genesis blocks, the trait
  \<open>InnerBlock\<close> through which a header is built on either of the last two, and the
  data a block hands to signature validation.  The clock is an argument \<open>now\<close>.
\<close>

type_synonym ref_hash = string
type_synonym block_hash = string
type_synonym txn_list = "(transaction_digest, transaction_kind) amap"
type_synonym quorum_certified_txn_list = "(transaction_digest, quorum_certified_txn) amap"
type_synonym claim_list = "(u256, claim) amap"

text \<open>A \<open>LinkedHashSet\<close> is a list without repetitions.\<close>

type_synonym consolidated_txns = "(ref_hash, transaction_digest list) amap"
type_synonym consolidated_claims = "(ref_hash, u256 list) amap"
type_synonym quorum_pubkeys = "(string, string) amap"

definition EPOCH_BLOCK :: u32 where "EPOCH_BLOCK = 30000000"

record certificate =
  ce_signature :: string
  ce_inauguration :: "quorum_pubkeys option"
  ce_root_hash :: string
  ce_next_root_hash :: string
  ce_block_hash :: string

record conflict =
  co_txn_id :: transaction_digest
  co_proposers :: "(claim \<times> ref_hash) list"
  co_winner :: "ref_hash option"

record block_header =
  bh_ref_hashes :: "string list"
  bh_epoch :: epoch
  bh_round :: u128
  bh_block_seed :: u64
  bh_next_block_seed :: u64
  bh_block_height :: u128
  bh_timestamp :: int
  bh_txn_hash :: string
  bh_miner_claim :: claim
  bh_claim_list_hash :: string
  bh_block_reward :: reward
  bh_next_block_reward :: reward
  bh_miner_signature :: string

record proposal_block =
  pb_ref_block :: ref_hash
  pb_round :: u128
  pb_epoch :: epoch
  pb_txns :: quorum_certified_txn_list
  pb_claims :: claim_list
  pb_from :: claim
  pb_hash :: block_hash
  pb_signature :: string

record convergence_block =
  cb_header :: block_header
  cb_txns :: consolidated_txns
  cb_claims :: consolidated_claims
  cb_hash :: block_hash
  cb_certificate :: "certificate option"

record genesis_block =
  gb_header :: block_header
  gb_txns :: txn_list
  gb_claims :: claim_list
  gb_hash :: block_hash
  gb_certificate :: "certificate option"

datatype block = Convergence convergence_block | Proposal proposal_block | Genesis genesis_block

subsection \<open>What is serialised\<close>

definition opt_sval :: "('a \<Rightarrow> sval) \<Rightarrow> 'a option \<Rightarrow> sval" where
  "opt_sval f x = SSeq (case x of None \<Rightarrow> [] | Some a \<Rightarrow> [f a])"

definition u256_sval :: "u256 \<Rightarrow> sval" where
  "u256_sval x = SInt (int (u256_val x))"

definition eligibility_sval :: "eligibility \<Rightarrow> sval" where
  "eligibility_sval e = SStr (eligibility_display e)"

definition stake_sval :: "stake \<Rightarrow> sval" where
  "stake_sval s = SSeq [SBytes (st_pubkey s), address_sval (st_from s), opt_sval address_sval (st_to s),
     stake_update_sval (st_amount s), SInt (st_timestamp s), SBytes (st_signature s),
     SBytes (st_quorum_key s), opt_sval (\<lambda>(a, b). SSeq [SBytes a, SBytes b]) (st_certificate s)]"

definition claim_sval :: "claim \<Rightarrow> sval" where
  "claim_sval c = SSeq [SBytes (cl_public_key c), address_sval (cl_address c), u256_sval (cl_hash c),
     eligibility_sval (cl_eligibility c), SStr (cl_ip_address c), SStr (cl_signature c),
     SStr (cl_node_id c), SInt (uint (cl_stake c)), SSeq (map stake_sval (cl_stake_txns c))]"

definition reward_sval :: "reward \<Rightarrow> sval" where
  "reward_sval r = SSeq [SInt (uint (rw_epoch r)), SInt (uint (rw_next_epoch_block r)),
     SInt (uint (rw_current_block r)), opt_sval SStr (rw_miner r), SInt (uint (rw_amount r))]"

definition digest_sval :: "transaction_digest \<Rightarrow> sval" where
  "digest_sval d = SSeq [SBytes (td_inner d), SStr (td_digest_string d)]"

definition transfer_sval :: "transfer \<Rightarrow> sval" where
  "transfer_sval t = SSeq [digest_sval (tr_id t), SInt (tr_timestamp t), address_sval (tr_sender_address t),
     SBytes (tr_sender_public_key t), address_sval (tr_receiver_address t), token_sval (tr_token t),
     SInt (uint (tr_amount t)), SBytes (tr_signature t),
     opt_sval (\<lambda>m. SSeq (map (\<lambda>(k, v). SSeq [SStr k, SBool v]) m)) (tr_validators t),
     SInt (uint (tr_nonce t))]"

definition vote_receipt_sval :: "vote_receipt \<Rightarrow> sval" where
  "vote_receipt_sval v = SSeq [SBytes (vr_farmer_id v), SInt (uint (vr_farmer_node_id v)), SBytes (vr_signature v)]"

definition qct_sval :: "quorum_certified_txn \<Rightarrow> sval" where
  "qct_sval q = SSeq [SBytes (qct_sender_farmer_id q), SSeq (map vote_receipt_sval (qct_votes q)),
     SSeq [SStr ''Transfer'', transfer_sval (kind_transfer (qct_txn q))],
     SBytes (qct_signature q), SBool (qct_is_txn_valid q)]"

definition claim_list_sval :: "claim_list \<Rightarrow> sval" where
  "claim_list_sval m = SSeq (map (\<lambda>(k, v). SSeq [u256_sval k, claim_sval v]) m)"

text \<open>\<open>create_payload!\<close>: the debug texts of the items, hashed into a message.\<close>

definition create_payload :: "crypto \<Rightarrow> sval list \<Rightarrow> bytes" where
  "create_payload cr items = cr_sha256 cr (concat (map (\<lambda>v. str_bytes (cr_debug cr v)) items))"

subsection \<open>Headers\<close>

text \<open>The items of the payload that the miner signs.\<close>

definition header_items ::
  "string list \<Rightarrow> u128 \<Rightarrow> epoch \<Rightarrow> u64 \<Rightarrow> u64 \<Rightarrow> u128 \<Rightarrow> int \<Rightarrow> string \<Rightarrow> claim \<Rightarrow> string \<Rightarrow> reward \<Rightarrow> reward \<Rightarrow> sval list" where
  "header_items refs round epoch seed next_seed height ts txn_hash claim clh reward next_reward =
     [SSeq (map SStr refs), SInt (uint round), SInt (uint epoch), SInt (uint seed), SInt (uint next_seed),
      SInt (uint height), SInt ts, SStr txn_hash, claim_sval claim, SStr clh,
      reward_sval reward, reward_sval next_reward]"

text \<open>\<open>vrf.generate_u64_in_range(u32::MAX as u64, u64::MAX)\<close>.\<close>

definition next_seed_from :: "'r vrf_ops \<Rightarrow> bytes \<Rightarrow> secret_key \<Rightarrow> (unit, u64) result" where
  "next_seed_from vo msg sk =
     rbind (vvrf_new vo msg sk) (\<lambda>v. fst (generate_u64_in_range vo 0xFFFFFFFF 0xFFFFFFFFFFFFFFFF v))"

definition genesis_refs :: "crypto \<Rightarrow> string list" where
  "genesis_refs cr = [cr_hex cr (hash_data cr [SStr ''Genesis_Ref_hash''])]"

definition genesis_message :: "crypto \<Rightarrow> bytes" where
  "genesis_message cr =
     (let refs_hash = cr_hex cr (hash_data cr [SSeq (map SStr (genesis_refs cr))]);
          last_hash = cr_hex cr (hash_data cr [SStr ''Genesis_Last_Hash'']) in
      str_bytes (cr_hex cr (hash_data cr [SStr refs_hash, SStr last_hash])))"

definition header_genesis ::
  "crypto \<Rightarrow> 'r vrf_ops \<Rightarrow> int \<Rightarrow> u64 \<Rightarrow> u128 \<Rightarrow> epoch \<Rightarrow> claim \<Rightarrow> secret_key \<Rightarrow> string
     \<Rightarrow> (unit, block_header) result" where
  "header_genesis cr vo now seed round epoch claim sk clh =
     (let refs = genesis_refs cr in
      rbind (next_seed_from vo (genesis_message cr) sk) (\<lambda>next_seed.
        let txn_hash = cr_hex cr (hash_data cr [SStr ''Genesis_Txn_Hash'']);
            reward = reward_genesis (Some (address_display cr (cl_address claim)));
            next_reward = reward_default;
            payload = create_payload cr (header_items refs round epoch seed next_seed 0 now txn_hash claim clh reward next_reward) in
        Ok \<lparr> bh_ref_hashes = refs, bh_epoch = epoch, bh_round = round, bh_block_seed = 0,
             bh_next_block_seed = next_seed, bh_block_height = 0, bh_timestamp = now,
             bh_txn_hash = txn_hash, bh_miner_claim = claim, bh_claim_list_hash = clh,
             bh_block_reward = reward, bh_next_block_reward = next_reward,
             bh_miner_signature = cr_sig_display cr (cr_sign cr sk payload) \<rparr>))"

text \<open>The body of \<open>BlockHeader::new\<close> after the last block has been matched: it only
  uses what the trait gives of it, its header, its hash, and the seed and the
  reward of the next block.\<close>

definition header_on ::
  "crypto \<Rightarrow> 'r vrf_ops \<Rightarrow> int \<Rightarrow> block_header \<Rightarrow> u64 \<Rightarrow> reward \<Rightarrow> string \<Rightarrow> string list \<Rightarrow> claim \<Rightarrow> secret_key
     \<Rightarrow> string \<Rightarrow> string \<Rightarrow> i128 \<Rightarrow> (unit, block_header) result" where
  "header_on cr vo now lb block_seed last_reward last_hash refs claim sk txn_hash clh adj =
     rbind (add_or_panic (bh_block_height lb) 1) (\<lambda>height.
     let msg = str_bytes (cr_hex cr (hash_data cr [SStr last_hash, SSeq (map SStr refs)])) in
     rbind (next_seed_from vo msg sk) (\<lambda>next_seed.
     let reward = last_reward \<lparr> rw_current_block := height \<rparr> in
     rbind (generate_next_reward adj reward) (\<lambda>next_reward.
     let reward = reward \<lparr> rw_miner := Some (address_display cr (cl_address claim)) \<rparr>;
         epoch = bh_epoch lb in
     rbind (add_or_panic (bh_round lb) 1) (\<lambda>round.
     let payload = create_payload cr
           (header_items refs round epoch block_seed next_seed height now txn_hash claim clh reward next_reward) in
     Ok \<lparr> bh_ref_hashes = refs, bh_epoch = epoch, bh_round = round, bh_block_seed = block_seed,
          bh_next_block_seed = next_seed, bh_block_height = height, bh_timestamp = now,
          bh_txn_hash = txn_hash, bh_miner_claim = claim, bh_claim_list_hash = clh,
          bh_block_reward = reward, bh_next_block_reward = next_reward,
          bh_miner_signature = cr_sig_display cr (cr_sign cr sk payload) \<rparr>))))"

definition header_get_payload :: "crypto \<Rightarrow> block_header \<Rightarrow> bytes" where
  "header_get_payload cr h = create_payload cr
     [SSeq (map SStr (bh_ref_hashes h)), SInt (uint (bh_block_seed h)), SInt (uint (bh_next_block_seed h)),
      SInt (uint (bh_block_height h)), SInt (bh_timestamp h), SStr (bh_txn_hash h),
      claim_sval (bh_miner_claim h), SStr (bh_claim_list_hash h), reward_sval (bh_block_reward h),
      reward_sval (bh_next_block_reward h), SStr (bh_miner_signature h)]"

subsection \<open>The trait \<open>InnerBlock\<close>\<close>

definition cb_get_header :: "convergence_block \<Rightarrow> block_header" where
  "cb_get_header b = cb_header b"
definition cb_get_next_block_seed :: "convergence_block \<Rightarrow> u64" where
  "cb_get_next_block_seed b = bh_next_block_seed (cb_get_header b)"
definition cb_get_next_block_reward :: "convergence_block \<Rightarrow> reward" where
  "cb_get_next_block_reward b = bh_next_block_reward (cb_get_header b)"
definition cb_is_genesis :: "convergence_block \<Rightarrow> bool" where
  "cb_is_genesis b = False"
definition cb_get_hash :: "convergence_block \<Rightarrow> string" where
  "cb_get_hash b = cb_hash b"
definition cb_get_ref_hashes :: "convergence_block \<Rightarrow> string list" where
  "cb_get_ref_hashes b = bh_ref_hashes (cb_header b)"
definition cb_as_static_convergence :: "convergence_block \<Rightarrow> convergence_block option" where
  "cb_as_static_convergence b = Some b"
definition cb_as_static_genesis :: "convergence_block \<Rightarrow> genesis_block option" where
  "cb_as_static_genesis b = None"

definition gb_get_header :: "genesis_block \<Rightarrow> block_header" where
  "gb_get_header b = gb_header b"
definition gb_get_next_block_seed :: "genesis_block \<Rightarrow> u64" where
  "gb_get_next_block_seed b = bh_next_block_seed (gb_get_header b)"
definition gb_get_next_block_reward :: "genesis_block \<Rightarrow> reward" where
  "gb_get_next_block_reward b = bh_next_block_reward (gb_get_header b)"
definition gb_is_genesis :: "genesis_block \<Rightarrow> bool" where
  "gb_is_genesis b = True"
definition gb_get_hash :: "genesis_block \<Rightarrow> string" where
  "gb_get_hash b = gb_hash b"
definition gb_get_ref_hashes :: "genesis_block \<Rightarrow> string list" where
  "gb_get_ref_hashes b = bh_ref_hashes (gb_header b)"
definition gb_as_static_convergence :: "genesis_block \<Rightarrow> convergence_block option" where
  "gb_as_static_convergence b = None"
definition gb_as_static_genesis :: "genesis_block \<Rightarrow> genesis_block option" where
  "gb_as_static_genesis b = Some b"

lemmas inner_block_defs =
  cb_get_header_def cb_get_next_block_seed_def cb_get_next_block_reward_def cb_is_genesis_def
  cb_get_hash_def cb_get_ref_hashes_def cb_as_static_convergence_def cb_as_static_genesis_def
  gb_get_header_def gb_get_next_block_seed_def gb_get_next_block_reward_def gb_is_genesis_def
  gb_get_hash_def gb_get_ref_hashes_def gb_as_static_convergence_def gb_as_static_genesis_def

definition header_new ::
  "crypto \<Rightarrow> 'r vrf_ops \<Rightarrow> int \<Rightarrow> block \<Rightarrow> string list \<Rightarrow> claim \<Rightarrow> secret_key \<Rightarrow> string \<Rightarrow> string \<Rightarrow> i128
     \<Rightarrow> (unit, block_header option) result" where
  "header_new cr vo now last_block refs claim sk txn_hash clh adj =
     (case last_block of
        Convergence b \<Rightarrow>
          rbind (header_on cr vo now (cb_get_header b) (cb_get_next_block_seed b) (cb_get_next_block_reward b)
                   (cb_get_hash b) refs claim sk txn_hash clh adj) (\<lambda>h. Ok (Some h))
      | Genesis b \<Rightarrow>
          rbind (header_on cr vo now (gb_get_header b) (gb_get_next_block_seed b) (gb_get_next_block_reward b)
                   (gb_get_hash b) refs claim sk txn_hash clh adj) (\<lambda>h. Ok (Some h))
      | Proposal _ \<Rightarrow> Ok None)"

subsection \<open>Blocks\<close>

definition is_convergence :: "block \<Rightarrow> bool" where
  "is_convergence b = (case b of Convergence _ \<Rightarrow> True | _ \<Rightarrow> False)"
definition is_proposal :: "block \<Rightarrow> bool" where
  "is_proposal b = (case b of Proposal _ \<Rightarrow> True | _ \<Rightarrow> False)"
definition is_genesis :: "block \<Rightarrow> bool" where
  "is_genesis b = (case b of Genesis _ \<Rightarrow> True | _ \<Rightarrow> False)"

definition block_vertex_index :: "block \<Rightarrow> string" where
  "block_vertex_index b = (case b of Convergence c \<Rightarrow> cb_hash c | Proposal p \<Rightarrow> pb_hash p | Genesis g \<Rightarrow> gb_hash g)"

definition append_certificate :: "certificate \<Rightarrow> convergence_block \<Rightarrow> convergence_block" where
  "append_certificate c b = b \<lparr> cb_certificate := Some c \<rparr>"

definition cb_txn_id_set :: "convergence_block \<Rightarrow> transaction_digest list" where
  "cb_txn_id_set b = remdups (concat (vals (cb_txns b)))"

definition get_hashable_txns :: "quorum_certified_txn_list \<Rightarrow> (string \<times> quorum_certified_txn) list" where
  "get_hashable_txns txns = map (\<lambda>(k, v). (td_digest_string k, v)) txns"

definition proposal_items ::
  "u128 \<Rightarrow> epoch \<Rightarrow> quorum_certified_txn_list \<Rightarrow> claim_list \<Rightarrow> claim \<Rightarrow> sval list" where
  "proposal_items round epoch txns claims from =
     [SInt (uint round), SInt (uint epoch),
      SSeq (map (\<lambda>(k, v). SSeq [SStr k, qct_sval v]) (get_hashable_txns txns)),
      claim_list_sval claims, claim_sval from]"

definition proposal_build ::
  "crypto \<Rightarrow> ref_hash \<Rightarrow> u128 \<Rightarrow> epoch \<Rightarrow> quorum_certified_txn_list \<Rightarrow> claim_list \<Rightarrow> claim \<Rightarrow> secret_key \<Rightarrow> proposal_block" where
  "proposal_build cr ref_block round epoch txns claims from sk =
     (let items = proposal_items round epoch txns claims from;
          signature = (case ecdsa_sign cr (hash_data cr items) sk of Ok s \<Rightarrow> s | _ \<Rightarrow> ''Invalid'');
          hash = cr_hex cr (hash_data cr (items @ [SStr signature])) in
      \<lparr> pb_ref_block = ref_block, pb_round = round, pb_epoch = epoch, pb_txns = txns,
        pb_claims = claims, pb_from = from, pb_hash = hash, pb_signature = signature \<rparr>)"

definition is_current_round :: "u128 \<Rightarrow> proposal_block \<Rightarrow> bool" where
  "is_current_round round p = (pb_round p = round)"

text \<open>The errors of \<open>hex::decode\<close> itself are one value, \<open>HexDecode\<close>.\<close>

datatype from_hex_error = HexDecode | InvalidStringLength

definition decode_signature_share :: "crypto \<Rightarrow> proposal_block \<Rightarrow> (from_hex_error, bytes) result" where
  "decode_signature_share cr p =
     rbind (ok_or HexDecode (cr_unhex cr (pb_signature p))) (\<lambda>b.
       if length b \<noteq> 96 then Err InvalidStringLength else Ok b)"

definition remove_confirmed_txs :: "convergence_block list \<Rightarrow> proposal_block \<Rightarrow> proposal_block" where
  "remove_confirmed_txs prev_blocks p =
     (let prev_block_set = remdups (concat (map cb_txn_id_set prev_blocks));
          curr_set = remdups (keys (pb_txns p));
          prev_confirmed = filter (\<lambda>id. id \<in> set prev_block_set) curr_set in
      p \<lparr> pb_txns := map_retain (\<lambda>id _. id \<in> set prev_confirmed) (pb_txns p) \<rparr>)"

definition pb_txn_id_set :: "proposal_block \<Rightarrow> transaction_digest list" where
  "pb_txn_id_set p = remdups (keys (pb_txns p))"

subsection \<open>Data for signature validation\<close>

datatype signature_type = PartialSignature | ThresholdSignature | ChainLockSignature

record block_validation_data =
  bv_node_idx :: "u16 option"
  bv_payload_hash :: bytes
  bv_signature :: raw_signature
  bv_signature_type :: signature_type

definition decode_signature :: "crypto \<Rightarrow> certificate \<Rightarrow> (from_hex_error, raw_signature) result" where
  "decode_signature cr c = ok_or HexDecode (cr_unhex cr (ce_signature c))"

definition cert_raw_signature :: "crypto \<Rightarrow> certificate option \<Rightarrow> (from_hex_error, raw_signature) result" where
  "cert_raw_signature cr c = (case c of Some x \<Rightarrow> decode_signature cr x | None \<Rightarrow> Err InvalidStringLength)"

definition validation_data ::
  "(from_hex_error, raw_signature) result \<Rightarrow> bytes \<Rightarrow> signature_type \<Rightarrow> (from_hex_error, block_validation_data) result" where
  "validation_data sig payload ty = rbind sig (\<lambda>s.
     Ok \<lparr> bv_node_idx = None, bv_payload_hash = payload, bv_signature = s, bv_signature_type = ty \<rparr>)"

definition genesis_validation_data :: "crypto \<Rightarrow> genesis_block \<Rightarrow> (from_hex_error, block_validation_data) result" where
  "genesis_validation_data cr b = validation_data (cert_raw_signature cr (gb_certificate b)) [] ThresholdSignature"

definition proposal_payload_hash :: "crypto \<Rightarrow> proposal_block \<Rightarrow> bytes" where
  "proposal_payload_hash cr p =
     hash_data cr (proposal_items (pb_round p) (pb_epoch p) (pb_txns p) (pb_claims p) (pb_from p))"

definition proposal_validation_data :: "crypto \<Rightarrow> proposal_block \<Rightarrow> (from_hex_error, block_validation_data) result" where
  "proposal_validation_data cr p =
     validation_data (decode_signature_share cr p) (proposal_payload_hash cr p) PartialSignature"

definition convergence_validation_data :: "crypto \<Rightarrow> convergence_block \<Rightarrow> (from_hex_error, block_validation_data) result" where
  "convergence_validation_data cr b = validation_data (cert_raw_signature cr (cb_certificate b)) [] ThresholdSignature"

subsection \<open>Genesis transactions\<close>

datatype genesis_receiver_kind = Investor | Contributor

record vesting_config =
  vc_cliff_fraction :: f64
  vc_cliff_years :: f64
  vc_unlocks :: nat
  vc_unlock_years :: f64

text \<open>The literals 0.5, 1, 0.25, 0.75 and 1.5 are exact.\<close>

definition EMPLOYEE_VESTING :: vesting_config where
  "EMPLOYEE_VESTING = \<lparr> vc_cliff_fraction = (1, - 1), vc_cliff_years = (1, 0), vc_unlocks = 12, vc_unlock_years = (1, 0) \<rparr>"

definition INVESTOR_VESTING :: vesting_config where
  "INVESTOR_VESTING = \<lparr> vc_cliff_fraction = (1, - 2), vc_cliff_years = (3, - 2), vc_unlocks = 18, vc_unlock_years = (3, - 1) \<rparr>"

record genesis_receiver =
  gr_address :: address
  gr_kind :: genesis_receiver_kind
  gr_vesting_config :: "vesting_config option"

record genesis_config =
  gc_sender :: address
  gc_receivers :: "genesis_receiver list"

definition genesis_config_new :: "address \<Rightarrow> genesis_config" where
  "genesis_config_new sender = \<lparr> gc_sender = sender, gc_receivers = [] \<rparr>"

text \<open>Outside a \<open>mainnet\<close> build the list is empty.\<close>

definition generate_genesis_txns :: "genesis_config \<Rightarrow> txn_list" where
  "generate_genesis_txns cfg = []"

subsection \<open>Facts\<close>

text \<open>What a header built on a block takes from it, through the trait only.\<close>

locale inner_block =
  fixes get_header :: "'b \<Rightarrow> block_header"
    and get_next_block_seed :: "'b \<Rightarrow> u64"
    and get_next_block_reward :: "'b \<Rightarrow> reward"
    and get_hash :: "'b \<Rightarrow> string"
    and get_ref_hashes :: "'b \<Rightarrow> string list"
    and is_gen :: "'b \<Rightarrow> bool"
    and as_static_convergence :: "'b \<Rightarrow> convergence_block option"
    and as_static_genesis :: "'b \<Rightarrow> genesis_block option"
  assumes next_seed: "get_next_block_seed b = bh_next_block_seed (get_header b)"
    and next_reward: "get_next_block_reward b = bh_next_block_reward (get_header b)"
    and ref_hashes: "get_ref_hashes b = bh_ref_hashes (get_header b)"
    and static_genesis: "is_gen b \<longleftrightarrow> as_static_genesis b \<noteq> None"
    and static_convergence: "is_gen b \<longleftrightarrow> as_static_convergence b = None"
begin

lemma header_on_block:
  assumes "header_on cr vo now (get_header b) (get_next_block_seed b) (get_next_block_reward b)
      (get_hash b) refs claim sk txn_hash clh adj = Ok h"
  shows "bh_block_seed h = bh_next_block_seed (get_header b)"
    "unat (bh_block_height h) = unat (bh_block_height (get_header b)) + 1"
    "unat (bh_round h) = unat (bh_round (get_header b)) + 1"
    "bh_epoch h = bh_epoch (get_header b)"
    "bh_block_reward h = (bh_next_block_reward (get_header b))
       \<lparr> rw_current_block := bh_block_height h, rw_miner := Some (address_display cr (cl_address claim)) \<rparr>"
    "generate_next_reward adj ((bh_next_block_reward (get_header b)) \<lparr> rw_current_block := bh_block_height h \<rparr>)
       = Ok (bh_next_block_reward h)"
    "\<exists>msg. next_seed_from vo msg sk = Ok (bh_next_block_seed h)"
    "bh_ref_hashes h = refs"
  using assms
  by (auto simp: header_on_def next_seed next_reward Let_def result_simps checked_add_Some_iff)

lemma exactly_one_static:
  "(as_static_genesis b = None) \<noteq> (as_static_convergence b = None)"
  using static_genesis [of b] static_convergence [of b] by auto

end

interpretation convergence: inner_block cb_get_header cb_get_next_block_seed cb_get_next_block_reward
    cb_get_hash cb_get_ref_hashes cb_is_genesis cb_as_static_convergence cb_as_static_genesis
  by unfold_locales (simp_all add: inner_block_defs)

interpretation genesis: inner_block gb_get_header gb_get_next_block_seed gb_get_next_block_reward
    gb_get_hash gb_get_ref_hashes gb_is_genesis gb_as_static_convergence gb_as_static_genesis
  by unfold_locales (simp_all add: inner_block_defs)

lemma next_seed_from_bounds:
  assumes "next_seed_from vo msg sk = Ok s"
  shows "0xFFFFFFFF \<le> s"
proof -
  obtain v where "fst (draw_in_range vo 8 (0xFFFFFFFF :: u64) 0xFFFFFFFFFFFFFFFF v) = Ok s"
    using assms by (auto simp: next_seed_from_def generate_u64_in_range_def result_simps)
  then show ?thesis
    using draw_in_range_Ok [of "0xFFFFFFFF :: u64" "0xFFFFFFFFFFFFFFFF" vo 8 v] by auto
qed

lemma next_seed_from_Ok:
  assumes "vvrf_new vo msg sk = Ok v"
  shows "\<exists>s. next_seed_from vo msg sk = Ok s"
  using assms draw_in_range_Ok [of "0xFFFFFFFF :: u64" "0xFFFFFFFFFFFFFFFF" vo 8 v]
  by (auto simp: next_seed_from_def generate_u64_in_range_def)

lemma header_genesis_Ok:
  assumes "vvrf_new vo (genesis_message cr) sk = Ok v"
  shows "\<exists>h. header_genesis cr vo now seed round epoch claim sk clh = Ok h"
  using next_seed_from_Ok [OF assms] by (auto simp: header_genesis_def Let_def)

definition in_reward_range :: "reward \<Rightarrow> bool" where
  "in_reward_range r = (15 \<le> rw_amount r \<and> rw_amount r \<le> 25)"

lemma next_reward_in_range:
  assumes "generate_next_reward adj r = Ok r'" "in_reward_range r"
  shows "in_reward_range r'"
  using assms
  by (auto simp: generate_next_reward_def in_reward_range_def result_simps Let_def
      MIN_BASELINE_REWARD_def MAX_BASELINE_REWARD_def not_less split: if_splits)

text \<open>The headers of a chain: a genesis header, then headers built on a genesis or
  a convergence block that carries the previous header.\<close>

definition block_header_of :: "block \<Rightarrow> block_header option" where
  "block_header_of b = (case b of Convergence c \<Rightarrow> Some (cb_header c) | Genesis g \<Rightarrow> Some (gb_header g) | Proposal _ \<Rightarrow> None)"

definition chain_init :: "crypto \<Rightarrow> 'r vrf_ops \<Rightarrow> u128 \<Rightarrow> epoch \<Rightarrow> block_header \<Rightarrow> bool" where
  "chain_init cr vo round epoch h =
     (\<exists>now seed claim sk clh. header_genesis cr vo now seed round epoch claim sk clh = Ok h)"

inductive chain_step :: "crypto \<Rightarrow> 'r vrf_ops \<Rightarrow> block_header \<Rightarrow> block_header \<Rightarrow> bool" for cr :: crypto and vo :: "'r vrf_ops" where
  chain_step_new: "block_header_of b = Some h \<Longrightarrow>
     header_new cr vo now b refs claim sk txn_hash clh adj = Ok (Some h') \<Longrightarrow> chain_step cr vo h h'"

lemma header_new_links:
  assumes "header_new cr vo now b refs claim sk txn_hash clh adj = Ok (Some h')" "block_header_of b = Some h"
  shows "bh_block_seed h' = bh_next_block_seed h \<and> unat (bh_block_height h') = unat (bh_block_height h) + 1
    \<and> unat (bh_round h') = unat (bh_round h) + 1 \<and> bh_epoch h' = bh_epoch h
    \<and> 0xFFFFFFFF \<le> bh_next_block_seed h'
    \<and> rw_amount (bh_block_reward h') = rw_amount (bh_next_block_reward h)
    \<and> (in_reward_range (bh_next_block_reward h) \<longrightarrow> in_reward_range (bh_next_block_reward h'))"
proof (cases b)
  case (Convergence c)
  with assms have "header_on cr vo now (cb_get_header c) (cb_get_next_block_seed c) (cb_get_next_block_reward c)
      (cb_get_hash c) refs claim sk txn_hash clh adj = Ok h'" and "h = cb_get_header c"
    by (auto simp: header_new_def block_header_of_def result_simps inner_block_defs)
  with convergence.header_on_block [OF this(1)] show ?thesis
    using next_seed_from_bounds next_reward_in_range
    by (auto simp: in_reward_range_def)
next
  case (Genesis g)
  with assms have "header_on cr vo now (gb_get_header g) (gb_get_next_block_seed g) (gb_get_next_block_reward g)
      (gb_get_hash g) refs claim sk txn_hash clh adj = Ok h'" and "h = gb_get_header g"
    by (auto simp: header_new_def block_header_of_def result_simps inner_block_defs)
  with genesis.header_on_block [OF this(1)] show ?thesis
    using next_seed_from_bounds next_reward_in_range
    by (auto simp: in_reward_range_def)
qed (use assms in \<open>simp add: header_new_def\<close>)

definition chain_inv :: "u128 \<Rightarrow> epoch \<Rightarrow> block_header \<Rightarrow> bool" where
  "chain_inv round epoch h =
     (bh_epoch h = epoch \<and> unat (bh_round h) = unat round + unat (bh_block_height h)
      \<and> in_reward_range (bh_block_reward h) \<and> in_reward_range (bh_next_block_reward h)
      \<and> 0xFFFFFFFF \<le> bh_next_block_seed h)"

interpretation header_chain: invariant_system "chain_init cr vo round epoch" "chain_step cr vo" "chain_inv round epoch"
  for cr vo round epoch
proof unfold_locales
  show "chain_inv round epoch h" if "chain_init cr vo round epoch h" for h
    using that next_seed_from_bounds
    by (auto simp: chain_init_def chain_inv_def header_genesis_def Let_def result_simps in_reward_range_def
        reward_genesis_def reward_default_def BASELINE_REWARD_def)
  show "chain_inv round epoch t" if "chain_inv round epoch h" "chain_step cr vo h t" for h t
    using that(2,1)
  proof cases
    case (chain_step_new b now refs claim sk txn_hash clh adj)
    from header_new_links [OF this(2,1)] that(1) show ?thesis
      by (auto simp: chain_inv_def in_reward_range_def)
  qed
qed

subsection \<open>Properties\<close>

text \<open>C3: on every chain of headers, from a genesis header through any number of
  headers built on one another: the round advances with the height, the block
  rewards stay between the minimum and the maximum whatever adjustments are asked
  for, the seed drawn for the next block is at least \<open>u32::MAX\<close>, and the epoch
  of the header stays the epoch of the genesis header, also when the reward
  changes its epoch.\<close>

theorem header_chain_invariant:
  assumes "reachable (chain_init cr vo round epoch) (chain_step cr vo) h"
  shows "unat (bh_round h) = unat round + unat (bh_block_height h)
    \<and> 15 \<le> rw_amount (bh_block_reward h) \<and> rw_amount (bh_block_reward h) \<le> 25
    \<and> 15 \<le> rw_amount (bh_next_block_reward h) \<and> rw_amount (bh_next_block_reward h) \<le> 25
    \<and> 0xFFFFFFFF \<le> bh_next_block_seed h \<and> bh_epoch h = epoch"
  using header_chain.reachable_inv [OF assms] by (simp add: chain_inv_def in_reward_range_def)

theorem header_chain_invariant_witness:
  "\<exists>h. header_genesis example_crypto example_vrf 0 7 3 1 example_claim key_a ''claims'' = Ok h
     \<and> bh_epoch h = 1 \<and> unat (bh_round h) = 3 + unat (bh_block_height h)"
proof -
  obtain v where "vvrf_new example_vrf (genesis_message example_crypto) key_a = Ok v"
    using example_vrf_new by blast
  then obtain h where h: "header_genesis example_crypto example_vrf 0 7 3 1 example_claim key_a ''claims'' = Ok h"
    using header_genesis_Ok by blast
  then have "chain_init example_crypto example_vrf 3 1 h" unfolding chain_init_def by blast
  then have "reachable (chain_init example_crypto example_vrf 3 1) (chain_step example_crypto example_vrf) h"
    by (rule reach_init)
  from header_chain_invariant [OF this] h show ?thesis by auto
qed

text \<open>The payload a header offers for checking its signature is not the payload
  that was signed: it leaves out the round and the epoch, so headers that differ
  in nothing else have the same payload.\<close>

theorem header_payload_ignores_round_and_epoch:
  "header_get_payload cr (h \<lparr> bh_round := r, bh_epoch := e \<rparr>) = header_get_payload cr h"
  by (simp add: header_get_payload_def)

text \<open>The hash and the signature of a proposal do not depend on the block it
  refers to: two proposals built from the same round, epoch, transactions, claims
  and key on different reference blocks have the same hash.\<close>

theorem proposal_hash_ignores_ref_block:
  "pb_hash (proposal_build cr r1 round epoch txns claims from sk) = pb_hash (proposal_build cr r2 round epoch txns claims from sk)
   \<and> pb_signature (proposal_build cr r1 round epoch txns claims from sk) = pb_signature (proposal_build cr r2 round epoch txns claims from sk)"
  by (simp add: proposal_build_def Let_def)

text \<open>No proposal built by \<open>ProposalBlock::build\<close> passes its own signature
  decoding: the signature is an ECDSA signature in hexadecimal (at most 72 bytes)
  or the word \<open>Invalid\<close>, while the decoder asks for the 96 bytes of a threshold
  signature share.  Its validation data is always an error.\<close>

theorem built_proposal_never_validates:
  assumes "hex_laws cr"
    and "\<And>k m. length (cr_sig_display cr (cr_sign cr k m)) \<le> 144"
  shows "\<exists>e. proposal_validation_data cr (proposal_build cr ref_block round epoch txns claims from sk) = Err e"
proof -
  let ?p = "proposal_build cr ref_block round epoch txns claims from sk"
  have "length (pb_signature ?p) \<le> 144"
    using assms(2) by (simp add: proposal_build_def Let_def ecdsa_sign_def split: option.splits)
  then have "cr_unhex cr (pb_signature ?p) = Some b \<Longrightarrow> length b \<noteq> 96" for b
    using hex_lawsD(5) [OF assms(1), of "pb_signature ?p" b] by auto
  then show ?thesis
    by (cases "cr_unhex cr (pb_signature ?p)")
      (simp_all add: proposal_validation_data_def validation_data_def decode_signature_share_def)
qed

definition short_sig_crypto :: crypto where
  "short_sig_crypto = example_crypto \<lparr> cr_sign := (\<lambda>sk m. take 32 m) \<rparr>"

theorem built_proposal_never_validates_witness:
  "\<exists>e. proposal_validation_data short_sig_crypto
     (proposal_build short_sig_crypto ''ref'' 1 0 [] [] example_claim key_a) = Err e"
  by (rule built_proposal_never_validates)
    (simp_all add: short_sig_crypto_def hex_laws_def length_hex_dec)

text \<open>\<open>remove_confirmed_txs\<close> does the opposite of its name: the transactions it
  leaves in the proposal are exactly those already confirmed by one of the given
  blocks, and every new transaction is dropped.\<close>

theorem remove_confirmed_keeps_the_confirmed:
  "pb_txns (remove_confirmed_txs bs p)
     = filter (\<lambda>(id, _). \<exists>b\<in>set bs. \<exists>ids\<in>set (vals (cb_txns b)). id \<in> set ids) (pb_txns p)"
proof -
  have "(fst x \<in> set (filter (\<lambda>id. id \<in> set (remdups (concat (map cb_txn_id_set bs)))) (remdups (keys (pb_txns p)))))
      = (\<exists>b\<in>set bs. \<exists>ids\<in>set (vals (cb_txns b)). fst x \<in> set ids)"
    if "x \<in> set (pb_txns p)" for x
    using that by (force simp: cb_txn_id_set_def)
  then have "filter (\<lambda>(id, v). id \<in> set (filter (\<lambda>id. id \<in> set (remdups (concat (map cb_txn_id_set bs)))) (remdups (keys (pb_txns p))))) (pb_txns p)
      = filter (\<lambda>(id, _). \<exists>b\<in>set bs. \<exists>ids\<in>set (vals (cb_txns b)). id \<in> set ids) (pb_txns p)"
    by (intro filter_cong refl) (simp only: split_beta)
  then show ?thesis
    by (simp only: remove_confirmed_txs_def Let_def map_retain_def) simp
qed

theorem remove_confirmed_keeps_the_confirmed_witness:
  "pb_txns (remove_confirmed_txs [] (proposal_build example_crypto ''ref'' 1 0
      [(td_default, quorum_certified_txn_new [] [] (Transfer (transfer_new example_crypto (example_args 5 1))) [] True)]
      [] example_claim key_a)) = []"
  unfolding remove_confirmed_keeps_the_confirmed by simp

end
