(* ===== verification/Left_Right.thy ===== *)
theory Left_Right
  imports Prelude
begin

text \<open>
  The crate \<open>left_right\<close> as its clients use it: a writer appends operations to a
  log, \<open>publish\<close> makes all of them visible, and a reader enters the last
  published copy.  The crate is not part of the repository: its operations are
  the record \<open>lr_ops\<close>, over an opaque handle, and \<open>lr_laws\<close> is its documented
  contract for a type whose \<open>Absorb\<close> implementation is \<open>absorb\<close> and whose initial
  value is \<open>d\<close>.
\<close>

record ('m, 'op, 'h) lr_ops =
  lr_new :: 'h
  lr_append :: "'op \<Rightarrow> 'h \<Rightarrow> 'h"
  lr_publish :: "'h \<Rightarrow> 'h"
  lr_enter :: "'h \<Rightarrow> 'm option"

text \<open>A handle without unpublished operations.\<close>

definition lr_clean :: "('m, 'op, 'h) lr_ops \<Rightarrow> 'h \<Rightarrow> bool" where
  "lr_clean lr h = (h = lr_new lr \<or> (\<exists>h'. h = lr_publish lr h'))"

definition lr_laws :: "('op \<Rightarrow> 'm \<Rightarrow> 'm) \<Rightarrow> 'm \<Rightarrow> ('m, 'op, 'h) lr_ops \<Rightarrow> bool" where
  "lr_laws absorb d lr =
     (lr_enter lr (lr_new lr) = Some d
      \<and> (\<forall>h. lr_clean lr h \<longrightarrow> lr_enter lr h \<noteq> None)
      \<and> (\<forall>op h. lr_enter lr (lr_append lr op h) = lr_enter lr h)
      \<and> (\<forall>h m ops. lr_clean lr h \<longrightarrow> lr_enter lr h = Some m \<longrightarrow>
           lr_enter lr (lr_publish lr (fold (lr_append lr) ops h)) = Some (fold absorb ops m)))"

text \<open>What every client method does: append some operations, then publish.\<close>

definition lr_commit :: "('m, 'op, 'h) lr_ops \<Rightarrow> 'op list \<Rightarrow> 'h \<Rightarrow> 'h" where
  "lr_commit lr ops h = lr_publish lr (fold (lr_append lr) ops h)"

text \<open>The value a reader of a clean handle sees.\<close>

definition lr_view :: "('m, 'op, 'h) lr_ops \<Rightarrow> 'm \<Rightarrow> 'h \<Rightarrow> 'm" where
  "lr_view lr d h = (case lr_enter lr h of Some m \<Rightarrow> m | None \<Rightarrow> d)"

lemma lr_clean_new [simp]: "lr_clean lr (lr_new lr)"
  by (simp add: lr_clean_def)

lemma lr_clean_commit [simp]: "lr_clean lr (lr_commit lr ops h)"
  by (auto simp: lr_clean_def lr_commit_def)

lemma lr_enter_clean: "lr_laws absorb d lr \<Longrightarrow> lr_clean lr h \<Longrightarrow> \<exists>m. lr_enter lr h = Some m"
  by (auto simp: lr_laws_def)

lemma lr_enter_append: "lr_laws absorb d lr \<Longrightarrow> lr_enter lr (fold (lr_append lr) ops h) = lr_enter lr h"
  by (induction ops arbitrary: h) (simp_all add: lr_laws_def)

lemma lr_view_new: "lr_laws absorb d lr \<Longrightarrow> lr_view lr d (lr_new lr) = d"
  by (simp add: lr_laws_def lr_view_def)

lemma lr_view_commit:
  assumes "lr_laws absorb d lr" "lr_clean lr h"
  shows "lr_view lr d (lr_commit lr ops h) = fold absorb ops (lr_view lr d h)"
proof -
  obtain m where "lr_enter lr h = Some m" using assms by (auto simp: lr_laws_def)
  with assms show ?thesis by (simp add: lr_laws_def lr_view_def lr_commit_def)
qed

text \<open>One instance: the published value beside the log.\<close>

definition log_lr :: "('op \<Rightarrow> 'm \<Rightarrow> 'm) \<Rightarrow> 'm \<Rightarrow> ('m, 'op, 'm \<times> 'op list) lr_ops" where
  "log_lr absorb d = \<lparr> lr_new = (d, []), lr_append = (\<lambda>op (m, l). (m, l @ [op])),
     lr_publish = (\<lambda>(m, l). (fold absorb l m, [])), lr_enter = (\<lambda>(m, l). Some m) \<rparr>"

lemma log_lr_laws: "lr_laws absorb d (log_lr absorb d)"
proof -
  have app: "fold (\<lambda>op (m, l). (m, l @ [op])) ops (m, l) = (m, l @ ops)" for ops m l
    by (induction ops arbitrary: l) simp_all
  show ?thesis
    by (auto simp: lr_laws_def lr_clean_def log_lr_def app split: prod.splits)
qed

end
