(* ===== verification/Mempools.thy ===== *)
theory Mempools
  imports Transactions Left_Right
begin

text \<open>
  \<open>mempool/src/mempool.rs\<close>: the pool of unprocessed transactions behind a
  left-right handle.  A pool is the map of the crate \<open>indexmap\<close>; the last entry is
  the one its \<open>pop\<close> returns.
\<close>

datatype txn_status = Pending | Validating | Validated | Rejected

record txn_record =
  txr_txn_id :: transaction_digest
  txr_txn :: transaction_kind
  txr_status :: txn_status
  txr_timestamp :: int
  txr_added_timestamp :: int
  txr_validated_timestamp :: int
  txr_rejected_timestamp :: int
  txr_deleted_timestamp :: int

definition txn_record_new :: "int \<Rightarrow> transaction_kind \<Rightarrow> txn_record" where
  "txn_record_new now txn = \<lparr> txr_txn_id = txn_id txn, txr_txn = txn, txr_status = Pending,
     txr_timestamp = txn_timestamp txn, txr_added_timestamp = now, txr_validated_timestamp = 0,
     txr_rejected_timestamp = 0, txr_deleted_timestamp = 0 \<rparr>"

text \<open>The transaction of such a record is the default one, a null transfer signed
  with a fresh key.\<close>

definition txn_record_new_by_id :: "crypto \<Rightarrow> int \<Rightarrow> secret_key \<Rightarrow> transaction_digest \<Rightarrow> txn_record" where
  "txn_record_new_by_id cr now sk tid = \<lparr> txr_txn_id = tid, txr_txn = Transfer (null_txn cr now sk),
     txr_status = Pending, txr_timestamp = 0, txr_added_timestamp = 0, txr_validated_timestamp = 0,
     txr_rejected_timestamp = 0, txr_deleted_timestamp = 0 \<rparr>"

type_synonym pool_type = "(transaction_digest, txn_record) amap"

record mempool =
  mp_pool :: pool_type

definition mempool_default :: mempool where
  "mempool_default = \<lparr> mp_pool = [] \<rparr>"

definition mempool_len :: "mempool \<Rightarrow> nat" where
  "mempool_len m = length (mp_pool m)"

definition mempool_is_empty :: "mempool \<Rightarrow> bool" where
  "mempool_is_empty m = (mp_pool m = [])"

datatype mempool_op = OpAdd txn_record | OpRemove transaction_digest

fun absorb_first :: "mempool_op \<Rightarrow> mempool \<Rightarrow> mempool" where
  "absorb_first (OpAdd r) m = m \<lparr> mp_pool := map_insert (txr_txn_id r) r (mp_pool m) \<rparr>"
| "absorb_first (OpRemove tid) m = m \<lparr> mp_pool := map_remove tid (mp_pool m) \<rparr>"

definition sync_with :: "mempool \<Rightarrow> mempool \<Rightarrow> mempool" where
  "sync_with first m = first"

type_synonym 'h mempool_lr = "(mempool, mempool_op, 'h) lr_ops"

definition lr_pool :: "'h mempool_lr \<Rightarrow> 'h \<Rightarrow> pool_type" where
  "lr_pool lr h = mp_pool (lr_view lr mempool_default h)"

definition fetch_filtered ::
  "'h mempool_lr \<Rightarrow> u32 \<Rightarrow> (transaction_digest \<Rightarrow> txn_record \<Rightarrow> bool) \<Rightarrow> 'h \<Rightarrow> (unit, txn_record list) result" where
  "fetch_filtered lr amount f h = (case lr_enter lr h of
     Some m \<Rightarrow> (let returned = vals (map_retain f (mp_pool m)) in
       if unat amount \<le> length returned then Ok (take (unat amount) returned) else Panic)
   | None \<Rightarrow> Ok [])"

definition mempool_size :: "'h mempool_lr \<Rightarrow> 'h \<Rightarrow> nat" where
  "mempool_size lr h = length (lr_pool lr h)"

text \<open>The size of a transaction in memory, \<open>sz\<close>, is a constant of the platform.\<close>

definition size_in_kilobytes :: "nat \<Rightarrow> 'h mempool_lr \<Rightarrow> 'h \<Rightarrow> nat" where
  "size_in_kilobytes sz lr h = mempool_size lr h * sz div 1024"

definition mempool_insert :: "nat \<Rightarrow> 'h mempool_lr \<Rightarrow> int \<Rightarrow> transaction_kind \<Rightarrow> 'h \<Rightarrow> nat \<times> 'h" where
  "mempool_insert sz lr now txn h =
     (let h' = lr_commit lr [OpAdd (txn_record_new now txn)] h in (size_in_kilobytes sz lr h', h'))"

definition mempool_get :: "'h mempool_lr \<Rightarrow> transaction_digest \<Rightarrow> 'h \<Rightarrow> txn_record option" where
  "mempool_get lr tid h = (if td_display tid = [] then None else map_of (lr_pool lr h) tid)"

definition get_txn :: "'h mempool_lr \<Rightarrow> transaction_digest \<Rightarrow> 'h \<Rightarrow> transaction_kind option" where
  "get_txn lr tid h = (case mempool_get lr tid h of Some r \<Rightarrow> Some (txr_txn r) | None \<Rightarrow> None)"

text \<open>Each \<open>self.pool()\<close> is a fresh clone, so the \<open>pop\<close> is from a copy.\<close>

function fetch_loop :: "'h mempool_lr \<Rightarrow> nat \<Rightarrow> nat \<Rightarrow> 'h \<Rightarrow> (transaction_digest \<times> txn_record) list" where
  "fetch_loop lr i n h =
     (if n \<le> i then []
      else let p = lr_pool lr h in
        if i = length p then []
        else (if p = [] then [] else [last p]) @ fetch_loop lr (Suc i) n h)"
  by pat_completeness auto
termination
  by (relation "measure (\<lambda>(lr, i, n, h). n - i)") auto

declare fetch_loop.simps [simp del]

definition fetch_txns :: "'h mempool_lr \<Rightarrow> nat \<Rightarrow> 'h \<Rightarrow> (transaction_digest \<times> txn_record) list" where
  "fetch_txns lr n h = fetch_loop lr 0 n h"

definition mempool_extend :: "'h mempool_lr \<Rightarrow> int \<Rightarrow> transaction_kind list \<Rightarrow> 'h \<Rightarrow> 'h" where
  "mempool_extend lr now txns h = lr_commit lr (map (\<lambda>t. OpAdd (txn_record_new now t)) txns) h"

definition extend_with_records :: "'h mempool_lr \<Rightarrow> txn_record list \<Rightarrow> 'h \<Rightarrow> 'h" where
  "extend_with_records lr rs h = lr_commit lr (map OpAdd rs) h"

definition mempool_remove :: "'h mempool_lr \<Rightarrow> transaction_digest \<Rightarrow> 'h \<Rightarrow> 'h" where
  "mempool_remove lr tid h = lr_commit lr [OpRemove tid] h"

definition remove_txn_batch :: "'h mempool_lr \<Rightarrow> transaction_kind list \<Rightarrow> 'h \<Rightarrow> 'h" where
  "remove_txn_batch lr txns h = lr_commit lr (map (\<lambda>t. OpRemove (txn_id t)) txns) h"

definition remove_txns :: "'h mempool_lr \<Rightarrow> transaction_digest list \<Rightarrow> 'h \<Rightarrow> 'h" where
  "remove_txns lr tids h = lr_commit lr (map OpRemove tids) h"

datatype mempool_error = TransactionNotFound transaction_digest

definition is_txn_validated :: "'h mempool_lr \<Rightarrow> transaction_kind \<Rightarrow> 'h \<Rightarrow> (mempool_error, int) result" where
  "is_txn_validated lr txn h = (case mempool_get lr (txn_id txn) h of
     Some r \<Rightarrow> if txr_status r = Validated then Ok (txr_validated_timestamp r)
               else Err (TransactionNotFound (txn_id txn))
   | None \<Rightarrow> Err (TransactionNotFound (txn_id txn)))"

definition mempool_from_pool :: "'h mempool_lr \<Rightarrow> pool_type \<Rightarrow> 'h" where
  "mempool_from_pool lr p = extend_with_records lr (remdups (vals p)) (lr_new lr)"

definition mempool_clone :: "'h mempool_lr \<Rightarrow> 'h \<Rightarrow> 'h" where
  "mempool_clone lr h = mempool_from_pool lr (lr_pool lr h)"

definition factory_entries :: "'h mempool_lr \<Rightarrow> 'h \<Rightarrow> (transaction_digest, txn_record) amap" where
  "factory_entries lr h = map_extend (map (\<lambda>r. (txr_txn_id r, r)) (vals (lr_pool lr h))) []"

definition factory_values :: "'h mempool_lr \<Rightarrow> 'h \<Rightarrow> transaction_kind list" where
  "factory_values lr h = map txr_txn (vals (lr_pool lr h))"

definition factory_get :: "'h mempool_lr \<Rightarrow> transaction_digest \<Rightarrow> 'h \<Rightarrow> txn_record option" where
  "factory_get lr tid h = map_of (lr_pool lr h) tid"

subsection \<open>Facts\<close>

definition pool_inv :: "mempool \<Rightarrow> bool" where
  "pool_inv m = (wf_map (mp_pool m) \<and> (\<forall>(k, r)\<in>set (mp_pool m). txr_txn_id r = k))"

lemma pool_inv_default: "pool_inv mempool_default"
  by (simp add: pool_inv_def mempool_default_def)

lemma pool_inv_absorb: "pool_inv m \<Longrightarrow> pool_inv (absorb_first op m)"
proof (cases op)
  case (OpAdd r)
  assume "pool_inv m"
  then show ?thesis
    using OpAdd set_map_insert_subset [of "txr_txn_id r" r "mp_pool m"] by (auto simp: pool_inv_def)
next
  case (OpRemove tid)
  assume "pool_inv m"
  then show ?thesis
    using OpRemove set_map_remove_subset [of tid "mp_pool m"] by (auto simp: pool_inv_def)
qed

interpretation pool_keys: invariant_system "\<lambda>m. m = mempool_default" "\<lambda>m m'. \<exists>op. m' = absorb_first op m" pool_inv
  by unfold_locales (auto simp: pool_inv_absorb pool_inv_default)

lemma pool_inv_fold: "pool_inv m \<Longrightarrow> pool_inv (fold absorb_first ops m)"
  by (induction ops arbitrary: m) (auto intro: pool_inv_absorb)

text \<open>The handles of a mempool: a new one, and what its methods make of one.\<close>

inductive mempool_handle :: "'h mempool_lr \<Rightarrow> 'h \<Rightarrow> bool" for lr :: "'h mempool_lr" where
  handle_new: "mempool_handle lr (lr_new lr)"
| handle_commit: "mempool_handle lr h \<Longrightarrow> mempool_handle lr (lr_commit lr ops h)"

lemma mempool_handle_clean: "mempool_handle lr h \<Longrightarrow> lr_clean lr h"
  by (induction rule: mempool_handle.induct) simp_all

lemma mempool_handle_inv:
  assumes "lr_laws absorb_first mempool_default lr" "mempool_handle lr h"
  shows "pool_inv (lr_view lr mempool_default h)"
  using assms(2)
proof (induction rule: mempool_handle.induct)
  case handle_new
  show ?case unfolding lr_view_new [OF assms(1)] by (rule pool_keys.inv_init) simp
next
  case (handle_commit h ops)
  then show ?case
    using lr_view_commit [OF assms(1) mempool_handle_clean] pool_inv_fold by metis
qed

lemma lr_pool_commit:
  "lr_laws absorb_first mempool_default lr \<Longrightarrow> mempool_handle lr h \<Longrightarrow>
   lr_pool lr (lr_commit lr ops h) = mp_pool (fold absorb_first ops (lr_view lr mempool_default h))"
  by (simp add: lr_pool_def lr_view_commit mempool_handle_clean)

lemma map_of_fold_add:
  "map_of (mp_pool (fold absorb_first (map OpAdd rs) m)) =
     map_of (mp_pool m) ++ map_of (rev (map (\<lambda>r. (txr_txn_id r, r)) rs))"
  by (induction rs arbitrary: m) (simp_all add: map_add_def fun_eq_iff split: option.splits)

lemma map_of_fold_remove:
  "map_of (mp_pool (fold absorb_first (map OpRemove tids) m)) tid =
     (if tid \<in> set tids then None else map_of (mp_pool m) tid)"
  by (induction tids arbitrary: m) auto

lemma fetch_loop_spec:
  "i \<le> length (lr_pool lr h) \<Longrightarrow>
   fetch_loop lr i n h = replicate (min n (length (lr_pool lr h)) - i) (last (lr_pool lr h))"
proof (induction lr i n h rule: fetch_loop.induct)
  case (1 lr i n h)
  show ?case
  proof (cases "n \<le> i \<or> i = length (lr_pool lr h)")
    case False
    with 1 have "fetch_loop lr (Suc i) n h = replicate (min n (length (lr_pool lr h)) - Suc i) (last (lr_pool lr h))"
      by (simp add: Let_def)
    moreover have "lr_pool lr h \<noteq> []" using False 1(2) by auto
    then have "fetch_loop lr i n h = last (lr_pool lr h) # fetch_loop lr (Suc i) n h"
      using False by (subst fetch_loop.simps) (simp add: Let_def)
    moreover have "min n (length (lr_pool lr h)) - i = Suc (min n (length (lr_pool lr h)) - Suc i)"
      using False 1(2) by auto
    ultimately show ?thesis by (simp only: replicate_Suc)
  qed (auto simp: fetch_loop.simps [of lr i n h] Let_def)
qed

subsection \<open>Properties\<close>

text \<open>C6: seen from outside, a mempool is a map from digests to records: a lookup
  after an insertion, a removal, an extension or a removal of several transactions
  is what the same update of a map gives, and every record is filed under its own
  digest.\<close>

theorem mempool_refines_map:
  assumes "lr_laws absorb_first mempool_default lr" "mempool_handle lr h"
  shows "factory_get lr tid (snd (mempool_insert sz lr now t h))
           = (if tid = txn_id t then Some (txn_record_new now t) else factory_get lr tid h)
    \<and> factory_get lr tid (mempool_remove lr tid' h) = (if tid = tid' then None else factory_get lr tid h)
    \<and> factory_get lr tid (remove_txns lr tids h) = (if tid \<in> set tids then None else factory_get lr tid h)
    \<and> factory_get lr tid (extend_with_records lr rs h)
           = (case map_of (rev (map (\<lambda>r. (txr_txn_id r, r)) rs)) tid of Some r \<Rightarrow> Some r | None \<Rightarrow> factory_get lr tid h)
    \<and> (\<forall>r. factory_get lr tid h = Some r \<longrightarrow> txr_txn_id r = tid)"
proof (intro conjI allI impI)
  note view = lr_view_commit [OF assms(1) mempool_handle_clean [OF assms(2)]]
  show "factory_get lr tid (snd (mempool_insert sz lr now t h))
           = (if tid = txn_id t then Some (txn_record_new now t) else factory_get lr tid h)"
    by (simp add: factory_get_def mempool_insert_def Let_def lr_pool_def view txn_record_new_def)
  show "factory_get lr tid (mempool_remove lr tid' h) = (if tid = tid' then None else factory_get lr tid h)"
    by (simp add: factory_get_def mempool_remove_def lr_pool_def view)
  show "factory_get lr tid (remove_txns lr tids h) = (if tid \<in> set tids then None else factory_get lr tid h)"
    by (simp add: factory_get_def remove_txns_def lr_pool_def view map_of_fold_remove)
  show "factory_get lr tid (extend_with_records lr rs h)
           = (case map_of (rev (map (\<lambda>r. (txr_txn_id r, r)) rs)) tid of Some r \<Rightarrow> Some r | None \<Rightarrow> factory_get lr tid h)"
    by (simp add: factory_get_def extend_with_records_def lr_pool_def view map_of_fold_add map_add_def split: option.splits)
  show "txr_txn_id r = tid" if "factory_get lr tid h = Some r" for r
    using that mempool_handle_inv [OF assms] map_of_SomeD
    by (fastforce simp: factory_get_def lr_pool_def pool_inv_def)
qed

definition example_pool :: "(mempool, mempool_op, mempool \<times> mempool_op list) lr_ops" where
  "example_pool = log_lr absorb_first mempool_default"

lemma example_pool_laws: "lr_laws absorb_first mempool_default example_pool"
  unfolding example_pool_def by (rule log_lr_laws)

definition example_txn :: transaction_kind where
  "example_txn = Transfer (transfer_new example_crypto (example_args 5 1))"

theorem mempool_refines_map_witness:
  "factory_get example_pool (txn_id example_txn)
     (snd (mempool_insert 64 example_pool 9 example_txn (lr_new example_pool)))
     = Some (txn_record_new 9 example_txn)"
  by (simp add: mempool_refines_map [OF example_pool_laws handle_new, THEN conjunct1])

text \<open>\<open>fetch_txns\<close> pops from a copy of the pool.  It returns the last entry as
  many times as transactions were asked for (at most the size of the pool).\<close>

theorem fetch_txns_repeats_last:
  "fetch_txns lr n h = replicate (min n (mempool_size lr h)) (last (lr_pool lr h))"
  by (simp add: fetch_txns_def fetch_loop_spec mempool_size_def)

text \<open>\<open>fetch_filtered\<close> aborts exactly when fewer records match than were asked
  for; otherwise it returns that many matching records.\<close>

theorem fetch_filtered_aborts_when_short:
  assumes "lr_laws absorb_first mempool_default lr" "mempool_handle lr h"
  shows "fetch_filtered lr amount f h =
    (let matching = [r. (k, r) \<leftarrow> lr_pool lr h, f k r] in
     if unat amount \<le> length matching then Ok (take (unat amount) matching) else Panic)"
proof -
  have vals_retain: "vals (map_retain f p) = [r. (k, r) \<leftarrow> p, f k r]" for p
    by (induction p) (auto simp: map_retain_def)
  obtain m where "lr_enter lr h = Some m"
    using lr_enter_clean [OF assms(1) mempool_handle_clean [OF assms(2)]] by blast
  then show ?thesis
    by (simp add: fetch_filtered_def lr_pool_def lr_view_def vals_retain)
qed

theorem fetch_filtered_aborts_when_short_witness:
  "fetch_filtered example_pool 1 (\<lambda>_ _. True) (lr_new example_pool) = Panic"
  unfolding fetch_filtered_aborts_when_short [OF example_pool_laws handle_new]
  using lr_view_new [OF example_pool_laws] by (simp add: lr_pool_def mempool_default_def)

text \<open>Cloning a mempool keeps every lookup.\<close>

theorem mempool_clone_same_lookups:
  assumes "lr_laws absorb_first mempool_default lr" "mempool_handle lr h"
  shows "factory_get lr tid (mempool_clone lr h) = factory_get lr tid h"
proof -
  let ?p = "lr_pool lr h" and ?kr = "\<lambda>r. (txr_txn_id r, r)"
  have inv: "wf_map ?p" "\<forall>(k, r)\<in>set ?p. txr_txn_id r = k"
    using mempool_handle_inv [OF assms] by (simp_all add: lr_pool_def pool_inv_def)
  have "map ?kr (vals ?p) = ?p"
    using inv(2) by (auto intro!: map_idI)
  then have set: "set (map ?kr (remdups (vals ?p))) = set ?p" by (metis list.set_map set_remdups)
  have dist: "distinct (keys (map ?kr (remdups (vals ?p))))"
  proof -
    have "map txr_txn_id (vals ?p) = keys ?p" using inv(2) by auto
    then have "distinct (map txr_txn_id (vals ?p))" using inv(1) by (simp only: wf_map_def)
    then show ?thesis by (auto simp: distinct_map comp_def inj_on_def)
  qed
  have "factory_get lr tid (mempool_clone lr h) = map_of (rev (map ?kr (remdups (vals ?p)))) tid"
    using lr_pool_commit [OF assms(1) handle_new] lr_view_new [OF assms(1)]
    by (simp add: factory_get_def mempool_clone_def mempool_from_pool_def extend_with_records_def
        map_of_fold_add mempool_default_def)
  also have "\<dots> = map_of ?p tid"
  proof -
    have "distinct (keys (rev (map ?kr (remdups (vals ?p)))))"
      using dist by (simp only: rev_map [symmetric] distinct_rev)
    moreover have "distinct (keys ?p)" using inv(1) by (simp only: wf_map_def)
    moreover have "set (rev (map ?kr (remdups (vals ?p)))) = set ?p" using set by (simp only: set_rev)
    ultimately have "map_of (rev (map ?kr (remdups (vals ?p)))) = map_of ?p"
      by (rule map_of_inject_set [THEN iffD2])
    then show ?thesis by (rule fun_cong)
  qed
  finally show ?thesis by (simp add: factory_get_def)
qed

theorem mempool_clone_same_lookups_witness:
  "factory_get example_pool (txn_id example_txn) (mempool_clone example_pool (lr_commit example_pool [OpAdd (txn_record_new 9 example_txn)] (lr_new example_pool)))
   = factory_get example_pool (txn_id example_txn) (lr_commit example_pool [OpAdd (txn_record_new 9 example_txn)] (lr_new example_pool))"
  by (rule mempool_clone_same_lookups [OF example_pool_laws handle_commit [OF handle_new]])

end
