(* ===== verification/State_Updates.thy ===== *)
theory State_Updates
  imports Accounts Blocks
begin

text \<open>
  \<open>storage/vrrbdb/src/types.rs\<close>: how the transactions of a block become updates of
  accounts.  A \<open>HashSet\<close> is a list without repetitions; inserting an element that
  is already there does nothing.
\<close>

definition set_insert :: "'a \<Rightarrow> 'a list \<Rightarrow> 'a list" where
  "set_insert x xs = (if x \<in> set xs then xs else xs @ [x])"

definition set_extend :: "'a list \<Rightarrow> 'a list \<Rightarrow> 'a list" where
  "set_extend ys xs = fold set_insert ys xs"

record round_blocks =
  rb_convergence :: convergence_block
  rb_proposals :: "proposal_block list"

datatype update_account = Sender | Receiver | ClaimUpdate | Fee | RewardUpdate

record state_update =
  su_address :: address
  su_token :: "token option"
  su_amount :: u128
  su_nonce :: "u128 option"
  su_storage :: "string option"
  su_code :: "string option"
  su_digest :: transaction_digest
  su_update_account :: update_account

record into_updates =
  iu_sender_update :: state_update
  iu_receiver_update :: state_update

text \<open>\<open>From<StateUpdate> for UpdateArgs\<close>.\<close>

definition update_args_of :: "state_update \<Rightarrow> update_args" where
  "update_args_of u = (case su_update_account u of
     Sender \<Rightarrow> \<lparr> ua_address = su_address u, ua_nonce = su_nonce u, ua_credits = None,
       ua_debits = Some (su_amount u), ua_storage = Some (su_storage u), ua_code = Some (su_code u),
       ua_digests = Some (insert_sent (su_digest u) digests_default) \<rparr>
   | Receiver \<Rightarrow> \<lparr> ua_address = su_address u, ua_nonce = su_nonce u, ua_credits = Some (su_amount u),
       ua_debits = None, ua_storage = Some (su_storage u), ua_code = Some (su_code u),
       ua_digests = Some (insert_recv (su_digest u) digests_default) \<rparr>
   | ClaimUpdate \<Rightarrow> \<lparr> ua_address = su_address u, ua_nonce = su_nonce u, ua_credits = None,
       ua_debits = None, ua_storage = None, ua_code = None,
       ua_digests = Some (insert_stake (su_digest u) digests_default) \<rparr>
   | Fee \<Rightarrow> \<lparr> ua_address = su_address u, ua_nonce = su_nonce u, ua_credits = Some (su_amount u),
       ua_debits = None, ua_storage = None, ua_code = None, ua_digests = None \<rparr>
   | RewardUpdate \<Rightarrow> \<lparr> ua_address = su_address u, ua_nonce = su_nonce u, ua_credits = Some (su_amount u),
       ua_debits = None, ua_storage = None, ua_code = None, ua_digests = None \<rparr>)"

definition txn_token :: "transaction_kind \<Rightarrow> token" where
  "txn_token t = tr_token (kind_transfer t)"

definition into_updates_from_txn :: "transaction_kind \<Rightarrow> into_updates" where
  "into_updates_from_txn t = \<lparr>
     iu_sender_update = \<lparr> su_address = txn_sender_address t, su_token = Some (txn_token t),
       su_amount = txn_amount t, su_nonce = Some (txn_nonce t), su_storage = None, su_code = None,
       su_digest = txn_id t, su_update_account = Sender \<rparr>,
     iu_receiver_update = \<lparr> su_address = txn_receiver_address t, su_token = Some (txn_token t),
       su_amount = txn_amount t, su_nonce = None, su_storage = None, su_code = None,
       su_digest = txn_id t, su_update_account = Receiver \<rparr> \<rparr>"

definition fee_update :: "address \<Rightarrow> token option \<Rightarrow> u128 \<Rightarrow> state_update" where
  "fee_update a tok amount = \<lparr> su_address = a, su_token = tok, su_amount = amount, su_nonce = None,
     su_storage = None, su_code = None, su_digest = td_default, su_update_account = Fee \<rparr>"

text \<open>The share of a validator is a division by the number of positive votes, which
  aborts when there is none.\<close>

definition fee_updates_from_txn :: "crypto \<Rightarrow> transaction_kind \<Rightarrow> (unit, state_update list) result" where
  "fee_updates_from_txn cr t = (case txn_validators t of
     None \<Rightarrow> Ok []
   | Some votes \<Rightarrow>
       let yes = map_retain (\<lambda>_ vote. vote) votes in
       if yes = [] then Panic
       else let share = txn_validator_fee_share t div of_nat (length yes) in
         Ok (fold (\<lambda>(k, _) acc. case address_from_str cr k of
                 Some a \<Rightarrow> set_insert (fee_update a None share) acc
               | None \<Rightarrow> acc) yes []))"

text \<open>One round of the loop of \<open>from_block\<close>, over the fees so far and the set.\<close>

definition from_block_step ::
  "crypto \<Rightarrow> transaction_digest \<times> quorum_certified_txn \<Rightarrow> u128 \<times> state_update list
     \<Rightarrow> (unit, u128 \<times> state_update list) result" where
  "from_block_step cr entry acc =
     rbind (add_or_panic (fst acc) (qct_proposer_fee_share (snd entry))) (\<lambda>fees.
     let u = into_updates_from_txn (qct_txn (snd entry));
         s = set_insert (iu_receiver_update u) (set_insert (iu_sender_update u) (snd acc)) in
     rbind (fee_updates_from_txn cr (qct_txn (snd entry))) (\<lambda>fs. Ok (fees, set_extend fs s)))"

definition updates_from_block :: "crypto \<Rightarrow> proposal_block \<Rightarrow> (unit, state_update list) result" where
  "updates_from_block cr p =
     rbind (rfold (from_block_step cr) (pb_txns p) (0, [])) (\<lambda>(fees, s).
       Ok (set_insert (fee_update (cl_address (pb_from p)) (Some token_default) fees) s))"

subsection \<open>Facts\<close>

lemma set_set_insert [simp]: "set (set_insert x xs) = insert x (set xs)"
  by (auto simp: set_insert_def)

lemma distinct_set_insert [simp]: "distinct (set_insert x xs) \<longleftrightarrow> distinct xs"
  by (auto simp: set_insert_def)

lemma set_set_extend [simp]: "set (set_extend ys xs) = set ys \<union> set xs"
  unfolding set_extend_def by (induction ys arbitrary: xs) auto

definition validator_updates :: "crypto \<Rightarrow> u128 \<Rightarrow> validator_votes \<Rightarrow> state_update set" where
  "validator_updates cr share votes =
     {fee_update a None share | k a. (k, True) \<in> set votes \<and> address_from_str cr k = Some a}"

lemma fee_fold_set:
  "set (fold (\<lambda>(k, _) acc. case address_from_str cr k of
       Some a \<Rightarrow> set_insert (fee_update a None share) acc | None \<Rightarrow> acc) yes acc)
   = set acc \<union> {fee_update a None share | k v a. (k, v) \<in> set yes \<and> address_from_str cr k = Some a}"
proof (induction yes arbitrary: acc)
  case (Cons kv yes)
  obtain k v where kv: "kv = (k, v)" by (cases kv)
  show ?case
    by (cases "address_from_str cr k") (auto simp: kv Cons.IH)
qed simp

text \<open>The fee updates of a transaction, as a set.\<close>

lemma fee_updates_set:
  assumes "txn_validators t = Some votes" "fee_updates_from_txn cr t = Ok us"
  shows "set us = validator_updates cr
    (txn_validator_fee_share t div of_nat (length (map_retain (\<lambda>_ vote. vote) votes))) votes"
proof -
  let ?yes = "map_retain (\<lambda>_ vote. vote) votes"
  let ?share = "txn_validator_fee_share t div of_nat (length ?yes)"
  have yes: "(k, v) \<in> set ?yes \<longleftrightarrow> v \<and> (k, True) \<in> set votes" for k v
    by (cases v) (auto simp: map_retain_def)
  have "us = fold (\<lambda>(k, _) acc. case address_from_str cr k of
      Some a \<Rightarrow> set_insert (fee_update a None ?share) acc | None \<Rightarrow> acc) ?yes []"
    using assms by (simp add: fee_updates_from_txn_def Let_def split: if_splits)
  then have "set us = {fee_update a None ?share | k v a. (k, v) \<in> set ?yes \<and> address_from_str cr k = Some a}"
    by (simp only: fee_fold_set) simp
  also have "\<dots> = validator_updates cr ?share votes"
    unfolding validator_updates_def yes by blast
  finally show ?thesis .
qed

lemma validator_share_const: "txn_validator_fee_share t = BASE_FEE div 2"
  by (cases t) (simp add: txn_validator_fee_share_def transfer_validator_fee_share_def)

subsection \<open>Properties\<close>

text \<open>Distributing the validator fee of a transaction aborts exactly when it
  carries votes of which none is positive.\<close>

theorem fee_updates_abort_without_yes_vote:
  "fee_updates_from_txn cr t = Panic \<longleftrightarrow>
     (\<exists>votes. txn_validators t = Some votes \<and> True \<notin> set (vals votes))"
proof -
  have "map_retain (\<lambda>_ vote. vote) votes = [] \<longleftrightarrow> True \<notin> set (vals votes)" for votes :: validator_votes
    by (force simp: map_retain_def filter_empty_conv)
  then show ?thesis
    by (cases "txn_validators t") (simp_all add: fee_updates_from_txn_def Let_def)
qed

text \<open>The updates of a block are a set, and a fee update carries no digest, so a
  validator that votes on several transactions of a block in the same way is paid
  once: when all transactions of a block carry the same votes, the fee updates of
  the block are those of any single one of them and the proposer's.\<close>

theorem block_pays_validators_once:
  assumes "pb_txns p \<noteq> []" "\<forall>e\<in>set (pb_txns p). txn_validators (qct_txn (snd e)) = Some votes"
    and "updates_from_block cr p = Ok us"
  shows "\<exists>fees. {u \<in> set us. su_update_account u = Fee}
    = insert (fee_update (cl_address (pb_from p)) (Some token_default) fees)
        (validator_updates cr (BASE_FEE div 2 div of_nat (length (map_retain (\<lambda>_ vote. vote) votes))) votes)"
proof -
  let ?V = "validator_updates cr (BASE_FEE div 2 div of_nat (length (map_retain (\<lambda>_ vote. vote) votes))) votes"
  let ?F = "\<lambda>us. {u \<in> set us. su_update_account u = Fee}"
  have V_fee: "u \<in> ?V \<Longrightarrow> su_update_account u = Fee" for u
    by (auto simp: validator_updates_def fee_update_def)
  have step: "?F (snd acc') = ?F (snd acc) \<union> ?V"
    if "from_block_step cr e acc = Ok acc'" "e \<in> set (pb_txns p)" for e acc acc'
  proof -
    from that(1) obtain fs where fs: "fee_updates_from_txn cr (qct_txn (snd e)) = Ok fs"
      and acc': "snd acc' = set_extend fs (set_insert (iu_receiver_update (into_updates_from_txn (qct_txn (snd e))))
        (set_insert (iu_sender_update (into_updates_from_txn (qct_txn (snd e)))) (snd acc)))"
      by (auto simp: from_block_step_def Let_def result_simps)
    have "set fs = ?V"
      using fee_updates_set [OF _ fs] assms(2) that(2) by (simp add: validator_share_const)
    then show ?thesis using V_fee by (auto simp: acc' into_updates_from_txn_def)
  qed
  have all: "?F (snd acc') = ?F (snd acc) \<union> (if es = [] then {} else ?V)"
    if "rfold (from_block_step cr) es acc = Ok acc'" "set es \<subseteq> set (pb_txns p)" for es acc acc'
    using that
  proof (induction es arbitrary: acc)
    case (Cons e es)
    then obtain m where "from_block_step cr e acc = Ok m" "rfold (from_block_step cr) es m = Ok acc'"
      by (auto simp: result_simps)
    with Cons.IH [of m] Cons.prems(2) step [of e acc m] show ?case by auto
  qed simp
  from assms(3) obtain fees s where r: "rfold (from_block_step cr) (pb_txns p) (0, []) = Ok (fees, s)"
    and us: "us = set_insert (fee_update (cl_address (pb_from p)) (Some token_default) fees) s"
    by (auto simp: updates_from_block_def result_simps)
  have "?F s = ?V" using all [OF r] assms(1) by simp
  then show ?thesis unfolding us by (auto simp: fee_update_def)
qed

definition voted_txn :: "u128 \<Rightarrow> transaction_kind" where
  "voted_txn nonce = Transfer (transfer_new example_crypto (example_args 5 nonce)
     \<lparr> tr_validators := Some [(''v'', True), (''w'', False)] \<rparr>)"

definition voted_block :: proposal_block where
  "voted_block = proposal_build example_crypto ''ref'' 1 0
     (map (\<lambda>n. (td_default, quorum_certified_txn_new [] [] (voted_txn n) [] True)) [1, 2])
     [] example_claim key_a"

theorem block_pays_validators_once_witness:
  "\<exists>us fees. updates_from_block example_crypto voted_block = Ok us \<and>
     {u \<in> set us. su_update_account u = Fee}
       = insert (fee_update (cl_address example_claim) (Some token_default) fees)
           (validator_updates example_crypto (BASE_FEE div 2) [(''v'', True), (''w'', False)])"
proof -
  have votes: "txn_validators (voted_txn n) = Some [(''v'', True), (''w'', False)]" for n
    by (simp add: voted_txn_def txn_validators_def)
  have txns: "pb_txns voted_block
      = map (\<lambda>n. (td_default, quorum_certified_txn_new [] [] (voted_txn n) [] True)) [1, 2]"
    by (simp add: voted_block_def proposal_build_def Let_def)
  have "\<exists>us. updates_from_block example_crypto voted_block = Ok us"
    by (simp add: updates_from_block_def txns from_block_step_def result_simps Let_def votes
        fee_updates_from_txn_def map_retain_def quorum_certified_txn_new_def qct_proposer_fee_share_def
        add_or_panic_def checked_add_def txn_proposer_fee_share_def transfer_proposer_fee_share_def BASE_FEE_def)
  then obtain us where us: "updates_from_block example_crypto voted_block = Ok us" by blast
  have "pb_from voted_block = example_claim"
    by (simp add: voted_block_def proposal_build_def Let_def)
  then show ?thesis
    using block_pays_validators_once [OF _ _ us, of "[(''v'', True), (''w'', False)]"] us
    by (auto simp: txns votes quorum_certified_txn_new_def map_retain_def)
qed

end
