(* ===== verification/Stores.thy ===== *)
theory Stores
  imports State_Updates Left_Right
begin

text \<open>
  \<open>storage/vrrbdb\<close>: the stores of accounts, transactions and claims and the
  database over them.  Each store holds a \<open>LeftRightTrie\<close> of the crate
  \<open>integral_db\<close>, which is not part of the repository.  It is used as a map behind
  the writer and readers of \<open>Left_Right\<close>: \<open>insert\<close>, \<open>update\<close> and \<open>extend\<close> append to
  the log, \<open>publish\<close> makes the log visible, a read handle sees the published map,
  and a key that is not there is an error.  The text of that error and the root
  hash are fields of the record.  The clock is read from the state in which an
  update is made.
\<close>

datatype ('k, 'v) trie_op =
    TrieAdd 'k 'v
  | TrieUpdate 'k 'v
  | TrieExtend "('k \<times> 'v option) list"

fun trie_absorb :: "('k, 'v) trie_op \<Rightarrow> ('k, 'v) amap \<Rightarrow> ('k, 'v) amap" where
  "trie_absorb (TrieAdd k v) m = map_insert k v m"
| "trie_absorb (TrieUpdate k v) m = map_insert k v m"
| "trie_absorb (TrieExtend kvs) m =
     fold (\<lambda>(k, vo) m. case vo of Some v \<Rightarrow> map_insert k v m | None \<Rightarrow> map_remove k m) kvs m"

type_synonym root_hash = bytes

record ('k, 'v, 'h) trie_ops =
  to_lr :: "(('k, 'v) amap, ('k, 'v) trie_op, 'h) lr_ops"
  to_missing :: "'k \<Rightarrow> string"
  to_root :: "'h \<Rightarrow> (string, root_hash) result"

definition trie_laws :: "('k, 'v, 'h) trie_ops \<Rightarrow> bool" where
  "trie_laws tr = lr_laws trie_absorb [] (to_lr tr)"

definition trie_push :: "('k, 'v, 'h) trie_ops \<Rightarrow> ('k, 'v) trie_op \<Rightarrow> 'h \<Rightarrow> 'h" where
  "trie_push tr op h = lr_append (to_lr tr) op h"

definition trie_publish :: "('k, 'v, 'h) trie_ops \<Rightarrow> 'h \<Rightarrow> 'h" where
  "trie_publish tr h = lr_publish (to_lr tr) h"

text \<open>What a read handle sees; a handle that cannot be entered is an empty tree.\<close>

definition trie_read :: "('k, 'v, 'h) trie_ops \<Rightarrow> 'h \<Rightarrow> ('k, 'v) amap" where
  "trie_read tr h = (case lr_enter (to_lr tr) h of Some m \<Rightarrow> m | None \<Rightarrow> [])"

definition trie_get :: "('k, 'v, 'h) trie_ops \<Rightarrow> 'k \<Rightarrow> 'h \<Rightarrow> (string, 'v) result" where
  "trie_get tr k h = ok_or (to_missing tr k) (map_of (trie_read tr h) k)"

text \<open>\<open>StorageError::Other\<close> with a text, with the text of an account error, and with
  the text that \<open>get_account_by_address\<close> puts around an error.\<close>

datatype storage_error =
    StOther string
  | StAccount account_error
  | StGetAccount storage_error

subsection \<open>The state store\<close>

record 'h state_env =
  se_crypto :: crypto
  se_clock :: "'h \<Rightarrow> int"
  se_trie :: "(address, account, 'h) trie_ops"

definition state_get :: "'h state_env \<Rightarrow> address \<Rightarrow> 'h \<Rightarrow> (storage_error, account) result" where
  "state_get env k h = map_err StOther (trie_get (se_trie env) k h)"

definition state_commit :: "'h state_env \<Rightarrow> 'h \<Rightarrow> 'h" where
  "state_commit env h = trie_publish (se_trie env) h"

definition state_batch_get ::
  "'h state_env \<Rightarrow> address list \<Rightarrow> 'h \<Rightarrow> (address, account option) amap" where
  "state_batch_get env ks h =
     fold (\<lambda>k m. map_insert k (case state_get env k h of Ok a \<Rightarrow> Some a | _ \<Rightarrow> None) m) ks []"

text \<open>\<open>entries\<close> keys the accounts by their own address, not by the key they are stored under.\<close>

definition state_entries :: "'h state_env \<Rightarrow> 'h \<Rightarrow> (address, account) amap" where
  "state_entries env h =
     map_extend (map (\<lambda>(_, a). (acc_address a, a)) (trie_read (se_trie env) h)) []"

definition insert_uncommited ::
  "'h state_env \<Rightarrow> address \<Rightarrow> account \<Rightarrow> 'h \<Rightarrow> (storage_error, unit) result \<times> 'h" where
  "insert_uncommited env k a h =
     (if acc_debits a \<noteq> 0 then (Err (StOther ''cannot insert account with debit''), h)
      else if acc_nonce a \<noteq> 0 then
        (Err (StOther ''cannot insert account with nonce bigger than 0''), h)
      else (Ok (), trie_push (se_trie env) (TrieAdd k a) h))"

definition state_insert ::
  "'h state_env \<Rightarrow> address \<Rightarrow> account \<Rightarrow> 'h \<Rightarrow> (storage_error, unit) result \<times> 'h" where
  "state_insert env k a h = (case insert_uncommited env k a h of
     (Ok u, h') \<Rightarrow> (Ok (), state_commit env h') | (r, h') \<Rightarrow> (r, h'))"

fun batch_insert_uncommited ::
  "'h state_env \<Rightarrow> (address \<times> account) list \<Rightarrow> 'h
     \<Rightarrow> (address \<times> account \<times> storage_error) list \<times> 'h" where
  "batch_insert_uncommited env [] h = ([], h)"
| "batch_insert_uncommited env ((k, a) # kas) h =
     (case insert_uncommited env k a h of
        (Err e, h') \<Rightarrow> (case batch_insert_uncommited env kas h' of (fs, h'') \<Rightarrow> ((k, a, e) # fs, h''))
      | (_, h') \<Rightarrow> batch_insert_uncommited env kas h')"

definition state_batch_insert ::
  "'h state_env \<Rightarrow> (address \<times> account) list \<Rightarrow> 'h
     \<Rightarrow> (address \<times> account \<times> storage_error) list option \<times> 'h" where
  "state_batch_insert env kas h = (case batch_insert_uncommited env kas h of
     (fs, h') \<Rightarrow> (if fs = [] then None else Some fs, state_commit env h'))"

definition update_uncommited ::
  "'h state_env \<Rightarrow> address \<Rightarrow> update_args \<Rightarrow> 'h \<Rightarrow> (storage_error, unit) result \<times> 'h" where
  "update_uncommited env k args h = (case state_get env k h of
     Err e \<Rightarrow> (Err e, h)
   | Panic \<Rightarrow> (Panic, h)
   | Ok a \<Rightarrow> (case account_update (se_crypto env) (se_clock env h) args a of
       (Ok u, a') \<Rightarrow> (Ok (), trie_push (se_trie env) (TrieUpdate k a') h)
     | (Err e, a') \<Rightarrow> (Err (StAccount e), h)
     | (Panic, a') \<Rightarrow> (Panic, h)))"

definition state_update_op ::
  "'h state_env \<Rightarrow> update_args \<Rightarrow> 'h \<Rightarrow> (storage_error, unit) result \<times> 'h" where
  "state_update_op env args h = (case update_uncommited env (ua_address args) args h of
     (Ok u, h') \<Rightarrow> (Ok (), state_commit env h') | (r, h') \<Rightarrow> (r, h'))"

definition state_extend :: "'h state_env \<Rightarrow> (address \<times> account option) list \<Rightarrow> 'h \<Rightarrow> 'h" where
  "state_extend env kas h = trie_push (se_trie env) (TrieExtend kas) h"

definition state_root_hash :: "'h state_env \<Rightarrow> 'h \<Rightarrow> (storage_error, root_hash) result" where
  "state_root_hash env h = map_err StOther (to_root (se_trie env) h)"

subsubsection \<open>\<open>batch_update\<close>\<close>

text \<open>The derived \<open>Default\<close> of an account starts with the default address.\<close>

definition account_default :: "crypto \<Rightarrow> ('e, account) result" where
  "account_default cr = rbind (address_default cr) (\<lambda>ad. Ok
     \<lparr> acc_address = ad, acc_hash = [], acc_nonce = 0, acc_credits = 0, acc_debits = 0,
       acc_storage = None, acc_code = None, acc_pubkey = [], acc_digests = digests_default,
       acc_created_at = 0, acc_updated_at = None \<rparr>)"

fun nonce_key :: "u128 option \<Rightarrow> nat" where
  "nonce_key None = 0"
| "nonce_key (Some n) = Suc (unat n)"

fun group_updates ::
  "(address \<times> update_args) list \<Rightarrow> (address, update_args list) amap \<Rightarrow> (address, update_args list) amap" where
  "group_updates [] m = m"
| "group_updates ((k, u) # kus) m = group_updates kus
     (map_insert k ((case map_of m k of Some us \<Rightarrow> us | None \<Rightarrow> []) @ [u]) m)"

fun apply_updates ::
  "crypto \<Rightarrow> int \<Rightarrow> update_args list \<Rightarrow> account \<Rightarrow> (account_error, account) result" where
  "apply_updates cr now [] a = Ok a"
| "apply_updates cr now (u # us) a = (case account_update cr now u a of
     (Ok _, a') \<Rightarrow> apply_updates cr now us a' | (Err e, _) \<Rightarrow> Err e | (Panic, _) \<Rightarrow> Panic)"

type_synonym failed_updates = "(address \<times> update_args list \<times> storage_error) list"

definition apply_batch ::
  "'h state_env \<Rightarrow> address \<times> update_args list \<Rightarrow> failed_updates \<times> 'h
     \<Rightarrow> (storage_error, failed_updates \<times> 'h) result" where
  "apply_batch env batch st = rbind (account_default (se_crypto env)) (\<lambda>_ :: account.
     case state_get env (fst batch) (snd st) of
       Err e \<Rightarrow> Ok (fst st @ [(fst batch, snd batch, e)], snd st)
     | Panic \<Rightarrow> Panic
     | Ok a \<Rightarrow> (case apply_updates (se_crypto env) (se_clock env (snd st)) (snd batch) a of
         Ok a' \<Rightarrow> Ok (fst st, trie_push (se_trie env) (TrieAdd (fst batch) a') (snd st))
       | Err e \<Rightarrow> Ok (fst st @ [(fst batch, snd batch, StAccount e)], snd st)
       | Panic \<Rightarrow> Panic))"

definition batch_update ::
  "'h state_env \<Rightarrow> (address \<times> update_args) list \<Rightarrow> 'h
     \<Rightarrow> (storage_error, failed_updates option \<times> 'h) result" where
  "batch_update env updates h =
     rbind (rfold (apply_batch env)
         (group_updates (sort_key (\<lambda>ku. nonce_key (ua_nonce (snd ku))) updates) []) ([], h)) (\<lambda>(fs, h').
       Ok (if fs = [] then None else Some fs,
           if length fs \<noteq> length updates then state_commit env h' else h'))"

subsection \<open>The transaction store\<close>

definition txn_digest :: "transaction_kind \<Rightarrow> transaction_digest" where
  "txn_digest t = txn_id t"

type_synonym 'h txn_trie = "(transaction_digest, transaction_kind, 'h) trie_ops"

definition txn_store_insert ::
  "'h txn_trie \<Rightarrow> transaction_kind \<Rightarrow> 'h \<Rightarrow> (storage_error, unit) result \<times> 'h" where
  "txn_store_insert tr t h = (Ok (), trie_push tr (TrieAdd (txn_digest t) t) h)"

definition txn_store_extend :: "'h txn_trie \<Rightarrow> transaction_kind list \<Rightarrow> 'h \<Rightarrow> 'h" where
  "txn_store_extend tr ts h = trie_push tr (TrieExtend (map (\<lambda>t. (txn_digest t, Some t)) ts)) h"

definition txn_store_root_hash :: "'h txn_trie \<Rightarrow> 'h \<Rightarrow> (storage_error, root_hash) result" where
  "txn_store_root_hash tr h = map_err StOther (to_root tr h)"

definition txn_store_batch_get ::
  "'h txn_trie \<Rightarrow> transaction_digest list \<Rightarrow> 'h \<Rightarrow> (transaction_digest, transaction_kind option) amap" where
  "txn_store_batch_get tr ks h =
     fold (\<lambda>k m. map_insert k (case trie_get tr k h of Ok t \<Rightarrow> Some t | _ \<Rightarrow> None) m) ks []"

definition txn_store_entries :: "'h txn_trie \<Rightarrow> 'h \<Rightarrow> (transaction_digest, transaction_kind) amap" where
  "txn_store_entries tr h = map_extend (map (\<lambda>(_, t). (txn_digest t, t)) (trie_read tr h)) []"

subsection \<open>The claim store\<close>

type_synonym 'h claim_trie = "(u256, claim, 'h) trie_ops"

definition claim_insert_uncommited ::
  "'h claim_trie \<Rightarrow> claim \<Rightarrow> 'h \<Rightarrow> (storage_error, unit) result \<times> 'h" where
  "claim_insert_uncommited tr c h = (Ok (), trie_push tr (TrieAdd (cl_hash c) c) h)"

definition claim_insert :: "'h claim_trie \<Rightarrow> claim \<Rightarrow> 'h \<Rightarrow> (storage_error, unit) result \<times> 'h" where
  "claim_insert tr c h = (case claim_insert_uncommited tr c h of
     (Ok u, h') \<Rightarrow> (Ok (), trie_publish tr h') | (r, h') \<Rightarrow> (r, h'))"

fun claim_batch_insert_uncommited ::
  "'h claim_trie \<Rightarrow> (u256 \<times> claim) list \<Rightarrow> 'h \<Rightarrow> (u256 \<times> claim \<times> storage_error) list \<times> 'h" where
  "claim_batch_insert_uncommited tr [] h = ([], h)"
| "claim_batch_insert_uncommited tr ((k, c) # kcs) h =
     (case claim_insert_uncommited tr c h of
        (Err e, h') \<Rightarrow> (case claim_batch_insert_uncommited tr kcs h' of (fs, h'') \<Rightarrow> ((k, c, e) # fs, h''))
      | (_, h') \<Rightarrow> claim_batch_insert_uncommited tr kcs h')"

definition claim_batch_insert ::
  "'h claim_trie \<Rightarrow> (u256 \<times> claim) list \<Rightarrow> 'h \<Rightarrow> (u256 \<times> claim \<times> storage_error) list option \<times> 'h" where
  "claim_batch_insert tr kcs h = (case claim_batch_insert_uncommited tr kcs h of
     (fs, h') \<Rightarrow> (if fs = [] then None else Some fs, trie_publish tr h'))"

definition claim_extend :: "'h claim_trie \<Rightarrow> (u256 \<times> claim option) list \<Rightarrow> 'h \<Rightarrow> 'h" where
  "claim_extend tr kcs h = trie_push tr (TrieExtend kcs) h"

text \<open>\<open>entries\<close> keys the claims by their node.\<close>

definition claim_entries :: "'h claim_trie \<Rightarrow> 'h \<Rightarrow> (node_id, claim) amap" where
  "claim_entries tr h = map_extend (map (\<lambda>(_, c). (cl_node_id c, c)) (trie_read tr h)) []"

subsection \<open>Published and pending\<close>

text \<open>The abstraction of a handle: the map its readers see and the operations that
  wait for the next \<open>publish\<close>.\<close>

definition holds :: "('k, 'v, 'h) trie_ops \<Rightarrow> 'h \<Rightarrow> ('k, 'v) amap \<Rightarrow> ('k, 'v) trie_op list \<Rightarrow> bool" where
  "holds tr h pub ops = (\<exists>h0. lr_clean (to_lr tr) h0 \<and> lr_enter (to_lr tr) h0 = Some pub
     \<and> h = fold (lr_append (to_lr tr)) ops h0)"

lemma holds_new: "trie_laws tr \<Longrightarrow> holds tr (lr_new (to_lr tr)) [] []"
  unfolding holds_def trie_laws_def lr_laws_def
  by (rule exI [of _ "lr_new (to_lr tr)"]) simp

lemma holds_read: "trie_laws tr \<Longrightarrow> holds tr h pub ops \<Longrightarrow> trie_read tr h = pub"
  by (auto simp: holds_def trie_laws_def trie_read_def lr_enter_append)

lemma holds_get:
  "trie_laws tr \<Longrightarrow> holds tr h pub ops \<Longrightarrow> trie_get tr k h = ok_or (to_missing tr k) (map_of pub k)"
  by (simp add: trie_get_def holds_read)

lemma holds_push: "holds tr h pub ops \<Longrightarrow> holds tr (trie_push tr op h) pub (ops @ [op])"
  by (auto simp: holds_def trie_push_def)

lemma holds_publish:
  assumes "trie_laws tr" "holds tr h pub ops"
  shows "holds tr (trie_publish tr h) (fold trie_absorb ops pub) []"
proof -
  from assms(2) obtain h0 where h0: "lr_clean (to_lr tr) h0" "lr_enter (to_lr tr) h0 = Some pub"
    "h = fold (lr_append (to_lr tr)) ops h0"
    by (auto simp: holds_def)
  have "lr_clean (to_lr tr) (lr_publish (to_lr tr) h)"
    unfolding lr_clean_def by blast
  moreover have "lr_enter (to_lr tr) (lr_publish (to_lr tr) h) = Some (fold trie_absorb ops pub)"
    using assms(1) h0 by (simp add: trie_laws_def lr_laws_def)
  ultimately show ?thesis by (simp add: holds_def trie_publish_def)
qed

text \<open>Values of a property stay such, in the published map and in the log.\<close>

fun op_vals :: "('k, 'v) trie_op \<Rightarrow> 'v set" where
  "op_vals (TrieAdd k v) = {v}"
| "op_vals (TrieUpdate k v) = {v}"
| "op_vals (TrieExtend kvs) = {v. Some v \<in> snd ` set kvs}"

lemma vals_insert_subset: "set (vals (map_insert k v m)) \<subseteq> insert v (set (vals m))"
  using image_mono [OF set_map_insert_subset, of snd k v m] by simp

lemma vals_remove_subset: "set (vals (map_remove k m)) \<subseteq> set (vals m)"
  using image_mono [OF set_map_remove_subset, of snd k m] by simp

lemma vals_absorb_extend:
  "set (vals (trie_absorb (TrieExtend kvs) m)) \<subseteq> {v. Some v \<in> snd ` set kvs} \<union> set (vals m)"
proof (induction kvs arbitrary: m)
  case (Cons kv kvs)
  obtain k vo where kv: "kv = (k, vo)" by (cases kv)
  show ?case
  proof (cases vo)
    case None
    have "set (vals (trie_absorb (TrieExtend (kv # kvs)) m))
        = set (vals (trie_absorb (TrieExtend kvs) (map_remove k m)))"
      by (simp add: kv None)
    with Cons.IH [of "map_remove k m"] vals_remove_subset [of k m] show ?thesis
      by (simp add: kv None) blast
  next
    case (Some v)
    have "set (vals (trie_absorb (TrieExtend (kv # kvs)) m))
        = set (vals (trie_absorb (TrieExtend kvs) (map_insert k v m)))"
      by (simp add: kv Some)
    with Cons.IH [of "map_insert k v m"] vals_insert_subset [of k v m] show ?thesis
      by (simp add: kv Some) blast
  qed
qed simp

lemma vals_absorb: "set (vals (trie_absorb op m)) \<subseteq> op_vals op \<union> set (vals m)"
  using vals_insert_subset vals_absorb_extend by (cases op) (simp_all del: set_map)

lemma vals_absorbs:
  "set (vals (fold trie_absorb ops m)) \<subseteq> (\<Union>op\<in>set ops. op_vals op) \<union> set (vals m)"
proof (induction ops arbitrary: m)
  case (Cons op ops)
  have "set (vals (fold trie_absorb ops (trie_absorb op m)))
      \<subseteq> (\<Union>op\<in>set ops. op_vals op) \<union> set (vals (trie_absorb op m))"
    by (rule Cons.IH)
  with vals_absorb [of op m] show ?case by (simp del: set_map) blast
qed simp

lemma wf_absorb: "wf_map m \<Longrightarrow> wf_map (trie_absorb op m)"
proof (induction op)
  case (TrieExtend kvs)
  have "wf_map m \<Longrightarrow> wf_map (fold (\<lambda>(k, vo) m. case vo of Some v \<Rightarrow> map_insert k v m | None \<Rightarrow> map_remove k m) kvs m)"
    by (induction kvs arbitrary: m) (auto split: option.splits)
  with TrieExtend show ?case by simp
qed simp_all

lemma wf_absorbs: "wf_map m \<Longrightarrow> wf_map (fold trie_absorb ops m)"
  by (induction ops arbitrary: m) (simp_all add: wf_absorb)

definition all_stored :: "('v \<Rightarrow> bool) \<Rightarrow> ('k, 'v, 'h) trie_ops \<Rightarrow> 'h \<Rightarrow> bool" where
  "all_stored P tr h = (trie_laws tr \<and> (\<exists>pub ops. holds tr h pub ops \<and> wf_map pub
     \<and> (\<forall>v\<in>set (vals pub). P v) \<and> (\<forall>op\<in>set ops. \<forall>v\<in>op_vals op. P v)))"

lemma all_stored_new: "trie_laws tr \<Longrightarrow> all_stored P tr (lr_new (to_lr tr))"
  unfolding all_stored_def using holds_new by fastforce

lemma all_stored_push:
  assumes "all_stored P tr h" "\<And>v. v \<in> op_vals op \<Longrightarrow> P v"
  shows "all_stored P tr (trie_push tr op h)"
proof -
  from assms(1) obtain pub ops where h: "trie_laws tr" "holds tr h pub ops" "wf_map pub"
    "\<forall>v\<in>set (vals pub). P v" "\<forall>op\<in>set ops. \<forall>v\<in>op_vals op. P v"
    unfolding all_stored_def by blast
  have "\<forall>o'\<in>set (ops @ [op]). \<forall>v\<in>op_vals o'. P v" using h(5) assms(2) by auto
  with h(1,3,4) holds_push [OF h(2)] show ?thesis unfolding all_stored_def by blast
qed

lemma all_stored_publish:
  assumes "all_stored P tr h"
  shows "all_stored P tr (trie_publish tr h)"
proof -
  from assms obtain pub ops where h: "trie_laws tr" "holds tr h pub ops" "wf_map pub"
    "\<forall>v\<in>set (vals pub). P v" "\<forall>op\<in>set ops. \<forall>v\<in>op_vals op. P v"
    unfolding all_stored_def by blast
  have "\<forall>v\<in>set (vals (fold trie_absorb ops pub)). P v"
    using vals_absorbs [of ops pub] h(4,5) by blast
  with h(1) holds_publish [OF h(1,2)] wf_absorbs [OF h(3)] show ?thesis
    unfolding all_stored_def by fastforce
qed

lemma all_stored_get:
  assumes "all_stored P tr h" "trie_get tr k h = Ok v"
  shows "P v"
proof -
  from assms(1) obtain pub ops where h: "trie_laws tr" "holds tr h pub ops" "\<forall>v\<in>set (vals pub). P v"
    unfolding all_stored_def by blast
  from assms(2) have "(k, v) \<in> set pub"
    by (simp add: holds_get [OF h(1,2)] result_simps map_of_SomeD)
  with h(3) show ?thesis by force
qed

subsection \<open>Every stored account is covered\<close>

inductive state_step :: "'h state_env \<Rightarrow> 'h \<Rightarrow> 'h \<Rightarrow> bool" for env where
  st_insert: "state_step env h (snd (state_insert env k a h))"
| st_batch_insert: "state_step env h (snd (state_batch_insert env kas h))"
| st_update_uncommited: "state_step env h (snd (update_uncommited env k args h))"
| st_update: "state_step env h (snd (state_update_op env args h))"
| st_commit: "state_step env h (state_commit env h)"

definition state_init :: "'h state_env \<Rightarrow> 'h \<Rightarrow> bool" where
  "state_init env h = (trie_laws (se_trie env) \<and> h = lr_new (to_lr (se_trie env)))"

abbreviation covered_store :: "'h state_env \<Rightarrow> 'h \<Rightarrow> bool" where
  "covered_store env \<equiv> all_stored balance_inv (se_trie env)"

lemma covered_commit: "covered_store env h \<Longrightarrow> covered_store env (state_commit env h)"
  unfolding state_commit_def by (rule all_stored_publish)

lemma covered_insert_uncommited:
  "covered_store env h \<Longrightarrow> covered_store env (snd (insert_uncommited env k a h))"
  by (auto simp: insert_uncommited_def balance_inv_def intro!: all_stored_push)

lemma covered_batch_insert:
  "covered_store env h \<Longrightarrow> covered_store env (snd (batch_insert_uncommited env kas h))"
proof (induction env kas h rule: batch_insert_uncommited.induct)
  case (2 env k a kas h)
  have c: "covered_store env (snd (insert_uncommited env k a h))"
    by (rule covered_insert_uncommited [OF "2.prems"])
  obtain r h' where r: "insert_uncommited env k a h = (r, h')" by (cases "insert_uncommited env k a h")
  with c 2 show ?case by (cases r) (auto split: prod.splits)
qed simp

lemma covered_update_uncommited:
  assumes "covered_store env h"
  shows "covered_store env (snd (update_uncommited env k args h))"
proof (cases "state_get env k h")
  case (Ok a)
  then have "balance_inv a"
    using all_stored_get [OF assms] by (auto simp: state_get_def result_simps)
  then have b: "balance_inv (snd (account_update (se_crypto env) (se_clock env h) args a))"
    by (rule balance_update)
  obtain r a' where r: "account_update (se_crypto env) (se_clock env h) args a = (r, a')"
    by (cases "account_update (se_crypto env) (se_clock env h) args a")
  show ?thesis
    using assms b by (cases r) (auto simp: update_uncommited_def Ok r intro!: all_stored_push)
qed (use assms in \<open>simp_all add: update_uncommited_def\<close>)

lemma covered_state_step:
  assumes "covered_store env h" "state_step env h h'"
  shows "covered_store env h'"
  using assms(2)
proof cases
  case (st_insert k a)
  then show ?thesis
    using covered_insert_uncommited [OF assms(1), of k a]
    by (auto simp: state_insert_def intro: covered_commit split: prod.splits result.splits)
next
  case (st_batch_insert kas)
  then show ?thesis
    using covered_batch_insert [OF assms(1), of kas]
    by (auto simp: state_batch_insert_def intro: covered_commit split: prod.splits)
next
  case (st_update args)
  then show ?thesis
    using covered_update_uncommited [OF assms(1), of "ua_address args" args]
    by (auto simp: state_update_op_def intro: covered_commit split: prod.splits result.splits)
qed (use assms(1) in \<open>auto intro: covered_update_uncommited covered_commit\<close>)

interpretation covered_state: invariant_system "state_init env" "state_step env" "covered_store env" for env
proof unfold_locales
  show "covered_store env h" if "state_init env h" for h
    using that all_stored_new by (auto simp: state_init_def)
  show "covered_store env h'" if "covered_store env h" "state_step env h h'" for h h'
    using that by (rule covered_state_step)
qed

subsection \<open>What a batch of inserts does\<close>

fun insert_error :: "account \<Rightarrow> storage_error option" where
  "insert_error a =
     (if acc_debits a \<noteq> 0 then Some (StOther ''cannot insert account with debit'')
      else if acc_nonce a \<noteq> 0 then Some (StOther ''cannot insert account with nonce bigger than 0'')
      else None)"

definition rejected :: "(address \<times> account) list \<Rightarrow> (address \<times> account \<times> storage_error) list" where
  "rejected kas = concat (map (\<lambda>(k, a). case insert_error a of None \<Rightarrow> [] | Some e \<Rightarrow> [(k, a, e)]) kas)"

definition accepted :: "(address \<times> account) list \<Rightarrow> (address \<times> account) list" where
  "accepted kas = filter (\<lambda>(k, a). insert_error a = None) kas"

lemma insert_uncommited_eq:
  "insert_uncommited env k a h = (case insert_error a of
     None \<Rightarrow> (Ok (), trie_push (se_trie env) (TrieAdd k a) h) | Some e \<Rightarrow> (Err e, h))"
  by (simp add: insert_uncommited_def)

lemma batch_insert_uncommited_eq:
  "batch_insert_uncommited env kas h =
     (rejected kas, fold (trie_push (se_trie env)) (map (\<lambda>(k, a). TrieAdd k a) (accepted kas)) h)"
proof (induction env kas h rule: batch_insert_uncommited.induct)
  case (2 env k a kas h)
  then show ?case
    by (cases "insert_error a") (simp_all add: insert_uncommited_eq rejected_def accepted_def del: insert_error.simps)
qed (simp add: rejected_def accepted_def)

lemma holds_pushes: "holds tr h pub ops \<Longrightarrow> holds tr (fold (trie_push tr) new h) pub (ops @ new)"
proof (induction new arbitrary: h ops)
  case (Cons op new)
  from Cons.IH [OF holds_push [OF Cons.prems]] show ?case by simp
qed simp

lemma absorb_adds: "fold trie_absorb (map (\<lambda>(k, a). TrieAdd k a) kas) m = map_extend kas m"
  by (induction kas m rule: map_extend.induct) simp_all

text \<open>The store over the log of \<open>Left_Right\<close>.\<close>

definition log_trie :: "('k, 'v, ('k, 'v) amap \<times> ('k, 'v) trie_op list) trie_ops" where
  "log_trie = \<lparr> to_lr = log_lr trie_absorb [], to_missing = (\<lambda>_. ''missing''), to_root = (\<lambda>_. Ok []) \<rparr>"

lemma log_trie_laws [simp]: "trie_laws log_trie"
  by (simp add: trie_laws_def log_trie_def log_lr_laws)

lemma log_trie_simps [simp]:
  "trie_push log_trie op (m, l) = (m, l @ [op])"
  "trie_publish log_trie (m, l) = (fold trie_absorb l m, [])"
  "trie_read log_trie (m, l) = m"
  "lr_new (to_lr log_trie) = ([], [])"
  by (simp_all add: trie_push_def trie_publish_def trie_read_def log_trie_def log_lr_def)

lemma log_trie_clean: "holds log_trie (m, []) m []"
proof -
  have "(m, []) = lr_publish (to_lr log_trie) (m, [])" by (simp add: log_trie_def log_lr_def)
  then have "lr_clean (to_lr log_trie) (m, [])" unfolding lr_clean_def by blast
  then show ?thesis
    unfolding holds_def by (intro exI [of _ "(m, [])"]) (simp add: log_trie_def log_lr_def)
qed

definition example_state_env ::
  "((address, account) amap \<times> (address, account) trie_op list) state_env" where
  "example_state_env = \<lparr> se_crypto = example_crypto, se_clock = (\<lambda>_. 5), se_trie = log_trie \<rparr>"

subsection \<open>Properties\<close>



text \<open>A batch of inserts returns exactly the accounts it rejects, each with its
  error, and publishes exactly the others, the later of two entries for an address
  winning, on top of everything that was pending.\<close>

theorem batch_insert_correct:
  assumes "trie_laws (se_trie env)" "holds (se_trie env) h pub ops"
  shows "fst (state_batch_insert env kas h) = (if rejected kas = [] then None else Some (rejected kas))
    \<and> trie_read (se_trie env) (snd (state_batch_insert env kas h))
        = map_extend (accepted kas) (fold trie_absorb ops pub)"
proof -
  let ?new = "map (\<lambda>(k, a). TrieAdd k a) (accepted kas)"
  have "holds (se_trie env) (trie_publish (se_trie env) (fold (trie_push (se_trie env)) ?new h))
      (fold trie_absorb (ops @ ?new) pub) []"
    by (rule holds_publish [OF assms(1) holds_pushes [OF assms(2)]])
  from holds_read [OF assms(1) this] show ?thesis
    by (simp add: state_batch_insert_def batch_insert_uncommited_eq state_commit_def absorb_adds)
qed

theorem batch_insert_correct_witness:
  "fst (state_batch_insert example_state_env
      [(Address key_a, account_new example_crypto 0 key_a \<lparr> acc_nonce := 4 \<rparr>),
       (Address key_b, account_new example_crypto 0 key_b)] ([], []))
    = Some [(Address key_a, account_new example_crypto 0 key_a \<lparr> acc_nonce := 4 \<rparr>,
        StOther ''cannot insert account with nonce bigger than 0'')]
   \<and> trie_read (se_trie example_state_env) (snd (state_batch_insert example_state_env
      [(Address key_a, account_new example_crypto 0 key_a \<lparr> acc_nonce := 4 \<rparr>),
       (Address key_b, account_new example_crypto 0 key_b)] ([], [])))
    = [(Address key_b, account_new example_crypto 0 key_b)]"
  using batch_insert_correct [of example_state_env "([], [])" "[]" "[]"
      "[(Address key_a, account_new example_crypto 0 key_a \<lparr> acc_nonce := 4 \<rparr>),
        (Address key_b, account_new example_crypto 0 key_b)]"]
    log_trie_clean [of "[]"]
  by (simp add: example_state_env_def rejected_def accepted_def account_new_def map_insert_def)

text \<open>\<open>batch_update\<close> aborts on every nonempty list of updates, since it builds a
  default account first and the default address cannot be parsed.\<close>

theorem batch_update_aborts:
  assumes "secp_laws (se_crypto env)" "updates \<noteq> []"
  shows "batch_update env updates h = Panic"
proof -
  have grp: "group_updates kus m = [] \<longleftrightarrow> kus = [] \<and> m = []" for kus and m :: "(address, update_args list) amap"
  proof (induction kus m rule: group_updates.induct)
    case (2 k u kus m)
    have "map_insert k v m \<noteq> []" for v
      by (cases m) (auto simp: map_insert_def)
    with 2 show ?case by simp
  qed simp
  have "length (sort_key f updates) \<noteq> 0" for f :: "_ \<Rightarrow> nat"
    using assms(2) by simp
  then have "group_updates (sort_key (\<lambda>ku. nonce_key (ua_nonce (snd ku))) updates) [] \<noteq> []"
    unfolding grp by (metis list.size(3))
  then obtain b bs where "group_updates (sort_key (\<lambda>ku. nonce_key (ua_nonce (snd ku))) updates) [] = b # bs"
    by (meson neq_Nil_conv)
  then show ?thesis
    by (simp add: batch_update_def apply_batch_def account_default_def address_default_panics [OF assms(1)])
qed

theorem batch_update_aborts_witness:
  "batch_update example_state_env [(Address key_a, pay_in_args)] ([], []) = Panic"
  by (rule batch_update_aborts) (simp_all add: example_state_env_def)

end
