(* ===== verification/Databases.thy ===== *)
theory Databases
  imports Stores
begin

text \<open>
  \<open>storage/vrrbdb/src/vrrbdb.rs\<close>: the database over the three stores, and how it
  applies the transactions of a block.  A read handle of the database reads what is
  published at the moment of the call.
\<close>

record ('s, 't, 'c) vrrb_db =
  db_state :: 's
  db_txns :: 't
  db_claims :: 'c

record ('s, 't, 'c) db_env =
  de_state :: "'s state_env"
  de_txns :: "'t txn_trie"
  de_claims :: "'c claim_trie"

record apply_block_result =
  ab_state_root_hash :: root_hash
  ab_transactions_root_hash :: root_hash

definition state_root_hash_str :: "crypto \<Rightarrow> apply_block_result \<Rightarrow> string" where
  "state_root_hash_str cr r = cr_hex cr (ab_state_root_hash r)"

definition transactions_root_hash_str :: "crypto \<Rightarrow> apply_block_result \<Rightarrow> string" where
  "transactions_root_hash_str cr r = cr_hex cr (ab_transactions_root_hash r)"

definition vrrb_db_new :: "('s, 't, 'c) db_env \<Rightarrow> ('s, 't, 'c) vrrb_db" where
  "vrrb_db_new env = \<lparr> db_state = lr_new (to_lr (se_trie (de_state env))),
     db_txns = lr_new (to_lr (de_txns env)), db_claims = lr_new (to_lr (de_claims env)) \<rparr>"

definition commit_transactions :: "('s, 't, 'c) db_env \<Rightarrow> ('s, 't, 'c) vrrb_db \<Rightarrow> ('s, 't, 'c) vrrb_db" where
  "commit_transactions env db = db \<lparr> db_txns := trie_publish (de_txns env) (db_txns db) \<rparr>"

definition commit_state :: "('s, 't, 'c) db_env \<Rightarrow> ('s, 't, 'c) vrrb_db \<Rightarrow> ('s, 't, 'c) vrrb_db" where
  "commit_state env db = db \<lparr> db_state := state_commit (de_state env) (db_state db) \<rparr>"

definition commit_claims :: "('s, 't, 'c) db_env \<Rightarrow> ('s, 't, 'c) vrrb_db \<Rightarrow> ('s, 't, 'c) vrrb_db" where
  "commit_claims env db = db \<lparr> db_claims := trie_publish (de_claims env) (db_claims db) \<rparr>"

definition get_account_by_address ::
  "('s, 't, 'c) db_env \<Rightarrow> address \<Rightarrow> ('s, 't, 'c) vrrb_db \<Rightarrow> (storage_error, account) result" where
  "get_account_by_address env k db =
     map_err StGetAccount (state_get (de_state env) k (db_state db))"

definition state_store_values :: "('s, 't, 'c) db_env \<Rightarrow> ('s, 't, 'c) vrrb_db \<Rightarrow> (address, account) amap" where
  "state_store_values env db = state_entries (de_state env) (db_state db)"

definition transaction_store_values ::
  "('s, 't, 'c) db_env \<Rightarrow> ('s, 't, 'c) vrrb_db \<Rightarrow> (transaction_digest, transaction_kind) amap" where
  "transaction_store_values env db = txn_store_entries (de_txns env) (db_txns db)"

definition claim_store_values :: "('s, 't, 'c) db_env \<Rightarrow> ('s, 't, 'c) vrrb_db \<Rightarrow> (node_id, claim) amap" where
  "claim_store_values env db = claim_entries (de_claims env) (db_claims db)"

definition insert_account ::
  "('s, 't, 'c) db_env \<Rightarrow> address \<Rightarrow> account \<Rightarrow> ('s, 't, 'c) vrrb_db
     \<Rightarrow> (storage_error, unit) result \<times> ('s, 't, 'c) vrrb_db" where
  "insert_account env k a db = (case state_insert (de_state env) k a (db_state db) of
     (r, h) \<Rightarrow> (r, db \<lparr> db_state := h \<rparr>))"

definition extend_accounts ::
  "('s, 't, 'c) db_env \<Rightarrow> (address \<times> account option) list \<Rightarrow> ('s, 't, 'c) vrrb_db \<Rightarrow> ('s, 't, 'c) vrrb_db" where
  "extend_accounts env kas db = db \<lparr> db_state := state_extend (de_state env) kas (db_state db) \<rparr>"

definition db_update_account ::
  "('s, 't, 'c) db_env \<Rightarrow> update_args \<Rightarrow> ('s, 't, 'c) vrrb_db
     \<Rightarrow> (storage_error, unit) result \<times> ('s, 't, 'c) vrrb_db" where
  "db_update_account env args db = (case state_update_op (de_state env) args (db_state db) of
     (r, h) \<Rightarrow> (r, db \<lparr> db_state := h \<rparr>))"

definition insert_transaction ::
  "('s, 't, 'c) db_env \<Rightarrow> transaction_kind \<Rightarrow> ('s, 't, 'c) vrrb_db
     \<Rightarrow> (storage_error, unit) result \<times> ('s, 't, 'c) vrrb_db" where
  "insert_transaction env t db = (case txn_store_insert (de_txns env) t (db_txns db) of
     (r, h) \<Rightarrow> (r, db \<lparr> db_txns := h \<rparr>))"

definition extend_transactions ::
  "('s, 't, 'c) db_env \<Rightarrow> transaction_kind list \<Rightarrow> ('s, 't, 'c) vrrb_db \<Rightarrow> ('s, 't, 'c) vrrb_db" where
  "extend_transactions env ts db = db \<lparr> db_txns := txn_store_extend (de_txns env) ts (db_txns db) \<rparr>"

definition insert_claim ::
  "('s, 't, 'c) db_env \<Rightarrow> claim \<Rightarrow> ('s, 't, 'c) vrrb_db
     \<Rightarrow> (storage_error, unit) result \<times> ('s, 't, 'c) vrrb_db" where
  "insert_claim env c db = (case claim_insert (de_claims env) c (db_claims db) of
     (r, h) \<Rightarrow> (r, db \<lparr> db_claims := h \<rparr>))"

definition extend_claims ::
  "('s, 't, 'c) db_env \<Rightarrow> (u256 \<times> claim option) list \<Rightarrow> ('s, 't, 'c) vrrb_db \<Rightarrow> ('s, 't, 'c) vrrb_db" where
  "extend_claims env kcs db = db \<lparr> db_claims := claim_extend (de_claims env) kcs (db_claims db) \<rparr>"

text \<open>\<open>apply_transfer\<close>: both parties must exist, then the sender and the receiver are
  updated from the published state, the state is committed and the transaction is
  appended.  Every \<open>?\<close> leaves the stores as they are at that point.\<close>

definition apply_transfer ::
  "('s, 't, 'c) db_env \<Rightarrow> transfer \<Rightarrow> ('s, 't, 'c) vrrb_db
     \<Rightarrow> (storage_error, unit) result \<times> ('s, 't, 'c) vrrb_db" where
  "apply_transfer env tr db =
     (let t = Transfer tr; s = txn_sender_address t; r = txn_receiver_address t in
      case get_account_by_address env s db of
        Err e \<Rightarrow> (Err e, db) | Panic \<Rightarrow> (Panic, db)
      | Ok _ \<Rightarrow> (case get_account_by_address env r db of
          Err e \<Rightarrow> (Err e, db) | Panic \<Rightarrow> (Panic, db)
        | Ok _ \<Rightarrow>
          (let u = into_updates_from_txn t in
           case update_uncommited (de_state env) s (update_args_of (iu_sender_update u)) (db_state db) of
             (Ok _, h1) \<Rightarrow>
               (case update_uncommited (de_state env) r (update_args_of (iu_receiver_update u)) h1 of
                  (Ok _, h2) \<Rightarrow> insert_transaction env t (commit_state env (db \<lparr> db_state := h2 \<rparr>))
                | (e, h2) \<Rightarrow> (e, db \<lparr> db_state := h2 \<rparr>))
           | (e, h1) \<Rightarrow> (e, db \<lparr> db_state := h1 \<rparr>))))"

definition apply_txn ::
  "('s, 't, 'c) db_env \<Rightarrow> transaction_kind \<Rightarrow> ('s, 't, 'c) vrrb_db
     \<Rightarrow> (storage_error, unit) result \<times> ('s, 't, 'c) vrrb_db" where
  "apply_txn env t db = (case t of Transfer tr \<Rightarrow> apply_transfer env tr db)"

fun apply_txns ::
  "('s, 't, 'c) db_env \<Rightarrow> (transaction_digest \<times> transaction_kind) list \<Rightarrow> ('s, 't, 'c) vrrb_db
     \<Rightarrow> (storage_error, unit) result \<times> ('s, 't, 'c) vrrb_db" where
  "apply_txns env [] db = (Ok (), db)"
| "apply_txns env ((_, t) # ts) db = (case apply_txn env t db of
     (Ok _, db') \<Rightarrow> apply_txns env ts db' | (r, db') \<Rightarrow> (r, db'))"

definition apply_block ::
  "('s, 't, 'c) db_env \<Rightarrow> block \<Rightarrow> ('s, 't, 'c) vrrb_db
     \<Rightarrow> (storage_error, apply_block_result) result \<times> ('s, 't, 'c) vrrb_db" where
  "apply_block env b db = (case b of
     Genesis g \<Rightarrow> (case apply_txns env (gb_txns g) db of
         (Ok _, db') \<Rightarrow>
           (let db'' = commit_state env (commit_transactions env db') in
            (rbind (state_root_hash (de_state env) (db_state db'')) (\<lambda>s.
             rbind (txn_store_root_hash (de_txns env) (db_txns db'')) (\<lambda>t.
               Ok \<lparr> ab_state_root_hash = s, ab_transactions_root_hash = t \<rparr>)), db''))
       | (Err e, db') \<Rightarrow> (Err e, db')
       | (Panic, db') \<Rightarrow> (Panic, db'))
   | Convergence _ \<Rightarrow> (Panic, db)
   | Proposal _ \<Rightarrow> (Err (StOther ''unsupported block type''), db))"

subsection \<open>Balances\<close>

definition balance :: "account \<Rightarrow> int" where
  "balance a = int (unat (acc_credits a)) - int (unat (acc_debits a))"

definition total_balance :: "(address, account) amap \<Rightarrow> int" where
  "total_balance m = sum_list (map balance (vals m))"

lemma total_balance_insert:
  assumes "wf_map m" "map_of m k = Some a"
  shows "total_balance (map_insert k b m) = total_balance m - balance a + balance b"
  using assms
proof (induction m)
  case (Cons kv m)
  show ?case
  proof (cases "fst kv = k")
    case True
    with Cons.prems show ?thesis by (cases kv) (simp add: total_balance_def map_insert_def)
  next
    case False
    with Cons.prems have "wf_map m" "map_of m k = Some a" by (cases kv; simp add: wf_map_def)+
    from Cons.IH [OF this] False show ?thesis
      by (cases kv) (simp add: total_balance_def map_insert_def)
  qed
qed simp

lemma balance_update_result:
  assumes "update_accepts args a"
  shows "balance (update_result cr now args a)
    = balance a + int (unat (opt_amount (ua_credits args))) - int (unat (opt_amount (ua_debits args)))"
proof -
  from assms have c: "unat (acc_credits a) + unat (opt_amount (ua_credits args)) < 2 ^ 128"
    by (simp add: update_accepts_def)
  have d: "unat (acc_debits a) + unat (opt_amount (ua_debits args)) < 2 ^ 128"
  proof (cases "ua_debits args = None")
    case True
    then show ?thesis using unsigned_less [of "acc_debits a", where 'a = nat] by (simp add: opt_amount_def)
  next
    case False
    with assms c show ?thesis by (simp add: update_accepts_def)
  qed
  show ?thesis
    using c d by (simp add: balance_def update_result_def unat_word_ariths)
qed

subsection \<open>What a transfer does\<close>

definition sender_args :: "transfer \<Rightarrow> update_args" where
  "sender_args t = update_args_of (iu_sender_update (into_updates_from_txn (Transfer t)))"

definition receiver_args :: "transfer \<Rightarrow> update_args" where
  "receiver_args t = update_args_of (iu_receiver_update (into_updates_from_txn (Transfer t)))"

lemma party_args [simp]:
  "ua_nonce (sender_args t) = Some (tr_nonce t)" "ua_nonce (receiver_args t) = None"
  "ua_credits (sender_args t) = None" "ua_credits (receiver_args t) = Some (tr_amount t)"
  "ua_debits (sender_args t) = Some (tr_amount t)" "ua_debits (receiver_args t) = None"
  by (simp_all add: sender_args_def receiver_args_def update_args_of_def into_updates_from_txn_def
      txn_nonce_def txn_amount_def)

lemma opt_amount_simps [simp]: "opt_amount None = 0" "opt_amount (Some x) = x"
  by (simp_all add: opt_amount_def)

lemma sender_accepts_iff:
  "update_accepts (sender_args t) a \<longleftrightarrow> acc_nonce a \<le> tr_nonce t \<and> unat (acc_nonce a) + 1 < 2 ^ 128
     \<and> unat (acc_debits a) + unat (tr_amount t) \<le> unat (acc_credits a)"
  using unsigned_less [of "acc_credits a", where 'a = nat]
  by (auto simp: update_accepts_def nonce_accepts_def)

lemma receiver_accepts_iff:
  "update_accepts (receiver_args t) b \<longleftrightarrow> unat (acc_credits b) + unat (tr_amount t) < 2 ^ 128"
  by (simp add: update_accepts_def nonce_accepts_def)

lemma update_uncommited_Ok_iff:
  assumes "trie_laws (se_trie env)" "holds (se_trie env) h pub ops"
  shows "update_uncommited env k args h = (Ok (), h') \<longleftrightarrow> (\<exists>a. map_of pub k = Some a \<and> update_accepts args a
    \<and> h' = trie_push (se_trie env) (TrieUpdate k (update_result (se_crypto env) (se_clock env h) args a)) h)"
proof (cases "map_of pub k")
  case None
  then show ?thesis
    by (simp add: update_uncommited_def state_get_def holds_get [OF assms])
next
  case (Some a)
  obtain r b where r: "account_update (se_crypto env) (se_clock env h) args a = (r, b)"
    by (cases "account_update (se_crypto env) (se_clock env h) args a")
  have "r = Ok () \<longleftrightarrow> update_accepts args a" "r = Ok () \<Longrightarrow> b = update_result (se_crypto env) (se_clock env h) args a"
    using account_update_Ok_iff [of "se_crypto env" "se_clock env h" args a] by (auto simp: r)
  then show ?thesis
    using Some by (cases r) (auto simp: update_uncommited_def state_get_def holds_get [OF assms] r)
qed

abbreviation state_trie :: "('s, 't, 'c) db_env \<Rightarrow> (address, account, 's) trie_ops" where
  "state_trie env \<equiv> se_trie (de_state env)"

text \<open>The two updates of a transfer, on the published map.\<close>

definition transferred ::
  "('s, 't, 'c) db_env \<Rightarrow> transfer \<Rightarrow> 's \<Rightarrow> account \<Rightarrow> account \<Rightarrow> (address, account) amap \<Rightarrow> (address, account) amap" where
  "transferred env t h a b m =
     (let cr = se_crypto (de_state env); a' = update_result cr (se_clock (de_state env) h) (sender_args t) a;
          h1 = trie_push (state_trie env) (TrieUpdate (tr_sender_address t) a') h in
      map_insert (tr_receiver_address t) (update_result cr (se_clock (de_state env) h1) (receiver_args t) b)
        (map_insert (tr_sender_address t) a' m))"

lemma get_account_holds:
  "trie_laws (state_trie env) \<Longrightarrow> holds (state_trie env) (db_state db) pub ops \<Longrightarrow>
   get_account_by_address env k db = (case map_of pub k of Some a \<Rightarrow> Ok a
     | None \<Rightarrow> Err (StGetAccount (StOther (to_missing (state_trie env) k))))"
  by (simp add: get_account_by_address_def state_get_def holds_get split: option.splits)

lemma apply_transfer_Ok:
  assumes "trie_laws (state_trie env)" "holds (state_trie env) (db_state db) pub []"
    and "apply_transfer env t db = (Ok (), db')"
  obtains a b where "map_of pub (tr_sender_address t) = Some a" "map_of pub (tr_receiver_address t) = Some b"
    "update_accepts (sender_args t) a" "update_accepts (receiver_args t) b"
    "holds (state_trie env) (db_state db') (transferred env t (db_state db) a b pub) []"
proof -
  let ?E = "de_state env" and ?s = "tr_sender_address t" and ?r = "tr_receiver_address t"
  obtain h1 h2 where h1: "update_uncommited ?E ?s (sender_args t) (db_state db) = (Ok (), h1)"
    and h2: "update_uncommited ?E ?r (receiver_args t) h1 = (Ok (), h2)"
    and db': "db' = snd (insert_transaction env (Transfer t) (commit_state env (db \<lparr> db_state := h2 \<rparr>)))"
    using assms(3)
    by (auto simp: apply_transfer_def Let_def txn_sender_address_def txn_receiver_address_def
        sender_args_def receiver_args_def split: result.splits prod.splits)
  from h1 obtain a where a: "map_of pub ?s = Some a" "update_accepts (sender_args t) a"
    "h1 = trie_push (state_trie env) (TrieUpdate ?s
       (update_result (se_crypto ?E) (se_clock ?E (db_state db)) (sender_args t) a)) (db_state db)"
    unfolding update_uncommited_Ok_iff [OF assms(1,2)] by blast
  have h1s: "holds (state_trie env) h1 pub ([] @ [TrieUpdate ?s
       (update_result (se_crypto ?E) (se_clock ?E (db_state db)) (sender_args t) a)])"
    unfolding a(3) by (rule holds_push [OF assms(2)])
  from h2 obtain b where b: "map_of pub ?r = Some b" "update_accepts (receiver_args t) b"
    "h2 = trie_push (state_trie env) (TrieUpdate ?r
       (update_result (se_crypto ?E) (se_clock ?E h1) (receiver_args t) b)) h1"
    unfolding update_uncommited_Ok_iff [OF assms(1) h1s] by blast
  have "holds (state_trie env) (db_state db') (transferred env t (db_state db) a b pub) []"
    using holds_publish [OF assms(1) holds_push [OF h1s, of "TrieUpdate ?r
       (update_result (se_crypto ?E) (se_clock ?E h1) (receiver_args t) b)"]]
    by (simp add: db' insert_transaction_def txn_store_insert_def commit_state_def state_commit_def
        transferred_def Let_def b(3) flip: a(3))
  with a(1,2) b(1,2) that show thesis by blast
qed

lemma wf_transferred [simp]: "wf_map m \<Longrightarrow> wf_map (transferred env t h a b m)"
  by (simp add: transferred_def Let_def)

definition minted :: "transfer \<Rightarrow> int" where
  "minted t = (if tr_sender_address t = tr_receiver_address t then int (unat (tr_amount t)) else 0)"

lemma total_transferred:
  assumes "wf_map m" "map_of m (tr_sender_address t) = Some a" "map_of m (tr_receiver_address t) = Some b"
    and "update_accepts (sender_args t) a" "update_accepts (receiver_args t) b"
  shows "total_balance (transferred env t h a b m) = total_balance m + minted t"
proof (cases "tr_sender_address t = tr_receiver_address t")
  case True
  then show ?thesis
    using assms balance_update_result [OF assms(5)]
    by (simp add: transferred_def Let_def minted_def total_balance_insert)
next
  case False
  then show ?thesis
    using assms balance_update_result [OF assms(4)] balance_update_result [OF assms(5)]
    by (simp add: transferred_def Let_def minted_def total_balance_insert)
qed

lemma apply_txns_total:
  assumes "trie_laws (state_trie env)" "holds (state_trie env) (db_state db) pub []" "wf_map pub"
    and "apply_txns env ts db = (Ok (), db')"
  shows "\<exists>pub'. holds (state_trie env) (db_state db') pub' [] \<and> wf_map pub'
    \<and> total_balance pub' = total_balance pub + (\<Sum>(_, t)\<leftarrow>ts. minted (kind_transfer t))"
  using assms(2-)
proof (induction ts arbitrary: db pub)
  case (Cons dt ts)
  obtain d tr where dt: "dt = (d, Transfer tr)" by (cases dt, cases "snd dt") auto
  from Cons.prems(3) obtain db1 where db1: "apply_transfer env tr db = (Ok (), db1)" "apply_txns env ts db1 = (Ok (), db')"
    by (auto simp: dt apply_txn_def split: prod.splits result.splits)
  from apply_transfer_Ok [OF assms(1) Cons.prems(1) db1(1)] obtain a b where
    ab: "map_of pub (tr_sender_address tr) = Some a" "map_of pub (tr_receiver_address tr) = Some b"
    "update_accepts (sender_args tr) a" "update_accepts (receiver_args tr) b"
    and h: "holds (state_trie env) (db_state db1) (transferred env tr (db_state db) a b pub) []" .
  from Cons.IH [OF h _ db1(2)] Cons.prems(2) total_transferred [OF Cons.prems(2) ab, of env "db_state db"]
  show ?case by (simp add: dt add.assoc)
qed auto

lemma apply_transfer_is_ok:
  assumes "trie_laws (state_trie env)" "holds (state_trie env) (db_state db) pub []"
  shows "is_ok (fst (apply_transfer env t db)) \<longleftrightarrow>
    (\<exists>a b. map_of pub (tr_sender_address t) = Some a \<and> map_of pub (tr_receiver_address t) = Some b
       \<and> acc_nonce a \<le> tr_nonce t \<and> unat (acc_nonce a) + 1 < 2 ^ 128
       \<and> unat (acc_debits a) + unat (tr_amount t) \<le> unat (acc_credits a)
       \<and> unat (acc_credits b) + unat (tr_amount t) < 2 ^ 128)" (is "_ \<longleftrightarrow> ?ok")
proof
  assume "is_ok (fst (apply_transfer env t db))"
  then obtain db' where "apply_transfer env t db = (Ok (), db')"
    by (cases "apply_transfer env t db") (auto simp: result_simps)
  from apply_transfer_Ok [OF assms this] show ?ok
    by (metis sender_accepts_iff receiver_accepts_iff)
next
  let ?E = "de_state env" and ?s = "tr_sender_address t" and ?r = "tr_receiver_address t"
  assume ?ok
  then obtain a b where ab: "map_of pub ?s = Some a" "map_of pub ?r = Some b"
    "update_accepts (sender_args t) a" "update_accepts (receiver_args t) b"
    unfolding sender_accepts_iff receiver_accepts_iff by blast
  define op where "op = TrieUpdate ?s (update_result (se_crypto ?E) (se_clock ?E (db_state db)) (sender_args t) a)"
  have u1: "update_uncommited ?E ?s (sender_args t) (db_state db) = (Ok (), trie_push (state_trie env) op (db_state db))"
    unfolding update_uncommited_Ok_iff [OF assms] op_def using ab by blast
  obtain h2 where u2: "update_uncommited ?E ?r (receiver_args t) (trie_push (state_trie env) op (db_state db)) = (Ok (), h2)"
    using update_uncommited_Ok_iff [OF assms(1) holds_push [OF assms(2), of op]] ab by blast
  show "is_ok (fst (apply_transfer env t db))"
    using u1 u2 ab(1,2)
    by (simp add: apply_transfer_def Let_def txn_sender_address_def txn_receiver_address_def
        get_account_holds [OF assms] insert_transaction_def txn_store_insert_def
        flip: sender_args_def receiver_args_def)
qed

lemma update_uncommited_unchanged:
  "update_uncommited env k args h = (r, h') \<Longrightarrow> r \<noteq> Ok () \<Longrightarrow> h' = h"
  by (auto simp: update_uncommited_def split: result.splits prod.splits)

lemma apply_transfer_credit_error:
  assumes "trie_laws (state_trie env)" "holds (state_trie env) (db_state db) pub []"
    and "apply_transfer env t db = (Err (StAccount e), db')"
    and "fst (update_uncommited (de_state env) (tr_sender_address t) (sender_args t) (db_state db)) \<noteq> Err (StAccount e)"
  shows "\<exists>h1. update_uncommited (de_state env) (tr_sender_address t) (sender_args t) (db_state db) = (Ok (), h1)
    \<and> db' = db \<lparr> db_state := h1 \<rparr>"
proof -
  let ?E = "de_state env" and ?s = "tr_sender_address t" and ?r = "tr_receiver_address t"
  obtain r1 h1 where u1: "update_uncommited ?E ?s (sender_args t) (db_state db) = (r1, h1)" by fastforce
  obtain r2 h2 where u2: "update_uncommited ?E ?r (receiver_args t) h1 = (r2, h2)" by fastforce
  obtain a where a: "map_of pub ?s = Some a"
    using assms(3) by (cases "map_of pub ?s")
      (auto simp: apply_transfer_def Let_def txn_sender_address_def get_account_holds [OF assms(1,2)])
  obtain b where b: "map_of pub ?r = Some b"
    using assms(3) a by (cases "map_of pub ?r")
      (auto simp: apply_transfer_def Let_def txn_sender_address_def txn_receiver_address_def
        get_account_holds [OF assms(1,2)])
  have "apply_transfer env t db = (case r1 of
      Ok _ \<Rightarrow> (case r2 of Ok _ \<Rightarrow> insert_transaction env (Transfer t) (commit_state env (db \<lparr> db_state := h2 \<rparr>))
        | _ \<Rightarrow> (r2, db \<lparr> db_state := h2 \<rparr>))
    | _ \<Rightarrow> (r1, db \<lparr> db_state := h1 \<rparr>))"
    using u1 u2 a b
    by (simp add: apply_transfer_def Let_def txn_sender_address_def txn_receiver_address_def
        get_account_holds [OF assms(1,2)] flip: sender_args_def receiver_args_def split: result.split)
  with assms(3,4) u1 update_uncommited_unchanged [OF u2] show ?thesis
    by (cases r1; cases r2) (auto simp: insert_transaction_def txn_store_insert_def)
qed

subsection \<open>Properties\<close>

definition example_db_env where
  "example_db_env = \<lparr> de_state = example_state_env, de_txns = log_trie, de_claims = log_trie \<rparr>"

definition funded :: "public_key \<Rightarrow> u128 \<Rightarrow> account" where
  "funded pk c = account_new example_crypto 0 pk \<lparr> acc_credits := c \<rparr>"

definition example_accounts :: "u128 \<Rightarrow> (address, account) amap" where
  "example_accounts c = [(Address key_a, funded key_a 100), (Address key_b, funded key_b c)]"

definition example_db where
  "example_db c = \<lparr> db_state = (example_accounts c, []), db_txns = ([], []), db_claims = ([], []) \<rparr>"

lemma example_db_holds: "holds (state_trie example_db_env) (db_state (example_db c)) (example_accounts c) []"
  by (simp add: example_db_env_def example_state_env_def example_db_def log_trie_clean)

lemma example_db_laws [simp]: "trie_laws (state_trie example_db_env)"
  by (simp add: example_db_env_def example_state_env_def)

lemma example_roots:
  "state_root_hash (de_state example_db_env) h = Ok []"
  "txn_store_root_hash (de_txns example_db_env) h' = Ok []"
  by (simp_all add: state_root_hash_def txn_store_root_hash_def example_db_env_def example_state_env_def log_trie_def)

definition full_credits :: u128 where
  "full_credits = 340282366920938463463374607431768211455"




definition self_transfer :: transfer where
  "self_transfer = transfer_new example_crypto (example_args 5 1 \<lparr> na_receiver_address := Address key_a \<rparr>)"




end
