(* ===== verification/Version_History.thy ===== *)
theory Version_History
  imports Primitives
begin

text \<open>
  \<open>storage/vrrbdb/src/rocksdb_adapter.rs\<close>: the versioned values behind the tries.
  RocksDB and the serialisation of tree nodes are the record \<open>kv_ops\<close>; nodes, node
  keys and stale indices are types of the crate \<open>patriecia\<close> and stay abstract.  The
  history of values is kept by the adapter itself.
\<close>

type_synonym version = u64
type_synonym ('k, 'v) history = "('k, (version \<times> 'v option) list) amap"

record ('d, 'i, 'k, 'v) rocks_db_inner =
  ri_db :: 'd
  ri_stale_nodes :: "'i list"
  ri_value_history :: "('k, 'v) history"

record ('d, 'nk, 'n) kv_ops =
  kv_put :: "bytes \<Rightarrow> bytes \<Rightarrow> 'd \<Rightarrow> (string, 'd) result"
  kv_get :: "bytes \<Rightarrow> 'd \<Rightarrow> (string, bytes option) result"
  kv_entries :: "'d \<Rightarrow> (bytes \<times> bytes) option list"
  kv_ser_key :: "'nk \<Rightarrow> (string, bytes) result"
  kv_ser_node :: "'n \<Rightarrow> (string, bytes) result"
  kv_de_key :: "bytes \<Rightarrow> (string, 'nk) result"
  kv_de_node :: "bytes \<Rightarrow> (string, 'n) result"

record ('nk, 'n, 'k, 'v) node_batch =
  nb_nodes :: "('nk \<times> 'n) list"
  nb_values :: "((version \<times> 'k) \<times> 'v option) list"

record ('nk, 'n, 'k, 'v, 'i) tree_update_batch =
  tb_node_batch :: "('nk, 'n, 'k, 'v) node_batch"
  tb_stale_node_index_batch :: "'i list"

definition rocks_db_inner_new :: "'d \<Rightarrow> ('d, 'i, 'k, 'v) rocks_db_inner" where
  "rocks_db_inner_new d = \<lparr> ri_db = d, ri_stale_nodes = [], ri_value_history = [] \<rparr>"

definition put_value ::
  "version \<Rightarrow> 'k \<Rightarrow> 'v option \<Rightarrow> ('k, 'v) history \<Rightarrow> (string, ('k, 'v) history) result" where
  "put_value w k v hist = (case map_of hist k of
     Some vs \<Rightarrow>
       if vs = [] then Ok (map_insert k (vs @ [(w, v)]) hist)
       else if w < fst (last vs) then Err ''values must be pushed in order''
       else if w = fst (last vs) then Ok (map_insert k (butlast vs @ [(w, v)]) hist)
       else Ok (map_insert k (vs @ [(w, v)]) hist)
   | None \<Rightarrow> Ok (map_insert k [(w, v)] hist))"

definition get_value_option :: "version \<Rightarrow> 'k \<Rightarrow> ('k, 'v) history \<Rightarrow> 'v option" where
  "get_value_option max_version k hist = (case map_of hist k of
     Some vs \<Rightarrow> (case find (\<lambda>(w, _). w \<le> max_version) (rev vs) of Some (_, v) \<Rightarrow> v | None \<Rightarrow> None)
   | None \<Rightarrow> None)"

definition get_node_option :: "('d, 'nk, 'n) kv_ops \<Rightarrow> 'nk \<Rightarrow> 'd \<Rightarrow> (string, 'n option) result" where
  "get_node_option kv nk d = rbind (kv_ser_key kv nk) (\<lambda>kb.
     case kv_get kv kb d of
       Ok (Some b) \<Rightarrow> (case kv_de_node kv b of Ok n \<Rightarrow> Ok (Some n) | Err _ \<Rightarrow> Ok None | Panic \<Rightarrow> Panic)
     | Ok None \<Rightarrow> Ok None
     | Err _ \<Rightarrow> Ok None
     | Panic \<Rightarrow> Panic)"

fun put_nodes :: "('d, 'nk, 'n) kv_ops \<Rightarrow> ('nk \<times> 'n) list \<Rightarrow> 'd \<Rightarrow> (string, unit) result \<times> 'd" where
  "put_nodes kv [] d = (Ok (), d)"
| "put_nodes kv ((nk, n) # ns) d =
     (case rbind (kv_ser_key kv nk) (\<lambda>kb. rbind (kv_ser_node kv n) (\<lambda>b. kv_put kv kb b d)) of
        Ok d' \<Rightarrow> put_nodes kv ns d' | Err e \<Rightarrow> (Err e, d) | Panic \<Rightarrow> (Panic, d))"

fun put_values ::
  "((version \<times> 'k) \<times> 'v option) list \<Rightarrow> ('k, 'v) history \<Rightarrow> (string, unit) result \<times> ('k, 'v) history" where
  "put_values [] hist = (Ok (), hist)"
| "put_values (((w, k), v) # kvs) hist = (case put_value w k v hist of
     Ok hist' \<Rightarrow> put_values kvs hist' | Err e \<Rightarrow> (Err e, hist) | Panic \<Rightarrow> (Panic, hist))"

definition write_node_batch ::
  "('d, 'nk, 'n) kv_ops \<Rightarrow> ('nk, 'n, 'k, 'v) node_batch \<Rightarrow> ('d, 'i, 'k, 'v) rocks_db_inner
     \<Rightarrow> (string, unit) result \<times> ('d, 'i, 'k, 'v) rocks_db_inner" where
  "write_node_batch kv nb r = (case put_nodes kv (nb_nodes nb) (ri_db r) of
     (Ok _, d) \<Rightarrow> (case put_values (nb_values nb) (ri_value_history r) of
        (res, hist) \<Rightarrow> (res, r \<lparr> ri_db := d, ri_value_history := hist \<rparr>))
   | (e, d) \<Rightarrow> (e, r \<lparr> ri_db := d \<rparr>))"

definition put_stale_node_index ::
  "'i \<Rightarrow> ('d, 'i, 'k, 'v) rocks_db_inner \<Rightarrow> (string, unit) result \<times> ('d, 'i, 'k, 'v) rocks_db_inner" where
  "put_stale_node_index i r =
     (if i \<in> set (ri_stale_nodes r) then (Err ''Duplicated retire log'', r)
      else (Ok (), r \<lparr> ri_stale_nodes := i # ri_stale_nodes r \<rparr>))"

fun put_stale_indices ::
  "'i list \<Rightarrow> ('d, 'i, 'k, 'v) rocks_db_inner \<Rightarrow> (string, unit) result \<times> ('d, 'i, 'k, 'v) rocks_db_inner" where
  "put_stale_indices [] r = (Ok (), r)"
| "put_stale_indices (i # is) r = (case put_stale_node_index i r of
     (Ok _, r') \<Rightarrow> put_stale_indices is r' | (e, r') \<Rightarrow> (e, r'))"

definition write_tree_update_batch ::
  "('d, 'nk, 'n) kv_ops \<Rightarrow> ('nk, 'n, 'k, 'v, 'i) tree_update_batch \<Rightarrow> ('d, 'i, 'k, 'v) rocks_db_inner
     \<Rightarrow> (string, unit) result \<times> ('d, 'i, 'k, 'v) rocks_db_inner" where
  "write_tree_update_batch kv tb r = (case write_node_batch kv (tb_node_batch tb) r of
     (Ok _, r') \<Rightarrow> put_stale_indices (tb_stale_node_index_batch tb) r' | (e, r') \<Rightarrow> (e, r'))"

text \<open>The leaf with the greatest key hash; \<open>leaf\<close> tells the key hash of a leaf node.\<close>

definition rightmost_step ::
  "('d, 'nk, 'n) kv_ops \<Rightarrow> ('n \<Rightarrow> 'k::linorder option) \<Rightarrow> (bytes \<times> bytes) option \<Rightarrow> ('nk \<times> 'n \<times> 'k) option
     \<Rightarrow> (string, ('nk \<times> 'n \<times> 'k) option) result" where
  "rightmost_step kv leaf item best = (case item of
     None \<Rightarrow> Ok best
   | Some (kb, nb) \<Rightarrow>
       rbind (kv_de_key kv kb) (\<lambda>nk. rbind (kv_de_node kv nb) (\<lambda>n.
         case leaf n of
           None \<Rightarrow> Ok best
         | Some kh \<Rightarrow> (case best of
             None \<Rightarrow> Ok (Some (nk, n, kh))
           | Some (_, _, bh) \<Rightarrow> Ok (if kh > bh then Some (nk, n, kh) else best)))))"

definition get_rightmost_leaf ::
  "('d, 'nk, 'n) kv_ops \<Rightarrow> ('n \<Rightarrow> 'k::linorder option) \<Rightarrow> 'd \<Rightarrow> (string, ('nk \<times> 'n \<times> 'k) option) result" where
  "get_rightmost_leaf kv leaf d = rfold (rightmost_step kv leaf) (kv_entries kv d) None"

subsection \<open>The interface of a versioned map\<close>

fun puts ::
  "('w \<Rightarrow> 'k \<Rightarrow> 'v option \<Rightarrow> 'm \<Rightarrow> (string, 'm) result) \<Rightarrow> (('w \<times> 'k) \<times> 'v option) list \<Rightarrow> 'm
     \<Rightarrow> (string, unit) result \<times> 'm" where
  "puts put [] m = (Ok (), m)"
| "puts put (((w, k), v) # kvs) m = (case put w k v m of
     Ok m' \<Rightarrow> puts put kvs m' | Err e \<Rightarrow> (Err e, m) | Panic \<Rightarrow> (Panic, m))"

text \<open>A put that succeeds is read at its own and all later versions, and nothing else
  changes.\<close>

locale versioned_map =
  fixes put :: "'w::linorder \<Rightarrow> 'k \<Rightarrow> 'v option \<Rightarrow> 'm \<Rightarrow> (string, 'm) result"
    and get :: "'w \<Rightarrow> 'k \<Rightarrow> 'm \<Rightarrow> 'v option"
    and ok :: "'m \<Rightarrow> bool"
  assumes put_ok: "ok m \<Longrightarrow> put w k v m = Ok m' \<Longrightarrow> ok m'"
    and get_put: "ok m \<Longrightarrow> put w k v m = Ok m' \<Longrightarrow> get w' k' m' = (if k' = k \<and> w \<le> w' then v else get w' k' m)"
begin

lemma puts_ok: "ok m \<Longrightarrow> ok (snd (puts put kvs m))"
proof (induction kvs arbitrary: m)
  case (Cons wkv kvs)
  obtain w k v where wkv: "wkv = ((w, k), v)" by (metis prod.exhaust)
  show ?case
    using Cons.prems Cons.IH put_ok [OF Cons.prems] by (cases "put w k v m") (simp_all add: wkv)
qed simp

lemma old_versions_kept:
  "ok m \<Longrightarrow> (\<And>w k v. ((w, k), v) \<in> set kvs \<Longrightarrow> w0 < w) \<Longrightarrow> get w0 k' (snd (puts put kvs m)) = get w0 k' m"
proof (induction kvs arbitrary: m)
  case (Cons wkv kvs)
  obtain w k v where wkv: "wkv = ((w, k), v)" by (metis prod.exhaust)
  have lt: "w0 < w" by (rule Cons.prems(2) [of w k v]) (simp add: wkv)
  show ?case
  proof (cases "put w k v m")
    case (Ok m')
    have "get w0 k' (snd (puts put kvs m')) = get w0 k' m'"
      by (rule Cons.IH [OF put_ok [OF Cons.prems(1) Ok]]) (use Cons.prems(2) in \<open>auto simp: wkv\<close>)
    also have "\<dots> = get w0 k' m"
      unfolding get_put [OF Cons.prems(1) Ok] using lt by (simp add: not_le [symmetric])
    finally show ?thesis by (simp add: wkv Ok)
  qed (simp_all add: wkv)
qed simp

end

subsection \<open>The history of values\<close>

definition history_ok :: "('k, 'v) history \<Rightarrow> bool" where
  "history_ok hist = (wf_map hist \<and> (\<forall>vs\<in>set (vals hist). vs \<noteq> [] \<and> sorted_wrt (<) (map fst vs)))"

lemma history_ok_lookup: "history_ok hist \<Longrightarrow> map_of hist k = Some vs \<Longrightarrow> vs \<noteq> [] \<and> sorted_wrt (<) (map fst vs)"
  by (auto simp: history_ok_def dest!: map_of_SomeD)

lemma history_ok_insert:
  assumes "history_ok hist" "vs \<noteq> []" "sorted_wrt (<) (map fst vs)"
  shows "history_ok (map_insert k vs hist)"
proof -
  have "set (vals (map_insert k vs hist)) \<subseteq> insert vs (set (vals hist))"
    using image_mono [OF set_map_insert_subset, of snd k vs hist] by simp
  with assms show ?thesis unfolding history_ok_def by blast
qed

definition newest :: "version \<Rightarrow> (version \<times> 'v option) list \<Rightarrow> 'v option" where
  "newest m vs = (case find (\<lambda>(w, _). w \<le> m) (rev vs) of Some (_, v) \<Rightarrow> v | None \<Rightarrow> None)"

lemma newest_snoc: "newest m (vs @ [(w, v)]) = (if w \<le> m then v else newest m vs)"
  by (simp add: newest_def)

lemma newest_Nil: "newest m [] = None"
  by (simp add: newest_def)

text \<open>The list that \<open>put_value\<close> writes for its key.\<close>

definition pushed :: "version \<Rightarrow> 'v option \<Rightarrow> (version \<times> 'v option) list \<Rightarrow> (version \<times> 'v option) list" where
  "pushed w v vs = (if vs \<noteq> [] \<and> w = fst (last vs) then butlast vs else vs) @ [(w, v)]"

lemma put_value_Ok_iff:
  assumes "history_ok hist"
  shows "put_value w k v hist = Ok hist' \<longleftrightarrow>
    (case map_of hist k of None \<Rightarrow> hist' = map_insert k (pushed w v []) hist
     | Some vs \<Rightarrow> fst (last vs) \<le> w \<and> hist' = map_insert k (pushed w v vs) hist)"
  using history_ok_lookup [OF assms]
  by (cases "map_of hist k") (auto simp: put_value_def pushed_def)

lemma sorted_pushed:
  assumes "sorted_wrt (<) (map fst vs)" "vs \<noteq> [] \<Longrightarrow> fst (last vs) \<le> w"
  shows "sorted_wrt (<) (map fst (pushed w v vs))"
proof (cases vs rule: rev_cases)
  case (snoc ys y)
  then have "sorted_wrt (<) (map fst ys)" "\<forall>x\<in>set (map fst ys). x < fst y" "fst y \<le> w"
    using assms by (auto simp: sorted_wrt_append)
  then show ?thesis by (auto simp: pushed_def snoc sorted_wrt_append)
qed (simp add: pushed_def)

lemma newest_pushed: "newest m (pushed w v vs) = (if w \<le> m then v else newest m vs)"
proof (cases vs rule: rev_cases)
  case (snoc ys y)
  then show ?thesis by (cases y) (auto simp: pushed_def newest_snoc)
qed (simp add: pushed_def newest_def)

lemma get_value_newest: "get_value_option m k hist = (case map_of hist k of Some vs \<Rightarrow> newest m vs | None \<Rightarrow> None)"
  by (simp add: get_value_option_def newest_def split: option.split)

interpretation value_history: versioned_map put_value get_value_option history_ok
proof unfold_locales
  fix m m' :: "('k, 'v) history" and w k v
  assume ok: "history_ok m" and put: "put_value w k v m = Ok m'"
  have ne: "pushed w v vs \<noteq> []" for vs by (simp add: pushed_def)
  show "history_ok m'"
    using put history_ok_lookup [OF ok, of k] unfolding put_value_Ok_iff [OF ok]
    by (auto intro!: history_ok_insert ok ne sorted_pushed split: option.splits)
  fix w' k'
  show "get_value_option w' k' m' = (if k' = k \<and> w \<le> w' then v else get_value_option w' k' m)"
    using put unfolding put_value_Ok_iff [OF ok]
    by (auto simp: get_value_newest newest_pushed newest_Nil split: option.splits)
qed

lemma put_values_puts: "put_values kvs hist = puts put_value kvs hist"
  by (induction kvs hist rule: put_values.induct) (auto split: result.splits)

lemma history_ok_new [simp]: "history_ok (ri_value_history (rocks_db_inner_new d))"
  by (simp add: rocks_db_inner_new_def history_ok_def)

lemma write_node_batch_history:
  "ri_value_history (snd (write_node_batch kv nb r)) =
     (if is_ok (fst (put_nodes kv (nb_nodes nb) (ri_db r)))
      then snd (put_values (nb_values nb) (ri_value_history r)) else ri_value_history r)"
  by (auto simp: write_node_batch_def split: prod.splits result.splits)

lemma put_stale_history [simp]:
  "ri_value_history (snd (put_stale_indices is r)) = ri_value_history r"
  by (induction "is" arbitrary: r) (auto simp: put_stale_node_index_def)

lemma write_tree_history:
  "ri_value_history (snd (write_tree_update_batch kv tb r))
     = ri_value_history (snd (write_node_batch kv (tb_node_batch tb) r))"
proof -
  obtain res r' where w: "write_node_batch kv (tb_node_batch tb) r = (res, r')" by fastforce
  show ?thesis by (cases res) (simp_all add: write_tree_update_batch_def w)
qed

text \<open>The rightmost leaf, over the decoded entries.\<close>

definition decoded_leaves ::
  "('d, 'nk, 'n) kv_ops \<Rightarrow> ('n \<Rightarrow> 'k option) \<Rightarrow> (bytes \<times> bytes) option list \<Rightarrow> 'k set" where
  "decoded_leaves kv leaf items =
     {kh. \<exists>kb nb n. Some (kb, nb) \<in> set items \<and> kv_de_node kv nb = Ok n \<and> leaf n = Some kh}"

definition best_of :: "'k::linorder set \<Rightarrow> ('nk \<times> 'n \<times> 'k) option \<Rightarrow> bool" where
  "best_of S best = (case best of None \<Rightarrow> S = {} | Some (_, _, kh) \<Rightarrow> kh \<in> S \<and> (\<forall>x\<in>S. x \<le> kh))"

lemma decoded_leaves_Cons:
  "decoded_leaves kv leaf (item # items) = decoded_leaves kv leaf [item] \<union> decoded_leaves kv leaf items"
  by (auto simp: decoded_leaves_def)

lemma rightmost_step_best:
  assumes "rightmost_step kv leaf item best = Ok best'" "best_of S best"
  shows "best_of (decoded_leaves kv leaf [item] \<union> S) best'"
proof (cases item)
  case None
  with assms show ?thesis by (simp add: rightmost_step_def decoded_leaves_def)
next
  case (Some kn)
  obtain kb nb where kn: "kn = (kb, nb)" by (cases kn)
  from assms(1) obtain nk n where n: "kv_de_key kv kb = Ok nk" "kv_de_node kv nb = Ok n"
    by (auto simp: rightmost_step_def Some kn result_simps)
  have d: "decoded_leaves kv leaf [item] = set_option (leaf n)"
    by (auto simp: decoded_leaves_def Some kn n)
  show ?thesis
    using assms unfolding d
    by (cases "leaf n"; cases best)
      (auto 0 3 simp: rightmost_step_def Some kn n best_of_def dest: order.strict_implies_order
        intro: order.trans split: if_splits prod.splits)
qed

lemma get_rightmost_leaf_best:
  assumes "get_rightmost_leaf kv leaf d = Ok best"
  shows "best_of (decoded_leaves kv leaf (kv_entries kv d)) best"
proof -
  have "best_of (decoded_leaves kv leaf items \<union> S) best'"
    if "rfold (rightmost_step kv leaf) items b = Ok best'" "best_of S b" for items b S best'
    using that
  proof (induction items arbitrary: b S)
    case Nil
    then show ?case by (simp add: decoded_leaves_def)
  next
    case (Cons item items)
    then obtain m where m: "rightmost_step kv leaf item b = Ok m" "rfold (rightmost_step kv leaf) items m = Ok best'"
      by (auto simp: result_simps)
    have "decoded_leaves kv leaf (item # items) \<union> S
        = decoded_leaves kv leaf items \<union> (decoded_leaves kv leaf [item] \<union> S)"
      by (subst decoded_leaves_Cons) blast
    with Cons.IH [OF m(2) rightmost_step_best [OF m(1) Cons.prems(2)]] show ?case by (simp only:)
  qed
  from this [of "kv_entries kv d" None best "{}"] assms show ?thesis
    by (simp add: get_rightmost_leaf_def best_of_def)
qed

subsection \<open>Properties\<close>



text \<open>A batch of tree updates never changes what is read at a version older than
  all versions in it, whether the batch succeeds or fails half way.\<close>

theorem update_batch_keeps_old_versions:
  assumes "history_ok (ri_value_history r)" "\<forall>e\<in>set (nb_values (tb_node_batch tb)). w0 < fst (fst e)"
  shows "get_value_option w0 k (ri_value_history (snd (write_tree_update_batch kv tb r)))
    = get_value_option w0 k (ri_value_history r)"
proof -
  have "get_value_option w0 k (snd (puts put_value (nb_values (tb_node_batch tb)) (ri_value_history r)))
      = get_value_option w0 k (ri_value_history r)"
    by (rule value_history.old_versions_kept [OF assms(1)]) (use assms(2) in fastforce)
  then show ?thesis by (simp add: write_tree_history write_node_batch_history put_values_puts)
qed

theorem update_batch_keeps_old_versions_witness:
  "get_value_option 1 ''k'' (ri_value_history (snd (write_tree_update_batch
      \<lparr> kv_put = (\<lambda>_ _ d. Ok d), kv_get = (\<lambda>_ _. Ok None), kv_entries = (\<lambda>_. []), kv_ser_key = (\<lambda>_. Ok []),
        kv_ser_node = (\<lambda>_. Ok []), kv_de_key = (\<lambda>_. Ok ()), kv_de_node = (\<lambda>_. Ok ()) \<rparr>
      \<lparr> tb_node_batch = \<lparr> nb_nodes = [((), ())], nb_values = [((2, ''k''), Some ''new'')] \<rparr>,
        tb_stale_node_index_batch = [()] \<rparr>
      \<lparr> ri_db = (), ri_stale_nodes = [], ri_value_history = [(''k'', [(1, Some ''old'')])] \<rparr>))) = Some ''old''"
  by (subst update_batch_keeps_old_versions) (simp_all add: history_ok_def wf_map_def get_value_option_def)

end
