(* ===== verification/Validators.thy ===== *)
theory Validators
  imports Accounts Claims
begin

text \<open>
  The crate \<open>validator\<close>: checks of transactions against the accounts, checks of
  claims with their stake transactions, and the batches of both.  Threshold keys and
  signatures are the crate \<open>hbbft\<close>, given by the record \<open>bls_ops\<close>.  Batches run on a
  thread pool and are collected in a set; the order in which entries are checked
  does not show in the result.
\<close>

subsection \<open>Transactions\<close>

definition ADDRESS_PREFIX :: string where
  "ADDRESS_PREFIX = ''0x192''"

datatype txn_validator_error =
    InvalidSender
  | SenderAddressMissing
  | SenderAddressIncorrect
  | SenderPublicKeyIncorrect
  | ReceiverAddressMissing
  | ReceiverAddressIncorrect
  | TxnOutOfBoundsTimestamp int int
  | TxnOutOfBounds string string string
  | TxnAmountIncorrect
  | TxnSignatureIncorrect
  | TxnSignatureTresholdIncorrect
  | TxnNotFound
  | AccountNotFound string

definition validate_signature :: "crypto \<Rightarrow> transaction_kind \<Rightarrow> (txn_validator_error, unit) result" where
  "validate_signature cr t =
     (if cr_sig_display cr (txn_signature t) \<noteq> [] then
        map_err (\<lambda>_. TxnSignatureIncorrect)
          (verify_ecdsa_sign cr (cr_sig_display cr (txn_signature t)) (str_bytes (txn_build_payload cr t))
            (str_bytes (pk_display cr (txn_sender_public_key t))))
      else Err TxnSignatureIncorrect)"

definition validate_public_key :: "crypto \<Rightarrow> transaction_kind \<Rightarrow> (txn_validator_error, unit) result" where
  "validate_public_key cr t =
     (if pk_display cr (txn_sender_public_key t) \<noteq> [] then Ok () else Err SenderPublicKeyIncorrect)"

definition starts_with :: "string \<Rightarrow> string \<Rightarrow> bool" where
  "starts_with s p = (take (length p) s = p)"

definition validate_sender_address :: "crypto \<Rightarrow> transaction_kind \<Rightarrow> (txn_validator_error, unit) result" where
  "validate_sender_address cr t =
     (let s = address_display cr (txn_sender_address t) in
      if s \<noteq> [] \<and> starts_with s ADDRESS_PREFIX \<and> 10 < length s then Ok () else Err SenderAddressMissing)"

definition validate_receiver_address :: "crypto \<Rightarrow> transaction_kind \<Rightarrow> (txn_validator_error, unit) result" where
  "validate_receiver_address cr t =
     (let s = address_display cr (txn_receiver_address t) in
      if s \<noteq> [] \<and> starts_with s ADDRESS_PREFIX \<and> 10 < length s then Ok () else Err ReceiverAddressMissing)"

definition validate_txn_timestamp :: "int \<Rightarrow> transaction_kind \<Rightarrow> (txn_validator_error, unit) result" where
  "validate_txn_timestamp now t =
     (if 0 < txn_timestamp t \<and> txn_timestamp t < now then Ok ()
      else Err (TxnOutOfBoundsTimestamp (txn_timestamp t) now))"

text \<open>\<open>unwrap\<close> aborts on an unknown account, and the subtraction on debits above the credits.\<close>

definition validate_amount ::
  "crypto \<Rightarrow> (address, account) amap \<Rightarrow> transaction_kind \<Rightarrow> (txn_validator_error, unit) result" where
  "validate_amount cr accounts t =
     (case cr_pk_parse cr (address_display cr (txn_sender_address t)) of
        None \<Rightarrow> Err SenderAddressIncorrect
      | Some pk \<Rightarrow>
          rbind (unwrap (map_of accounts (Address pk))) (\<lambda>a.
          rbind (sub_or_panic (acc_credits a) (acc_debits a)) (\<lambda>available.
            case checked_sub available (txn_amount t) of
              None \<Rightarrow> Err TxnAmountIncorrect
            | Some _ \<Rightarrow> Ok ())))"

definition validate_structure ::
  "crypto \<Rightarrow> int \<Rightarrow> (address, account) amap \<Rightarrow> transaction_kind \<Rightarrow> (txn_validator_error, unit) result" where
  "validate_structure cr now accounts t =
     rbind (validate_amount cr accounts t) (\<lambda>_.
     rbind (validate_public_key cr t) (\<lambda>_.
     rbind (validate_sender_address cr t) (\<lambda>_.
     rbind (validate_receiver_address cr t) (\<lambda>_.
     rbind (validate_signature cr t) (\<lambda>_.
       validate_txn_timestamp now t)))))"

definition txn_validate ::
  "crypto \<Rightarrow> int \<Rightarrow> (address, account) amap \<Rightarrow> transaction_kind \<Rightarrow> (txn_validator_error, unit) result" where
  "txn_validate cr now accounts t = validate_structure cr now accounts t"

subsection \<open>Claims\<close>

datatype claim_validator_error =
    NotEligibleClaim
  | NotEnoughStake string
  | InvalidStakeTxn
  | NonCertifiedStake
  | ClaimOutOfBoundsTimestamp int int
  | ClaimOutOfBounds string string string
  | QuorumKeyMissing
  | InvalidQuorumKey
  | InvalidStakeCertificate
  | Jailed

record bls_ops =
  bls_pk_ok :: "bytes \<Rightarrow> bool"
  bls_sig_ok :: "bytes \<Rightarrow> bool"
  bls_verify :: "bytes \<Rightarrow> bytes \<Rightarrow> bytes \<Rightarrow> bool"

definition validate_stake_timestamp :: "int \<Rightarrow> stake \<Rightarrow> (claim_validator_error, unit) result" where
  "validate_stake_timestamp now s =
     (if 0 < st_timestamp s \<and> st_timestamp s < now then Ok ()
      else Err (ClaimOutOfBoundsTimestamp (st_timestamp s) now))"

definition check_eligibility :: "claim \<Rightarrow> (claim_validator_error, unit) result" where
  "check_eligibility c = (case cl_eligibility c of
     ENone \<Rightarrow> Err NotEligibleClaim
   | EHarvester \<Rightarrow> if cl_stake c < MIN_STAKE_VALIDATOR
       then Err (NotEnoughStake (eligibility_display (cl_eligibility c))) else Ok ()
   | EMiner \<Rightarrow> Ok ()
   | EFarmer \<Rightarrow> if cl_stake c < MIN_STAKE_FARMER
       then Err (NotEnoughStake (eligibility_display (cl_eligibility c))) else Ok ())"

definition jailed :: "stake list \<Rightarrow> bool" where
  "jailed stakes = (stakes \<noteq> [] \<and> (case st_amount (last stakes) of Slash p \<Rightarrow> 0 < p | _ \<Rightarrow> False))"

definition validate_stake_txn :: "crypto \<Rightarrow> bls_ops \<Rightarrow> int \<Rightarrow> stake \<Rightarrow> (claim_validator_error, unit) result" where
  "validate_stake_txn cr bls now s =
     rbind (map_err (\<lambda>_. InvalidStakeTxn) (stake_verify cr s)) (\<lambda>_.
     rbind (validate_stake_timestamp now s) (\<lambda>_.
     case st_certificate s of
       None \<Rightarrow> Err NonCertifiedStake
     | Some certificate \<Rightarrow>
         if st_quorum_key s = [] then Err QuorumKeyMissing
         else if length (st_quorum_key s) \<noteq> 48 \<or> \<not> bls_pk_ok bls (st_quorum_key s) then Err InvalidQuorumKey
         else if length (fst certificate) \<noteq> 96 \<or> \<not> bls_sig_ok bls (fst certificate) then Err InvalidStakeCertificate
         else if \<not> bls_verify bls (st_quorum_key s) (fst certificate) (snd certificate) then Err InvalidStakeCertificate
         else Ok ()))"

text \<open>The parallel \<open>try_for_each\<close> succeeds when all checks do; of several errors the
  first in the list stands for the one it returns.\<close>

definition claim_validate :: "crypto \<Rightarrow> bls_ops \<Rightarrow> int \<Rightarrow> claim \<Rightarrow> (claim_validator_error, unit) result" where
  "claim_validate cr bls now c =
     rbind (check_eligibility c) (\<lambda>_.
       if jailed (cl_stake_txns c) then Err Jailed
       else rfold (\<lambda>s _. validate_stake_txn cr bls now s) (cl_stake_txns c) ())"

subsection \<open>Batches\<close>

definition process_transactions ::
  "crypto \<Rightarrow> int \<Rightarrow> (address, account) amap \<Rightarrow> transaction_kind list
     \<Rightarrow> (unit, (transaction_kind \<times> (txn_validator_error, unit) result) list) result" where
  "process_transactions cr now accounts batch =
     rfold (\<lambda>t acc. case txn_validate cr now accounts t of
         Panic \<Rightarrow> Panic
       | r \<Rightarrow> Ok (if (t, r) \<in> set acc then acc else acc @ [(t, r)])) batch []"

definition process_claims ::
  "crypto \<Rightarrow> bls_ops \<Rightarrow> int \<Rightarrow> claim list \<Rightarrow> (claim \<times> (claim_validator_error, unit) result) list" where
  "process_claims cr bls now batch = remdups (map (\<lambda>c. (c, claim_validate cr bls now c)) batch)"

definition manager_validate ::
  "crypto \<Rightarrow> int \<Rightarrow> (address, account) amap \<Rightarrow> transaction_kind list
     \<Rightarrow> (unit, (transaction_kind \<times> (txn_validator_error, unit) result) list) result" where
  "manager_validate cr now accounts batch = process_transactions cr now accounts batch"

definition manager_validate_claims ::
  "crypto \<Rightarrow> bls_ops \<Rightarrow> int \<Rightarrow> claim list \<Rightarrow> (claim \<times> (claim_validator_error, unit) result) list" where
  "manager_validate_claims cr bls now claims = process_claims cr bls now claims"

subsection \<open>Facts\<close>

lemma rfold_unit_Ok: "rfold (\<lambda>s _. f s) xs () = Ok () \<longleftrightarrow> (\<forall>s\<in>set xs. f s = Ok ())"
  by (induction xs) (auto simp: result_simps)

lemma hex_no_prefix: "hex_laws cr \<Longrightarrow> \<not> starts_with (cr_hex cr b) ADDRESS_PREFIX"
proof
  assume cr: "hex_laws cr" and p: "starts_with (cr_hex cr b) ADDRESS_PREFIX"
  then have t: "take (length ADDRESS_PREFIX) (cr_hex cr b) = ADDRESS_PREFIX" by (simp only: starts_with_def)
  have "CHR ''x'' \<in> set (take (length ADDRESS_PREFIX) (cr_hex cr b))"
    unfolding t by (simp add: ADDRESS_PREFIX_def)
  then have "CHR ''x'' \<in> set (cr_hex cr b)" by (rule in_set_takeD)
  with cr show False by (auto simp: hex_laws_def list_all_iff is_hex_char_def)
qed

text \<open>What it takes to accept a stake transaction, and a claim.\<close>

definition stake_acceptable :: "crypto \<Rightarrow> bls_ops \<Rightarrow> int \<Rightarrow> stake \<Rightarrow> bool" where
  "stake_acceptable cr bls now s = (stake_verify cr s = Ok () \<and> 0 < st_timestamp s \<and> st_timestamp s < now
     \<and> (\<exists>sig m. st_certificate s = Some (sig, m) \<and> length (st_quorum_key s) = 48 \<and> bls_pk_ok bls (st_quorum_key s)
         \<and> length sig = 96 \<and> bls_sig_ok bls sig \<and> bls_verify bls (st_quorum_key s) sig m))"

lemma validate_stake_txn_Ok_iff: "validate_stake_txn cr bls now s = Ok () \<longleftrightarrow> stake_acceptable cr bls now s"
  by (cases "st_certificate s")
    (auto simp: validate_stake_txn_def stake_acceptable_def validate_stake_timestamp_def result_simps)

definition min_stake :: "eligibility \<Rightarrow> u128 option" where
  "min_stake e = (case e of ENone \<Rightarrow> None | EMiner \<Rightarrow> Some 0 | EFarmer \<Rightarrow> Some MIN_STAKE_FARMER
     | EHarvester \<Rightarrow> Some MIN_STAKE_VALIDATOR)"

lemma check_eligibility_Ok_iff: "check_eligibility c = Ok () \<longleftrightarrow> (\<exists>m. min_stake (cl_eligibility c) = Some m \<and> m \<le> cl_stake c)"
  by (cases "cl_eligibility c") (auto simp: check_eligibility_def min_stake_def not_less)

lemma claim_validate_Ok:
  "claim_validate cr bls now c = Ok () \<longleftrightarrow>
     (\<exists>m. min_stake (cl_eligibility c) = Some m \<and> m \<le> cl_stake c) \<and> \<not> jailed (cl_stake_txns c)
     \<and> (\<forall>s\<in>set (cl_stake_txns c). stake_acceptable cr bls now s)"
  by (simp add: claim_validate_def result_simps rfold_unit_Ok validate_stake_txn_Ok_iff check_eligibility_Ok_iff)

subsection \<open>Properties\<close>

text \<open>C35: the transaction validator accepts no transaction: it asks that the text of the
  sender's address starts with \<open>0x192\<close>, and that text is the hexadecimal form of a
  public key.\<close>

theorem txn_validator_accepts_nothing:
  assumes "hex_laws cr"
  shows "txn_validate cr now accounts t \<noteq> Ok ()"
proof -
  have "\<not> starts_with (address_display cr (txn_sender_address t)) ADDRESS_PREFIX"
    using hex_no_prefix [OF assms] by (simp add: address_display_def pk_display_def split: address.splits)
  then show ?thesis
    by (simp add: txn_validate_def validate_structure_def result_simps validate_sender_address_def Let_def)
qed

theorem txn_validator_accepts_nothing_witness:
  "txn_validate example_crypto 1800000000 [(Address key_a, account_new example_crypto 0 key_a)]
     (Transfer (transfer_new example_crypto (example_args 0 1))) \<noteq> Ok ()"
  by (rule txn_validator_accepts_nothing) simp



text \<open>A claim with a stake transaction made by \<open>Stake::new\<close> is refused, certified or
  not: no operation of a stake sets the quorum key that the certificate is checked
  with.\<close>

theorem staked_claim_never_validates:
  assumes "stake_new cr ts amount sk pk from to = Some s"
    and "s \<in> set (cl_stake_txns c) \<or> snd (certify cert s) \<in> set (cl_stake_txns c)"
  shows "claim_validate cr bls now c \<noteq> Ok ()"
proof -
  from assms(1) have "st_quorum_key s = []" "st_quorum_key (snd (certify cert s)) = []"
    by (auto simp: stake_new_def certify_def split: option.splits)
  then have "\<not> stake_acceptable cr bls now s" "\<not> stake_acceptable cr bls now (snd (certify cert s))"
    by (simp_all add: stake_acceptable_def)
  with assms(2) show ?thesis unfolding claim_validate_Ok by blast
qed

theorem staked_claim_never_validates_witness:
  "\<exists>s. stake_new example_crypto 1 (Add 60000) key_a key_a (Address key_a) None = Some s
     \<and> claim_validate example_crypto \<lparr> bls_pk_ok = (\<lambda>_. True), bls_sig_ok = (\<lambda>_. True), bls_verify = (\<lambda>_ _ _. True) \<rparr> 5
         (example_claim \<lparr> cl_eligibility := EFarmer, cl_stake := 60000,
            cl_stake_txns := [snd (certify (replicate 96 0, []) s)] \<rparr>) \<noteq> Ok ()"
proof -
  have "cr_msg_slice example_crypto (hash_data example_crypto (stake_items key_a (Address key_a) None (Add 60000) 1)) \<noteq> None"
    using secp_lawsD(1) [OF example_secp_laws] sha_lawsD [OF example_sha_laws] by (simp add: hash_data_def)
  then obtain s where s: "stake_new example_crypto 1 (Add 60000) key_a key_a (Address key_a) None = Some s"
    by (auto simp: stake_new_def)
  have "claim_validate example_crypto \<lparr> bls_pk_ok = (\<lambda>_. True), bls_sig_ok = (\<lambda>_. True), bls_verify = (\<lambda>_ _ _. True) \<rparr> 5
      (example_claim \<lparr> cl_eligibility := EFarmer, cl_stake := 60000,
         cl_stake_txns := [snd (certify (replicate 96 0, []) s)] \<rparr>) \<noteq> Ok ()"
    by (rule staked_claim_never_validates [OF s, where cert = "(replicate 96 0, [])"]) simp
  with s show ?thesis by blast
qed

text \<open>When a check of the amount aborts, for accounts that are filed under an address
  whose text is the key itself.\<close>

lemma validate_amount_aborts_iff:
  "validate_amount cr accounts t = Panic \<longleftrightarrow>
     (\<exists>pk. cr_pk_parse cr (address_display cr (txn_sender_address t)) = Some pk
        \<and> (case map_of accounts (Address pk) of None \<Rightarrow> True | Some a \<Rightarrow> acc_credits a < acc_debits a))"
proof (cases "cr_pk_parse cr (address_display cr (txn_sender_address t))")
  case (Some pk)
  show ?thesis
  proof (cases "map_of accounts (Address pk)")
    case (Some a)
    with \<open>cr_pk_parse _ _ = _\<close> show ?thesis
      by (auto simp: validate_amount_def sub_or_panic_def checked_sub_def not_le result_simps split: option.splits if_splits)
  qed (simp add: validate_amount_def Some)
qed (simp add: validate_amount_def)

end
