(* ===== verification/Dkg.thy ===== *)
theory Dkg
  imports Ordered_Maps Primitives "HOL-Library.List_Lexorder" "HOL-Library.Char_ord"
begin

text \<open>
  Distributed key generation and threshold signatures: \<open>consensus/dkg_engine\<close>,
  \<open>consensus/signer\<close> and \<open>vrrb_config/src/threshold_config.rs\<close>.  The protocol itself
  is the crate \<open>hbbft\<close>; its operations on key generation instances, parts, acks, key
  sets and signature shares are the record \<open>hbbft_ops\<close>, and \<open>threshold_laws\<close> is its
  documented contract for signatures.  Signatures are their serialised bytes.
\<close>

subsection \<open>Thresholds\<close>

record threshold_config =
  tc_upper_bound :: u16
  tc_threshold :: u16

definition threshold_config_default :: threshold_config where
  "threshold_config_default = \<lparr> tc_upper_bound = 4, tc_threshold = 2 \<rparr>"

definition MINIMUM_NODES :: u16 where
  "MINIMUM_NODES = 2"

datatype config_error = UpperBoundInvalid u16 | ThresholdInvalid u16 u16

definition threshold_config_validate :: "threshold_config \<Rightarrow> (config_error, unit) result" where
  "threshold_config_validate c =
     (if tc_upper_bound c < MINIMUM_NODES \<or> tc_upper_bound c = - 1 then
        Err (UpperBoundInvalid (tc_upper_bound c))
      else if tc_threshold c > tc_upper_bound c \<or> tc_threshold c = 0 \<or> tc_threshold c = - 1 then
        Err (ThresholdInvalid (tc_threshold c) (tc_upper_bound c))
      else Ok ())"

subsection \<open>The interface of hbbft\<close>

datatype 'ack part_outcome = PartValid "'ack option" | PartInvalid string
datatype ack_outcome = AckValid | AckInvalid string

record ('gen, 'part, 'ack, 'rng, 'pks, 'sks) hbbft_ops =
  hb_rng :: "(string, 'rng) result"
  hb_new :: "node_id \<Rightarrow> bytes \<Rightarrow> (node_id, bytes) amap \<Rightarrow> nat \<Rightarrow> 'rng \<Rightarrow> (string, 'gen \<times> 'part option) result"
  hb_handle_part :: "node_id \<Rightarrow> 'part \<Rightarrow> 'rng \<Rightarrow> 'gen \<Rightarrow> (string, 'ack part_outcome) result \<times> 'gen"
  hb_handle_ack :: "node_id \<Rightarrow> 'ack \<Rightarrow> 'gen \<Rightarrow> (string, ack_outcome) result \<times> 'gen"
  hb_is_ready :: "'gen \<Rightarrow> bool"
  hb_generate :: "'gen \<Rightarrow> (string, 'pks \<times> 'sks option) result"
  hb_sign :: "'sks \<Rightarrow> bytes \<Rightarrow> bytes"
  hb_share_ok :: "bytes \<Rightarrow> bool"
  hb_sig_ok :: "bytes \<Rightarrow> bool"
  hb_combine :: "'pks \<Rightarrow> (nat, bytes) amap \<Rightarrow> (string, bytes) result"
  hb_verify_share :: "'pks \<Rightarrow> nat \<Rightarrow> bytes \<Rightarrow> bytes \<Rightarrow> bool"
  hb_verify :: "'pks \<Rightarrow> bytes \<Rightarrow> bytes \<Rightarrow> bool"

definition SIG_SIZE :: nat where
  "SIG_SIZE = 96"

subsection \<open>The state of the generation\<close>

record ('gen, 'part, 'ack, 'rng, 'pks, 'sks) dkg_state =
  ds_part_message_store :: "(node_id, 'part) amap"
  ds_ack_message_store :: "(node_id \<times> node_id, 'ack) amap"
  ds_peer_public_keys :: "(node_id, bytes) amap"
  ds_public_key_set :: "'pks option"
  ds_secret_key_share :: "'sks option"
  ds_sync_key_gen :: "'gen option"
  ds_random_number_gen :: "'rng option"

definition dkg_state_new :: "('gen, 'part, 'ack, 'rng, 'pks, 'sks) dkg_state" where
  "dkg_state_new = \<lparr> ds_part_message_store = [], ds_ack_message_store = [], ds_peer_public_keys = [],
     ds_public_key_set = None, ds_secret_key_share = None, ds_sync_key_gen = None,
     ds_random_number_gen = None \<rparr>"

definition dkg_state_clear ::
  "('gen, 'part, 'ack, 'rng, 'pks, 'sks) dkg_state \<Rightarrow> ('gen, 'part, 'ack, 'rng, 'pks, 'sks) dkg_state" where
  "dkg_state_clear s = s \<lparr> ds_part_message_store := [], ds_ack_message_store := [],
     ds_sync_key_gen := None, ds_random_number_gen := None, ds_public_key_set := None,
     ds_peer_public_keys := [], ds_secret_key_share := None \<rparr>"

definition state_add_peer_public_key ::
  "node_id \<Rightarrow> bytes \<Rightarrow> ('gen, 'part, 'ack, 'rng, 'pks, 'sks) dkg_state
     \<Rightarrow> ('gen, 'part, 'ack, 'rng, 'pks, 'sks) dkg_state" where
  "state_add_peer_public_key n pk s =
     s \<lparr> ds_peer_public_keys := map_insert n pk (ds_peer_public_keys s) \<rparr>"

text \<open>Errors keep the parts of their text.\<close>

datatype dkg_error =
    NotEnoughPeerPublicKeys
  | SyncKeyGenInstanceNotCreated
  | NotEnoughPartMsgsReceived
  | NotEnoughPartsCompleted
  | NotEnoughAckMsgsReceived
  | PartCommitmentNotGenerated
  | PartMsgMissingForNode node_id
  | PartMsgAlreadyAcknowledged node_id
  | InvalidPartMessage string
  | InvalidAckMessage node_id node_id string
  | SyncKeyGenError node_id string
  | ConfigInvalidValue string string
  | InvalidNode
  | ObserverNotAllowed
  | DkgUnknown string

record ('gen, 'part, 'ack, 'rng, 'pks, 'sks) dkg_engine =
  de_node_id :: node_id
  de_node_type :: node_type
  de_threshold_config :: threshold_config
  de_secret_key :: bytes
  de_dkg_state :: "('gen, 'part, 'ack, 'rng, 'pks, 'sks) dkg_state"
  de_harvester_public_key :: "bytes option"

definition dkg_engine_new ::
  "node_id \<Rightarrow> node_type \<Rightarrow> bytes \<Rightarrow> threshold_config \<Rightarrow> ('gen, 'part, 'ack, 'rng, 'pks, 'sks) dkg_engine" where
  "dkg_engine_new n ty sk c = \<lparr> de_node_id = n, de_node_type = ty, de_threshold_config = c,
     de_secret_key = sk, de_dkg_state = dkg_state_new, de_harvester_public_key = None \<rparr>"

definition add_peer_public_key ::
  "node_id \<Rightarrow> bytes \<Rightarrow> ('gen, 'part, 'ack, 'rng, 'pks, 'sks) dkg_engine
     \<Rightarrow> ('gen, 'part, 'ack, 'rng, 'pks, 'sks) dkg_engine" where
  "add_peer_public_key n pk e = e \<lparr> de_dkg_state := state_add_peer_public_key n pk (de_dkg_state e) \<rparr>"

definition set_harvester_public_key ::
  "bytes \<Rightarrow> ('gen, 'part, 'ack, 'rng, 'pks, 'sks) dkg_engine
     \<Rightarrow> ('gen, 'part, 'ack, 'rng, 'pks, 'sks) dkg_engine" where
  "set_harvester_public_key pk e = e \<lparr> de_harvester_public_key := Some pk \<rparr>"

definition clear_state ::
  "('gen, 'part, 'ack, 'rng, 'pks, 'sks) dkg_engine \<Rightarrow> ('gen, 'part, 'ack, 'rng, 'pks, 'sks) dkg_engine" where
  "clear_state e = e \<lparr> de_dkg_state := dkg_state_clear (de_dkg_state e) \<rparr>"

text \<open>\<open>Clone\<close> makes a fresh generation instance; its two \<open>unwrap\<close>s abort.\<close>

definition dkg_engine_clone ::
  "('gen, 'part, 'ack, 'rng, 'pks, 'sks) hbbft_ops \<Rightarrow> ('gen, 'part, 'ack, 'rng, 'pks, 'sks) dkg_engine
     \<Rightarrow> (dkg_error, ('gen, 'part, 'ack, 'rng, 'pks, 'sks) dkg_engine) result" where
  "dkg_engine_clone hb e =
     (case hb_rng hb of
        Ok rng \<Rightarrow> (case hb_new hb (de_node_id e) (de_secret_key e) (ds_peer_public_keys (de_dkg_state e))
            (unat (tc_threshold (de_threshold_config e))) rng of
          Ok (g, _) \<Rightarrow> Ok (e \<lparr> de_dkg_state := (de_dkg_state e) \<lparr> ds_sync_key_gen := Some g \<rparr> \<rparr>)
        | _ \<Rightarrow> Panic)
      | _ \<Rightarrow> Panic)"

definition generate_partial_commitment ::
  "('gen, 'part, 'ack, 'rng, 'pks, 'sks) hbbft_ops \<Rightarrow> nat \<Rightarrow> ('gen, 'part, 'ack, 'rng, 'pks, 'sks) dkg_engine
     \<Rightarrow> (dkg_error, 'part \<times> node_id) result \<times> ('gen, 'part, 'ack, 'rng, 'pks, 'sks) dkg_engine" where
  "generate_partial_commitment hb threshold e =
     (case hb_rng hb of
        Err m \<Rightarrow> (Err (DkgUnknown m), e)
      | Panic \<Rightarrow> (Panic, e)
      | Ok rng \<Rightarrow>
        (case hb_new hb (de_node_id e) (de_secret_key e) (ds_peer_public_keys (de_dkg_state e)) threshold rng of
           Err m \<Rightarrow> (Err (SyncKeyGenError (de_node_id e) m), e)
         | Panic \<Rightarrow> (Panic, e)
         | Ok (g, None) \<Rightarrow> (Err PartCommitmentNotGenerated, e)
         | Ok (g, Some p) \<Rightarrow>
             (Ok (p, de_node_id e), e \<lparr> de_dkg_state := (de_dkg_state e)
                \<lparr> ds_random_number_gen := Some rng,
                  ds_part_message_store := map_insert (de_node_id e) p (ds_part_message_store (de_dkg_state e)),
                  ds_sync_key_gen := Some g \<rparr> \<rparr>)))"

definition ack_partial_commitment ::
  "('gen, 'part, 'ack, 'rng, 'pks, 'sks) hbbft_ops \<Rightarrow> node_id \<Rightarrow> ('gen, 'part, 'ack, 'rng, 'pks, 'sks) dkg_engine
     \<Rightarrow> (dkg_error, node_id \<times> node_id \<times> 'ack) result \<times> ('gen, 'part, 'ack, 'rng, 'pks, 'sks) dkg_engine" where
  "ack_partial_commitment hb sender e =
     (let s = de_dkg_state e; n = de_node_id e in
      case ds_random_number_gen s of
        None \<Rightarrow> (Err (DkgUnknown ''failed to get random number generator''), e)
      | Some rng \<Rightarrow> (case ds_sync_key_gen s of
          None \<Rightarrow> (Err SyncKeyGenInstanceNotCreated, e)
        | Some g \<Rightarrow>
          if map_contains (n, sender) (ds_ack_message_store s) then (Err (PartMsgAlreadyAcknowledged sender), e)
          else (case map_of (ds_part_message_store s) sender of
              None \<Rightarrow> (Err (PartMsgMissingForNode sender), e)
            | Some part \<Rightarrow> (case hb_handle_part hb sender part rng g of (r, g') \<Rightarrow>
                (let e' = e \<lparr> de_dkg_state := s \<lparr> ds_sync_key_gen := Some g' \<rparr> \<rparr> in
                 case r of
                   Ok (PartValid (Some ack)) \<Rightarrow> (Ok (n, sender, ack), e' \<lparr> de_dkg_state := (de_dkg_state e')
                     \<lparr> ds_ack_message_store := map_insert (n, sender) ack (ds_ack_message_store s) \<rparr> \<rparr>)
                 | Ok (PartInvalid fault) \<Rightarrow> (Err (InvalidPartMessage fault), e')
                 | Ok (PartValid None) \<Rightarrow> (Err ObserverNotAllowed, e')
                 | Err m \<Rightarrow> (Err (DkgUnknown (''failed to generate handle part commitment: '' @ m)), e')
                 | Panic \<Rightarrow> (Panic, e'))))))"

fun handle_acks ::
  "('gen, 'part, 'ack, 'rng, 'pks, 'sks) hbbft_ops \<Rightarrow> (node_id \<times> node_id \<times> 'ack) list \<Rightarrow> 'gen
     \<Rightarrow> (dkg_error, unit) result \<times> 'gen" where
  "handle_acks hb [] g = (Ok (), g)"
| "handle_acks hb ((receiver, sender, ack) # acks) g = (case hb_handle_ack hb receiver ack g of
     (Ok AckValid, g') \<Rightarrow> handle_acks hb acks g'
   | (Ok (AckInvalid fault), g') \<Rightarrow> (Err (InvalidAckMessage sender receiver fault), g')
   | (Err m, g') \<Rightarrow> (Err (InvalidAckMessage sender receiver m), g')
   | (Panic, g') \<Rightarrow> (Panic, g'))"

definition handle_ack_messages ::
  "('gen, 'part, 'ack, 'rng, 'pks, 'sks) hbbft_ops \<Rightarrow> ('gen, 'part, 'ack, 'rng, 'pks, 'sks) dkg_engine
     \<Rightarrow> (dkg_error, unit) result \<times> ('gen, 'part, 'ack, 'rng, 'pks, 'sks) dkg_engine" where
  "handle_ack_messages hb e =
     (let s = de_dkg_state e;
          acks = sort_key fst (map (\<lambda>((receiver, sender), ack). (receiver, sender, ack)) (ds_ack_message_store s)) in
      case ds_sync_key_gen s of
        None \<Rightarrow> (Err SyncKeyGenInstanceNotCreated, e)
      | Some g \<Rightarrow> (case handle_acks hb acks g of
          (r, g') \<Rightarrow> (r, e \<lparr> de_dkg_state := s \<lparr> ds_sync_key_gen := Some g' \<rparr> \<rparr>)))"

definition generate_key_sets ::
  "('gen, 'part, 'ack, 'rng, 'pks, 'sks) hbbft_ops \<Rightarrow> ('gen, 'part, 'ack, 'rng, 'pks, 'sks) dkg_engine
     \<Rightarrow> (dkg_error, unit) result \<times> ('gen, 'part, 'ack, 'rng, 'pks, 'sks) dkg_engine" where
  "generate_key_sets hb e =
     (let s = de_dkg_state e in
      case ds_sync_key_gen s of
        None \<Rightarrow> (Err SyncKeyGenInstanceNotCreated, e)
      | Some g \<Rightarrow>
        if \<not> hb_is_ready hb g then (Err NotEnoughPartsCompleted, e)
        else (case hb_generate hb g of
            Ok (pks, sks) \<Rightarrow> (Ok (), e \<lparr> de_dkg_state := s \<lparr> ds_public_key_set := Some pks, ds_secret_key_share := sks \<rparr> \<rparr>)
          | Err m \<Rightarrow> (Err (DkgUnknown (''Failed to create `PublicKeySet` and `SecretKeyShare`, Node ID ''
                @ de_node_id e @ '', Error: '' @ m)), e)
          | Panic \<Rightarrow> (Panic, e)))"

subsection \<open>A part is acknowledged once\<close>

inductive dkg_step ::
  "('gen, 'part, 'ack, 'rng, 'pks, 'sks) hbbft_ops \<Rightarrow> ('gen, 'part, 'ack, 'rng, 'pks, 'sks) dkg_engine
     \<Rightarrow> ('gen, 'part, 'ack, 'rng, 'pks, 'sks) dkg_engine \<Rightarrow> bool" for hb where
  dk_add_peer: "dkg_step hb e (add_peer_public_key n pk e)"
| dk_part: "dkg_step hb e (snd (generate_partial_commitment hb t e))"
| dk_ack: "dkg_step hb e (snd (ack_partial_commitment hb sender e))"
| dk_handle_acks: "dkg_step hb e (snd (handle_ack_messages hb e))"
| dk_keys: "dkg_step hb e (snd (generate_key_sets hb e))"

definition acked :: "node_id \<Rightarrow> node_id \<Rightarrow> ('gen, 'part, 'ack, 'rng, 'pks, 'sks) dkg_engine \<Rightarrow> bool" where
  "acked n sender e = (de_node_id e = n \<and> map_contains (n, sender) (ds_ack_message_store (de_dkg_state e))
     \<and> ds_random_number_gen (de_dkg_state e) \<noteq> None \<and> ds_sync_key_gen (de_dkg_state e) \<noteq> None)"

text \<open>What a step leaves: the own name, the acks that are there, and the instance and
  its generator once they are made.\<close>

definition keeps ::
  "('gen, 'part, 'ack, 'rng, 'pks, 'sks) dkg_engine \<Rightarrow> ('gen, 'part, 'ack, 'rng, 'pks, 'sks) dkg_engine \<Rightarrow> bool" where
  "keeps e e' = (de_node_id e' = de_node_id e
     \<and> (\<forall>k. map_contains k (ds_ack_message_store (de_dkg_state e)) \<longrightarrow> map_contains k (ds_ack_message_store (de_dkg_state e')))
     \<and> (ds_random_number_gen (de_dkg_state e) \<noteq> None \<longrightarrow> ds_random_number_gen (de_dkg_state e') \<noteq> None)
     \<and> (ds_sync_key_gen (de_dkg_state e) \<noteq> None \<longrightarrow> ds_sync_key_gen (de_dkg_state e') \<noteq> None))"

lemma keeps_refl [simp]: "keeps e e"
  by (simp add: keeps_def)

lemma keeps_part: "keeps e (snd (generate_partial_commitment hb t e))"
  by (simp add: generate_partial_commitment_def keeps_def split: result.split prod.split option.split)

lemma keeps_ack: "keeps e (snd (ack_partial_commitment hb sender e))"
  by (simp add: ack_partial_commitment_def keeps_def Let_def map_contains_def
      split: result.split prod.split option.split part_outcome.split)

lemma keeps_handle_acks: "keeps e (snd (handle_ack_messages hb e))"
  by (simp add: handle_ack_messages_def keeps_def Let_def split: prod.split option.split)

lemma keeps_keys: "keeps e (snd (generate_key_sets hb e))"
  by (simp add: generate_key_sets_def keeps_def Let_def split: result.split prod.split option.split)

lemma keeps_add_peer: "keeps e (add_peer_public_key n pk e)"
  by (simp add: add_peer_public_key_def state_add_peer_public_key_def keeps_def)

lemma dkg_step_keeps: "dkg_step hb e e' \<Longrightarrow> keeps e e'"
  by (induction rule: dkg_step.induct)
    (rule keeps_add_peer keeps_part keeps_ack keeps_handle_acks keeps_keys)+

lemma acked_keeps: "acked n sender e \<Longrightarrow> keeps e e' \<Longrightarrow> acked n sender e'"
  unfolding acked_def keeps_def by blast

interpretation dkg_acked: invariant_system "acked n sender" "dkg_step hb" "acked n sender" for n sender hb
  by unfold_locales (blast intro: acked_keeps dkg_step_keeps)+

lemma ack_Ok_acked:
  "ack_partial_commitment hb sender e = (Ok r, e') \<Longrightarrow> acked (de_node_id e) sender e'"
  by (auto simp: ack_partial_commitment_def acked_def Let_def map_contains_def
      split: result.splits prod.splits option.splits part_outcome.splits if_splits)

lemma acked_refuses:
  "acked n sender e \<Longrightarrow> ack_partial_commitment hb sender e = (Err (PartMsgAlreadyAcknowledged sender), e)"
  by (auto simp: ack_partial_commitment_def acked_def Let_def)

text \<open>One instance of the interface: a generation collects names of peers, and is ready
  when it has heard of more peers than its threshold.\<close>

definition pad :: "bytes \<Rightarrow> bytes" where
  "pad m = take 96 (m @ replicate 96 0)"

lemma length_pad [simp]: "length (pad m) = 96"
  by (simp add: pad_def)

definition example_hbbft ::
  "(nat \<times> node_id list, node_id, node_id, unit, nat, nat) hbbft_ops" where
  "example_hbbft = \<lparr> hb_rng = Ok (), hb_new = (\<lambda>n sk pks t rng. Ok ((t, []), if map_contains n pks then Some n else None)),
     hb_handle_part = (\<lambda>sender part rng g. (Ok (PartValid (Some sender)), g)),
     hb_handle_ack = (\<lambda>receiver ack g. (Ok AckValid, (fst g, receiver # snd g))),
     hb_is_ready = (\<lambda>g. fst g < length (remdups (snd g))),
     hb_generate = (\<lambda>g. Ok (fst g, Some (fst g))),
     hb_sign = (\<lambda>sks m. pad m), hb_share_ok = (\<lambda>b. length b = 96), hb_sig_ok = (\<lambda>b. length b = 96),
     hb_combine = (\<lambda>pks shares. if pks < length shares then Ok (snd (hd shares)) else Err ''NotEnoughShares''),
     hb_verify_share = (\<lambda>pks i s m. s = pad m), hb_verify = (\<lambda>pks s m. s = pad m) \<rparr>"

subsection \<open>Properties\<close>

text \<open>Once a node has acknowledged the part of a sender, every later attempt to
  acknowledge it is refused, whatever steps of the protocol come between, as long
  as the state is not cleared.\<close>

theorem part_acknowledged_once:
  assumes "ack_partial_commitment hb sender e = (Ok r, e1)" "(dkg_step hb)\<^sup>*\<^sup>* e1 e2"
  shows "ack_partial_commitment hb sender e2 = (Err (PartMsgAlreadyAcknowledged sender), e2)"
  by (rule acked_refuses [OF dkg_acked.steps_inv [OF assms(2) ack_Ok_acked [OF assms(1)]]])

definition example_engine :: "(nat \<times> node_id list, node_id, node_id, unit, nat, nat) dkg_engine" where
  "example_engine = snd (generate_partial_commitment example_hbbft 1
     (add_peer_public_key ''a'' [] (dkg_engine_new ''a'' NValidator [] threshold_config_default)))"

theorem part_acknowledged_once_witness:
  "\<exists>e1. ack_partial_commitment example_hbbft ''a'' example_engine = (Ok (''a'', ''a'', ''a''), e1)
     \<and> ack_partial_commitment example_hbbft ''a'' (snd (handle_ack_messages example_hbbft e1))
        = (Err (PartMsgAlreadyAcknowledged ''a''), snd (handle_ack_messages example_hbbft e1))"
proof -
  obtain e1 where e1: "ack_partial_commitment example_hbbft ''a'' example_engine = (Ok (''a'', ''a'', ''a''), e1)"
    by (simp add: ack_partial_commitment_def example_engine_def generate_partial_commitment_def Let_def
        example_hbbft_def add_peer_public_key_def state_add_peer_public_key_def dkg_engine_new_def
        dkg_state_new_def map_contains_def map_insert_def)
  from part_acknowledged_once [OF e1, of "snd (handle_ack_messages example_hbbft e1)"] e1
  show ?thesis by (blast intro: dk_handle_acks)
qed

end
