(* ===== verification/Signers.thy ===== *)
theory Signers
  imports Dkg Blocks
begin

text \<open>
  \<open>consensus/signer/src/signer.rs\<close>: partial and threshold signatures over the state of
  the key generation.  A poisoned lock is the field \<open>sp_poisoned\<close>.
\<close>

datatype signer_error =
    DkgStateCannotBeRead
  | GroupPublicKeyMissing
  | SecretKeyShareMissing
  | ThresholdSignatureError string
  | PartialSignatureError string
  | SignatureVerificationError string
  | CorruptSignatureShare string

record ('gen, 'part, 'ack, 'rng, 'pks, 'sks) signature_provider =
  sp_dkg_state :: "('gen, 'part, 'ack, 'rng, 'pks, 'sks) dkg_state"
  sp_poisoned :: bool
  sp_quorum_config :: threshold_config

definition signature_provider_new ::
  "('gen, 'part, 'ack, 'rng, 'pks, 'sks) dkg_state \<Rightarrow> threshold_config
     \<Rightarrow> ('gen, 'part, 'ack, 'rng, 'pks, 'sks) signature_provider" where
  "signature_provider_new s c = \<lparr> sp_dkg_state = s, sp_poisoned = False, sp_quorum_config = c \<rparr>"

definition set_dkg_state ::
  "('gen, 'part, 'ack, 'rng, 'pks, 'sks) dkg_state \<Rightarrow> ('gen, 'part, 'ack, 'rng, 'pks, 'sks) signature_provider
     \<Rightarrow> ('gen, 'part, 'ack, 'rng, 'pks, 'sks) signature_provider" where
  "set_dkg_state s p = p \<lparr> sp_dkg_state := s, sp_poisoned := False \<rparr>"

definition read_dkg_state ::
  "('gen, 'part, 'ack, 'rng, 'pks, 'sks) signature_provider
     \<Rightarrow> (signer_error, ('gen, 'part, 'ack, 'rng, 'pks, 'sks) dkg_state) result" where
  "read_dkg_state p = (if sp_poisoned p then Err DkgStateCannotBeRead else Ok (sp_dkg_state p))"

definition generate_partial_signature ::
  "('gen, 'part, 'ack, 'rng, 'pks, 'sks) hbbft_ops \<Rightarrow> ('gen, 'part, 'ack, 'rng, 'pks, 'sks) signature_provider
     \<Rightarrow> bytes \<Rightarrow> (signer_error, raw_signature) result" where
  "generate_partial_signature hb p payload_hash =
     rbind (read_dkg_state p) (\<lambda>s. case ds_secret_key_share s of
       Some key \<Rightarrow> Ok (hb_sign hb key payload_hash)
     | None \<Rightarrow> Err SecretKeyShareMissing)"

text \<open>The number of shares is compared after a cast to sixteen bits.\<close>

definition generate_quorum_signature ::
  "('gen, 'part, 'ack, 'rng, 'pks, 'sks) hbbft_ops \<Rightarrow> ('gen, 'part, 'ack, 'rng, 'pks, 'sks) signature_provider
     \<Rightarrow> u16 \<Rightarrow> (u16, raw_signature) amap \<Rightarrow> (signer_error, raw_signature) result" where
  "generate_quorum_signature hb p quorum_threshold shares =
     (if (of_nat (length shares) :: u16) < quorum_threshold then
        Err (ThresholdSignatureError ''Received less than t+1 signature shares'')
      else rbind (read_dkg_state p) (\<lambda>s.
        if \<exists>sig\<in>set (vals shares). length sig \<noteq> SIG_SIZE then Err (CorruptSignatureShare ''Invalid Signature'')
        else case ds_public_key_set s of
            None \<Rightarrow> Err GroupPublicKeyMissing
          | Some pks \<Rightarrow>
              (case hb_combine hb pks (map (\<lambda>(x, b). (unat x, b)) (filter (\<lambda>(x, b). hb_share_ok hb b) shares)) of
                 Ok sig \<Rightarrow> Ok sig
               | Err m \<Rightarrow> Err (ThresholdSignatureError
                   (''Error while constructing threshold signature details: '' @ m))
               | Panic \<Rightarrow> Panic)))"

definition signer_verify_signature ::
  "('gen, 'part, 'ack, 'rng, 'pks, 'sks) hbbft_ops \<Rightarrow> ('gen, 'part, 'ack, 'rng, 'pks, 'sks) signature_provider
     \<Rightarrow> u16 \<Rightarrow> bytes \<Rightarrow> raw_signature \<Rightarrow> signature_type \<Rightarrow> (signer_error, bool) result" where
  "signer_verify_signature hb p node_idx payload_hash signature ty =
     (if length signature \<noteq> SIG_SIZE then
        Err (CorruptSignatureShare ''Invalid Signature ,Size must be 96 bytes'')
      else rbind (read_dkg_state p) (\<lambda>s. case ty of
          PartialSignature \<Rightarrow> (case ds_public_key_set s of
              None \<Rightarrow> Err GroupPublicKeyMissing
            | Some pks \<Rightarrow>
                if hb_share_ok hb signature then Ok (hb_verify_share hb pks (unat node_idx) signature payload_hash)
                else Err (CorruptSignatureShare ''Corrupt signature share''))
        | _ \<Rightarrow> (case ds_public_key_set s of
              None \<Rightarrow> Err GroupPublicKeyMissing
            | Some pks \<Rightarrow>
                if hb_sig_ok hb signature then Ok (hb_verify hb pks signature payload_hash)
                else Err (ThresholdSignatureError ''Corrupt signature''))))"

text \<open>The contract of threshold signatures for one key set: \<open>key_share i sks\<close> says that
  \<open>sks\<close> is the share of node \<open>i\<close>, and more than \<open>t\<close> shares of a message combine into
  a signature of the set.\<close>

definition threshold_laws ::
  "('gen, 'part, 'ack, 'rng, 'pks, 'sks) hbbft_ops \<Rightarrow> 'pks \<Rightarrow> nat \<Rightarrow> (nat \<Rightarrow> 'sks \<Rightarrow> bool) \<Rightarrow> bool" where
  "threshold_laws hb pks t key_share =
     ((\<forall>i sks m. key_share i sks \<longrightarrow> length (hb_sign hb sks m) = SIG_SIZE \<and> hb_share_ok hb (hb_sign hb sks m)
        \<and> hb_verify_share hb pks i (hb_sign hb sks m) m)
      \<and> (\<forall>shares m. distinct (keys shares) \<and> t < length shares
           \<and> (\<forall>(i, s)\<in>set shares. \<exists>sks. key_share i sks \<and> s = hb_sign hb sks m)
         \<longrightarrow> (\<exists>sig. hb_combine hb pks shares = Ok sig \<and> length sig = SIG_SIZE \<and> hb_sig_ok hb sig
               \<and> hb_verify hb pks sig m)))"

lemma threshold_shareD:
  assumes "threshold_laws hb pks t key_share" "key_share i sks"
  shows "length (hb_sign hb sks m) = SIG_SIZE \<and> hb_share_ok hb (hb_sign hb sks m)
    \<and> hb_verify_share hb pks i (hb_sign hb sks m) m"
  using assms unfolding threshold_laws_def by blast

lemma threshold_combineD:
  assumes "threshold_laws hb pks t key_share" "distinct (keys shares)" "t < length shares"
    and "\<forall>(i, s)\<in>set shares. \<exists>sks. key_share i sks \<and> s = hb_sign hb sks m"
  shows "\<exists>sig. hb_combine hb pks shares = Ok sig \<and> length sig = SIG_SIZE \<and> hb_sig_ok hb sig
    \<and> hb_verify hb pks sig m"
proof -
  from assms(1) have "\<forall>shares m. distinct (keys shares) \<and> t < length shares
      \<and> (\<forall>(i, s)\<in>set shares. \<exists>sks. key_share i sks \<and> s = hb_sign hb sks m)
    \<longrightarrow> (\<exists>sig. hb_combine hb pks shares = Ok sig \<and> length sig = SIG_SIZE \<and> hb_sig_ok hb sig
          \<and> hb_verify hb pks sig m)"
    unfolding threshold_laws_def by (rule conjunct2)
  from this [THEN spec, THEN spec, THEN mp, OF conjI [OF assms(2) conjI [OF assms(3,4)]]] show ?thesis .
qed

lemma example_threshold_laws: "threshold_laws example_hbbft t t (\<lambda>i sks. True)"
proof -
  have "\<exists>sig. hb_combine example_hbbft t shares = Ok sig \<and> length sig = SIG_SIZE \<and> hb_sig_ok example_hbbft sig
      \<and> hb_verify example_hbbft t sig m"
    if "t < length shares" "\<forall>(i, s)\<in>set shares. s = pad m" for shares :: "(nat, bytes) amap" and m
    using that by (cases shares) (auto simp: example_hbbft_def SIG_SIZE_def)
  then show ?thesis
    unfolding threshold_laws_def by (auto simp: example_hbbft_def SIG_SIZE_def)
qed

text \<open>C18: signature shares made by more than \<open>t\<close> nodes of a key set for a payload
  combine into a quorum signature, and the signature verifies; each share verifies
  as well.  The number of shares must fit sixteen bits and reach the given
  threshold.\<close>

theorem quorum_signature_verifies:
  assumes "threshold_laws hb pks t key_share" "\<not> sp_poisoned p"
    and "ds_public_key_set (sp_dkg_state p) = Some pks"
    and "distinct (keys shares)" "t < length shares" "unat threshold \<le> length shares" "length shares < 2 ^ 16"
    and "\<forall>(i, s)\<in>set shares. \<exists>sks. key_share (unat i) sks \<and> s = hb_sign hb sks payload"
  shows "(\<exists>sig. generate_quorum_signature hb p threshold shares = Ok sig
      \<and> signer_verify_signature hb p idx payload sig ThresholdSignature = Ok True)
    \<and> (\<forall>(i, s)\<in>set shares. signer_verify_signature hb p i payload s PartialSignature = Ok True)"
proof -
  have each: "length s = SIG_SIZE" "hb_share_ok hb s" "hb_verify_share hb pks (unat i) s payload"
    if "(i, s) \<in> set shares" for i s
    using assms(8) that threshold_shareD [OF assms(1)] by fastforce+
  have enough: "\<not> (of_nat (length shares) :: u16) < threshold"
    using assms(6,7) by (simp add: word_less_nat_alt unat_of_nat not_less)
  have all: "filter (\<lambda>(x, b). hb_share_ok hb b) shares = shares"
    by (rule filter_True) (use each(2) in auto)
  let ?ns = "map (\<lambda>(x, b). (unat x, b)) shares"
  have "keys ?ns = map unat (keys shares)" by (induction shares) auto
  moreover have "inj_on unat S" for S :: "u16 set" by (auto simp: inj_on_def word_unat_eq_iff)
  ultimately have d: "distinct (keys ?ns)" using assms(4) by (simp only: distinct_map)
  have "\<forall>(i, s)\<in>set ?ns. \<exists>sks. key_share i sks \<and> s = hb_sign hb sks payload"
    using assms(8) by fastforce
  from threshold_combineD [OF assms(1) d _ this] assms(5) obtain sig where
    sig: "hb_combine hb pks ?ns = Ok sig" "length sig = SIG_SIZE" "hb_sig_ok hb sig" "hb_verify hb pks sig payload"
    by auto
  have "generate_quorum_signature hb p threshold shares = Ok sig"
    using enough each(1) assms(2,3) sig(1)
    by (auto simp: generate_quorum_signature_def read_dkg_state_def all)
  moreover have "signer_verify_signature hb p idx payload sig ThresholdSignature = Ok True"
    using sig assms(2,3) by (simp add: signer_verify_signature_def read_dkg_state_def)
  moreover have "signer_verify_signature hb p i payload s PartialSignature = Ok True" if "(i, s) \<in> set shares" for i s
    using each [OF that] assms(2,3) by (simp add: signer_verify_signature_def read_dkg_state_def)
  ultimately show ?thesis by blast
qed

definition example_provider ::
  "(nat \<times> node_id list, node_id, node_id, unit, nat, nat) signature_provider" where
  "example_provider = signature_provider_new (dkg_state_new \<lparr> ds_public_key_set := Some 1 \<rparr>) threshold_config_default"

theorem quorum_signature_verifies_witness:
  "\<exists>sig. generate_quorum_signature example_hbbft example_provider 2 [(0, pad [7]), (3, pad [7])] = Ok sig
     \<and> signer_verify_signature example_hbbft example_provider 0 [7] sig ThresholdSignature = Ok True"
  using quorum_signature_verifies [OF example_threshold_laws [of 1],
      of example_provider "[(0, pad [7]), (3, pad [7])]" 2 "[7]" 0]
  by (simp add: example_provider_def signature_provider_new_def example_hbbft_def)

text \<open>The cast loses a full set of shares: 65536 of them count as none.\<close>

lemma full_share_set_refused:
  assumes "length shares = 2 ^ 16" "0 < threshold"
  shows "generate_quorum_signature hb p threshold shares
    = Err (ThresholdSignatureError ''Received less than t+1 signature shares'')"
proof -
  have "(of_nat (length shares) :: u16) = 0" unfolding assms(1) by simp
  with assms(2) show ?thesis by (simp add: generate_quorum_signature_def)
qed

end
