(* ===== verification/Quorum_Assignment.thy ===== *)
theory Quorum_Assignment
  imports Quorums Signers
begin

text \<open>
  \<open>node/src/consensus/quorum_module.rs\<close> with the types it uses from \<open>vrrb_config\<close>
  and \<open>events\<close>: the assignment of peers to quorums, and the election of a miner.
\<close>

type_synonym kademlia_peer_id = bytes

record quorum_member =
  qm_node_id :: node_id
  qm_kademlia_peer_id :: kademlia_peer_id
  qm_node_type :: node_type
  qm_udp_gossip_address :: socket_addr
  qm_raptorq_gossip_address :: socket_addr
  qm_kademlia_liveness_address :: socket_addr
  qm_validator_public_key :: bytes

record quorum_membership_config =
  mc_quorum_kind :: quorum_kind
  mc_quorum_members :: "(node_id, quorum_member) amap"

record bootstrap_quorum_config =
  bq_membership_config :: quorum_membership_config
  bq_genesis_transaction_threshold :: u64

record peer_data =
  pd_node_id :: node_id
  pd_node_type :: node_type
  pd_kademlia_peer_id :: kademlia_peer_id
  pd_udp_gossip_addr :: socket_addr
  pd_raptorq_gossip_addr :: socket_addr
  pd_kademlia_liveness_addr :: socket_addr
  pd_validator_public_key :: bytes

definition peer_data_of_member :: "quorum_member \<Rightarrow> peer_data" where
  "peer_data_of_member m = \<lparr> pd_node_id = qm_node_id m, pd_node_type = qm_node_type m,
     pd_kademlia_peer_id = qm_kademlia_peer_id m, pd_udp_gossip_addr = qm_udp_gossip_address m,
     pd_raptorq_gossip_addr = qm_raptorq_gossip_address m,
     pd_kademlia_liveness_addr = qm_kademlia_liveness_address m,
     pd_validator_public_key = qm_validator_public_key m \<rparr>"

record assigned_quorum_membership =
  am_node_id :: node_id
  am_kademlia_peer_id :: kademlia_peer_id
  am_quorum_kind :: quorum_kind
  am_peers :: "peer_data list"

text \<open>The part of the configuration that the consensus code reads.\<close>

record node_config =
  nc_id :: node_id
  nc_node_type :: node_type
  nc_threshold_config :: threshold_config
  nc_bootstrap_quorum_config :: "bootstrap_quorum_config option"

record quorum_module =
  qd_node_config :: node_config
  qd_membership_config :: "quorum_membership_config option"
  qd_bootstrap_quorum_config :: "bootstrap_quorum_config option"
  qd_available_nodes :: "(node_id, peer_data \<times> bool) amap"

definition quorum_module_new :: "node_config \<Rightarrow> quorum_module" where
  "quorum_module_new cfg = \<lparr> qd_node_config = cfg, qd_membership_config = None,
     qd_bootstrap_quorum_config = nc_bootstrap_quorum_config cfg,
     qd_available_nodes = (case nc_bootstrap_quorum_config cfg of
         None \<Rightarrow> []
       | Some qc \<Rightarrow> map_extend (map (\<lambda>m. let p = peer_data_of_member m in (pd_node_id p, (p, False)))
           (vals (mc_quorum_members (bq_membership_config qc)))) []) \<rparr>"

definition reconfigure_quorum_membership :: "quorum_membership_config \<Rightarrow> quorum_module \<Rightarrow> quorum_module" where
  "reconfigure_quorum_membership c q = q \<lparr> qd_membership_config := Some c \<rparr>"

definition assign_membership_to_quorum ::
  "quorum_kind \<Rightarrow> peer_data \<Rightarrow> peer_data list \<Rightarrow> assigned_quorum_membership" where
  "assign_membership_to_quorum kind p peers = \<lparr> am_node_id = pd_node_id p,
     am_kademlia_peer_id = pd_kademlia_peer_id p, am_quorum_kind = kind,
     am_peers = filter (\<lambda>q. pd_node_id q \<noteq> pd_node_id p) peers \<rparr>"

text \<open>\<open>(n as f64 * 0.3).ceil() as usize\<close>.\<close>

definition harvester_count :: "nat \<Rightarrow> nat" where
  "harvester_count n = f64_ceil (f64_mul (f64_of_nat n) (f64_ratio 3 10))"

definition peers_of_type :: "node_type \<Rightarrow> (node_id, peer_data \<times> bool) amap \<Rightarrow> peer_data list" where
  "peers_of_type ty pl = map fst (filter (\<lambda>(p, _). pd_node_type p = ty) (vals pl))"

fun assign_all ::
  "quorum_kind \<Rightarrow> peer_data list \<Rightarrow> peer_data list \<Rightarrow> (node_id, assigned_quorum_membership) amap
     \<Rightarrow> (node_id, assigned_quorum_membership) amap" where
  "assign_all kind peers [] m = m"
| "assign_all kind peers (p # ps) m =
     assign_all kind peers ps (map_insert (pd_node_id p) (assign_membership_to_quorum kind p peers) m)"

definition assign_peer_list_to_quorums ::
  "(node_id, peer_data \<times> bool) amap \<Rightarrow> (node_id, assigned_quorum_membership) amap" where
  "assign_peer_list_to_quorums pl =
     (let miners = peers_of_type NMiner pl;
          unassigned = peers_of_type NValidator pl;
          count = harvester_count (length unassigned);
          harvesters = take count unassigned in
      assign_all QMiner miners miners
        (assign_all QFarmer unassigned (drop count unassigned)
          (assign_all QHarvester harvesters harvesters [])))"

definition elect_quorum ::
  "crypto \<Rightarrow> (node_id, claim) amap \<Rightarrow> block_header \<Rightarrow> (quorum_error, quorum) result" where
  "elect_quorum cr claims header =
     (case quorum_new (bh_next_block_seed header) (bh_block_height header) of
        Ok q \<Rightarrow> (case run_election cr (vals claims) q of
            (Ok _, q') \<Rightarrow> Ok q'
          | (Err _, _) \<Rightarrow> Err InvalidSeedError
          | (Panic, _) \<Rightarrow> Panic)
      | Err _ \<Rightarrow> Err InvalidSeedError
      | Panic \<Rightarrow> Panic)"

definition single_miner_results :: "claim \<Rightarrow> u64 \<Rightarrow> u256 \<times> claim" where
  "single_miner_results c seed = (get_election_result c seed, c)"

definition elect_miner :: "(node_id, claim) amap \<Rightarrow> u64 \<Rightarrow> (u256, claim) amap" where
  "elect_miner claims seed = bt_collect u256_val
     (map (\<lambda>(_, c). single_miner_results c seed) (filter (\<lambda>(_, c). cl_eligibility c = EMiner) claims))"

text \<open>\<open>get_winner\<close> asks the iterator again when it is exhausted; no value means that
  the loop runs forever.\<close>

partial_function (option) get_winner_loop :: "(u256 \<times> claim) list \<Rightarrow> (u256 \<times> claim) option" where
  "get_winner_loop it = (case it of entry # rest \<Rightarrow> Some entry | [] \<Rightarrow> get_winner_loop it)"

definition get_winner :: "(u256, claim) amap \<Rightarrow> (u256 \<times> claim) option" where
  "get_winner results = get_winner_loop results"

subsection \<open>Facts\<close>

lemma get_winner_Cons: "get_winner_loop (entry # rest) = Some entry"
  by (simp add: get_winner_loop.simps)

lemma get_winner_Nil: "get_winner_loop [] = None"
proof -
  have "it \<noteq> []" if "get_winner_loop it = Some y" for it y
  proof (rule get_winner_loop.raw_induct [where P = "\<lambda>it y. it \<noteq> []", OF _ that])
    fix f :: "(u256 \<times> claim) list \<Rightarrow> (u256 \<times> claim) option" and it y
    assume "\<And>it y. f it = Some y \<Longrightarrow> it \<noteq> []" "(case it of entry # rest \<Rightarrow> Some entry | [] \<Rightarrow> f it) = Some y"
    then show "it \<noteq> []" by (cases it) (simp_all, blast)
  qed
  then show ?thesis by (metis not_Some_eq)
qed

lemma assign_all_extend:
  "assign_all kind peers ps m
     = map_extend (map (\<lambda>p. (pd_node_id p, assign_membership_to_quorum kind p peers)) ps) m"
  by (induction ps arbitrary: m) simp_all

lemma map_extend_append: "map_extend (xs @ ys) m = map_extend ys (map_extend xs m)"
  by (induction xs m rule: map_extend.induct) simp_all

lemma harvester_count_le:
  assumes "n < 2 ^ 53"
  shows "harvester_count n \<le> n"
proof -
  obtain m j where r: "f64_ratio 3 10 = (m, - int j)" "m \<le> 2 ^ j"
    using f64_ratio_le_one [of 3 10] by auto
  have "bits n \<le> 53" using assms by (rule bits_le)
  with assms show ?thesis
    by (simp add: harvester_count_def r(1) f64_ceil_mul_le [OF _ _ r(2)])
qed

text \<open>The nodes that can be assigned: those filed under their own name.\<close>

definition peers_ok :: "(node_id, peer_data \<times> bool) amap \<Rightarrow> bool" where
  "peers_ok pl = (wf_map pl \<and> (\<forall>(k, p, _)\<in>set pl. k = pd_node_id p))"

lemma peers_of_type_ids:
  assumes "peers_ok pl"
  shows "map pd_node_id (peers_of_type ty pl) = map fst (filter (\<lambda>(k, p, b). pd_node_type p = ty) pl)"
  using assms
proof (induction pl)
  case (Cons kpb pl)
  obtain k p b where kpb: "kpb = (k, p, b)" by (metis prod.exhaust)
  from Cons.prems have "peers_ok pl" "k = pd_node_id p" by (auto simp: peers_ok_def wf_map_def kpb)
  with Cons.IH show ?case by (simp add: peers_of_type_def kpb)
qed (simp add: peers_of_type_def)

lemma peers_of_type_distinct:
  "peers_ok pl \<Longrightarrow> distinct (map pd_node_id (peers_of_type NValidator pl) @ map pd_node_id (peers_of_type NMiner pl))"
proof -
  assume ok: "peers_ok pl"
  then have d: "distinct (keys pl)" by (simp add: peers_ok_def wf_map_def)
  have "node_type = ty'" if "(k, p, b) \<in> set pl" "(k, p', b') \<in> set pl" "pd_node_type p = node_type"
    "pd_node_type p' = ty'" for k p b p' b' node_type ty'
    using eq_key_imp_eq_value [OF d that(1,2)] that(3,4) by simp
  with d show ?thesis
    unfolding distinct_append peers_of_type_ids [OF ok] by (force simp: distinct_map_filter)
qed

lemma set_map_extend_distinct:
  assumes "distinct (keys kvs)"
  shows "set (map_extend kvs []) = set kvs"
proof -
  have "map_of (map_extend kvs []) = map_of kvs"
    using map_of_map_extend_distinct [OF wf_map_Nil assms] by simp
  moreover have "distinct (keys (map_extend kvs []))"
    using wf_map_extend [OF wf_map_Nil, of kvs] by (simp add: wf_map_def)
  ultimately show ?thesis using map_of_inject_set [OF _ assms] by blast
qed

definition memberships :: "quorum_kind \<Rightarrow> peer_data list \<Rightarrow> peer_data list \<Rightarrow> (node_id \<times> assigned_quorum_membership) set" where
  "memberships kind ps peers = (\<lambda>p. (pd_node_id p, assign_membership_to_quorum kind p peers)) ` set ps"

lemma fresh_claims_no_miner:
  assumes "\<forall>(_, c)\<in>set claims. cl_eligibility c \<noteq> EMiner"
  shows "elect_miner claims seed = []"
proof -
  have "filter (\<lambda>(_, c). cl_eligibility c = EMiner) claims = []"
    using assms by (auto simp: filter_empty_conv)
  then show ?thesis by (simp add: elect_miner_def u256_order.bt_collect_Nil_iff)
qed

subsection \<open>Properties\<close>


definition example_peer :: "node_id \<Rightarrow> node_type \<Rightarrow> peer_data" where
  "example_peer n ty = \<lparr> pd_node_id = n, pd_node_type = ty, pd_kademlia_peer_id = [], pd_udp_gossip_addr = [],
     pd_raptorq_gossip_addr = [], pd_kademlia_liveness_addr = [], pd_validator_public_key = [] \<rparr>"

definition example_peers :: "(node_id, peer_data \<times> bool) amap" where
  "example_peers = [(''a'', example_peer ''a'' NValidator, True), (''m'', example_peer ''m'' NMiner, True),
     (''b'', example_peer ''b'' NValidator, True)]"

lemma harvester_count_2: "harvester_count 2 = 1"
  by (simp add: harvester_count_def f64_eval_simps)


text \<open>C32: electing a miner ends exactly when some claim is eligible as a miner, and then
  the winner is a claim with the least election value; without such a claim the
  loop that looks for the first result never ends.\<close>

theorem miner_election_ends_iff:
  "case get_winner (elect_miner claims seed) of
      None \<Rightarrow> \<forall>(_, c)\<in>set claims. cl_eligibility c \<noteq> EMiner
    | Some (v, c) \<Rightarrow> c \<in> set (vals claims) \<and> cl_eligibility c = EMiner \<and> v = get_election_result c seed
        \<and> (\<forall>(_, d)\<in>set claims. cl_eligibility d = EMiner \<longrightarrow> u256_val v \<le> u256_val (get_election_result d seed))"
proof (cases "elect_miner claims seed")
  case Nil
  then have "filter (\<lambda>(_, c). cl_eligibility c = EMiner) claims = []"
    by (simp add: elect_miner_def u256_order.bt_collect_Nil_iff)
  then show ?thesis by (auto simp: Nil get_winner_def get_winner_Nil filter_empty_conv)
next
  case (Cons vc rest)
  obtain v c where vc: "vc = (v, c)" by (cases vc)
  let ?l = "map (\<lambda>(_, c). single_miner_results c seed) (filter (\<lambda>(_, c). cl_eligibility c = EMiner) claims)"
  from u256_order.bt_collect_first [of ?l v c rest] Cons
  have f: "(v, c) \<in> set ?l" "\<forall>kv\<in>set ?l. u256_val v \<le> u256_val (fst kv)"
    unfolding elect_miner_def vc by blast+
  from f(1) have "c \<in> set (vals claims) \<and> cl_eligibility c = EMiner \<and> v = get_election_result c seed"
    by (force simp: single_miner_results_def)
  moreover have "u256_val v \<le> u256_val (get_election_result d seed)"
    if "(n, d) \<in> set claims" "cl_eligibility d = EMiner" for n d
    using f(2) that by (force simp: single_miner_results_def)
  ultimately show ?thesis by (auto simp: Cons vc get_winner_def get_winner_Cons)
qed

theorem miner_election_ends_iff_witness:
  "get_winner (elect_miner [(''n'', example_claim \<lparr> cl_eligibility := EMiner \<rparr>)] 5)
     = Some (get_election_result (example_claim \<lparr> cl_eligibility := EMiner \<rparr>) 5, example_claim \<lparr> cl_eligibility := EMiner \<rparr>)"
  using miner_election_ends_iff [of "[(''n'', example_claim \<lparr> cl_eligibility := EMiner \<rparr>)]" 5]
  by (auto split: option.splits)

end
