(* ===== verification/Consensus.thy ===== *)
theory Consensus
  imports Quorum_Assignment
begin

text \<open>
  \<open>node/src/consensus/consensus_module.rs\<close>: the state of the consensus module and its
  handlers.  The module holds the quorum module, the key generation engine and a
  signature provider.  The cuckoo filter of certified transactions is written and
  never read; it is left out, as are the actor's name and status.  The cache of
  certificate shares is a map: nothing is ever put into it.
\<close>

datatype node_error =
    NodeOther string
  | NodeDkg dkg_error
  | NodeSigner string signer_error

definition PULL_TXN_BATCH_SIZE :: nat where
  "PULL_TXN_BATCH_SIZE = 100"

type_synonym certificate_share = "u16 \<times> bytes \<times> raw_signature"

record ('gen, 'part, 'ack, 'rng, 'pks, 'sks) consensus_module =
  cm_quorum_certified_txns :: "quorum_certified_txn list"
  cm_miner_secret_key :: secret_key
  cm_validator_public_key :: bytes
  cm_quorum_driver :: quorum_module
  cm_dkg_engine :: "('gen, 'part, 'ack, 'rng, 'pks, 'sks) dkg_engine"
  cm_node_config :: node_config
  cm_sig_provider :: "('gen, 'part, 'ack, 'rng, 'pks, 'sks) signature_provider"
  cm_convergence_block_certificates :: "(block_hash, certificate_share list) amap"

definition consensus_module_new ::
  "('gen, 'part, 'ack, 'rng, 'pks, 'sks) hbbft_ops \<Rightarrow> secret_key \<Rightarrow> bytes \<Rightarrow> node_config
     \<Rightarrow> ('gen, 'part, 'ack, 'rng, 'pks, 'sks) dkg_engine
     \<Rightarrow> (dkg_error, ('gen, 'part, 'ack, 'rng, 'pks, 'sks) consensus_module) result" where
  "consensus_module_new hb sk vpk cfg dkg_generator =
     rbind (dkg_engine_clone hb dkg_generator) (\<lambda>engine.
     rbind (dkg_engine_clone hb dkg_generator) (\<lambda>copy. Ok
       \<lparr> cm_quorum_certified_txns = [], cm_miner_secret_key = sk, cm_validator_public_key = vpk,
         cm_quorum_driver = quorum_module_new cfg, cm_dkg_engine = engine, cm_node_config = cfg,
         cm_sig_provider = signature_provider_new (de_dkg_state copy) (nc_threshold_config cfg),
         cm_convergence_block_certificates = [] \<rparr>))"

definition mine_proposal_block ::
  "crypto \<Rightarrow> ref_hash \<Rightarrow> (string, claim) amap \<Rightarrow> round \<Rightarrow> epoch \<Rightarrow> claim
     \<Rightarrow> ('gen, 'part, 'ack, 'rng, 'pks, 'sks) consensus_module \<Rightarrow> proposal_block" where
  "mine_proposal_block cr ref_hash claim_map round epoch claim cm =
     (let txns = take PULL_TXN_BATCH_SIZE (cm_quorum_certified_txns cm);
          claim_list = map_extend (map (\<lambda>(_, c). (cl_hash c, c)) claim_map) [];
          txns_list = map_extend (map (\<lambda>t. (txn_id (qct_txn t), t)) txns) [] in
      proposal_build cr ref_hash round epoch txns_list claim_list claim (cm_miner_secret_key cm))"

definition certify_convergence_block ::
  "crypto \<Rightarrow> ('gen, 'part, 'ack, 'rng, 'pks, 'sks) hbbft_ops \<Rightarrow> convergence_block
     \<Rightarrow> ('gen, 'part, 'ack, 'rng, 'pks, 'sks) consensus_module \<Rightarrow> (node_error, certificate) result" where
  "certify_convergence_block cr hb b cm =
     (let quorum_threshold = tc_threshold (nc_threshold_config (cm_node_config cm)) in
      case map_of (cm_convergence_block_certificates cm) (cb_hash b) of
        None \<Rightarrow> Err (NodeOther (''No certificate shares found for block '' @ cb_hash b))
      | Some shares \<Rightarrow>
          if (of_nat (length shares) :: u16) \<le> quorum_threshold then
            Err (NodeOther ''Not enough partial signatures to create a certificate'')
          else
            let sig_shares = fold (\<lambda>(idx, _, sig) m. bt_insert unat idx sig m) shares [] in
            rbind (map_err (NodeSigner (cb_hash b))
                (generate_quorum_signature hb (cm_sig_provider cm) quorum_threshold sig_shares)) (\<lambda>sig.
              Ok \<lparr> ce_signature = cr_hex cr sig, ce_inauguration = None, ce_root_hash = [],
                   ce_next_root_hash = [], ce_block_hash = cb_hash b \<rparr>))"

definition generate_partial_commitment_message ::
  "('gen, 'part, 'ack, 'rng, 'pks, 'sks) hbbft_ops \<Rightarrow> ('gen, 'part, 'ack, 'rng, 'pks, 'sks) consensus_module
     \<Rightarrow> (node_error, 'part \<times> node_id) result \<times> ('gen, 'part, 'ack, 'rng, 'pks, 'sks) consensus_module" where
  "generate_partial_commitment_message hb cm =
     (if nc_node_type (cm_node_config cm) = NBootstrap then
        (Err (NodeOther ''Bootstrap nodes cannot participate in DKG''), cm)
      else if nc_node_type (cm_node_config cm) = NMiner then
        (Err (NodeOther ''Miner nodes cannot participate in Validator DKG''), cm)
      else case qd_membership_config (cm_quorum_driver cm) of
        None \<Rightarrow> (Err (NodeOther (''Node '' @ nc_id (cm_node_config cm) @ '' cannot participate in DKG'')), cm)
      | Some mc \<Rightarrow>
          (case generate_partial_commitment hb (length (mc_quorum_members mc) div 2)
              (add_peer_public_key (nc_id (cm_node_config cm)) (cm_validator_public_key cm) (cm_dkg_engine cm)) of
             (r, e) \<Rightarrow> (map_err NodeDkg r, cm \<lparr> cm_dkg_engine := e \<rparr>)))"

definition add_peer_public_key_to_dkg_state ::
  "node_id \<Rightarrow> bytes \<Rightarrow> ('gen, 'part, 'ack, 'rng, 'pks, 'sks) consensus_module
     \<Rightarrow> ('gen, 'part, 'ack, 'rng, 'pks, 'sks) consensus_module" where
  "add_peer_public_key_to_dkg_state n pk cm = cm \<lparr> cm_dkg_engine := add_peer_public_key n pk (cm_dkg_engine cm) \<rparr>"

definition handle_node_added_to_peer_list ::
  "peer_data \<Rightarrow> ('gen, 'part, 'ack, 'rng, 'pks, 'sks) consensus_module
     \<Rightarrow> (node_id, assigned_quorum_membership) amap option \<times> ('gen, 'part, 'ack, 'rng, 'pks, 'sks) consensus_module" where
  "handle_node_added_to_peer_list p cm =
     (let finish = (\<lambda>c. (None, add_peer_public_key_to_dkg_state (pd_node_id p) (pd_validator_public_key p) c)) in
      case qd_bootstrap_quorum_config (cm_quorum_driver cm) of
        None \<Rightarrow> finish cm
      | Some qc \<Rightarrow>
          (let q = cm_quorum_driver cm;
               ids = map qm_node_id (vals (mc_quorum_members (bq_membership_config qc)));
               q' = (if pd_node_id p \<in> set ids
                     then q \<lparr> qd_available_nodes := map_insert (pd_node_id p) (p, True) (qd_available_nodes q) \<rparr> else q);
               cm' = cm \<lparr> cm_quorum_driver := q' \<rparr> in
           if (\<forall>(_, _, online)\<in>set (qd_available_nodes q'). online) \<and> nc_node_type (qd_node_config q') = NBootstrap
           then (Some (assign_peer_list_to_quorums (qd_available_nodes q')), cm')
           else finish cm'))"

definition member_of_peer :: "peer_data \<Rightarrow> quorum_member" where
  "member_of_peer p = \<lparr> qm_node_id = pd_node_id p, qm_kademlia_peer_id = pd_kademlia_peer_id p,
     qm_node_type = NValidator, qm_udp_gossip_address = pd_udp_gossip_addr p,
     qm_raptorq_gossip_address = pd_raptorq_gossip_addr p,
     qm_kademlia_liveness_address = pd_kademlia_liveness_addr p,
     qm_validator_public_key = pd_validator_public_key p \<rparr>"

definition handle_quorum_membership_assigment_created ::
  "assigned_quorum_membership \<Rightarrow> ('gen, 'part, 'ack, 'rng, 'pks, 'sks) consensus_module
     \<Rightarrow> (node_error, unit) result \<times> ('gen, 'part, 'ack, 'rng, 'pks, 'sks) consensus_module" where
  "handle_quorum_membership_assigment_created am cm =
     (let n = nc_id (cm_node_config cm) in
      if nc_node_type (cm_node_config cm) = NBootstrap then
        (Err (NodeOther (''bootstrap node '' @ n @ '' cannot belong to a quorum'')), cm)
      else case qd_membership_config (cm_quorum_driver cm) of
        Some mc \<Rightarrow> (Err (NodeOther (n @ '' already belongs to a '' @ quorum_kind_display (mc_quorum_kind mc) @ '' quorum'')), cm)
      | None \<Rightarrow> (Ok (), cm \<lparr> cm_quorum_driver := (cm_quorum_driver cm) \<lparr> qd_membership_config := Some
          \<lparr> mc_quorum_kind = am_quorum_kind am,
            mc_quorum_members = map_extend (map (\<lambda>p. (pd_node_id p, member_of_peer p)) (am_peers am)) [] \<rparr> \<rparr> \<rparr>))"

definition handle_part_commitment_created ::
  "('gen, 'part, 'ack, 'rng, 'pks, 'sks) hbbft_ops \<Rightarrow> node_id \<Rightarrow> 'part
     \<Rightarrow> ('gen, 'part, 'ack, 'rng, 'pks, 'sks) consensus_module
     \<Rightarrow> (node_error, node_id \<times> node_id \<times> 'ack) result \<times> ('gen, 'part, 'ack, 'rng, 'pks, 'sks) consensus_module" where
  "handle_part_commitment_created hb sender part cm =
     (let foreign = (case qd_membership_config (cm_quorum_driver cm) of
            None \<Rightarrow> False
          | Some mc \<Rightarrow> sender \<noteq> nc_id (cm_node_config cm) \<and> \<not> map_contains sender (mc_quorum_members mc)) in
      if foreign then (Err (NodeOther (''Node '' @ nc_id (cm_node_config cm) @ '' is not a quorum member'')), cm)
      else
        let e = cm_dkg_engine cm; s = de_dkg_state e;
            e' = e \<lparr> de_dkg_state := s \<lparr> ds_part_message_store := map_or_insert sender part (ds_part_message_store s) \<rparr> \<rparr> in
        (case ack_partial_commitment hb sender e' of (r, e'') \<Rightarrow> (map_err NodeDkg r, cm \<lparr> cm_dkg_engine := e'' \<rparr>)))"

definition handle_part_commitment_acknowledged ::
  "node_id \<Rightarrow> node_id \<Rightarrow> 'ack \<Rightarrow> ('gen, 'part, 'ack, 'rng, 'pks, 'sks) consensus_module
     \<Rightarrow> ('gen, 'part, 'ack, 'rng, 'pks, 'sks) consensus_module" where
  "handle_part_commitment_acknowledged receiver sender ack cm =
     (let e = cm_dkg_engine cm; s = de_dkg_state e in
      cm \<lparr> cm_dkg_engine := e \<lparr> de_dkg_state := s
        \<lparr> ds_ack_message_store := map_or_insert (receiver, sender) ack (ds_ack_message_store s) \<rparr> \<rparr> \<rparr>)"

definition handle_all_ack_messages ::
  "('gen, 'part, 'ack, 'rng, 'pks, 'sks) hbbft_ops \<Rightarrow> ('gen, 'part, 'ack, 'rng, 'pks, 'sks) consensus_module
     \<Rightarrow> (node_error, unit) result \<times> ('gen, 'part, 'ack, 'rng, 'pks, 'sks) consensus_module" where
  "handle_all_ack_messages hb cm = (case handle_ack_messages hb (cm_dkg_engine cm) of
     (r, e) \<Rightarrow> (map_err NodeDkg r, cm \<lparr> cm_dkg_engine := e \<rparr>))"

definition generate_keysets ::
  "('gen, 'part, 'ack, 'rng, 'pks, 'sks) hbbft_ops \<Rightarrow> ('gen, 'part, 'ack, 'rng, 'pks, 'sks) consensus_module
     \<Rightarrow> (node_error, unit) result \<times> ('gen, 'part, 'ack, 'rng, 'pks, 'sks) consensus_module" where
  "generate_keysets hb cm = (case generate_key_sets hb (cm_dkg_engine cm) of
     (r, e) \<Rightarrow> (map_err NodeDkg r, cm \<lparr> cm_dkg_engine := e \<rparr>))"

text \<open>No value means that the election does not end.\<close>

definition handle_miner_election_started ::
  "block_header \<Rightarrow> (string, claim) amap \<Rightarrow> (u256 \<times> claim) option" where
  "handle_miner_election_started header claims = get_winner (elect_miner claims (bh_block_seed header))"

subsection \<open>The module as a state machine\<close>

inductive consensus_step ::
  "('gen, 'part, 'ack, 'rng, 'pks, 'sks) hbbft_ops \<Rightarrow> ('gen, 'part, 'ack, 'rng, 'pks, 'sks) consensus_module
     \<Rightarrow> ('gen, 'part, 'ack, 'rng, 'pks, 'sks) consensus_module \<Rightarrow> bool" for hb where
  cs_node_added: "consensus_step hb cm (snd (handle_node_added_to_peer_list p cm))"
| cs_assigned: "consensus_step hb cm (snd (handle_quorum_membership_assigment_created am cm))"
| cs_commit: "consensus_step hb cm (snd (generate_partial_commitment_message hb cm))"
| cs_add_key: "consensus_step hb cm (add_peer_public_key_to_dkg_state n pk cm)"
| cs_part: "consensus_step hb cm (snd (handle_part_commitment_created hb sender part cm))"
| cs_ack: "consensus_step hb cm (handle_part_commitment_acknowledged receiver sender ack cm)"
| cs_all_acks: "consensus_step hb cm (snd (handle_all_ack_messages hb cm))"
| cs_keysets: "consensus_step hb cm (snd (generate_keysets hb cm))"

definition consensus_init ::
  "('gen, 'part, 'ack, 'rng, 'pks, 'sks) hbbft_ops \<Rightarrow> ('gen, 'part, 'ack, 'rng, 'pks, 'sks) consensus_module \<Rightarrow> bool" where
  "consensus_init hb cm = (\<exists>sk vpk cfg e. ds_public_key_set (de_dkg_state e) = None
     \<and> ds_secret_key_share (de_dkg_state e) = None \<and> consensus_module_new hb sk vpk cfg e = Ok cm)"

lemmas consensus_handler_defs = handle_node_added_to_peer_list_def handle_quorum_membership_assigment_created_def
  generate_partial_commitment_message_def add_peer_public_key_to_dkg_state_def handle_part_commitment_created_def
  handle_part_commitment_acknowledged_def handle_all_ack_messages_def generate_keysets_def

text \<open>No handler touches the signature provider or the cache of shares, and only one
  sets the membership.\<close>

lemma step_fixed:
  assumes "consensus_step hb cm cm'"
  shows "cm_sig_provider cm' = cm_sig_provider cm
    \<and> cm_convergence_block_certificates cm' = cm_convergence_block_certificates cm"
  using assms
  by cases (simp_all add: consensus_handler_defs Let_def split: option.split prod.split if_split)

lemma step_membership:
  assumes "consensus_step hb cm cm'" "qd_membership_config (cm_quorum_driver cm) = Some mc"
  shows "qd_membership_config (cm_quorum_driver cm') = Some mc"
  using assms
  by cases (simp_all add: consensus_handler_defs Let_def split: option.split prod.split if_split)

definition keyless :: "('gen, 'part, 'ack, 'rng, 'pks, 'sks) consensus_module \<Rightarrow> bool" where
  "keyless cm = (cm_convergence_block_certificates cm = []
     \<and> ds_public_key_set (sp_dkg_state (cm_sig_provider cm)) = None
     \<and> ds_secret_key_share (sp_dkg_state (cm_sig_provider cm)) = None \<and> \<not> sp_poisoned (cm_sig_provider cm))"

lemma clone_keys:
  "dkg_engine_clone hb e = Ok e' \<Longrightarrow>
     ds_public_key_set (de_dkg_state e') = ds_public_key_set (de_dkg_state e)
   \<and> ds_secret_key_share (de_dkg_state e') = ds_secret_key_share (de_dkg_state e)"
  by (auto simp: dkg_engine_clone_def split: result.splits prod.splits)

lemma keyless_init: "consensus_init hb cm \<Longrightarrow> keyless cm"
  unfolding consensus_init_def
  by (auto simp: consensus_module_new_def result_simps keyless_def signature_provider_new_def dest!: clone_keys)

interpretation consensus_keyless: invariant_system "consensus_init hb" "consensus_step hb" keyless for hb
proof unfold_locales
  show "keyless cm" if "consensus_init hb cm" for cm
    using that by (rule keyless_init)
  show "keyless cm'" if "keyless cm" "consensus_step hb cm cm'" for cm cm'
    using that step_fixed [OF that(2)] by (simp add: keyless_def)
qed

abbreviation has_membership ::
  "quorum_membership_config \<Rightarrow> ('gen, 'part, 'ack, 'rng, 'pks, 'sks) consensus_module \<Rightarrow> bool" where
  "has_membership mc cm \<equiv> qd_membership_config (cm_quorum_driver cm) = Some mc"

interpretation consensus_member: invariant_system "has_membership mc" "consensus_step hb" "has_membership mc" for mc hb
  by unfold_locales (simp_all add: step_membership)

subsection \<open>The bootstrap node waits for its members\<close>

definition bootstrap_ok :: "bootstrap_quorum_config \<Rightarrow> ('gen, 'part, 'ack, 'rng, 'pks, 'sks) consensus_module \<Rightarrow> bool" where
  "bootstrap_ok qc cm = (qd_bootstrap_quorum_config (cm_quorum_driver cm) = Some qc
     \<and> nc_node_type (qd_node_config (cm_quorum_driver cm)) = NBootstrap
     \<and> wf_map (qd_available_nodes (cm_quorum_driver cm)))"

abbreviation member_ids :: "bootstrap_quorum_config \<Rightarrow> node_id set" where
  "member_ids qc \<equiv> set (map qm_node_id (vals (mc_quorum_members (bq_membership_config qc))))"

text \<open>The nodes that are known are members, and those that were heard of are online.\<close>

definition online_ok ::
  "bootstrap_quorum_config \<Rightarrow> node_id set \<Rightarrow> ('gen, 'part, 'ack, 'rng, 'pks, 'sks) consensus_module \<Rightarrow> bool" where
  "online_ok qc seen cm = (\<forall>k v. map_of (qd_available_nodes (cm_quorum_driver cm)) k = Some v
     \<longrightarrow> k \<in> member_ids qc \<and> (k \<in> seen \<longrightarrow> snd v))"

lemma node_added_driver:
  assumes "bootstrap_ok qc cm"
  shows "cm_quorum_driver (snd (handle_node_added_to_peer_list p cm)) = (cm_quorum_driver cm)
    \<lparr> qd_available_nodes := if pd_node_id p \<in> member_ids qc
        then map_insert (pd_node_id p) (p, True) (qd_available_nodes (cm_quorum_driver cm))
        else qd_available_nodes (cm_quorum_driver cm) \<rparr>"
  using assms
  by (simp add: handle_node_added_to_peer_list_def bootstrap_ok_def Let_def add_peer_public_key_to_dkg_state_def)

lemma node_added_assigns:
  assumes "bootstrap_ok qc cm"
    and "\<forall>(_, _, online)\<in>set (qd_available_nodes (cm_quorum_driver (snd (handle_node_added_to_peer_list p cm)))). online"
  shows "\<exists>assignments. fst (handle_node_added_to_peer_list p cm) = Some assignments"
  using assms(2) unfolding node_added_driver [OF assms(1)]
  using assms(1) by (auto simp: handle_node_added_to_peer_list_def bootstrap_ok_def Let_def)

lemma node_added_inv:
  assumes "bootstrap_ok qc cm" "online_ok qc seen cm"
  shows "bootstrap_ok qc (snd (handle_node_added_to_peer_list p cm))
    \<and> online_ok qc (insert (pd_node_id p) seen) (snd (handle_node_added_to_peer_list p cm))"
  using assms by (auto simp: bootstrap_ok_def online_ok_def node_added_driver [OF assms(1)])

lemma nodes_added_inv:
  assumes "bootstrap_ok qc cm" "online_ok qc seen cm"
  shows "bootstrap_ok qc (fold (\<lambda>p c. snd (handle_node_added_to_peer_list p c)) ps cm)
    \<and> online_ok qc (seen \<union> pd_node_id ` set ps) (fold (\<lambda>p c. snd (handle_node_added_to_peer_list p c)) ps cm)"
  using assms
proof (induction ps arbitrary: cm seen)
  case (Cons p ps)
  from Cons.IH [OF conjunct1 conjunct2, OF node_added_inv [OF Cons.prems] node_added_inv [OF Cons.prems]]
  show ?case by simp
qed simp

lemma bootstrap_ok_new:
  assumes "consensus_module_new hb sk vpk cfg e = Ok cm" "nc_node_type cfg = NBootstrap"
    and "nc_bootstrap_quorum_config cfg = Some qc"
  shows "bootstrap_ok qc cm \<and> online_ok qc {} cm"
proof -
  let ?l = "map (\<lambda>m. let p = peer_data_of_member m in (pd_node_id p, (p, False)))
      (vals (mc_quorum_members (bq_membership_config qc)))"
  have q: "cm_quorum_driver cm = quorum_module_new cfg"
    using assms(1) by (auto simp: consensus_module_new_def result_simps)
  have "k \<in> member_ids qc" if "map_of (map_extend ?l []) k = Some v" for k v
  proof -
    have "(k, v) \<in> set (rev ?l)"
      by (rule map_of_SomeD) (use that in \<open>simp only: map_of_map_extend [OF wf_map_Nil] map_of.simps empty_map_add\<close>)
    then show ?thesis by (auto simp: Let_def peer_data_of_member_def)
  qed
  then show ?thesis
    using assms(2,3) by (simp add: bootstrap_ok_def online_ok_def q quorum_module_new_def del: set_map)
qed

subsection \<open>Properties\<close>

text \<open>C25: no sequence of events lets the module certify a convergence block or sign one.
  Nothing fills the cache of certificate shares, and the signature provider holds a
  copy of the key generation state that was made before any key was generated, so
  it never gets a key, even after the engine has generated one.\<close>

theorem consensus_never_certifies:
  assumes "reachable (consensus_init hb) (consensus_step hb) cm"
  shows "certify_convergence_block cr hb b cm
      = Err (NodeOther (''No certificate shares found for block '' @ cb_hash b))
    \<and> generate_partial_signature hb (cm_sig_provider cm) payload = Err SecretKeyShareMissing
    \<and> (\<nexists>sig. generate_quorum_signature hb (cm_sig_provider cm) threshold shares = Ok sig)"
  using consensus_keyless.reachable_inv [OF assms]
  by (simp add: keyless_def certify_convergence_block_def generate_partial_signature_def
      generate_quorum_signature_def read_dkg_state_def)

definition example_bootstrap :: bootstrap_quorum_config where
  "example_bootstrap = \<lparr> bq_membership_config = \<lparr> mc_quorum_kind = QFarmer,
     mc_quorum_members = [(''b'', member_of_peer (example_peer ''b'' NValidator))] \<rparr>,
     bq_genesis_transaction_threshold = 1 \<rparr>"

definition example_config :: "node_type \<Rightarrow> node_config" where
  "example_config ty = \<lparr> nc_id = ''a'', nc_node_type = ty, nc_threshold_config = threshold_config_default,
     nc_bootstrap_quorum_config = Some example_bootstrap \<rparr>"

lemma example_consensus_new:
  "\<exists>cm. consensus_module_new example_hbbft [] [] (example_config ty)
     (dkg_engine_new ''a'' ty [] threshold_config_default) = Ok cm \<and> consensus_init example_hbbft cm
   \<and> cm_node_config cm = example_config ty \<and> cm_quorum_driver cm = quorum_module_new (example_config ty)"
proof -
  let ?e = "dkg_engine_new ''a'' ty [] threshold_config_default
    :: (nat \<times> node_id list, node_id, node_id, unit, nat, nat) dkg_engine"
  obtain cm where cm: "consensus_module_new example_hbbft [] [] (example_config ty) ?e = Ok cm"
    by (simp add: consensus_module_new_def dkg_engine_clone_def example_hbbft_def)
  have "ds_public_key_set (de_dkg_state ?e) = None \<and> ds_secret_key_share (de_dkg_state ?e) = None"
    by (simp add: dkg_engine_new_def dkg_state_new_def)
  with cm have "consensus_init example_hbbft cm" unfolding consensus_init_def by blast
  with cm show ?thesis by (auto simp: consensus_module_new_def result_simps)
qed

theorem consensus_never_certifies_witness:
  "\<exists>cm. reachable (consensus_init example_hbbft) (consensus_step example_hbbft) cm
     \<and> generate_partial_signature example_hbbft (cm_sig_provider cm) [7] = Err SecretKeyShareMissing"
proof -
  obtain cm where cm: "consensus_init example_hbbft (cm ::
      (nat \<times> node_id list, node_id, node_id, unit, nat, nat) consensus_module)"
    using example_consensus_new by blast
  have r: "reachable (consensus_init example_hbbft) (consensus_step example_hbbft)
      (snd (generate_keysets example_hbbft cm))"
    by (rule reach_step [where s = cm]) (rule reach_init, rule cm, rule cs_keysets)
  from consensus_never_certifies [OF r] r show ?thesis by blast
qed

text \<open>C24: a node joins at most one quorum.  After it has accepted a membership, its
  membership stays the same through all later events, and every later assignment is
  refused.\<close>

theorem membership_is_final:
  assumes "handle_quorum_membership_assigment_created am cm = (Ok (), cm1)" "(consensus_step hb)\<^sup>*\<^sup>* cm1 cm2"
  shows "qd_membership_config (cm_quorum_driver cm2) = qd_membership_config (cm_quorum_driver cm1)
    \<and> \<not> is_ok (fst (handle_quorum_membership_assigment_created am' cm2))"
proof -
  from assms(1) obtain mc where mc: "has_membership mc cm1"
    by (auto simp: handle_quorum_membership_assigment_created_def Let_def split: option.splits if_splits)
  have "has_membership mc cm2" by (rule consensus_member.steps_inv [OF assms(2) mc])
  with mc show ?thesis
    by (simp add: handle_quorum_membership_assigment_created_def Let_def)
qed

theorem membership_is_final_witness:
  "\<exists>cm1. qd_membership_config (cm_quorum_driver (cm1 :: (nat \<times> node_id list, node_id, node_id, unit, nat, nat) consensus_module)) \<noteq> None
     \<and> \<not> is_ok (fst (handle_quorum_membership_assigment_created
          (assign_membership_to_quorum QFarmer (example_peer ''a'' NValidator) []) cm1))"
proof -
  let ?am = "assign_membership_to_quorum QHarvester (example_peer ''a'' NValidator) [example_peer ''b'' NValidator]"
  obtain cm where cm: "consensus_init example_hbbft cm" "cm_node_config cm = example_config NValidator"
    "cm_quorum_driver cm = quorum_module_new (example_config NValidator)"
    using example_consensus_new by blast
  obtain cm1 where cm1: "handle_quorum_membership_assigment_created ?am cm = (Ok (), cm1)"
    "qd_membership_config (cm_quorum_driver cm1) \<noteq> None"
    by (simp add: handle_quorum_membership_assigment_created_def Let_def cm(2,3) quorum_module_new_def example_config_def)
  from membership_is_final [OF cm1(1) rtranclp.rtrancl_refl [of "consensus_step example_hbbft"]] cm1(2)
  show ?thesis by blast
qed



end
