(* ===== verification/Dags.thy ===== *)
theory Dags
  imports Signers
begin

text \<open>
  The DAG of blocks: the interface of the crate \<open>bulldag\<close>, and
  \<open>node/src/state_manager/dag.rs\<close>, which checks the signature of a block and appends
  it.  The crate is not part of the repository; \<open>dag_laws\<close> states what is used of it:
  a new graph is empty, and after adding a vertex or an edge a lookup finds what it
  found before, up to the links of the vertex, or a vertex given, under its index.  A poisoned lock is the field \<open>dm_poisoned\<close>.
\<close>

record vertex =
  vx_index :: string
  vx_data :: block
  vx_sources :: "string list"

record 'd dag_ops =
  bd_new :: 'd
  bd_leaves :: "'d \<Rightarrow> string list"
  bd_vertex :: "'d \<Rightarrow> string \<Rightarrow> vertex option"
  bd_trace :: "'d \<Rightarrow> vertex \<Rightarrow> string list"
  bd_add_vertex :: "vertex \<Rightarrow> 'd \<Rightarrow> 'd"
  bd_add_edge :: "vertex \<times> vertex \<Rightarrow> 'd \<Rightarrow> 'd"

definition same_vertex :: "vertex \<Rightarrow> vertex \<Rightarrow> bool" where
  "same_vertex v w = (vx_index v = vx_index w \<and> vx_data v = vx_data w)"

definition found_before :: "'d dag_ops \<Rightarrow> 'd \<Rightarrow> string \<Rightarrow> vertex \<Rightarrow> bool" where
  "found_before bd d i w = (\<exists>v. bd_vertex bd d i = Some v \<and> same_vertex v w)"

definition dag_laws :: "'d dag_ops \<Rightarrow> bool" where
  "dag_laws bd = ((\<forall>i. bd_vertex bd (bd_new bd) i = None)
     \<and> (\<forall>v d i w. bd_vertex bd (bd_add_vertex bd v d) i = Some w \<longrightarrow>
          found_before bd d i w \<or> i = vx_index v \<and> same_vertex v w)
     \<and> (\<forall>u v d i w. bd_vertex bd (bd_add_edge bd (u, v) d) i = Some w \<longrightarrow>
          found_before bd d i w \<or> i = vx_index u \<and> same_vertex u w \<or> i = vx_index v \<and> same_vertex v w))"

definition dag_holds :: "'d dag_ops \<Rightarrow> 'd \<Rightarrow> block \<Rightarrow> bool" where
  "dag_holds bd d b = (\<exists>i v. bd_vertex bd d i = Some v \<and> vx_data v = b)"

definition vertex_of_block :: "block \<Rightarrow> vertex" where
  "vertex_of_block b = \<lparr> vx_index = block_vertex_index b, vx_data = b, vx_sources = [] \<rparr>"

datatype graph_error = NonExistentSource | NonExistentReference | GraphOther string

record ('d, 'pks) dag_module =
  dm_dag :: 'd
  dm_poisoned :: bool
  dm_public_key_set :: "'pks option"
  dm_last_confirmed_block_header :: "block_header option"
  dm_claim :: claim

definition dag_module_new :: "'d \<Rightarrow> claim \<Rightarrow> ('d, 'pks) dag_module" where
  "dag_module_new d c = \<lparr> dm_dag = d, dm_poisoned = False, dm_public_key_set = None,
     dm_last_confirmed_block_header = None, dm_claim = c \<rparr>"

definition set_harvester_pubkeys :: "'pks \<Rightarrow> ('d, 'pks) dag_module \<Rightarrow> ('d, 'pks) dag_module" where
  "set_harvester_pubkeys pks m = m \<lparr> dm_public_key_set := Some pks \<rparr>"

definition verify_partial_sig ::
  "('gen, 'part, 'ack, 'rng, 'pks, 'sks) hbbft_ops \<Rightarrow> ('d, 'pks) dag_module \<Rightarrow> block_validation_data
     \<Rightarrow> (signer_error, bool) result" where
  "verify_partial_sig hb m v = (case dm_public_key_set m of
     None \<Rightarrow> Err GroupPublicKeyMissing
   | Some pks \<Rightarrow> (case bv_node_idx v of
       None \<Rightarrow> Err GroupPublicKeyMissing
     | Some idx \<Rightarrow>
         if length (bv_signature v) \<noteq> 96 then Err (PartialSignatureError ''Error parsing signature into array'')
         else if hb_share_ok hb (bv_signature v)
           then Ok (hb_verify_share hb pks (unat idx) (bv_signature v) (bv_payload_hash v))
         else Err (SignatureVerificationError ''Error parsing partial signature details'')))"

definition verify_threshold_sig ::
  "('gen, 'part, 'ack, 'rng, 'pks, 'sks) hbbft_ops \<Rightarrow> ('d, 'pks) dag_module \<Rightarrow> block_validation_data
     \<Rightarrow> (signer_error, bool) result" where
  "verify_threshold_sig hb m v = (case dm_public_key_set m of
     None \<Rightarrow> Err GroupPublicKeyMissing
   | Some pks \<Rightarrow>
       if length (bv_signature v) \<noteq> 96 then Err (PartialSignatureError ''Error parsing signature into array'')
       else if hb_sig_ok hb (bv_signature v) then Ok (hb_verify hb pks (bv_signature v) (bv_payload_hash v))
       else Err (SignatureVerificationError ''Error parsing threshold signature details''))"

definition dag_verify_signature ::
  "('gen, 'part, 'ack, 'rng, 'pks, 'sks) hbbft_ops \<Rightarrow> ('d, 'pks) dag_module \<Rightarrow> block_validation_data
     \<Rightarrow> (signer_error, bool) result" where
  "dag_verify_signature hb m v =
     (if length (bv_signature v) \<noteq> SIG_SIZE then
        Err (CorruptSignatureShare ''Invalid Signature ,Size must be 96 bytes'')
      else case bv_signature_type v of
          PartialSignature \<Rightarrow> verify_partial_sig hb m v
        | _ \<Rightarrow> verify_threshold_sig hb m v)"

definition signature_valid ::
  "('gen, 'part, 'ack, 'rng, 'pks, 'sks) hbbft_ops \<Rightarrow> ('d, 'pks) dag_module
     \<Rightarrow> (from_hex_error, block_validation_data) result \<Rightarrow> bool" where
  "signature_valid hb m data = (case data of Ok v \<Rightarrow> dag_verify_signature hb m v = Ok True | _ \<Rightarrow> False)"

definition check_valid_genesis ::
  "crypto \<Rightarrow> ('gen, 'part, 'ack, 'rng, 'pks, 'sks) hbbft_ops \<Rightarrow> ('d, 'pks) dag_module \<Rightarrow> genesis_block \<Rightarrow> bool" where
  "check_valid_genesis cr hb m b = signature_valid hb m (genesis_validation_data cr b)"

definition check_valid_proposal ::
  "crypto \<Rightarrow> ('gen, 'part, 'ack, 'rng, 'pks, 'sks) hbbft_ops \<Rightarrow> ('d, 'pks) dag_module \<Rightarrow> proposal_block \<Rightarrow> bool" where
  "check_valid_proposal cr hb m b = signature_valid hb m (proposal_validation_data cr b)"

definition check_valid_convergence ::
  "crypto \<Rightarrow> ('gen, 'part, 'ack, 'rng, 'pks, 'sks) hbbft_ops \<Rightarrow> ('d, 'pks) dag_module \<Rightarrow> convergence_block \<Rightarrow> bool" where
  "check_valid_convergence cr hb m b = signature_valid hb m (convergence_validation_data cr b)"

definition get_reference_block :: "'d dag_ops \<Rightarrow> ('d, 'pks) dag_module \<Rightarrow> string \<Rightarrow> (graph_error, vertex) result" where
  "get_reference_block bd m target =
     (if dm_poisoned m then Err NonExistentReference
      else ok_or NonExistentReference (bd_vertex bd (dm_dag m) target))"

definition get_convergence_reference_blocks ::
  "'d dag_ops \<Rightarrow> ('d, 'pks) dag_module \<Rightarrow> convergence_block \<Rightarrow> vertex list" where
  "get_convergence_reference_blocks bd m b =
     List.map_filter (\<lambda>target. case get_reference_block bd m target of Ok v \<Rightarrow> Some v | _ \<Rightarrow> None)
       (bh_ref_hashes (cb_header b))"

definition write_edge ::
  "'d dag_ops \<Rightarrow> vertex \<times> vertex \<Rightarrow> ('d, 'pks) dag_module \<Rightarrow> (graph_error, unit) result \<times> ('d, 'pks) dag_module" where
  "write_edge bd edge m =
     (if dm_poisoned m then (Err (GraphOther ''Error getting write guard''), m)
      else (Ok (), m \<lparr> dm_dag := bd_add_edge bd edge (dm_dag m) \<rparr>))"

fun extend_edges ::
  "'d dag_ops \<Rightarrow> (vertex \<times> vertex) list \<Rightarrow> ('d, 'pks) dag_module
     \<Rightarrow> (graph_error, unit) result \<times> ('d, 'pks) dag_module" where
  "extend_edges bd [] m = (Ok (), m)"
| "extend_edges bd (e # es) m = (case write_edge bd e m of
     (Ok _, m') \<Rightarrow> extend_edges bd es m' | (r, m') \<Rightarrow> (r, m'))"

definition write_genesis ::
  "'d dag_ops \<Rightarrow> vertex \<Rightarrow> ('d, 'pks) dag_module \<Rightarrow> (graph_error, unit) result \<times> ('d, 'pks) dag_module" where
  "write_genesis bd v m =
     (if dm_poisoned m then (Err (GraphOther ''Error getting write guard''), m)
      else (Ok (), m \<lparr> dm_dag := bd_add_vertex bd v (dm_dag m) \<rparr>))"

definition append_genesis ::
  "crypto \<Rightarrow> ('gen, 'part, 'ack, 'rng, 'pks, 'sks) hbbft_ops \<Rightarrow> 'd dag_ops \<Rightarrow> genesis_block \<Rightarrow> ('d, 'pks) dag_module
     \<Rightarrow> (graph_error, unit) result \<times> ('d, 'pks) dag_module" where
  "append_genesis cr hb bd g m =
     (if check_valid_genesis cr hb m g then write_genesis bd (vertex_of_block (Genesis g)) m else (Ok (), m))"

definition append_proposal ::
  "crypto \<Rightarrow> ('gen, 'part, 'ack, 'rng, 'pks, 'sks) hbbft_ops \<Rightarrow> 'd dag_ops \<Rightarrow> proposal_block \<Rightarrow> ('d, 'pks) dag_module
     \<Rightarrow> (graph_error, unit) result \<times> ('d, 'pks) dag_module" where
  "append_proposal cr hb bd p m =
     (if check_valid_proposal cr hb m p then
        (case get_reference_block bd m (pb_ref_block p) of
           Ok ref_block \<Rightarrow> write_edge bd (ref_block, vertex_of_block (Proposal p)) m
         | _ \<Rightarrow> (Err NonExistentSource, m))
      else (Ok (), m))"

definition append_convergence ::
  "crypto \<Rightarrow> ('gen, 'part, 'ack, 'rng, 'pks, 'sks) hbbft_ops \<Rightarrow> 'd dag_ops \<Rightarrow> convergence_block \<Rightarrow> ('d, 'pks) dag_module
     \<Rightarrow> (graph_error, unit) result \<times> ('d, 'pks) dag_module" where
  "append_convergence cr hb bd b m =
     (if check_valid_convergence cr hb m b then
        extend_edges bd (map (\<lambda>r. (r, vertex_of_block (Convergence b))) (get_convergence_reference_blocks bd m b)) m
      else (Ok (), m))"

subsection \<open>What the DAG can hold\<close>

text \<open>The validation data of a proposal never names the node that signed.\<close>

lemma proposal_never_valid: "\<not> check_valid_proposal cr hb m p"
  by (auto simp: check_valid_proposal_def signature_valid_def proposal_validation_data_def validation_data_def
      dag_verify_signature_def verify_partial_sig_def result_simps split: result.splits option.splits)

lemma append_proposal_noop: "append_proposal cr hb bd p m = (Ok (), m)"
  by (simp add: append_proposal_def proposal_never_valid)

inductive dag_step ::
  "crypto \<Rightarrow> ('gen, 'part, 'ack, 'rng, 'pks, 'sks) hbbft_ops \<Rightarrow> 'd dag_ops \<Rightarrow> ('d, 'pks) dag_module
     \<Rightarrow> ('d, 'pks) dag_module \<Rightarrow> bool" for cr hb bd where
  dg_genesis: "dag_step cr hb bd m (snd (append_genesis cr hb bd g m))"
| dg_proposal: "dag_step cr hb bd m (snd (append_proposal cr hb bd p m))"
| dg_convergence: "dag_step cr hb bd m (snd (append_convergence cr hb bd b m))"
| dg_pubkeys: "dag_step cr hb bd m (set_harvester_pubkeys pks m)"

definition dag_init :: "'d dag_ops \<Rightarrow> ('d, 'pks) dag_module \<Rightarrow> bool" where
  "dag_init bd m = (dag_laws bd \<and> (\<exists>c. m = dag_module_new (bd_new bd) c))"

text \<open>Every vertex is filed under the hash of its block, and no block is a proposal.\<close>

definition vertex_ok :: "string \<Rightarrow> vertex \<Rightarrow> bool" where
  "vertex_ok i v = (vx_index v = i \<and> block_vertex_index (vx_data v) = i \<and> \<not> is_proposal (vx_data v))"

definition dag_typed :: "'d dag_ops \<Rightarrow> ('d, 'pks) dag_module \<Rightarrow> bool" where
  "dag_typed bd m = (dag_laws bd \<and> (\<forall>i v. bd_vertex bd (dm_dag m) i = Some v \<longrightarrow> vertex_ok i v))"

lemma dag_typed_new: "dag_laws bd \<Longrightarrow> dag_typed bd (dag_module_new (bd_new bd) c)"
  by (simp add: dag_typed_def dag_laws_def dag_module_new_def)

lemma dag_typed_holds: "dag_typed bd m \<Longrightarrow> dag_holds bd (dm_dag m) b \<Longrightarrow> \<not> is_proposal b"
  unfolding dag_typed_def dag_holds_def vertex_ok_def by blast

lemma dag_new_empty: "dag_laws bd \<Longrightarrow> \<not> dag_holds bd (bd_new bd) b"
  by (simp add: dag_laws_def dag_holds_def)

lemma vertex_ok_same: "same_vertex v w \<Longrightarrow> vertex_ok i v \<Longrightarrow> vertex_ok i w"
  by (simp add: same_vertex_def vertex_ok_def)

lemma vertex_ok_before: "dag_typed bd m \<Longrightarrow> found_before bd (dm_dag m) i w \<Longrightarrow> vertex_ok i w"
  unfolding dag_typed_def found_before_def using vertex_ok_same by blast

lemma dag_typed_vertex:
  assumes "dag_typed bd m" "vertex_ok (vx_index v) v"
  shows "dag_typed bd (snd (write_genesis bd v m))"
proof -
  have "vertex_ok i w" if "bd_vertex bd (bd_add_vertex bd v (dm_dag m)) i = Some w" for i w
    using that assms vertex_ok_before [OF assms(1)] vertex_ok_same unfolding dag_typed_def dag_laws_def by blast
  then show ?thesis using assms(1) by (simp add: dag_typed_def write_genesis_def)
qed

lemma dag_typed_edge:
  assumes "dag_typed bd m" "vertex_ok (vx_index u) u" "vertex_ok (vx_index v) v"
  shows "dag_typed bd (snd (write_edge bd (u, v) m))"
proof -
  have "vertex_ok i w" if "bd_vertex bd (bd_add_edge bd (u, v) (dm_dag m)) i = Some w" for i w
    using that assms vertex_ok_before [OF assms(1)] vertex_ok_same unfolding dag_typed_def dag_laws_def by blast
  then show ?thesis using assms(1) by (simp add: dag_typed_def write_edge_def)
qed

lemma dag_typed_edges:
  "dag_typed bd m \<Longrightarrow> \<forall>(u, v)\<in>set es. vertex_ok (vx_index u) u \<and> vertex_ok (vx_index v) v \<Longrightarrow>
   dag_typed bd (snd (extend_edges bd es m))"
proof (induction es arbitrary: m)
  case (Cons e es)
  obtain u v where e: "e = (u, v)" by (cases e)
  obtain r m' where w: "write_edge bd e m = (r, m')" by (cases "write_edge bd e m")
  have "dag_typed bd m'" using dag_typed_edge [of bd m u v] Cons.prems e w by simp
  with Cons.IH [of m'] Cons.prems show ?case by (cases r) (simp_all add: w)
qed simp

lemma reference_blocks_ok:
  assumes "dag_typed bd m" "v \<in> set (get_convergence_reference_blocks bd m b)"
  shows "vertex_ok (vx_index v) v"
proof -
  obtain i where "bd_vertex bd (dm_dag m) i = Some v"
    using assms(2) by (auto simp: get_convergence_reference_blocks_def get_reference_block_def map_filter_def
      result_simps split: result.splits if_splits)
  with assms(1) have "vertex_ok i v" by (simp add: dag_typed_def)
  then show ?thesis by (simp add: vertex_ok_def)
qed

lemma vertex_of_block_ok: "\<not> is_proposal b \<Longrightarrow> vertex_ok (vx_index (vertex_of_block b)) (vertex_of_block b)"
  by (simp add: vertex_ok_def vertex_of_block_def)

lemma dag_typed_step:
  assumes "dag_typed bd m" "dag_step cr hb bd m m'"
  shows "dag_typed bd m'"
  using assms(2)
proof cases
  case (dg_genesis g)
  have "dag_typed bd (snd (write_genesis bd (vertex_of_block (Genesis g)) m))"
    by (rule dag_typed_vertex [OF assms(1) vertex_of_block_ok]) (simp add: is_proposal_def)
  with dg_genesis assms(1) show ?thesis by (simp add: append_genesis_def)
next
  case (dg_convergence b)
  have "vertex_ok (vx_index (vertex_of_block (Convergence b))) (vertex_of_block (Convergence b))"
    by (rule vertex_of_block_ok) (simp add: is_proposal_def)
  then have "dag_typed bd (snd (extend_edges bd (map (\<lambda>r. (r, vertex_of_block (Convergence b)))
      (get_convergence_reference_blocks bd m b)) m))"
    using reference_blocks_ok [OF assms(1)] by (intro dag_typed_edges [OF assms(1)]) auto
  with dg_convergence assms(1) show ?thesis by (simp add: append_convergence_def)
qed (use assms(1) in \<open>simp_all add: append_proposal_noop set_harvester_pubkeys_def dag_typed_def\<close>)

interpretation dag_typing: invariant_system "dag_init bd" "dag_step cr hb bd" "dag_typed bd" for cr hb bd
  by unfold_locales (auto simp: dag_init_def dag_typed_new dag_typed_step)

text \<open>One instance of the interface: vertices by index.\<close>

definition add_to_dag :: "vertex \<Rightarrow> (string, vertex) amap \<Rightarrow> (string, vertex) amap" where
  "add_to_dag v d = map_or_insert (vx_index v) v d"

definition list_dag :: "(string, vertex) amap dag_ops" where
  "list_dag = \<lparr> bd_new = [], bd_leaves = keys, bd_vertex = map_of, bd_trace = (\<lambda>_ _. []), bd_add_vertex = add_to_dag,
     bd_add_edge = (\<lambda>(u, v) d. add_to_dag v (add_to_dag u d)) \<rparr>"

lemma list_dag_laws: "dag_laws list_dag"
  unfolding dag_laws_def found_before_def list_dag_def same_vertex_def
  by (auto simp: add_to_dag_def map_of_map_or_insert split: if_splits)

subsection \<open>Properties\<close>

text \<open>C11: the vertices of the DAG are well formed and none of them is a proposal.
  Whatever genesis, proposal and convergence blocks arrive and whatever keys are
  set, every vertex is filed under the hash of its block and the block is a genesis
  or a convergence block, although every attempt to append a proposal reports
  success: the validation data of a proposal never tells which node signed it.\<close>

theorem dag_never_holds_proposals:
  assumes "reachable (dag_init bd) (dag_step cr hb bd) m"
  shows "append_proposal cr hb bd p m = (Ok (), m)
    \<and> (\<forall>i v. bd_vertex bd (dm_dag m) i = Some v \<longrightarrow>
          vx_index v = i \<and> block_vertex_index (vx_data v) = i \<and> \<not> is_proposal (vx_data v))"
  using dag_typing.reachable_inv [OF assms]
  by (simp add: append_proposal_noop dag_typed_def vertex_ok_def)

theorem dag_never_holds_proposals_witness:
  "\<exists>m. reachable (dag_init list_dag) (dag_step example_crypto example_hbbft list_dag) m
     \<and> dm_public_key_set m = Some 1
     \<and> append_proposal example_crypto example_hbbft list_dag
         (proposal_build example_crypto ''ref'' 1 0 [] [] example_claim key_a) m = (Ok (), m)"
proof -
  let ?start = "dag_module_new (bd_new list_dag) example_claim :: ((string, vertex) amap, nat) dag_module"
  let ?m = "set_harvester_pubkeys 1 ?start"
  have r: "reachable (dag_init list_dag) (dag_step example_crypto example_hbbft list_dag) ?m"
  proof (rule reach_step [where s = ?start])
    show "reachable (dag_init list_dag) (dag_step example_crypto example_hbbft list_dag) ?start"
      by (rule reach_init) (auto simp: dag_init_def list_dag_laws)
    show "dag_step example_crypto example_hbbft list_dag ?start ?m" by (rule dg_pubkeys)
  qed
  from dag_never_holds_proposals [OF r] r show ?thesis
    by (intro exI [of _ ?m] conjI) (simp_all add: set_harvester_pubkeys_def)
qed

end
