(* ===== verification/Miners.thy ===== *)
theory Miners
  imports Dags Ordered_Maps Quorums "HOL-Library.Multiset"
begin

text \<open>
  The crate \<open>miner\<close>: the miner with its last block and its view of the DAG, the
  resolution of conflicts between proposal blocks (a transaction proposed by more
  than one block), and the building of a convergence block from what is left.

  The function \<open>order\<close> is the order in which a \<open>HashMap\<close> of conflicts is
  visited.  A loop that may run forever returns an \<open>option\<close>, \<open>None\<close> for no return.
\<close>

datatype miner_error =
  NoLowestPointerError string | MinerInvalidSignature | MinerInvalidPublicKey | MinerOther string

datatype miner_status = Mining | Waiting

text \<open>The two implementations of the trait object \<open>dyn InnerBlock\<close>.\<close>

datatype last_block = LastConvergence convergence_block | LastGenesis genesis_block

fun last_header :: "last_block \<Rightarrow> block_header" where
  "last_header (LastConvergence b) = cb_get_header b"
| "last_header (LastGenesis b) = gb_get_header b"

fun last_hash :: "last_block \<Rightarrow> string" where
  "last_hash (LastConvergence b) = cb_get_hash b"
| "last_hash (LastGenesis b) = gb_get_hash b"

fun last_is_genesis :: "last_block \<Rightarrow> bool" where
  "last_is_genesis (LastConvergence b) = cb_is_genesis b"
| "last_is_genesis (LastGenesis b) = gb_is_genesis b"

fun last_static_genesis :: "last_block \<Rightarrow> genesis_block option" where
  "last_static_genesis (LastConvergence b) = cb_as_static_genesis b"
| "last_static_genesis (LastGenesis b) = gb_as_static_genesis b"

fun last_static_convergence :: "last_block \<Rightarrow> convergence_block option" where
  "last_static_convergence (LastConvergence b) = cb_as_static_convergence b"
| "last_static_convergence (LastGenesis b) = gb_as_static_convergence b"

record miner_config =
  mc_secret_key :: secret_key
  mc_public_key :: public_key
  mc_ip_address :: socket_addr

record 'd miner =
  mi_secret_key :: secret_key
  mi_public_key :: public_key
  mi_address :: address
  mi_ip_address :: socket_addr
  mi_claim :: claim
  mi_dag :: 'd
  mi_dag_poisoned :: bool
  mi_last_block :: "last_block option"
  mi_status :: miner_status
  mi_next_epoch_adjustment :: i128

definition miner_error_of :: "claim_error \<Rightarrow> miner_error" where
  "miner_error_of e = (case e of
     ClaimInvalidSignature \<Rightarrow> MinerInvalidSignature
   | ClaimInvalidPublicKey \<Rightarrow> MinerInvalidPublicKey
   | ClaimOther details \<Rightarrow> MinerOther details)"

definition miner_new :: "crypto \<Rightarrow> miner_config \<Rightarrow> 'd \<Rightarrow> node_id \<Rightarrow> (miner_error, 'd miner) result" where
  "miner_new cr config dag node_id =
     (let address = Address (mc_public_key config) in
      rbind (map_err miner_error_of
        (signature_for_valid_claim cr (mc_public_key config) (mc_ip_address config) (mc_secret_key config))) (\<lambda>signature.
      rbind (map_err miner_error_of
        (claim_new cr (mc_public_key config) address (mc_ip_address config) signature node_id)) (\<lambda>claim.
      Ok \<lparr> mi_secret_key = mc_secret_key config, mi_public_key = mc_public_key config, mi_address = address,
           mi_ip_address = mc_ip_address config, mi_claim = claim, mi_dag = dag, mi_dag_poisoned = False,
           mi_last_block = None, mi_status = Waiting, mi_next_epoch_adjustment = 0 \<rparr>)))"

definition generate_claim :: "crypto \<Rightarrow> 'd miner \<Rightarrow> (miner_error, claim) result" where
  "generate_claim cr m =
     rbind (map_err miner_error_of
       (signature_for_valid_claim cr (mi_public_key m) (mi_ip_address m) (mi_secret_key m))) (\<lambda>signature.
     map_err miner_error_of
       (claim_new cr (mi_public_key m) (mi_address m) (mi_ip_address m) signature (cl_node_id (mi_claim m))))"

definition set_next_epoch_adjustment :: "i128 \<Rightarrow> 'd miner \<Rightarrow> (unit, 'd miner) result" where
  "set_next_epoch_adjustment adj m =
     (let s = sint (mi_next_epoch_adjustment m) + sint adj in
      if - (2 ^ 127) \<le> s \<and> s < 2 ^ 127
      then Ok (m \<lparr> mi_next_epoch_adjustment := mi_next_epoch_adjustment m + adj \<rparr>) else Panic)"

definition check_claim :: "u256 \<Rightarrow> 'd miner \<Rightarrow> bool" where
  "check_claim winner m = (winner = cl_hash (mi_claim m))"

definition miner_update :: "last_block option \<Rightarrow> i128 \<Rightarrow> 'd miner \<Rightarrow> 'd miner" where
  "miner_update lb adj m = m \<lparr> mi_last_block := lb, mi_next_epoch_adjustment := adj \<rparr>"

subsection \<open>What a block is built from\<close>

definition get_references :: "'d dag_ops \<Rightarrow> 'd miner \<Rightarrow> proposal_block list option" where
  "get_references bd m = (if mi_dag_poisoned m then None else
     Some (List.map_filter (\<lambda>leaf. case bd_vertex bd (mi_dag m) leaf of
         None \<Rightarrow> None
       | Some v \<Rightarrow> (case vx_data v of Proposal b \<Rightarrow> Some b | _ \<Rightarrow> None))
       (bd_leaves bd (mi_dag m))))"

definition get_last_block_vertex :: "'d dag_ops \<Rightarrow> ref_hash option \<Rightarrow> 'd miner \<Rightarrow> vertex option" where
  "get_last_block_vertex bd idx m = (case idx of
     Some i \<Rightarrow> if mi_dag_poisoned m then None else bd_vertex bd (mi_dag m) i
   | None \<Rightarrow> (case mi_last_block m of
       None \<Rightarrow> None
     | Some lb \<Rightarrow> if mi_dag_poisoned m then None else bd_vertex bd (mi_dag m) (last_hash lb)))"

definition consolidate_txns :: "proposal_block list \<Rightarrow> consolidated_txns" where
  "consolidate_txns ps = map_extend (map (\<lambda>b. (pb_hash b, remdups (keys (pb_txns b)))) ps) []"

definition consolidate_claims :: "proposal_block list \<Rightarrow> consolidated_claims" where
  "consolidate_claims ps = map_extend (map (\<lambda>b. (pb_hash b, remdups (keys (pb_claims b)))) ps) []"

definition get_ref_hashes :: "proposal_block list \<Rightarrow> ref_hash list" where
  "get_ref_hashes ps = map pb_hash ps"

definition get_txn_hash :: "crypto \<Rightarrow> consolidated_txns \<Rightarrow> string" where
  "get_txn_hash cr txns = cr_hex cr (cr_sha256 cr (cr_json cr
     (SSeq (map (\<lambda>(k, ids). SSeq [SStr k, SSeq (map digest_sval ids)]) txns))))"

definition get_claim_hash :: "crypto \<Rightarrow> consolidated_claims \<Rightarrow> string" where
  "get_claim_hash cr claims = cr_hex cr (cr_sha256 cr (cr_json cr
     (SSeq (map (\<lambda>(k, hs). SSeq [SStr k, SSeq (map u256_sval hs)]) claims))))"

definition convert_last_block_to_static :: "'d miner \<Rightarrow> genesis_block option \<times> convergence_block option" where
  "convert_last_block_to_static m = (case mi_last_block m of
     None \<Rightarrow> (None, None)
   | Some b \<Rightarrow> if last_is_genesis b then (last_static_genesis b, None) else (None, last_static_convergence b))"

definition build_header ::
  "crypto \<Rightarrow> 'r vrf_ops \<Rightarrow> int \<Rightarrow> ref_hash list \<Rightarrow> string \<Rightarrow> string \<Rightarrow> 'd miner
     \<Rightarrow> (unit, block_header option) result" where
  "build_header cr vo now refs txns_hash claims_hash m = (case convert_last_block_to_static m of
     (Some b, None) \<Rightarrow> header_new cr vo now (Genesis b) refs (mi_claim m) (mi_secret_key m) txns_hash claims_hash
        (mi_next_epoch_adjustment m)
   | (None, Some b) \<Rightarrow> header_new cr vo now (Convergence b) refs (mi_claim m) (mi_secret_key m) txns_hash claims_hash
        (mi_next_epoch_adjustment m)
   | _ \<Rightarrow> Ok None)"

definition hash_block :: "crypto \<Rightarrow> block_header \<Rightarrow> string" where
  "hash_block cr h = cr_hex cr (hash_data cr
     [SSeq (map SStr (bh_ref_hashes h)), SInt (uint (bh_round h)), SInt (uint (bh_block_seed h)),
      SInt (uint (bh_next_block_seed h)), SInt (uint (bh_block_height h)), SInt (bh_timestamp h),
      SStr (bh_txn_hash h), claim_sval (bh_miner_claim h), SStr (bh_claim_list_hash h),
      reward_sval (bh_block_reward h), reward_sval (bh_next_block_reward h), SStr (bh_miner_signature h)])"

definition get_seed :: "'d miner \<Rightarrow> u64" where
  "get_seed m = (case mi_last_block m of Some b \<Rightarrow> bh_next_block_seed (last_header b) | None \<Rightarrow> 0xFFFFFFFF)"

definition get_round :: "'d miner \<Rightarrow> (unit, u128) result" where
  "get_round m = (case mi_last_block m of
     Some b \<Rightarrow> add_or_panic (bh_round (last_header b)) 1 | None \<Rightarrow> Ok 0)"

text \<open>\<open>serde_json\<close> has no form for a map whose keys are structures, so hashing a nonempty
  list of transactions aborts.\<close>

definition miner_mine_proposal_block ::
  "crypto \<Rightarrow> ref_hash \<Rightarrow> u128 \<Rightarrow> epoch \<Rightarrow> quorum_certified_txn_list \<Rightarrow> claim_list \<Rightarrow> claim \<Rightarrow> 'd miner
     \<Rightarrow> (unit, proposal_block) result" where
  "miner_mine_proposal_block cr ref_block round epoch txns claims from m =
     (let items = [SInt (uint round), SInt (uint epoch),
            SSeq (map (\<lambda>(k, v). SSeq [digest_sval k, qct_sval v]) txns), claim_list_sval claims, claim_sval from];
          signature = cr_sig_display cr (cr_sign cr (mi_secret_key m) (create_payload cr items)) in
      if txns \<noteq> [] then Panic
      else Ok \<lparr> pb_ref_block = ref_block, pb_round = round, pb_epoch = epoch, pb_txns = txns, pb_claims = claims,
        pb_from = from, pb_hash = cr_hex cr (hash_data cr (items @ [SStr signature])), pb_signature = signature \<rparr>)"

text \<open>The build without \<open>mainnet\<close>: there are no genesis transactions.\<close>

definition mine_genesis_block ::
  "crypto \<Rightarrow> 'r vrf_ops \<Rightarrow> int \<Rightarrow> claim_list \<Rightarrow> 'd miner \<Rightarrow> (unit, genesis_block option) result" where
  "mine_genesis_block cr vo now claim_list m = (case generate_claim cr m of
     Ok claim \<Rightarrow>
       rbind (header_genesis cr vo now 0 0 0 claim (mi_secret_key m)
                (cr_hex cr (hash_data cr [claim_list_sval claim_list]))) (\<lambda>header.
       Ok (Some \<lparr> gb_header = header, gb_txns = [], gb_claims = [(cl_hash claim, claim)],
                  gb_hash = hash_block cr header, gb_certificate = None \<rparr>))
   | _ \<Rightarrow> Panic)"

subsection \<open>Conflicts\<close>

type_synonym ballot_info = "claim \<times> ref_hash"
type_synonym identified = "(transaction_digest, conflict) amap"

definition add_proposer :: "proposal_block \<Rightarrow> transaction_digest \<Rightarrow> identified \<Rightarrow> identified" where
  "add_proposer b i cs = (case map_of cs i of
     Some c \<Rightarrow> map_insert i (c \<lparr> co_proposers := remdups (co_proposers c @ [(pb_from b, pb_hash b)]) \<rparr>) cs
   | None \<Rightarrow> map_insert i
       \<lparr> co_txn_id = i, co_proposers = [(pb_from b, pb_hash b)], co_winner = None \<rparr> cs)"

definition collect_proposers :: "proposal_block list \<Rightarrow> identified" where
  "collect_proposers ps = fold (\<lambda>b. fold (add_proposer b) (keys (pb_txns b))) ps []"

definition identify :: "proposal_block list \<Rightarrow> identified" where
  "identify ps = map_retain (\<lambda>_ c. 1 < length (co_proposers c)) (collect_proposers ps)"

definition get_sources :: "'d dag_ops \<Rightarrow> 'd miner \<Rightarrow> proposal_block \<Rightarrow> convergence_block list" where
  "get_sources bd m p = (if mi_dag_poisoned m then [] else
     let source_refs = (case bd_vertex bd (mi_dag m) (pb_ref_block p) of
           Some v \<Rightarrow> bd_trace bd (mi_dag m) v | None \<Rightarrow> []) in
     List.map_filter (\<lambda>v. case v of
         Some v \<Rightarrow> (case vx_data v of Convergence b \<Rightarrow> Some b | _ \<Rightarrow> None) | None \<Rightarrow> None)
       (map (bd_vertex bd (mi_dag m)) source_refs))"

definition resolve_earlier :: "'d dag_ops \<Rightarrow> 'd miner \<Rightarrow> proposal_block list \<Rightarrow> u128 \<Rightarrow> proposal_block list" where
  "resolve_earlier bd m ps round =
     (let prev_blocks = concat (map (get_sources bd m) ps);
          removals = remdups (concat (map (\<lambda>b. concat (vals (cb_txns b))) prev_blocks)) in
      map (\<lambda>b. b \<lparr> pb_txns := map_retain (\<lambda>i _. i \<notin> set removals) (pb_txns b) \<rparr>)
        (filter (\<lambda>b. pb_round b \<noteq> round) ps))"

definition get_election_results :: "ballot_info list \<Rightarrow> u64 \<Rightarrow> (u256, ballot_info) amap" where
  "get_election_results proposers s =
     bt_collect u256_val (map (\<lambda>(c, r). (get_election_result c s, (c, r))) proposers)"

definition split_proposals_by_round ::
  "'d miner \<Rightarrow> proposal_block list \<Rightarrow> proposal_block list \<times> proposal_block list" where
  "split_proposals_by_round m ps = (case mi_last_block m of
     Some lb \<Rightarrow> (filter (is_current_round (bh_round (last_header lb))) ps,
                 filter (\<lambda>b. \<not> is_current_round (bh_round (last_header lb)) b) ps)
   | None \<Rightarrow> ([], []))"

definition get_proposers :: "proposal_block list \<Rightarrow> ballot_info list" where
  "get_proposers ps = map (\<lambda>b. (pb_from b, pb_hash b)) ps"

text \<open>\<open>while first.is_none() { first = election_iter.next() }\<close>.\<close>

partial_function (option) first_some :: "'a option \<Rightarrow> 'a list \<Rightarrow> 'a option" where
  "first_some first it = (case first of
     Some e \<Rightarrow> Some e
   | None \<Rightarrow> (case it of [] \<Rightarrow> first_some None [] | e # es \<Rightarrow> first_some (Some e) es))"

text \<open>The election results are one map, narrowed to the proposers of each conflict in
  turn; the map that is left is the second component.\<close>

fun append_winner ::
  "identified \<Rightarrow> (u256, ballot_info) amap \<Rightarrow> (identified \<times> (u256, ballot_info) amap) option" where
  "append_winner [] results = Some ([], results)"
| "append_winner ((i, c) # cs) results =
     (let results = map_retain (\<lambda>_ b. b \<in> set (co_proposers c)) results;
          (first, it) = (case results of [] \<Rightarrow> (None, []) | e # es \<Rightarrow> (Some e, es)) in
      case first_some first it of
        None \<Rightarrow> None
      | Some (_, (_, ref_hash)) \<Rightarrow> (case append_winner cs results of
            None \<Rightarrow> None
          | Some (cs', r) \<Rightarrow> Some ((i, c \<lparr> co_winner := Some ref_hash \<rparr>) # cs', r)))"

definition resolve_block :: "identified \<Rightarrow> proposal_block \<Rightarrow> proposal_block" where
  "resolve_block conflicts b =
     (let local_conflicts = map_retain (\<lambda>i _. map_contains i (pb_txns b)) conflicts;
          removals = map fst (filter (\<lambda>(_, c). Some (pb_hash b) \<noteq> co_winner c) local_conflicts) in
      b \<lparr> pb_txns := map_retain (\<lambda>i _. i \<notin> set removals) (pb_txns b) \<rparr>)"

definition resolve_current :: "identified \<Rightarrow> proposal_block list \<Rightarrow> proposal_block list" where
  "resolve_current conflicts current = map (resolve_block conflicts) current"

text \<open>The blocks that take part in the resolution: those of the current round, then
  those of other rounds without what earlier blocks have.\<close>

definition eligible_blocks :: "'d dag_ops \<Rightarrow> 'd miner \<Rightarrow> proposal_block list \<Rightarrow> u128 \<Rightarrow> proposal_block list" where
  "eligible_blocks bd m ps round =
     (let (curr, prev) = split_proposals_by_round m ps in curr @ resolve_earlier bd m prev round)"

definition resolve ::
  "(identified \<Rightarrow> identified) \<Rightarrow> 'd dag_ops \<Rightarrow> 'd miner \<Rightarrow> proposal_block list \<Rightarrow> u128 \<Rightarrow> u64
     \<Rightarrow> proposal_block list option" where
  "resolve order bd m ps round s =
     (let curr = eligible_blocks bd m ps round;
          conflicts = identify curr;
          election_results = get_election_results (get_proposers curr) s in
      case append_winner (order conflicts) election_results of
        None \<Rightarrow> None
      | Some (conflicts, _) \<Rightarrow> Some (resolve_current conflicts curr))"

subsection \<open>Building\<close>

definition build ::
  "crypto \<Rightarrow> 'r vrf_ops \<Rightarrow> (identified \<Rightarrow> identified) \<Rightarrow> 'd dag_ops \<Rightarrow> int \<Rightarrow> 'd miner
     \<Rightarrow> (unit, convergence_block option) result option" where
  "build cr vo order bd now m = (case get_references bd m of
     None \<Rightarrow> Some (Ok None)
   | Some proposals \<Rightarrow> (case get_round m of
       Ok round \<Rightarrow> (case resolve order bd m proposals round (get_seed m) of
           None \<Rightarrow> None
         | Some resolved \<Rightarrow>
             let txns = consolidate_txns resolved;
                 claims = consolidate_claims resolved in
             Some (rbind (build_header cr vo now (get_ref_hashes resolved) (get_txn_hash cr txns)
                            (get_claim_hash cr claims) m) (\<lambda>header.
               case header of
                 None \<Rightarrow> Ok None
               | Some h \<Rightarrow> Ok (Some \<lparr> cb_header = h, cb_txns = txns, cb_claims = claims,
                    cb_hash = hash_block cr h, cb_certificate = None \<rparr>))))
     | _ \<Rightarrow> Some Panic))"

definition try_mine ::
  "crypto \<Rightarrow> 'r vrf_ops \<Rightarrow> (identified \<Rightarrow> identified) \<Rightarrow> 'd dag_ops \<Rightarrow> int \<Rightarrow> 'd miner
     \<Rightarrow> ((miner_error, block) result \<times> 'd miner) option" where
  "try_mine cr vo order bd now m =
     (let m = m \<lparr> mi_status := Mining \<rparr> in
      case build cr vo order bd now m of
        None \<Rightarrow> None
      | Some (Ok (Some b)) \<Rightarrow> Some (Ok (Convergence b), m)
      | Some (Ok None) \<Rightarrow> Some (Err (MinerOther ''Convergence Block Mining Failed''), m)
      | Some _ \<Rightarrow> Some (Panic, m))"

subsection \<open>Facts about conflicts\<close>

definition ballots_for :: "proposal_block list \<Rightarrow> transaction_digest \<Rightarrow> ballot_info set" where
  "ballots_for ps i = (\<lambda>p. (pb_from p, pb_hash p)) ` {p \<in> set ps. i \<in> set (keys (pb_txns p))}"

text \<open>A map of conflicts records, for every transaction, a given set of ballots.\<close>

fun records :: "ballot_info set \<Rightarrow> conflict option \<Rightarrow> bool" where
  "records B None = (B = {})"
| "records B (Some c) = (set (co_proposers c) = B \<and> B \<noteq> {} \<and> distinct (co_proposers c))"

definition tracks :: "(transaction_digest \<Rightarrow> ballot_info set) \<Rightarrow> identified \<Rightarrow> bool" where
  "tracks S cs = (wf_map cs \<and> (\<forall>i. records (S i) (map_of cs i)))"

lemma tracks_add:
  assumes "tracks S cs"
  shows "tracks (S(i := insert (pb_from b, pb_hash b) (S i))) (add_proposer b i cs)"
proof -
  have "records (S i) (map_of cs i)" using assms by (simp add: tracks_def)
  then show ?thesis
    using assms by (cases "map_of cs i") (simp_all add: tracks_def add_proposer_def)
qed

lemma tracks_block:
  "tracks S cs \<Longrightarrow>
   tracks (\<lambda>i. if i \<in> set ids then insert (pb_from b, pb_hash b) (S i) else S i) (fold (add_proposer b) ids cs)"
proof (induction ids arbitrary: S cs)
  case (Cons i ids)
  have "(\<lambda>j. if j \<in> set ids then insert (pb_from b, pb_hash b) ((S(i := insert (pb_from b, pb_hash b) (S i))) j)
          else (S(i := insert (pb_from b, pb_hash b) (S i))) j)
      = (\<lambda>j. if j \<in> set (i # ids) then insert (pb_from b, pb_hash b) (S j) else S j)"
    by (auto simp: fun_eq_iff)
  with Cons.IH [OF tracks_add [OF Cons.prems, of i b]] show ?case by simp
qed simp

lemma tracks_blocks:
  "tracks S cs \<Longrightarrow>
   tracks (\<lambda>i. S i \<union> ballots_for ps i) (fold (\<lambda>b. fold (add_proposer b) (keys (pb_txns b))) ps cs)"
proof (induction ps arbitrary: S cs)
  case (Cons b ps)
  have "(\<lambda>i. (if i \<in> set (keys (pb_txns b)) then insert (pb_from b, pb_hash b) (S i) else S i) \<union> ballots_for ps i)
      = (\<lambda>i. S i \<union> ballots_for (b # ps) i)"
    by (rule ext) (auto simp: ballots_for_def simp del: set_map)
  with Cons.IH [OF tracks_block [OF Cons.prems, where ids = "keys (pb_txns b)" and b = b]] show ?case
    by (simp del: set_map)
qed (simp add: ballots_for_def)

lemma collect_proposers_tracks: "tracks (ballots_for ps) (collect_proposers ps)"
  using tracks_blocks [of "\<lambda>_. {}" "[]" ps] by (simp add: collect_proposers_def tracks_def)

lemma wf_identify: "wf_map (identify ps)"
  using collect_proposers_tracks [of ps] by (simp add: identify_def tracks_def)

lemma identify_lookup:
  "case map_of (identify ps) i of
     None \<Rightarrow> card (ballots_for ps i) \<le> 1
   | Some c \<Rightarrow> set (co_proposers c) = ballots_for ps i \<and> 1 < card (ballots_for ps i)"
proof -
  have r: "records (ballots_for ps i) (map_of (collect_proposers ps) i)" and wf: "wf_map (collect_proposers ps)"
    using collect_proposers_tracks [of ps] by (simp_all add: tracks_def)
  show ?thesis
  proof (cases "map_of (collect_proposers ps) i")
    case (Some c)
    with r have "card (ballots_for ps i) = length (co_proposers c)" by (auto dest: distinct_card)
    with Some r show ?thesis by (simp add: identify_def map_of_map_retain [OF wf])
  qed (use r in \<open>simp add: identify_def map_of_map_retain [OF wf]\<close>)
qed

lemma first_some_Some [simp]: "first_some (Some e) it = Some e"
  by (subst first_some.simps) simp

lemma first_some_Nil [simp]: "first_some None [] = None"
proof -
  have "first \<noteq> None \<or> it \<noteq> []" if "first_some first it = Some y" for first :: "'a option" and it y
  proof (rule first_some.raw_induct [where P = "\<lambda>first it y. first \<noteq> None \<or> it \<noteq> []", OF _ that])
    fix f :: "'a option \<Rightarrow> 'a list \<Rightarrow> 'a option" and first it y
    assume "\<And>first it y. f first it = Some y \<Longrightarrow> first \<noteq> None \<or> it \<noteq> []"
      and "(case first of Some e \<Rightarrow> Some e
             | None \<Rightarrow> (case it of [] \<Rightarrow> f None [] | e # es \<Rightarrow> f (Some e) es)) = Some y"
    then show "first \<noteq> None \<or> it \<noteq> []"
      by (cases first; cases it) (simp_all, blast)
  qed
  then show ?thesis by (metis not_Some_eq)
qed

lemma append_winner_Cons:
  "append_winner ((i, c) # cs) results =
     (case map_retain (\<lambda>_ b. b \<in> set (co_proposers c)) results of
        [] \<Rightarrow> None
      | (v, b) # es \<Rightarrow> map_option (\<lambda>(ds, r). ((i, c \<lparr> co_winner := Some (snd b) \<rparr>) # ds, r))
          (append_winner cs ((v, b) # es)))"
  by (auto split: list.splits option.splits prod.splits)

lemma append_winner_None_iff:
  "append_winner cs results = None \<longleftrightarrow>
     cs \<noteq> [] \<and> \<not> (\<exists>e\<in>set results. \<forall>ic\<in>set cs. snd e \<in> set (co_proposers (snd ic)))"
proof (induction cs arbitrary: results)
  case (Cons ic cs)
  obtain i c where ic: "ic = (i, c)" by (cases ic)
  let ?r = "map_retain (\<lambda>_ b. b \<in> set (co_proposers c)) results"
  have r: "e \<in> set ?r \<longleftrightarrow> e \<in> set results \<and> snd e \<in> set (co_proposers c)" for e
    by (cases e) (simp add: map_retain_def)
  show ?case
  proof (cases ?r)
    case Nil
    then have "\<forall>e\<in>set results. snd e \<notin> set (co_proposers c)" using r by auto
    with Nil show ?thesis by (simp add: ic append_winner_Cons del: append_winner.simps)
  next
    case (Cons e es)
    then have step: "append_winner (ic # cs) results = None \<longleftrightarrow> append_winner cs ?r = None"
      by (cases e) (simp add: ic append_winner_Cons del: append_winner.simps)
    have narrow: "(\<exists>e\<in>set ?r. \<forall>ic\<in>set cs. snd e \<in> set (co_proposers (snd ic)))
        \<longleftrightarrow> (\<exists>e\<in>set results. \<forall>x\<in>set (ic # cs). snd e \<in> set (co_proposers (snd x)))"
      unfolding Bex_def r by (simp add: ic)
    have "e \<in> set ?r" using Cons by simp
    then have "cs = [] \<Longrightarrow> \<exists>e\<in>set ?r. \<forall>ic\<in>set cs. snd e \<in> set (co_proposers (snd ic))"
      by (intro bexI [of _ e]) simp_all
    then show ?thesis unfolding step Cons.IH [of ?r] narrow by blast
  qed
qed simp

lemma append_winner_ConsE:
  assumes "append_winner ((i, c) # cs) results = Some (cs', r)"
  obtains v b es ds where "map_retain (\<lambda>_ b. b \<in> set (co_proposers c)) results = (v, b) # es"
    "append_winner cs ((v, b) # es) = Some (ds, r)" "cs' = (i, c \<lparr> co_winner := Some (snd b) \<rparr>) # ds"
  using assms
  by (auto simp: append_winner_Cons simp del: append_winner.simps split: list.splits prod.splits)

lemma append_winner_entries:
  "append_winner cs results = Some (cs', r) \<Longrightarrow>
   list_all2 (\<lambda>(i, c) (j, d). j = i \<and> (\<exists>b\<in>set (co_proposers c). d = c \<lparr> co_winner := Some (snd b) \<rparr>)) cs cs'"
proof (induction cs arbitrary: results cs')
  case (Cons ic cs)
  obtain i c where ic: "ic = (i, c)" by (cases ic)
  from Cons.prems [unfolded ic] obtain v b es ds where
    r: "map_retain (\<lambda>_ b. b \<in> set (co_proposers c)) results = (v, b) # es"
    and ds: "append_winner cs ((v, b) # es) = Some (ds, r)"
    and cs': "cs' = (i, c \<lparr> co_winner := Some (snd b) \<rparr>) # ds" by (rule append_winner_ConsE)
  from r have "(v, b) \<in> set (map_retain (\<lambda>_ b. b \<in> set (co_proposers c)) results)" by simp
  then have "b \<in> set (co_proposers c)" by (simp add: map_retain_def)
  with Cons.IH [OF ds] show ?case by (auto simp: ic cs')
qed simp

lemma append_winner_least:
  assumes "bt_wf u256_val results" "append_winner cs results = Some (cs', r)" "k < length cs"
  shows "\<exists>v b. (v, b) \<in> set results \<and> co_winner (snd (cs' ! k)) = Some (snd b)
    \<and> (\<forall>j\<le>k. b \<in> set (co_proposers (snd (cs ! j))))
    \<and> (\<forall>e\<in>set results. (\<forall>j\<le>k. snd e \<in> set (co_proposers (snd (cs ! j)))) \<longrightarrow> u256_val v \<le> u256_val (fst e))"
  using assms
proof (induction cs arbitrary: results cs' k)
  case (Cons ic cs)
  obtain i c where ic: "ic = (i, c)" by (cases ic)
  from Cons.prems(2) [unfolded ic] obtain v b es ds where
    r: "map_retain (\<lambda>_ b. b \<in> set (co_proposers c)) results = (v, b) # es"
    and ds: "append_winner cs ((v, b) # es) = Some (ds, r)"
    and cs': "cs' = (i, c \<lparr> co_winner := Some (snd b) \<rparr>) # ds" by (rule append_winner_ConsE)
  have mem: "e \<in> set ((v, b) # es) \<longleftrightarrow> e \<in> set results \<and> snd e \<in> set (co_proposers c)" for e
    unfolding r [symmetric] by (cases e) (simp add: map_retain_def)
  have wf: "bt_wf u256_val ((v, b) # es)"
    using Cons.prems(1) unfolding r [symmetric] bt_wf_def map_retain_def sorted_wrt_map by (rule sorted_wrt_filter)
  show ?case
  proof (cases k)
    case 0
    have "(v, b) \<in> set results \<and> b \<in> set (co_proposers c)" using mem [of "(v, b)"] by simp
    moreover have "\<forall>e\<in>set results. snd e \<in> set (co_proposers c) \<longrightarrow> u256_val v \<le> u256_val (fst e)"
      using u256_order.first_is_least [OF wf] mem by blast
    ultimately show ?thesis
      using 0 by (intro exI [of _ v] exI [of _ b]) (simp add: ic cs' del: u256_val.simps)
  next
    case (Suc n)
    have n: "n < length cs" using Cons.prems(3) Suc by simp
    have all: "(\<forall>j\<le>k. x \<in> set (co_proposers (snd ((ic # cs) ! j))))
        \<longleftrightarrow> x \<in> set (co_proposers c) \<and> (\<forall>j\<le>n. x \<in> set (co_proposers (snd (cs ! j))))" for x
      using Suc by (auto simp: ic nth_Cons split: nat.splits)
    from Cons.IH [OF wf ds n] obtain v' b' where
      w: "(v', b') \<in> set ((v, b) # es)" "co_winner (snd (ds ! n)) = Some (snd b')"
        "\<forall>j\<le>n. b' \<in> set (co_proposers (snd (cs ! j)))"
        "\<forall>e\<in>set ((v, b) # es). (\<forall>j\<le>n. snd e \<in> set (co_proposers (snd (cs ! j)))) \<longrightarrow> u256_val v' \<le> u256_val (fst e)"
      by blast
    then show ?thesis
      unfolding all using mem [of "(v', b')"] mem
      by (intro exI [of _ v'] exI [of _ b']) (simp add: cs' Suc del: list.set u256_val.simps)
  qed
qed simp

text \<open>A function that only chooses the order in which a map is visited.\<close>

definition visits_all :: "(identified \<Rightarrow> identified) \<Rightarrow> bool" where
  "visits_all order = (\<forall>m. mset (order m) = mset m)"

lemma visits_all_set: "visits_all order \<Longrightarrow> set (order m) = set m"
  unfolding visits_all_def by (metis set_mset_mset)

lemma visits_all_wf: "visits_all order \<Longrightarrow> wf_map m \<Longrightarrow> wf_map (order m)"
  unfolding visits_all_def wf_map_def by (metis mset_eq_imp_distinct_iff mset_map)

lemma resolve_block_txns:
  "i \<in> set (keys (pb_txns (resolve_block cs b))) \<longleftrightarrow>
     i \<in> set (keys (pb_txns b)) \<and> (\<forall>c. (i, c) \<in> set cs \<longrightarrow> co_winner c = Some (pb_hash b))"
  by (force simp: resolve_block_def Let_def map_retain_def map_contains_iff)

lemma resolve_block_hash [simp]: "pb_hash (resolve_block cs b) = pb_hash b"
  by (simp add: resolve_block_def Let_def)

text \<open>The entries after the election: one for each conflict, won by one of its
  proposers.\<close>

lemma winners:
  assumes "visits_all order" "append_winner (order (identify ps)) results = Some (cs, r)"
  shows "map_of (identify ps) i = Some c \<Longrightarrow> \<exists>b\<in>ballots_for ps i. (i, c \<lparr> co_winner := Some (snd b) \<rparr>) \<in> set cs"
    and "(i, d) \<in> set cs \<Longrightarrow> (i, d') \<in> set cs \<Longrightarrow> d = d'"
    and "(i, d) \<in> set cs \<Longrightarrow> map_of (identify ps) i \<noteq> None"
proof -
  note rel = append_winner_entries [OF assms(2)]
  have k: "keys cs = keys (order (identify ps))"
    using rel by (auto simp: list_all2_conv_all_nth intro!: nth_equalityI)
  then have "distinct (keys cs)"
    using visits_all_wf [OF assms(1) wf_identify [of ps]] by (simp add: wf_map_def)
  then show "(i, d) \<in> set cs \<Longrightarrow> (i, d') \<in> set cs \<Longrightarrow> d = d'" by (metis map_of_is_SomeI option.inject)
  show "map_of (identify ps) i \<noteq> None" if "(i, d) \<in> set cs"
  proof -
    have "i \<in> set (keys (order (identify ps)))" using that unfolding k [symmetric] by force
    then show ?thesis
      using visits_all_set [OF assms(1), of "identify ps"] by (auto simp: map_of_eq_None_iff)
  qed
  assume c: "map_of (identify ps) i = Some c"
  then have "(i, c) \<in> set (order (identify ps))"
    using visits_all_set [OF assms(1)] map_of_SomeD by fastforce
  then obtain n where n: "n < length (order (identify ps))" "order (identify ps) ! n = (i, c)"
    by (auto simp: in_set_conv_nth)
  have "set (co_proposers c) = ballots_for ps i" using identify_lookup [of ps i] c by simp
  moreover obtain j d where "cs ! n = (j, d)" by (cases "cs ! n")
  ultimately obtain b where "b \<in> ballots_for ps i" "cs ! n = (i, c \<lparr> co_winner := Some (snd b) \<rparr>)"
    using list_all2_nthD [OF rel n(1)] n(2) by auto
  moreover have "cs ! n \<in> set cs" using list_all2_lengthD [OF rel] n(1) by simp
  ultimately show "\<exists>b\<in>ballots_for ps i. (i, c \<lparr> co_winner := Some (snd b) \<rparr>) \<in> set cs" by auto
qed

lemma resolve_SomeE:
  assumes "resolve order bd m ps round s = Some res"
  obtains cs r where
    "append_winner (order (identify (eligible_blocks bd m ps round)))
       (get_election_results (get_proposers (eligible_blocks bd m ps round)) s) = Some (cs, r)"
    "res = map (resolve_block cs) (eligible_blocks bd m ps round)"
  using assms by (auto simp: resolve_def resolve_current_def Let_def split: option.splits)

lemma common_txn_is_conflict:
  assumes "b \<in> set ps" "b' \<in> set ps" "i \<in> set (keys (pb_txns b))" "i \<in> set (keys (pb_txns b'))" "pb_hash b \<noteq> pb_hash b'"
  shows "map_of (identify ps) i \<noteq> None"
proof -
  have "{(pb_from b, pb_hash b), (pb_from b', pb_hash b')} \<subseteq> ballots_for ps i"
    using assms unfolding ballots_for_def by blast
  moreover have "finite (ballots_for ps i)" by (simp add: ballots_for_def)
  ultimately have "card {(pb_from b, pb_hash b), (pb_from b', pb_hash b')} \<le> card (ballots_for ps i)"
    by (intro card_mono)
  with assms(5) identify_lookup [of ps i] show ?thesis by (auto split: option.splits)
qed

lemma resolved_unique:
  assumes "visits_all order" "resolve order bd m ps round s = Some res"
    and "p \<in> set res" "q \<in> set res" "i \<in> set (keys (pb_txns p))" "i \<in> set (keys (pb_txns q))"
  shows "pb_hash p = pb_hash q"
proof (rule ccontr)
  let ?curr = "eligible_blocks bd m ps round"
  assume ne: "pb_hash p \<noteq> pb_hash q"
  from assms(2) obtain cs r where
    w: "append_winner (order (identify ?curr)) (get_election_results (get_proposers ?curr) s) = Some (cs, r)"
    and res: "res = map (resolve_block cs) ?curr" by (rule resolve_SomeE)
  from assms(3,4) res obtain b b' where b: "b \<in> set ?curr" "p = resolve_block cs b"
    and b': "b' \<in> set ?curr" "q = resolve_block cs b'" by auto
  note kept = assms(5,6) [unfolded b(2) b'(2) resolve_block_txns]
  have "map_of (identify ?curr) i \<noteq> None"
    using common_txn_is_conflict [of b ?curr b' i] b b' kept ne by auto
  then obtain c where "map_of (identify ?curr) i = Some c" by blast
  from winners(1) [OF assms(1) w this] obtain d where "(i, d) \<in> set cs" by blast
  with kept have "pb_hash b = pb_hash b'" by (metis option.inject)
  with ne b(2) b'(2) show False by simp
qed

lemma resolved_keeps:
  assumes "visits_all order" "resolve order bd m ps round s = Some res"
    and "b \<in> set (eligible_blocks bd m ps round)" "i \<in> set (keys (pb_txns b))"
  shows "\<exists>p\<in>set res. i \<in> set (keys (pb_txns p))"
proof -
  let ?curr = "eligible_blocks bd m ps round"
  from assms(2) obtain cs r where
    w: "append_winner (order (identify ?curr)) (get_election_results (get_proposers ?curr) s) = Some (cs, r)"
    and res: "res = map (resolve_block cs) ?curr" by (rule resolve_SomeE)
  show ?thesis
  proof (cases "map_of (identify ?curr) i")
    case None
    then have "i \<in> set (keys (pb_txns (resolve_block cs b)))"
      unfolding resolve_block_txns using winners(3) [OF assms(1) w] assms(4) by blast
    then show ?thesis using res assms(3) by auto
  next
    case (Some c)
    from winners(1) [OF assms(1) w Some] obtain x where
      x: "x \<in> ballots_for ?curr i" "(i, c \<lparr> co_winner := Some (snd x) \<rparr>) \<in> set cs" by blast
    then obtain b' where b': "b' \<in> set ?curr" "i \<in> set (keys (pb_txns b'))" "snd x = pb_hash b'"
      unfolding ballots_for_def by (auto simp del: set_map)
    have "co_winner d = Some (pb_hash b')" if "(i, d) \<in> set cs" for d
      using winners(2) [OF assms(1) w x(2) that] b'(3) by auto
    then have "i \<in> set (keys (pb_txns (resolve_block cs b')))"
      unfolding resolve_block_txns using b'(2) by blast
    then show ?thesis using res b'(1) by auto
  qed
qed

subsection \<open>Facts about building\<close>

lemma header_new_refs:
  "header_new cr vo now b refs claim sk txn_hash clh adj = Ok (Some h) \<Longrightarrow> bh_ref_hashes h = refs"
  by (auto simp: header_new_def header_on_def Let_def result_simps split: block.splits)

lemma resolve_nothing:
  assumes "visits_all order"
  shows "resolve order bd m [] round s = Some []"
proof -
  have "order [] = []" using assms unfolding visits_all_def by (metis mset_zero_iff)
  then show ?thesis
    by (simp add: resolve_def eligible_blocks_def split_proposals_by_round_def resolve_earlier_def identify_def
        collect_proposers_def map_retain_def resolve_current_def split: option.splits)
qed

lemma no_references:
  assumes "\<forall>b. dag_holds bd (mi_dag mi) b \<longrightarrow> \<not> is_proposal b" "get_references bd mi = Some ps"
  shows "ps = []"
proof -
  have "(case bd_vertex bd (mi_dag mi) leaf of None \<Rightarrow> None
        | Some v \<Rightarrow> (case vx_data v of Proposal b \<Rightarrow> Some b | _ \<Rightarrow> None)) = None" for leaf
    using assms(1) by (fastforce simp: dag_holds_def is_proposal_def split: option.splits block.splits)
  with assms(2) show ?thesis by (simp add: get_references_def map_filter_def split: if_splits)
qed

lemma build_without_references:
  assumes "visits_all order" "build cr vo order bd now mi = Some (Ok (Some b))" "get_references bd mi = Some []"
  shows "cb_txns b = []" "cb_claims b = []" "bh_ref_hashes (cb_header b) = []"
  using assms(2)
  by (auto simp: build_def assms(3) resolve_nothing [OF assms(1)] Let_def result_simps consolidate_txns_def
      consolidate_claims_def get_ref_hashes_def build_header_def dest!: header_new_refs
      split: result.splits option.splits prod.splits)

definition example_header :: block_header where
  "example_header = \<lparr> bh_ref_hashes = [''ref''], bh_epoch = 0, bh_round = 5, bh_block_seed = 7, bh_next_block_seed = 9,
     bh_block_height = 0, bh_timestamp = 0, bh_txn_hash = ''txns'', bh_miner_claim = example_claim,
     bh_claim_list_hash = ''claims'', bh_block_reward = reward_default, bh_next_block_reward = reward_default,
     bh_miner_signature = ''sig'' \<rparr>"

definition example_genesis :: genesis_block where
  "example_genesis = \<lparr> gb_header = example_header, gb_txns = [], gb_claims = [], gb_hash = ''genesis'', gb_certificate = None \<rparr>"

definition example_miner :: "(string, vertex) amap miner" where
  "example_miner = \<lparr> mi_secret_key = key_a, mi_public_key = key_a, mi_address = Address key_a,
     mi_ip_address = ''127.0.0.1:80'', mi_claim = example_claim, mi_dag = [], mi_dag_poisoned = False,
     mi_last_block = Some (LastGenesis example_genesis), mi_status = Waiting, mi_next_epoch_adjustment = 0 \<rparr>"

definition example_proposal :: "string \<Rightarrow> string list \<Rightarrow> proposal_block" where
  "example_proposal h ids = \<lparr> pb_ref_block = ''genesis'', pb_round = 5, pb_epoch = 0,
     pb_txns = map (\<lambda>i. (\<lparr> td_inner = [], td_digest_string = i \<rparr>,
       quorum_certified_txn_new [] [] (Transfer (transfer_new example_crypto (example_args 5 1))) [] True)) ids,
     pb_claims = [], pb_from = example_claim, pb_hash = h, pb_signature = ''sig'' \<rparr>"

lemma example_build:
  "\<exists>b. build example_crypto example_vrf id list_dag 0 example_miner = Some (Ok (Some b))"
proof -
  have "\<exists>h. header_new example_crypto example_vrf now (Genesis example_genesis) refs c sk th ch adj = Ok (Some h)"
    for now refs c sk th ch adj
  proof -
    let ?msg = "str_bytes (cr_hex example_crypto (hash_data example_crypto [SStr ''genesis'', SSeq (map SStr refs)]))"
    obtain v where "vvrf_new example_vrf ?msg sk = Ok v" using example_vrf_new by blast
    then obtain s where "next_seed_from example_vrf ?msg sk = Ok s" using next_seed_from_Ok by blast
    then show ?thesis
      by (simp add: header_new_def header_on_def inner_block_defs example_genesis_def example_header_def Let_def
          add_or_panic_def checked_add_def generate_next_reward_def reward_default_def NUMBER_OF_BLOCKS_PER_EPOCH_def)
  qed
  then have h: "\<exists>h. build_header example_crypto example_vrf 0 refs th ch example_miner = Ok (Some h)" for refs th ch
    by (simp add: build_header_def convert_last_block_to_static_def example_miner_def inner_block_defs)
  have "get_references list_dag example_miner = Some []"
    by (simp add: get_references_def example_miner_def list_dag_def map_filter_def)
  moreover have "get_round example_miner = Ok 6"
    by (simp add: get_round_def example_miner_def example_genesis_def example_header_def inner_block_defs
        add_or_panic_def checked_add_def)
  moreover have "resolve id list_dag example_miner [] 6 s = Some []" for s
    by (rule resolve_nothing) (simp add: visits_all_def)
  ultimately show ?thesis
    using h by (simp add: build_def Let_def) (metis (no_types, lifting) option.simps(5) rbind.simps(1))
qed

subsection \<open>Properties\<close>

text \<open>C9: conflict resolution, when it returns, leaves every proposed transaction in
  exactly one place: the blocks returned are the eligible blocks in their order, a
  transaction occurs in them iff an eligible block proposed it, and two of them
  with different hashes share none.  This holds in whatever order the conflicts
  are visited.\<close>

theorem resolved_txns_once:
  assumes "visits_all order" "resolve order bd m ps round s = Some res"
  shows "(\<forall>p\<in>set res. \<forall>q\<in>set res. \<forall>i. i \<in> set (keys (pb_txns p)) \<and> i \<in> set (keys (pb_txns q)) \<longrightarrow> pb_hash p = pb_hash q)
    \<and> (\<forall>i. (\<exists>p\<in>set res. i \<in> set (keys (pb_txns p)))
           \<longleftrightarrow> (\<exists>b\<in>set (eligible_blocks bd m ps round). i \<in> set (keys (pb_txns b))))
    \<and> map pb_hash res = map pb_hash (eligible_blocks bd m ps round)"
proof (intro conjI ballI allI impI)
  obtain cs where res: "res = map (resolve_block cs) (eligible_blocks bd m ps round)"
    using assms(2) by (rule resolve_SomeE)
  then show "map pb_hash res = map pb_hash (eligible_blocks bd m ps round)" by simp
  show "(\<exists>p\<in>set res. i \<in> set (keys (pb_txns p)))
     \<longleftrightarrow> (\<exists>b\<in>set (eligible_blocks bd m ps round). i \<in> set (keys (pb_txns b)))" for i
  proof
    assume "\<exists>p\<in>set res. i \<in> set (keys (pb_txns p))"
    then obtain b where "b \<in> set (eligible_blocks bd m ps round)" "i \<in> set (keys (pb_txns (resolve_block cs b)))"
      unfolding res by auto
    then show "\<exists>b\<in>set (eligible_blocks bd m ps round). i \<in> set (keys (pb_txns b))"
      unfolding resolve_block_txns by blast
  qed (use resolved_keeps [OF assms] in blast)
qed (use resolved_unique [OF assms] in blast)



theorem resolved_txns_once_witness:
  "\<exists>res. resolve id list_dag example_miner [example_proposal ''A'' [''t''], example_proposal ''B'' [''t'']] 6 0 = Some res
     \<and> map pb_hash res = [''A'', ''B'']
     \<and> (\<forall>p\<in>set res. \<forall>q\<in>set res. \<forall>i. i \<in> set (keys (pb_txns p)) \<and> i \<in> set (keys (pb_txns q)) \<longrightarrow> pb_hash p = pb_hash q)"
proof -
  let ?ps = "[example_proposal ''A'' [''t''], example_proposal ''B'' [''t'']]"
  have el: "eligible_blocks list_dag example_miner ?ps 6 = ?ps"
    by (simp add: eligible_blocks_def split_proposals_by_round_def example_miner_def example_genesis_def
        example_header_def inner_block_defs is_current_round_def example_proposal_def resolve_earlier_def)
  have vis: "visits_all id" by (simp add: visits_all_def)
  obtain res where res: "resolve id list_dag example_miner ?ps 6 0 = Some res"
    unfolding resolve_def Let_def el
    by (simp add: identify_def collect_proposers_def add_proposer_def example_proposal_def map_retain_def
        map_insert_def get_proposers_def get_election_results_def bt_collect_def)
  have "map pb_hash ?ps = [''A'', ''B'']" by (simp add: example_proposal_def)
  with resolved_txns_once [OF vis res] res show ?thesis unfolding el by auto
qed

text \<open>The DAG and the miner together never get past the genesis block.  A miner
  that reads a DAG reached by any appends builds, if it builds, a convergence block
  with no transactions, no claims and no references, because no proposal is ever
  in the DAG; and appending that block, with whatever certificate, reports success
  and leaves the DAG as it was, because a block without references has no edge to
  be written by.\<close>

theorem mined_block_never_enters_dag:
  assumes "reachable (dag_init bd) (dag_step cr hb bd) m" "visits_all order"
    and "mi_dag mi = dm_dag m" "build cr vo order bd now mi = Some (Ok (Some b))"
  shows "cb_txns b = [] \<and> cb_claims b = []
    \<and> append_convergence cr hb bd (append_certificate cert b) m = (Ok (), m)"
proof -
  have "\<forall>x. dag_holds bd (mi_dag mi) x \<longrightarrow> \<not> is_proposal x"
    using dag_typed_holds [OF dag_typing.reachable_inv [OF assms(1)]] assms(3) by simp
  moreover obtain ps where "get_references bd mi = Some ps"
    using assms(4) by (auto simp: build_def split: option.splits)
  ultimately have "get_references bd mi = Some []" using no_references by blast
  note empty = build_without_references [OF assms(2,4) this]
  then have "get_convergence_reference_blocks bd m (append_certificate cert b) = []"
    by (simp add: get_convergence_reference_blocks_def append_certificate_def map_filter_def)
  then show ?thesis using empty by (simp add: append_convergence_def)
qed

theorem mined_block_never_enters_dag_witness:
  "\<exists>b. build example_crypto example_vrf id list_dag 0 example_miner = Some (Ok (Some b)) \<and> cb_txns b = []
     \<and> (\<forall>cert. snd (append_convergence example_crypto example_hbbft list_dag (append_certificate cert b)
          (dag_module_new [] example_claim)) = dag_module_new [] example_claim)"
proof -
  let ?m = "dag_module_new (bd_new list_dag) example_claim :: ((string, vertex) amap, nat) dag_module"
  have "reachable (dag_init list_dag) (dag_step example_crypto example_hbbft list_dag) ?m"
    by (rule reach_init) (auto simp: dag_init_def list_dag_laws)
  then have r: "reachable (dag_init list_dag) (dag_step example_crypto example_hbbft list_dag)
      (dag_module_new [] example_claim)"
    by (simp add: list_dag_def)
  obtain b where b: "build example_crypto example_vrf id list_dag 0 example_miner = Some (Ok (Some b))"
    using example_build by blast
  have "visits_all id" "mi_dag example_miner = dm_dag (dag_module_new [] example_claim)"
    by (simp_all add: visits_all_def example_miner_def dag_module_new_def)
  from mined_block_never_enters_dag [OF r this b] b show ?thesis by auto
qed

end
