(* ===== verification/State_Manager.thy ===== *)
theory State_Manager
  imports Databases Mempools Dags
begin

text \<open>
  \<open>node/src/state_manager\<close>: the manager that holds the DAG module, the database and
  the mempool, and \<open>utils.rs\<close>, which merges the account updates of a round.  The
  text of an error that is wrapped into \<open>NodeError::Other\<close> is the error itself.
\<close>

datatype manager_error =
    SmOther string
  | SmStorage storage_error
  | SmGraph graph_error

record ('d, 'pks, 's, 't, 'c, 'm) state_manager =
  sm_dag :: "('d, 'pks) dag_module"
  sm_database :: "('s, 't, 'c) vrrb_db"
  sm_mempool :: 'm

definition state_manager_new ::
  "('s, 't, 'c) vrrb_db \<Rightarrow> 'd \<Rightarrow> 'm \<Rightarrow> claim \<Rightarrow> ('d, 'pks, 's, 't, 'c, 'm) state_manager" where
  "state_manager_new db dag pool claim =
     \<lparr> sm_dag = dag_module_new dag claim, sm_database = db, sm_mempool = pool \<rparr>"

subsection \<open>Merging updates\<close>

definition get_update_args :: "state_update list \<Rightarrow> update_args list" where
  "get_update_args us = remdups (map update_args_of us)"

fun add_amounts :: "u128 option \<Rightarrow> u128 option \<Rightarrow> (unit, u128 option) result" where
  "add_amounts (Some a) (Some b) = rbind (add_or_panic a b) (\<lambda>s. Ok (Some s))"
| "add_amounts a None = Ok a"
| "add_amounts _ b = Ok b"

text \<open>\<open>Option::max\<close>: \<open>None\<close> is the least value.\<close>

fun max_nonce :: "u128 option \<Rightarrow> u128 option \<Rightarrow> u128 option" where
  "max_nonce (Some a) (Some b) = Some (max a b)"
| "max_nonce a None = a"
| "max_nonce None b = b"

definition merge_update :: "update_args \<Rightarrow> update_args \<Rightarrow> (unit, update_args) result" where
  "merge_update e u =
     rbind (add_amounts (ua_credits e) (ua_credits u)) (\<lambda>credits.
     rbind (add_amounts (ua_debits e) (ua_debits u)) (\<lambda>debits.
     Ok (e \<lparr> ua_nonce := max_nonce (ua_nonce e) (ua_nonce u), ua_credits := credits, ua_debits := debits,
             ua_storage := ua_storage u, ua_code := ua_code u,
             ua_digests := (case ua_digests u of
                 Some ds \<Rightarrow> (case ua_digests e of Some es \<Rightarrow> Some (extend_all es ds) | None \<Rightarrow> Some ds)
               | None \<Rightarrow> ua_digests e) \<rparr>)))"

definition consolidate_step ::
  "update_args \<Rightarrow> (address, update_args) amap \<Rightarrow> (unit, (address, update_args) amap) result" where
  "consolidate_step u m = (case map_of m (ua_address u) of
     Some e \<Rightarrow> rbind (merge_update e u) (\<lambda>e'. Ok (map_insert (ua_address u) e' m))
   | None \<Rightarrow> Ok (map_insert (ua_address u) u m))"

definition consolidate_update_args :: "update_args list \<Rightarrow> (unit, (address, update_args) amap) result" where
  "consolidate_update_args us = rfold consolidate_step us []"

subsection \<open>The blocks of a round\<close>

definition sm_get_sources :: "'d dag_ops \<Rightarrow> ('d, 'pks) dag_module \<Rightarrow> vertex \<Rightarrow> vertex list" where
  "sm_get_sources bd dm v = (if dm_poisoned dm then [] else
     List.map_filter (bd_vertex bd (dm_dag dm)) (vx_sources v))"

definition convert_sources :: "vertex list \<Rightarrow> proposal_block list" where
  "convert_sources vs = List.map_filter (\<lambda>b. case b of Proposal p \<Rightarrow> Some p | _ \<Rightarrow> None) (map vx_data vs)"

definition get_proposal_blocks :: "'d dag_ops \<Rightarrow> ('d, 'pks) dag_module \<Rightarrow> block_hash \<Rightarrow> round_blocks option" where
  "get_proposal_blocks bd dm i = (if dm_poisoned dm then None else
     case bd_vertex bd (dm_dag dm) i of
       None \<Rightarrow> None
     | Some v \<Rightarrow> (case vx_data v of
         Convergence b \<Rightarrow> Some \<lparr> rb_convergence = b, rb_proposals = convert_sources (sm_get_sources bd dm v) \<rparr>
       | _ \<Rightarrow> None))"

text \<open>The proposals are filtered in place, so they are returned with the updates.\<close>

definition filter_proposal :: "convergence_block \<Rightarrow> proposal_block \<Rightarrow> proposal_block" where
  "filter_proposal c p = (case map_of (cb_txns c) (pb_hash p) of
     Some digests \<Rightarrow> p \<lparr> pb_txns := map_retain (\<lambda>d _. d \<in> set digests) (pb_txns p) \<rparr>
   | None \<Rightarrow> p)"

definition get_update_list :: "crypto \<Rightarrow> round_blocks \<Rightarrow> (unit, state_update list) result \<times> round_blocks" where
  "get_update_list cr rb =
     (let filtered = map (filter_proposal (rb_convergence rb)) (rb_proposals rb) in
      (rfold (\<lambda>p us. rbind (updates_from_block cr p) (\<lambda>s. Ok (set_extend s us))) filtered [],
       rb \<lparr> rb_proposals := filtered \<rparr>))"

definition update_txn_trie ::
  "('s, 't, 'c) db_env \<Rightarrow> proposal_block list \<Rightarrow> ('s, 't, 'c) vrrb_db \<Rightarrow> ('s, 't, 'c) vrrb_db" where
  "update_txn_trie env ps db =
     extend_transactions env (remdups (concat (map (\<lambda>p. map qct_txn (vals (pb_txns p))) ps))) db"

definition update_claim_store ::
  "('s, 't, 'c) db_env \<Rightarrow> proposal_block list \<Rightarrow> ('s, 't, 'c) vrrb_db \<Rightarrow> ('s, 't, 'c) vrrb_db" where
  "update_claim_store env ps db =
     extend_claims env (remdups (concat (map (\<lambda>p. map (\<lambda>(k, v). (k, Some v)) (pb_claims p)) ps))) db"

text \<open>An account that cannot be updated is logged and passed over.\<close>

fun update_accounts ::
  "('s, 't, 'c) db_env \<Rightarrow> update_args list \<Rightarrow> ('s, 't, 'c) vrrb_db \<Rightarrow> (unit, unit) result \<times> ('s, 't, 'c) vrrb_db" where
  "update_accounts env [] db = (Ok (), db)"
| "update_accounts env (u # us) db = (case db_update_account env u db of
     (Panic, db') \<Rightarrow> (Panic, db') | (_, db') \<Rightarrow> update_accounts env us db')"

definition update_state ::
  "crypto \<Rightarrow> ('s, 't, 'c) db_env \<Rightarrow> 'd dag_ops \<Rightarrow> block_hash \<Rightarrow> ('d, 'pks, 's, 't, 'c, 'm) state_manager
     \<Rightarrow> (manager_error, unit) result \<times> ('d, 'pks, 's, 't, 'c, 'm) state_manager" where
  "update_state cr env bd i sm = (case get_proposal_blocks bd (sm_dag sm) i of
     None \<Rightarrow> (Err (SmOther ''Convergene block not found in DAG''), sm)
   | Some rb \<Rightarrow> (case get_update_list cr rb of
       (Ok us, rb') \<Rightarrow> (case consolidate_update_args (get_update_args us) of
           Ok m \<Rightarrow> (case update_accounts env (vals m) (sm_database sm) of
               (Ok _, db) \<Rightarrow> (Ok (), sm \<lparr> sm_database :=
                  update_claim_store env (rb_proposals rb') (update_txn_trie env (rb_proposals rb') db) \<rparr>)
             | (_, db) \<Rightarrow> (Panic, sm \<lparr> sm_database := db \<rparr>))
         | _ \<Rightarrow> (Panic, sm))
     | _ \<Rightarrow> (Panic, sm)))"

subsection \<open>Handlers\<close>

fun graph_result :: "(graph_error, unit) result \<Rightarrow> (manager_error, unit) result" where
  "graph_result (Ok u) = Ok ()"
| "graph_result (Err e) = Err (SmGraph e)"
| "graph_result Panic = Panic"

definition handle_block_received ::
  "crypto \<Rightarrow> ('gen, 'part, 'ack, 'rng, 'pks, 'sks) hbbft_ops \<Rightarrow> 'd dag_ops \<Rightarrow> block
     \<Rightarrow> ('d, 'pks, 's, 't, 'c, 'm) state_manager
     \<Rightarrow> (manager_error, unit) result \<times> ('d, 'pks, 's, 't, 'c, 'm) state_manager" where
  "handle_block_received cr hb bd b sm =
     (case (case b of
        Genesis g \<Rightarrow> append_genesis cr hb bd g (sm_dag sm)
      | Proposal p \<Rightarrow> append_proposal cr hb bd p (sm_dag sm)
      | Convergence c \<Rightarrow> append_convergence cr hb bd c (sm_dag sm)) of
        (r, dm) \<Rightarrow> (graph_result r, sm \<lparr> sm_dag := dm \<rparr>))"

definition sm_apply_block ::
  "('s, 't, 'c) db_env \<Rightarrow> block \<Rightarrow> ('d, 'pks, 's, 't, 'c, 'm) state_manager
     \<Rightarrow> (manager_error, apply_block_result) result \<times> ('d, 'pks, 's, 't, 'c, 'm) state_manager" where
  "sm_apply_block env b sm = (case apply_block env b (sm_database sm) of
     (r, db) \<Rightarrow> (map_err SmStorage r, sm \<lparr> sm_database := db \<rparr>))"

definition confirm_txn ::
  "('s, 't, 'c) db_env \<Rightarrow> transaction_kind \<Rightarrow> ('d, 'pks, 's, 't, 'c, 'm) state_manager
     \<Rightarrow> (manager_error, transaction_digest) result \<times> ('d, 'pks, 's, 't, 'c, 'm) state_manager" where
  "confirm_txn env t sm = (case insert_transaction env t (sm_database sm) of
     (r, db) \<Rightarrow> (rbind (map_err SmStorage r) (\<lambda>_. Ok (txn_id t)), sm \<lparr> sm_database := db \<rparr>))"

definition sm_commit ::
  "('s, 't, 'c) db_env \<Rightarrow> ('d, 'pks, 's, 't, 'c, 'm) state_manager \<Rightarrow> ('d, 'pks, 's, 't, 'c, 'm) state_manager" where
  "sm_commit env sm = sm \<lparr> sm_database := commit_state env (sm_database sm) \<rparr>"

definition handle_new_txn_created ::
  "nat \<Rightarrow> 'm mempool_lr \<Rightarrow> int \<Rightarrow> transaction_kind \<Rightarrow> ('d, 'pks, 's, 't, 'c, 'm) state_manager
     \<Rightarrow> (manager_error, transaction_digest) result \<times> ('d, 'pks, 's, 't, 'c, 'm) state_manager" where
  "handle_new_txn_created sz lr now t sm =
     (Ok (txn_id t), sm \<lparr> sm_mempool := snd (mempool_insert sz lr now t (sm_mempool sm)) \<rparr>)"

definition handle_transaction_validated ::
  "'m mempool_lr \<Rightarrow> ('s, 't, 'c) db_env \<Rightarrow> transaction_kind \<Rightarrow> ('d, 'pks, 's, 't, 'c, 'm) state_manager
     \<Rightarrow> (manager_error, unit) result \<times> ('d, 'pks, 's, 't, 'c, 'm) state_manager" where
  "handle_transaction_validated lr env t sm =
     (case confirm_txn env t (sm \<lparr> sm_mempool := mempool_remove lr (txn_id t) (sm_mempool sm) \<rparr>) of
        (r, sm') \<Rightarrow> (rbind r (\<lambda>_. Ok ()), sm'))"

definition handle_harvester_public_key_received ::
  "'pks \<Rightarrow> ('d, 'pks, 's, 't, 'c, 'm) state_manager \<Rightarrow> ('d, 'pks, 's, 't, 'c, 'm) state_manager" where
  "handle_harvester_public_key_received pks sm = sm \<lparr> sm_dag := set_harvester_pubkeys pks (sm_dag sm) \<rparr>"

definition sm_insert_account ::
  "('s, 't, 'c) db_env \<Rightarrow> address \<Rightarrow> account \<Rightarrow> ('d, 'pks, 's, 't, 'c, 'm) state_manager
     \<Rightarrow> (manager_error, unit) result \<times> ('d, 'pks, 's, 't, 'c, 'm) state_manager" where
  "sm_insert_account env k a sm = (case insert_account env k a (sm_database sm) of
     (r, db) \<Rightarrow> (map_err SmStorage r, sm \<lparr> sm_database := db \<rparr>))"

definition sm_extend_accounts ::
  "('s, 't, 'c) db_env \<Rightarrow> (address \<times> account option) list \<Rightarrow> ('d, 'pks, 's, 't, 'c, 'm) state_manager
     \<Rightarrow> (manager_error, unit) result \<times> ('d, 'pks, 's, 't, 'c, 'm) state_manager" where
  "sm_extend_accounts env kas sm = (Ok (), sm \<lparr> sm_database := extend_accounts env kas (sm_database sm) \<rparr>)"

definition get_claims ::
  "('s, 't, 'c) db_env \<Rightarrow> u256 list \<Rightarrow> ('d, 'pks, 's, 't, 'c, 'm) state_manager \<Rightarrow> claim list" where
  "get_claims env hs sm = map snd (filter (\<lambda>(_, c). cl_hash c \<in> set hs)
     (claim_entries (de_claims env) (db_claims (sm_database sm))))"

definition get_claims_by_account_address ::
  "('s, 't, 'c) db_env \<Rightarrow> address \<Rightarrow> ('d, 'pks, 's, 't, 'c, 'm) state_manager \<Rightarrow> claim list" where
  "get_claims_by_account_address env a sm = map snd (filter (\<lambda>(_, c). cl_address c = a)
     (claim_entries (de_claims env) (db_claims (sm_database sm))))"

definition sm_update_account ::
  "('s, 't, 'c) db_env \<Rightarrow> update_args \<Rightarrow> ('d, 'pks, 's, 't, 'c, 'm) state_manager
     \<Rightarrow> (manager_error, unit) result \<times> ('d, 'pks, 's, 't, 'c, 'm) state_manager" where
  "sm_update_account env u sm = (case db_update_account env u (sm_database sm) of
     (r, db) \<Rightarrow> (map_err SmStorage r, sm \<lparr> sm_database := db \<rparr>))"

definition sm_get_account ::
  "('s, 't, 'c) db_env \<Rightarrow> address \<Rightarrow> ('d, 'pks, 's, 't, 'c, 'm) state_manager \<Rightarrow> (manager_error, account) result" where
  "sm_get_account env a sm = map_err SmStorage (state_get (de_state env) a (db_state (sm_database sm)))"

subsection \<open>Facts about merging\<close>

definition amount_of :: "(update_args \<Rightarrow> u128 option) \<Rightarrow> update_args option \<Rightarrow> nat" where
  "amount_of f x = (case x of None \<Rightarrow> 0 | Some u \<Rightarrow> unat (opt_amount (f u)))"

definition asked :: "(update_args \<Rightarrow> u128 option) \<Rightarrow> address \<Rightarrow> update_args list \<Rightarrow> nat" where
  "asked f a us = sum_list (map (\<lambda>u. unat (opt_amount (f u))) (filter (\<lambda>u. ua_address u = a) us))"

lemma asked_simps [simp]:
  "asked f a [] = 0"
  "asked f a (u # us) = (if ua_address u = a then unat (opt_amount (f u)) else 0) + asked f a us"
  by (simp_all add: asked_def)

lemma amount_of_simps [simp]: "amount_of f None = 0" "amount_of f (Some u) = unat (opt_amount (f u))"
  by (simp_all add: amount_of_def)

lemma unat_u128: "unat (w :: u128) < 2 ^ 128"
  using unsigned_less [of w, where ?'a = nat] by simp

lemmas unat_u128_literal [simp] = unat_u128 [simplified]

lemma add_amounts_Ok_iff:
  "add_amounts a b = Ok c \<longleftrightarrow> unat (opt_amount a) + unat (opt_amount b) < 2 ^ 128
     \<and> unat (opt_amount c) = unat (opt_amount a) + unat (opt_amount b) \<and> (c = None \<longleftrightarrow> a = None \<and> b = None)"
  by (cases "(a, b)" rule: add_amounts.cases)
    (auto simp: result_simps checked_add_Some_iff opt_amount_def word_unat_eq_iff split: option.splits)

lemma add_amounts_total:
  "(\<exists>c. add_amounts a b = Ok c) \<longleftrightarrow> unat (opt_amount a) + unat (opt_amount b) < 2 ^ 128"
  by (cases "(a, b)" rule: add_amounts.cases)
    (auto simp: result_simps add_or_panic_def checked_add_def opt_amount_def)

lemma merge_update_total:
  "(\<exists>e'. merge_update e u = Ok e') \<longleftrightarrow>
     unat (opt_amount (ua_credits e)) + unat (opt_amount (ua_credits u)) < 2 ^ 128
     \<and> unat (opt_amount (ua_debits e)) + unat (opt_amount (ua_debits u)) < 2 ^ 128"
  unfolding add_amounts_total [symmetric] by (auto simp: merge_update_def result_simps)

lemma merge_update_amounts:
  assumes "merge_update e u = Ok e'"
  shows "unat (opt_amount (ua_credits e')) = unat (opt_amount (ua_credits e)) + unat (opt_amount (ua_credits u))"
    and "unat (opt_amount (ua_debits e')) = unat (opt_amount (ua_debits e)) + unat (opt_amount (ua_debits u))"
    and "ua_address e' = ua_address e"
  using assms by (auto simp: merge_update_def result_simps add_amounts_Ok_iff)

text \<open>One update, seen through the amounts it adds.\<close>

lemma consolidate_step_total:
  "(\<exists>m'. consolidate_step u m = Ok m') \<longleftrightarrow>
     amount_of ua_credits (map_of m (ua_address u)) + unat (opt_amount (ua_credits u)) < 2 ^ 128
     \<and> amount_of ua_debits (map_of m (ua_address u)) + unat (opt_amount (ua_debits u)) < 2 ^ 128"
proof (cases "map_of m (ua_address u)")
  case None
  then show ?thesis by (simp add: consolidate_step_def)
next
  case (Some e)
  then show ?thesis
    using merge_update_total [of e u] by (simp add: consolidate_step_def result_simps)
qed

lemma consolidate_step_amounts:
  assumes "consolidate_step u m = Ok m'"
  shows "amount_of ua_credits (map_of m' a) = amount_of ua_credits (map_of m a) + asked ua_credits a [u]"
    and "amount_of ua_debits (map_of m' a) = amount_of ua_debits (map_of m a) + asked ua_debits a [u]"
    and "map_of m' a = None \<longleftrightarrow> map_of m a = None \<and> ua_address u \<noteq> a"
  using assms
  by (auto simp: consolidate_step_def result_simps merge_update_amounts split: option.splits if_splits)

lemma consolidate_amounts:
  assumes "rfold consolidate_step us m = Ok m'"
  shows "amount_of ua_credits (map_of m' a) = amount_of ua_credits (map_of m a) + asked ua_credits a us
    \<and> amount_of ua_debits (map_of m' a) = amount_of ua_debits (map_of m a) + asked ua_debits a us
    \<and> (map_of m' a = None \<longleftrightarrow> map_of m a = None \<and> (\<forall>u\<in>set us. ua_address u \<noteq> a))"
  using assms
proof (induction us arbitrary: m)
  case (Cons u us)
  then obtain m1 where "consolidate_step u m = Ok m1" "rfold consolidate_step us m1 = Ok m'"
    by (auto simp: result_simps)
  with Cons.IH [of m1] consolidate_step_amounts [of u m m1 a] show ?case by auto
qed simp

lemma consolidate_total:
  "(\<exists>m'. rfold consolidate_step us m = Ok m') \<longleftrightarrow>
     (\<forall>a. amount_of ua_credits (map_of m a) + asked ua_credits a us < 2 ^ 128
        \<and> amount_of ua_debits (map_of m a) + asked ua_debits a us < 2 ^ 128)"
proof (induction us arbitrary: m)
  case Nil
  have "amount_of f x < 2 ^ 128" for f x by (simp add: amount_of_def split: option.splits)
  then show ?case by simp
next
  case (Cons u us)
  show ?case
  proof (cases "\<exists>m1. consolidate_step u m = Ok m1")
    case True
    then obtain m1 where m1: "consolidate_step u m = Ok m1" by blast
    then show ?thesis
      using Cons.IH [of m1] consolidate_step_amounts [OF m1] by (simp add: add.assoc)
  next
    case False
    then have "\<not> (\<exists>m'. rfold consolidate_step (u # us) m = Ok m')" by (auto simp: result_simps)
    moreover from False obtain f where "f = ua_credits \<or> f = ua_debits"
      "\<not> amount_of f (map_of m (ua_address u)) + unat (opt_amount (f u)) < 2 ^ 128"
      unfolding consolidate_step_total by blast
    ultimately show ?thesis by (auto intro!: exI [of _ "ua_address u"])
  qed
qed

subsection \<open>The manager as a system\<close>

inductive manager_step ::
  "crypto \<Rightarrow> ('gen, 'part, 'ack, 'rng, 'pks, 'sks) hbbft_ops \<Rightarrow> 'd dag_ops \<Rightarrow> ('s, 't, 'c) db_env
     \<Rightarrow> nat \<Rightarrow> 'm mempool_lr \<Rightarrow> ('d, 'pks, 's, 't, 'c, 'm) state_manager
     \<Rightarrow> ('d, 'pks, 's, 't, 'c, 'm) state_manager \<Rightarrow> bool" for cr hb bd env sz lr where
  ms_block: "manager_step cr hb bd env sz lr sm (snd (handle_block_received cr hb bd b sm))"
| ms_pubkeys: "manager_step cr hb bd env sz lr sm (handle_harvester_public_key_received pks sm)"
| ms_update_state: "manager_step cr hb bd env sz lr sm (snd (update_state cr env bd i sm))"
| ms_apply: "manager_step cr hb bd env sz lr sm (snd (sm_apply_block env b sm))"
| ms_new_txn: "manager_step cr hb bd env sz lr sm (snd (handle_new_txn_created sz lr now t sm))"
| ms_validated: "manager_step cr hb bd env sz lr sm (snd (handle_transaction_validated lr env t sm))"
| ms_insert: "manager_step cr hb bd env sz lr sm (snd (sm_insert_account env k a sm))"
| ms_extend: "manager_step cr hb bd env sz lr sm (snd (sm_extend_accounts env kas sm))"
| ms_update: "manager_step cr hb bd env sz lr sm (snd (sm_update_account env u sm))"
| ms_commit: "manager_step cr hb bd env sz lr sm (sm_commit env sm)"

definition manager_init :: "'d dag_ops \<Rightarrow> ('d, 'pks, 's, 't, 'c, 'm) state_manager \<Rightarrow> bool" where
  "manager_init bd sm = (dag_laws bd \<and> (\<exists>db pool c. sm = state_manager_new db (bd_new bd) pool c))"

lemma update_state_dag: "sm_dag (snd (update_state cr env bd i sm)) = sm_dag sm"
  by (simp add: update_state_def split: option.splits prod.splits result.splits)

lemma manager_step_dag:
  assumes "manager_step cr hb bd env sz lr sm sm'"
  shows "sm_dag sm' = sm_dag sm \<or> dag_step cr hb bd (sm_dag sm) (sm_dag sm')"
  using assms
proof cases
  case (ms_block b)
  then have "sm_dag sm' = (case b of
        Genesis g \<Rightarrow> snd (append_genesis cr hb bd g (sm_dag sm))
      | Proposal p \<Rightarrow> snd (append_proposal cr hb bd p (sm_dag sm))
      | Convergence c \<Rightarrow> snd (append_convergence cr hb bd c (sm_dag sm)))"
    by (simp add: handle_block_received_def split: block.splits prod.splits)
  then show ?thesis by (cases b) (auto intro: dag_step.intros)
next
  case (ms_pubkeys pks)
  then show ?thesis by (auto simp: handle_harvester_public_key_received_def intro: dag_step.intros)
qed (simp_all add: update_state_dag sm_apply_block_def handle_new_txn_created_def handle_transaction_validated_def
      confirm_txn_def sm_insert_account_def sm_extend_accounts_def sm_update_account_def sm_commit_def
      split: prod.splits)

interpretation manager_typing: invariant_system "manager_init bd" "manager_step cr hb bd env sz lr"
    "\<lambda>sm. dag_typed bd (sm_dag sm)" for cr hb bd env sz lr
proof unfold_locales
  show "dag_typed bd (sm_dag sm)" if "manager_init bd sm" for sm
    using that by (auto simp: manager_init_def state_manager_new_def dag_typed_new)
  show "dag_typed bd (sm_dag sm')"
    if "dag_typed bd (sm_dag sm)" "manager_step cr hb bd env sz lr sm sm'" for sm sm'
    using manager_step_dag [OF that(2)] dag_typed_step [OF that(1)] that(1) by metis
qed

lemma no_proposal_sources:
  assumes "dag_typed bd dm"
  shows "convert_sources (sm_get_sources bd dm v) = []"
proof -
  have "\<not> is_proposal (vx_data u)" if "u \<in> set (sm_get_sources bd dm v)" for u
  proof -
    from that obtain i where "bd_vertex bd (dm_dag dm) i = Some u"
      by (auto simp: sm_get_sources_def map_filter_def split: if_splits)
    then have "dag_holds bd (dm_dag dm) (vx_data u)" unfolding dag_holds_def by blast
    with assms show ?thesis by (rule dag_typed_holds)
  qed
  moreover have "(case b of Proposal p \<Rightarrow> Some p | _ \<Rightarrow> None) = None" if "\<not> is_proposal b" for b
    using that by (simp add: is_proposal_def split: block.splits)
  ultimately show ?thesis by (simp add: convert_sources_def map_filter_def filter_empty_conv)
qed

subsection \<open>Properties\<close>

text \<open>C10: merging the updates of a round adds up, for every address, the credits
  and the debits asked for it, neither losing nor inventing an amount, has an entry
  for exactly the addresses that occur, and fails exactly when the credits or the
  debits of one address do not fit into 128 bits.\<close>

theorem consolidation_sums:
  "case consolidate_update_args us of
     Ok m \<Rightarrow> (\<forall>a. amount_of ua_credits (map_of m a) = asked ua_credits a us
                  \<and> amount_of ua_debits (map_of m a) = asked ua_debits a us
                  \<and> (map_of m a \<noteq> None \<longleftrightarrow> (\<exists>u\<in>set us. ua_address u = a)))
   | Err _ \<Rightarrow> False
   | Panic \<Rightarrow> (\<exists>a. 2 ^ 128 \<le> asked ua_credits a us \<or> 2 ^ 128 \<le> asked ua_debits a us)"
proof (cases "consolidate_update_args us")
  case (Ok m)
  then show ?thesis
    using consolidate_amounts [of us "[]" m] by (simp add: consolidate_update_args_def)
next
  case (Err e)
  have "rfold consolidate_step us m \<noteq> Err e" for m
  proof (induction us arbitrary: m)
    case (Cons u us)
    have "add_amounts a b \<noteq> Err e" for a b
      by (cases "(a, b)" rule: add_amounts.cases) (auto simp: result_simps add_or_panic_def split: option.splits)
    then have "consolidate_step u m \<noteq> Err e"
      by (auto simp: consolidate_step_def merge_update_def result_simps split: option.splits)
    with Cons.IH show ?case by (auto simp: result_simps)
  qed simp
  with Err show ?thesis by (simp add: consolidate_update_args_def)
next
  case Panic
  then have "\<not> (\<exists>m. rfold consolidate_step us [] = Ok m)" by (simp add: consolidate_update_args_def)
  with Panic show ?thesis unfolding consolidate_total by (auto simp: not_less)
qed


type_synonym ('k, 'v) log_handle = "('k, 'v) amap \<times> ('k, 'v) trie_op list"

definition example_manager ::
  "((string, vertex) amap, nat, (address, account) log_handle, (transaction_digest, transaction_kind) log_handle,
    (u256, claim) log_handle, mempool \<times> mempool_op list) state_manager" where
  "example_manager = state_manager_new (example_db 10) (bd_new list_dag) (lr_new example_pool) example_claim"


end
