(* ===== verification/Node_Runtime.thy ===== *)
theory Node_Runtime
  imports Consensus Miners State_Manager
begin

text \<open>
  \<open>node/src/runtime/node_runtime.rs\<close> and \<open>node_runtime_handler.rs\<close>: the node, which
  holds the state manager, the consensus module and the miner, the guards of its
  operations, and the handler of its events.  A handler returns its result, the
  events it publishes and the node after it; it has no value when an election in it
  does not end.  \<open>rt_bus_open\<close> tells whether the channel of events has a receiver.
\<close>

datatype runtime_error =
    RtOther string
  | RtClaim claim_error
  | RtMiner miner_error
  | RtState manager_error
  | RtConsensus node_error
  | RtGraph string graph_error

text \<open>What the node uses of \<open>NodeConfig\<close> beside the fields of \<open>node_config\<close>.\<close>

record node_setup =
  ns_config :: node_config
  ns_miner_secret_key :: secret_key
  ns_miner_public_key :: public_key
  ns_validator_secret_key :: bytes
  ns_validator_public_key :: bytes
  ns_public_ip_address :: socket_addr

record ('gen, 'part, 'ack, 'rng, 'pks, 'sks, 'd, 's, 't, 'c, 'm) node_runtime =
  rt_setup :: node_setup
  rt_bus_open :: bool
  rt_state_driver :: "('d, 'pks, 's, 't, 'c, 'm) state_manager"
  rt_consensus_driver :: "('gen, 'part, 'ack, 'rng, 'pks, 'sks) consensus_module"
  rt_mining_driver :: "'d miner"

record ('gen, 'part, 'ack, 'rng, 'pks, 'sks, 'd, 's, 't, 'c, 'm, 'r) runtime_env =
  re_crypto :: crypto
  re_hbbft :: "('gen, 'part, 'ack, 'rng, 'pks, 'sks) hbbft_ops"
  re_dag :: "'d dag_ops"
  re_db :: "('s, 't, 'c) db_env"
  re_pool :: "'m mempool_lr"
  re_record_size :: nat
  re_vrf :: "'r vrf_ops"
  re_order :: "identified \<Rightarrow> identified"

text \<open>The state manager and the miner each get a DAG of their own.  A failure to clone
  the key generation engine aborts.\<close>

definition runtime_new ::
  "('gen, 'part, 'ack, 'rng, 'pks, 'sks, 'd, 's, 't, 'c, 'm, 'r) runtime_env \<Rightarrow> node_setup \<Rightarrow> bool
     \<Rightarrow> (runtime_error, ('gen, 'part, 'ack, 'rng, 'pks, 'sks, 'd, 's, 't, 'c, 'm) node_runtime) result" where
  "runtime_new re ns bus =
     (let cr = re_crypto re; pk = ns_miner_public_key ns; cfg = ns_config ns in
      rbind (map_err RtClaim (signature_for_valid_claim cr pk (ns_public_ip_address ns) (ns_miner_secret_key ns))) (\<lambda>signature.
      rbind (map_err RtClaim (claim_new cr pk (Address pk) (ns_public_ip_address ns) signature (nc_id cfg))) (\<lambda>claim.
      let state_driver = state_manager_new (vrrb_db_new (re_db re)) (bd_new (re_dag re)) (lr_new (re_pool re)) claim in
      rbind (map_err RtMiner (miner_new cr \<lparr> mc_secret_key = ns_miner_secret_key ns, mc_public_key = pk,
          mc_ip_address = ns_public_ip_address ns \<rparr> (bd_new (re_dag re)) (nc_id cfg))) (\<lambda>miner.
      let dkg_generator = dkg_engine_new (nc_id cfg) (nc_node_type cfg) (ns_validator_secret_key ns) (nc_threshold_config cfg) in
      case consensus_module_new (re_hbbft re) (ns_miner_secret_key ns) (ns_validator_public_key ns) cfg dkg_generator of
        Ok consensus_driver \<Rightarrow> Ok \<lparr> rt_setup = ns, rt_bus_open = bus, rt_state_driver = state_driver,
          rt_consensus_driver = consensus_driver, rt_mining_driver = miner \<rparr>
      | _ \<Rightarrow> Panic))))"

subsection \<open>Guards\<close>

text \<open>\<open>matches!(self.config.node_type, intended_node_type)\<close>: the second argument is a
  pattern, and a name in a pattern is a new variable that matches every value.\<close>

definition has_required_node_type ::
  "node_type \<Rightarrow> string \<Rightarrow> ('gen, 'part, 'ack, 'rng, 'pks, 'sks, 'd, 's, 't, 'c, 'm) node_runtime
     \<Rightarrow> (runtime_error, unit) result" where
  "has_required_node_type intended_node_type action rt =
     (if \<not> (case nc_node_type (ns_config (rt_setup rt)) of intended_node_type \<Rightarrow> True)
      then Err (RtOther action) else Ok ())"

definition quorum_membership ::
  "('gen, 'part, 'ack, 'rng, 'pks, 'sks, 'd, 's, 't, 'c, 'm) node_runtime \<Rightarrow> quorum_membership_config option" where
  "quorum_membership rt = qd_membership_config (cm_quorum_driver (rt_consensus_driver rt))"

definition belongs_to_correct_quorum ::
  "quorum_kind \<Rightarrow> string \<Rightarrow> ('gen, 'part, 'ack, 'rng, 'pks, 'sks, 'd, 's, 't, 'c, 'm) node_runtime
     \<Rightarrow> (runtime_error, unit) result" where
  "belongs_to_correct_quorum intended_quorum action rt = (case quorum_membership rt of
     Some membership \<Rightarrow>
       (if \<not> (case mc_quorum_kind membership of intended_quorum \<Rightarrow> True) then Err (RtOther action) else Ok ())
   | None \<Rightarrow> Err (RtOther ''No quorum configuration found for node''))"

subsection \<open>Operations\<close>

definition store_part_commitment ::
  "node_id \<Rightarrow> 'part \<Rightarrow> ('gen, 'part, 'ack, 'rng, 'pks, 'sks, 'd, 's, 't, 'c, 'm) node_runtime
     \<Rightarrow> ('gen, 'part, 'ack, 'rng, 'pks, 'sks, 'd, 's, 't, 'c, 'm) node_runtime" where
  "store_part_commitment n part rt =
     (let cm = rt_consensus_driver rt; e = cm_dkg_engine cm; s = de_dkg_state e in
      rt \<lparr> rt_consensus_driver := cm \<lparr> cm_dkg_engine := e \<lparr> de_dkg_state := s
        \<lparr> ds_part_message_store := map_or_insert n part (ds_part_message_store s) \<rparr> \<rparr> \<rparr> \<rparr>)"

definition produce_genesis_transactions ::
  "('gen, 'part, 'ack, 'rng, 'pks, 'sks, 'd, 's, 't, 'c, 'm) node_runtime \<Rightarrow> (runtime_error, txn_list) result" where
  "produce_genesis_transactions rt =
     rbind (has_required_node_type NBootstrap ''produce genesis transactions'' rt) (\<lambda>_.
     Ok (generate_genesis_txns (genesis_config_new (Address (ns_miner_public_key (rt_setup rt))))))"

definition digest_data_to_bytes :: "crypto \<Rightarrow> sval \<Rightarrow> bytes" where
  "digest_data_to_bytes cr v = cr_sha256 cr (cr_bincode cr v)"

definition rt_mine_genesis_block ::
  "('gen, 'part, 'ack, 'rng, 'pks, 'sks, 'd, 's, 't, 'c, 'm, 'r) runtime_env \<Rightarrow> int \<Rightarrow> txn_list
     \<Rightarrow> ('gen, 'part, 'ack, 'rng, 'pks, 'sks, 'd, 's, 't, 'c, 'm) node_runtime \<Rightarrow> (runtime_error, genesis_block) result" where
  "rt_mine_genesis_block re now txns rt =
     rbind (has_required_node_type NMiner ''mine genesis block'' rt) (\<lambda>_.
     let cr = re_crypto re; claim = dm_claim (sm_dag (rt_state_driver rt)) in
     case header_genesis cr (re_vrf re) now 0 0 0 claim (ns_miner_secret_key (rt_setup rt))
         (cr_hex cr (digest_data_to_bytes cr (claim_list_sval [(cl_hash claim, claim)]))) of
       Ok header \<Rightarrow> Ok \<lparr> gb_header = header, gb_txns = txns, gb_claims = [(cl_hash claim, claim)],
         gb_hash = cr_hex cr (digest_data_to_bytes cr (SSeq
           [SSeq (map SStr (bh_ref_hashes header)), SInt (uint (bh_round header)), SInt (uint (bh_block_seed header)),
            SInt (uint (bh_next_block_seed header)), SInt (uint (bh_block_height header)), SInt (bh_timestamp header),
            SStr (bh_txn_hash header), claim_sval (bh_miner_claim header), SStr (bh_claim_list_hash header),
            reward_sval (bh_block_reward header), reward_sval (bh_next_block_reward header),
            SStr (bh_miner_signature header)])),
         gb_certificate = None \<rparr>
     | _ \<Rightarrow> Panic)"

definition mine_convergence_block ::
  "('gen, 'part, 'ack, 'rng, 'pks, 'sks, 'd, 's, 't, 'c, 'm, 'r) runtime_env \<Rightarrow> int
     \<Rightarrow> ('gen, 'part, 'ack, 'rng, 'pks, 'sks, 'd, 's, 't, 'c, 'm) node_runtime
     \<Rightarrow> (runtime_error, convergence_block) result option" where
  "mine_convergence_block re now rt = (case has_required_node_type NMiner ''mine convergence block'' rt of
     Ok _ \<Rightarrow> (case build (re_crypto re) (re_vrf re) (re_order re) (re_dag re) now (rt_mining_driver rt) of
         None \<Rightarrow> None
       | Some (Ok b) \<Rightarrow> Some (ok_or (RtOther ''Could not mine convergence block'') b)
       | Some _ \<Rightarrow> Some Panic)
   | Err e \<Rightarrow> Some (Err e)
   | Panic \<Rightarrow> Some Panic)"

text \<open>The certificate, or the failure to make one, is discarded.\<close>

definition rt_certify_convergence_block ::
  "convergence_block \<Rightarrow> ('gen, 'part, 'ack, 'rng, 'pks, 'sks, 'd, 's, 't, 'c, 'm) node_runtime
     \<Rightarrow> (runtime_error, unit) result" where
  "rt_certify_convergence_block b rt =
     rbind (has_required_node_type NValidator ''certify convergence block'' rt) (\<lambda>_.
     rbind (belongs_to_correct_quorum QHarvester ''certify convergence block'' rt) (\<lambda>_.
     rbind (ok_or (RtOther (''Node '' @ nc_id (ns_config (rt_setup rt)) @ '' does not have a last confirmed block header''))
         (dm_last_confirmed_block_header (sm_dag (rt_state_driver rt)))) (\<lambda>_. Ok ())))"

definition create_account ::
  "('gen, 'part, 'ack, 'rng, 'pks, 'sks, 'd, 's, 't, 'c, 'm, 'r) runtime_env \<Rightarrow> int \<Rightarrow> public_key
     \<Rightarrow> ('gen, 'part, 'ack, 'rng, 'pks, 'sks, 'd, 's, 't, 'c, 'm) node_runtime
     \<Rightarrow> (runtime_error, address) result \<times> ('gen, 'part, 'ack, 'rng, 'pks, 'sks, 'd, 's, 't, 'c, 'm) node_runtime" where
  "create_account re now pk rt =
     (case sm_insert_account (re_db re) (Address pk) (account_new (re_crypto re) now pk) (rt_state_driver rt) of
        (r, sm) \<Rightarrow> (rbind (map_err RtState r) (\<lambda>_. Ok (Address pk)), rt \<lparr> rt_state_driver := sm \<rparr>))"

definition rt_get_round ::
  "('gen, 'part, 'ack, 'rng, 'pks, 'sks, 'd, 's, 't, 'c, 'm) node_runtime \<Rightarrow> (runtime_error, round) result" where
  "rt_get_round rt =
     rbind (ok_or (RtOther ''failed to fetch latest block header from dag'')
       (dm_last_confirmed_block_header (sm_dag (rt_state_driver rt)))) (\<lambda>h. Ok (bh_round h))"

subsection \<open>Blocks\<close>

definition handle_genesis_block_received ::
  "('gen, 'part, 'ack, 'rng, 'pks, 'sks, 'd, 's, 't, 'c, 'm, 'r) runtime_env \<Rightarrow> genesis_block
     \<Rightarrow> ('gen, 'part, 'ack, 'rng, 'pks, 'sks, 'd, 's, 't, 'c, 'm) node_runtime
     \<Rightarrow> (runtime_error, apply_block_result) result \<times> ('gen, 'part, 'ack, 'rng, 'pks, 'sks, 'd, 's, 't, 'c, 'm) node_runtime" where
  "handle_genesis_block_received re b rt =
     (case rbind (has_required_node_type NValidator ''store genesis block'' rt)
          (\<lambda>_. belongs_to_correct_quorum QHarvester ''store genesis block'' rt) of
        Ok _ \<Rightarrow> (let sm = rt_state_driver rt in
          case append_genesis (re_crypto re) (re_hbbft re) (re_dag re) b (sm_dag sm) of
            (Ok _, dm) \<Rightarrow> (case sm_apply_block (re_db re) (Genesis b) (sm \<lparr> sm_dag := dm \<rparr>) of
                (r, sm') \<Rightarrow> (map_err RtState r, rt \<lparr> rt_state_driver := sm' \<rparr>))
          | (Err e, dm) \<Rightarrow> (Err (RtGraph ''Failed to append genesis block to DAG'' e), rt \<lparr> rt_state_driver := sm \<lparr> sm_dag := dm \<rparr> \<rparr>)
          | (Panic, dm) \<Rightarrow> (Panic, rt))
      | Err e \<Rightarrow> (Err e, rt)
      | Panic \<Rightarrow> (Panic, rt))"

text \<open>The handler of a proposal ends in \<open>todo!()\<close>.\<close>

definition handle_proposal_block_received ::
  "('gen, 'part, 'ack, 'rng, 'pks, 'sks, 'd, 's, 't, 'c, 'm, 'r) runtime_env \<Rightarrow> proposal_block
     \<Rightarrow> ('gen, 'part, 'ack, 'rng, 'pks, 'sks, 'd, 's, 't, 'c, 'm) node_runtime
     \<Rightarrow> (runtime_error, apply_block_result) result \<times> ('gen, 'part, 'ack, 'rng, 'pks, 'sks, 'd, 's, 't, 'c, 'm) node_runtime" where
  "handle_proposal_block_received re b rt =
     (let sm = rt_state_driver rt in
      case append_proposal (re_crypto re) (re_hbbft re) (re_dag re) b (sm_dag sm) of
        (Err e, dm) \<Rightarrow> (Err (RtGraph ''Failed to append proposal block to DAG'' e), rt \<lparr> rt_state_driver := sm \<lparr> sm_dag := dm \<rparr> \<rparr>)
      | (_, dm) \<Rightarrow> (Panic, rt \<lparr> rt_state_driver := sm \<lparr> sm_dag := dm \<rparr> \<rparr>))"

definition handle_convergence_block_received ::
  "('gen, 'part, 'ack, 'rng, 'pks, 'sks, 'd, 's, 't, 'c, 'm, 'r) runtime_env \<Rightarrow> convergence_block
     \<Rightarrow> ('gen, 'part, 'ack, 'rng, 'pks, 'sks, 'd, 's, 't, 'c, 'm) node_runtime
     \<Rightarrow> (runtime_error, apply_block_result) result \<times> ('gen, 'part, 'ack, 'rng, 'pks, 'sks, 'd, 's, 't, 'c, 'm) node_runtime" where
  "handle_convergence_block_received re b rt =
     (case rbind (has_required_node_type NValidator ''certify convergence block'' rt)
          (\<lambda>_. belongs_to_correct_quorum QHarvester ''certify convergence block'' rt) of
        Ok _ \<Rightarrow> (let sm = rt_state_driver rt in
          case append_convergence (re_crypto re) (re_hbbft re) (re_dag re) b (sm_dag sm) of
            (Ok _, dm) \<Rightarrow> (case sm_apply_block (re_db re) (Convergence b) (sm \<lparr> sm_dag := dm \<rparr>) of
                (r, sm') \<Rightarrow> (map_err RtState r, rt \<lparr> rt_state_driver := sm' \<rparr>))
          | (Err e, dm) \<Rightarrow> (Err (RtGraph ''Could not append convergence block to DAG'' e), rt \<lparr> rt_state_driver := sm \<lparr> sm_dag := dm \<rparr> \<rparr>)
          | (Panic, dm) \<Rightarrow> (Panic, rt))
      | Err e \<Rightarrow> (Err e, rt)
      | Panic \<Rightarrow> (Panic, rt))"

definition rt_handle_block_received ::
  "('gen, 'part, 'ack, 'rng, 'pks, 'sks, 'd, 's, 't, 'c, 'm, 'r) runtime_env \<Rightarrow> block
     \<Rightarrow> ('gen, 'part, 'ack, 'rng, 'pks, 'sks, 'd, 's, 't, 'c, 'm) node_runtime
     \<Rightarrow> (runtime_error, apply_block_result) result \<times> ('gen, 'part, 'ack, 'rng, 'pks, 'sks, 'd, 's, 't, 'c, 'm) node_runtime" where
  "rt_handle_block_received re b rt = (case b of
     Genesis g \<Rightarrow> handle_genesis_block_received re g rt
   | Proposal p \<Rightarrow> handle_proposal_block_received re p rt
   | Convergence c \<Rightarrow> handle_convergence_block_received re c rt)"

definition handle_proposal_block_mine_request_created ::
  "('gen, 'part, 'ack, 'rng, 'pks, 'sks, 'd, 's, 't, 'c, 'm) node_runtime \<Rightarrow> (runtime_error, proposal_block) result" where
  "handle_proposal_block_mine_request_created rt =
     rbind (has_required_node_type NValidator ''create proposal block'' rt) (\<lambda>_.
     rbind (belongs_to_correct_quorum QHarvester ''create proposal block'' rt) (\<lambda>_. Panic))"

subsection \<open>Events\<close>

text \<open>The events the handler tells apart; \<open>OtherEvent\<close> stands for those that it has no
  arm for or an arm that does nothing.\<close>

datatype ('part, 'ack, 'pks) event =
    NodeAddedToPeerList peer_data
  | QuorumMembershipAssigmentCreated assigned_quorum_membership
  | PartCommitmentCreated node_id 'part
  | PartCommitmentAcknowledged node_id node_id 'ack
  | MinerElectionStarted block_header
  | MinerElected "u256 \<times> claim"
  | TransactionCertificateRequested
  | ProposalBlockMineRequestCreated ref_hash round epoch claim
  | NewTxnCreated transaction_kind
  | TxnAddedToMempool transaction_digest
  | TxnValidated transaction_kind
  | CreateAccountRequested address bytes
  | AccountUpdateRequested address bytes
  | UpdateState block_hash
  | BlockReceived block
  | BlockCertificateCreated certificate
  | HarvesterPublicKeyReceived 'pks
  | StopEvent
  | OtherEvent

type_synonym ('part, 'ack, 'pks, 'rt) handled = "(runtime_error, unit) result \<times> ('part, 'ack, 'pks) event list \<times> 'rt"

definition publish_all ::
  "('part, 'ack, 'pks) event list \<Rightarrow> ('gen, 'part, 'ack, 'rng, 'pks, 'sks, 'd, 's, 't, 'c, 'm) node_runtime
     \<Rightarrow> ('part, 'ack, 'pks, ('gen, 'part, 'ack, 'rng, 'pks, 'sks, 'd, 's, 't, 'c, 'm) node_runtime) handled" where
  "publish_all evs rt =
     (if evs = [] \<or> rt_bus_open rt then (Ok (), evs, rt) else (Err (RtOther ''channel closed''), [], rt))"

definition on_node_added ::
  "peer_data \<Rightarrow> ('gen, 'part, 'ack, 'rng, 'pks, 'sks, 'd, 's, 't, 'c, 'm) node_runtime
     \<Rightarrow> ('part, 'ack, 'pks, ('gen, 'part, 'ack, 'rng, 'pks, 'sks, 'd, 's, 't, 'c, 'm) node_runtime) handled" where
  "on_node_added p rt = (case handle_node_added_to_peer_list p (rt_consensus_driver rt) of
     (assignments, cm) \<Rightarrow> publish_all
       (case assignments of None \<Rightarrow> [] | Some m \<Rightarrow> map QuorumMembershipAssigmentCreated (vals m))
       (rt \<lparr> rt_consensus_driver := cm \<rparr>))"

text \<open>A refused assignment is not looked at; the part is generated in any case.\<close>

definition on_assignment ::
  "('gen, 'part, 'ack, 'rng, 'pks, 'sks) hbbft_ops \<Rightarrow> assigned_quorum_membership \<Rightarrow> ('gen, 'part, 'ack, 'rng, 'pks, 'sks, 'd, 's, 't, 'c, 'm) node_runtime
     \<Rightarrow> ('part, 'ack, 'pks, ('gen, 'part, 'ack, 'rng, 'pks, 'sks, 'd, 's, 't, 'c, 'm) node_runtime) handled" where
  "on_assignment hb am rt =
     (let cm = snd (handle_quorum_membership_assigment_created am (rt_consensus_driver rt)) in
      case generate_partial_commitment_message hb cm of
        (Ok (part, n), cm') \<Rightarrow> publish_all [PartCommitmentCreated n part] (rt \<lparr> rt_consensus_driver := cm' \<rparr>)
      | (Err e, cm') \<Rightarrow> (Err (RtConsensus e), [], rt \<lparr> rt_consensus_driver := cm' \<rparr>)
      | (Panic, cm') \<Rightarrow> (Panic, [], rt \<lparr> rt_consensus_driver := cm' \<rparr>))"

definition on_part ::
  "('gen, 'part, 'ack, 'rng, 'pks, 'sks) hbbft_ops \<Rightarrow> node_id \<Rightarrow> 'part \<Rightarrow> ('gen, 'part, 'ack, 'rng, 'pks, 'sks, 'd, 's, 't, 'c, 'm) node_runtime
     \<Rightarrow> ('part, 'ack, 'pks, ('gen, 'part, 'ack, 'rng, 'pks, 'sks, 'd, 's, 't, 'c, 'm) node_runtime) handled" where
  "on_part hb n part rt =
     (case handle_part_commitment_created hb n part (rt_consensus_driver rt) of
        (Ok (_, _, ack), cm) \<Rightarrow> publish_all
           [PartCommitmentAcknowledged n (nc_id (ns_config (rt_setup rt))) ack] (rt \<lparr> rt_consensus_driver := cm \<rparr>)
      | (Err e, cm) \<Rightarrow> (Err (RtConsensus e), [], rt \<lparr> rt_consensus_driver := cm \<rparr>)
      | (Panic, cm) \<Rightarrow> (Panic, [], rt \<lparr> rt_consensus_driver := cm \<rparr>))"

definition on_ack ::
  "node_id \<Rightarrow> node_id \<Rightarrow> 'ack \<Rightarrow> ('gen, 'part, 'ack, 'rng, 'pks, 'sks, 'd, 's, 't, 'c, 'm) node_runtime
     \<Rightarrow> ('part, 'ack, 'pks, ('gen, 'part, 'ack, 'rng, 'pks, 'sks, 'd, 's, 't, 'c, 'm) node_runtime) handled" where
  "on_ack n sender ack rt =
     (Ok (), [], rt \<lparr> rt_consensus_driver := handle_part_commitment_acknowledged n sender ack (rt_consensus_driver rt) \<rparr>)"

definition on_miner_election ::
  "('gen, 'part, 'ack, 'rng, 'pks, 'sks, 'd, 's, 't, 'c, 'm, 'r) runtime_env \<Rightarrow> block_header \<Rightarrow> ('gen, 'part, 'ack, 'rng, 'pks, 'sks, 'd, 's, 't, 'c, 'm) node_runtime
     \<Rightarrow> ('part, 'ack, 'pks, ('gen, 'part, 'ack, 'rng, 'pks, 'sks, 'd, 's, 't, 'c, 'm) node_runtime) handled option" where
  "on_miner_election re h rt =
     (case handle_miner_election_started h (claim_store_values (re_db re) (sm_database (rt_state_driver rt))) of
        None \<Rightarrow> None | Some w \<Rightarrow> Some (publish_all [MinerElected w] rt))"

definition on_new_txn ::
  "('gen, 'part, 'ack, 'rng, 'pks, 'sks, 'd, 's, 't, 'c, 'm, 'r) runtime_env \<Rightarrow> int \<Rightarrow> transaction_kind \<Rightarrow> ('gen, 'part, 'ack, 'rng, 'pks, 'sks, 'd, 's, 't, 'c, 'm) node_runtime
     \<Rightarrow> ('part, 'ack, 'pks, ('gen, 'part, 'ack, 'rng, 'pks, 'sks, 'd, 's, 't, 'c, 'm) node_runtime) handled" where
  "on_new_txn re now t rt =
     (case handle_new_txn_created (re_record_size re) (re_pool re) now t (rt_state_driver rt) of
        (Ok d, sm) \<Rightarrow> publish_all [TxnAddedToMempool d] (rt \<lparr> rt_state_driver := sm \<rparr>)
      | (Err e, sm) \<Rightarrow> (Err (RtState e), [], rt \<lparr> rt_state_driver := sm \<rparr>)
      | (Panic, sm) \<Rightarrow> (Panic, [], rt \<lparr> rt_state_driver := sm \<rparr>))"

text \<open>A failed update of the state is logged.\<close>

definition on_update_state ::
  "('gen, 'part, 'ack, 'rng, 'pks, 'sks, 'd, 's, 't, 'c, 'm, 'r) runtime_env \<Rightarrow> block_hash \<Rightarrow> ('gen, 'part, 'ack, 'rng, 'pks, 'sks, 'd, 's, 't, 'c, 'm) node_runtime
     \<Rightarrow> ('part, 'ack, 'pks, ('gen, 'part, 'ack, 'rng, 'pks, 'sks, 'd, 's, 't, 'c, 'm) node_runtime) handled" where
  "on_update_state re i rt =
     (case update_state (re_crypto re) (re_db re) (re_dag re) i (rt_state_driver rt) of
        (Panic, sm) \<Rightarrow> (Panic, [], rt \<lparr> rt_state_driver := sm \<rparr>)
      | (_, sm) \<Rightarrow> (Ok (), [], rt \<lparr> rt_state_driver := sm \<rparr>))"

definition on_block ::
  "('gen, 'part, 'ack, 'rng, 'pks, 'sks, 'd, 's, 't, 'c, 'm, 'r) runtime_env \<Rightarrow> block \<Rightarrow> ('gen, 'part, 'ack, 'rng, 'pks, 'sks, 'd, 's, 't, 'c, 'm) node_runtime
     \<Rightarrow> ('part, 'ack, 'pks, ('gen, 'part, 'ack, 'rng, 'pks, 'sks, 'd, 's, 't, 'c, 'm) node_runtime) handled" where
  "on_block re b rt =
     (case handle_block_received (re_crypto re) (re_hbbft re) (re_dag re) b (rt_state_driver rt) of
        (r, sm) \<Rightarrow> (map_err RtState r, [], rt \<lparr> rt_state_driver := sm \<rparr>))"

text \<open>\<open>Handler::handle\<close>.  The call of the asynchronous \<open>handle_transaction_validated\<close> is not
  awaited, so its body never runs; three arms end in \<open>todo!()\<close>.\<close>

definition handle_event ::
  "('gen, 'part, 'ack, 'rng, 'pks, 'sks, 'd, 's, 't, 'c, 'm, 'r) runtime_env \<Rightarrow> int \<Rightarrow> ('part, 'ack, 'pks) event \<Rightarrow> ('gen, 'part, 'ack, 'rng, 'pks, 'sks, 'd, 's, 't, 'c, 'm) node_runtime
     \<Rightarrow> ('part, 'ack, 'pks, ('gen, 'part, 'ack, 'rng, 'pks, 'sks, 'd, 's, 't, 'c, 'm) node_runtime) handled option" where
  "handle_event re now ev rt = (case ev of
     NodeAddedToPeerList p \<Rightarrow> Some (on_node_added p rt)
   | QuorumMembershipAssigmentCreated am \<Rightarrow> Some (on_assignment (re_hbbft re) am rt)
   | PartCommitmentCreated n part \<Rightarrow> Some (on_part (re_hbbft re) n part rt)
   | PartCommitmentAcknowledged n sender ack \<Rightarrow> Some (on_ack n sender ack rt)
   | MinerElectionStarted h \<Rightarrow> on_miner_election re h rt
   | TransactionCertificateRequested \<Rightarrow> Some (Panic, [], rt)
   | ProposalBlockMineRequestCreated _ _ _ _ \<Rightarrow> Some (Panic, [], rt)
   | NewTxnCreated t \<Rightarrow> Some (on_new_txn re now t rt)
   | TxnValidated _ \<Rightarrow> Some (Ok (), [], rt)
   | AccountUpdateRequested _ _ \<Rightarrow> Some (Panic, [], rt)
   | UpdateState i \<Rightarrow> Some (on_update_state re i rt)
   | BlockReceived b \<Rightarrow> Some (on_block re b rt)
   | BlockCertificateCreated _ \<Rightarrow> Some (Panic, [], rt)
   | HarvesterPublicKeyReceived pks \<Rightarrow> Some (Ok (), [], rt
       \<lparr> rt_state_driver := handle_harvester_public_key_received pks (rt_state_driver rt) \<rparr>)
   | _ \<Rightarrow> Some (Ok (), [], rt))"

text \<open>Events until one of them aborts the node.\<close>

fun handle_events ::
  "('gen, 'part, 'ack, 'rng, 'pks, 'sks, 'd, 's, 't, 'c, 'm, 'r) runtime_env \<Rightarrow> int \<Rightarrow> ('part, 'ack, 'pks) event list \<Rightarrow> ('gen, 'part, 'ack, 'rng, 'pks, 'sks, 'd, 's, 't, 'c, 'm) node_runtime
     \<Rightarrow> ('gen, 'part, 'ack, 'rng, 'pks, 'sks, 'd, 's, 't, 'c, 'm) node_runtime option" where
  "handle_events re now [] rt = Some rt"
| "handle_events re now (ev # evs) rt = (case handle_event re now ev rt of
     None \<Rightarrow> None
   | Some (Panic, _, _) \<Rightarrow> None
   | Some (_, _, rt') \<Rightarrow> handle_events re now evs rt')"

subsection \<open>The node as a system\<close>

lemmas on_event_defs = on_node_added_def on_assignment_def on_part_def on_ack_def on_miner_election_def on_new_txn_def
  on_update_state_def on_block_def publish_all_def

inductive runtime_step ::
  "('gen, 'part, 'ack, 'rng, 'pks, 'sks, 'd, 's, 't, 'c, 'm, 'r) runtime_env \<Rightarrow> ('gen, 'part, 'ack, 'rng, 'pks, 'sks, 'd, 's, 't, 'c, 'm) node_runtime \<Rightarrow> ('gen, 'part, 'ack, 'rng, 'pks, 'sks, 'd, 's, 't, 'c, 'm) node_runtime \<Rightarrow> bool" for re where
  rs_event: "handle_event re now ev rt = Some (r, evs, rt') \<Longrightarrow> runtime_step re rt rt'"
| rs_block: "runtime_step re rt (snd (rt_handle_block_received re b rt))"
| rs_create: "runtime_step re rt (snd (create_account re now pk rt))"
| rs_update: "runtime_step re rt (rt \<lparr> rt_state_driver := snd (sm_update_account (re_db re) u (rt_state_driver rt)) \<rparr>)"
| rs_part: "runtime_step re rt (store_part_commitment n part rt)"
| rs_acks: "runtime_step re rt (rt \<lparr> rt_consensus_driver := snd (handle_all_ack_messages (re_hbbft re) (rt_consensus_driver rt)) \<rparr>)"
| rs_keysets: "runtime_step re rt (rt \<lparr> rt_consensus_driver := snd (generate_keysets (re_hbbft re) (rt_consensus_driver rt)) \<rparr>)"

definition runtime_init ::
  "('gen, 'part, 'ack, 'rng, 'pks, 'sks, 'd, 's, 't, 'c, 'm, 'r) runtime_env \<Rightarrow> ('gen, 'part, 'ack, 'rng, 'pks, 'sks, 'd, 's, 't, 'c, 'm) node_runtime \<Rightarrow> bool" where
  "runtime_init re rt = (dag_laws (re_dag re) \<and> visits_all (re_order re) \<and> (\<exists>ns bus. runtime_new re ns bus = Ok rt))"

lemma new_module_header: "dm_last_confirmed_block_header (dag_module_new d c) = None"
  by (simp add: dag_module_new_def)

lemma write_edge_header:
  "dm_last_confirmed_block_header (snd (write_edge bd e m)) = dm_last_confirmed_block_header m"
  by (simp add: write_edge_def)

lemma extend_edges_header:
  "dm_last_confirmed_block_header (snd (extend_edges bd es m)) = dm_last_confirmed_block_header m"
proof (induction es arbitrary: m)
  case (Cons e es)
  obtain r m' where w: "write_edge bd e m = (r, m')" by (cases "write_edge bd e m")
  then have "dm_last_confirmed_block_header m' = dm_last_confirmed_block_header m"
    using write_edge_header [of bd e m] by simp
  with Cons.IH [of m'] w show ?case by (cases r) simp_all
qed simp

lemma dag_step_header:
  "dag_step cr hb bd m m' \<Longrightarrow> dm_last_confirmed_block_header m' = dm_last_confirmed_block_header m"
  by (induction rule: dag_step.induct)
    (simp_all add: append_genesis_def write_genesis_def append_proposal_noop append_convergence_def
      extend_edges_header set_harvester_pubkeys_def)

text \<open>What a step can do to the drivers: none touches the miner, and the DAG moves by
  its own steps only.\<close>

abbreviation dag_moves ::
  "('gen, 'part, 'ack, 'rng, 'pks, 'sks, 'd, 's, 't, 'c, 'm, 'r) runtime_env \<Rightarrow> ('gen, 'part, 'ack, 'rng, 'pks, 'sks, 'd, 's, 't, 'c, 'm) node_runtime \<Rightarrow> ('gen, 'part, 'ack, 'rng, 'pks, 'sks, 'd, 's, 't, 'c, 'm) node_runtime \<Rightarrow> bool" where
  "dag_moves re rt rt' \<equiv> sm_dag (rt_state_driver rt') = sm_dag (rt_state_driver rt)
     \<or> dag_step (re_crypto re) (re_hbbft re) (re_dag re) (sm_dag (rt_state_driver rt)) (sm_dag (rt_state_driver rt'))"

lemma event_parts:
  assumes "handle_event re now ev rt = Some (r, evs, rt')"
  shows "rt_mining_driver rt' = rt_mining_driver rt \<and> rt_setup rt' = rt_setup rt
    \<and> (rt_state_driver rt' = rt_state_driver rt
       \<or> manager_step (re_crypto re) (re_hbbft re) (re_dag re) (re_db re) (re_record_size re) (re_pool re)
            (rt_state_driver rt) (rt_state_driver rt'))"
proof (cases ev)
  case (NewTxnCreated t)
  with assms have "rt_state_driver rt'
      = snd (handle_new_txn_created (re_record_size re) (re_pool re) now t (rt_state_driver rt))"
    and "rt_mining_driver rt' = rt_mining_driver rt" "rt_setup rt' = rt_setup rt"
    by (auto simp: handle_event_def on_new_txn_def publish_all_def split: result.splits prod.splits if_splits)
  then show ?thesis by (metis ms_new_txn)
next
  case (UpdateState i)
  with assms have "rt_state_driver rt'
      = snd (update_state (re_crypto re) (re_db re) (re_dag re) i (rt_state_driver rt))"
    and "rt_mining_driver rt' = rt_mining_driver rt" "rt_setup rt' = rt_setup rt"
    by (auto simp: handle_event_def on_update_state_def split: result.splits prod.splits)
  then show ?thesis by (metis ms_update_state)
next
  case (BlockReceived b)
  with assms have "rt_state_driver rt'
      = snd (handle_block_received (re_crypto re) (re_hbbft re) (re_dag re) b (rt_state_driver rt))"
    and "rt_mining_driver rt' = rt_mining_driver rt" "rt_setup rt' = rt_setup rt"
    by (auto simp: handle_event_def on_block_def split: prod.splits)
  then show ?thesis by (metis ms_block)
next
  case (HarvesterPublicKeyReceived pks)
  with assms have "rt_state_driver rt' = handle_harvester_public_key_received pks (rt_state_driver rt)"
    and "rt_mining_driver rt' = rt_mining_driver rt" "rt_setup rt' = rt_setup rt"
    by (auto simp: handle_event_def)
  then show ?thesis by (metis ms_pubkeys)
qed (use assms in \<open>auto simp: handle_event_def on_event_defs Let_def split: result.splits prod.splits option.splits if_splits\<close>)

lemma block_parts:
  "rt_mining_driver (snd (rt_handle_block_received re b rt)) = rt_mining_driver rt
   \<and> rt_setup (snd (rt_handle_block_received re b rt)) = rt_setup rt
   \<and> dag_moves re rt (snd (rt_handle_block_received re b rt))"
proof (cases b)
  case (Convergence c)
  obtain r dm where a: "append_convergence (re_crypto re) (re_hbbft re) (re_dag re) c (sm_dag (rt_state_driver rt)) = (r, dm)"
    by (cases "append_convergence (re_crypto re) (re_hbbft re) (re_dag re) c (sm_dag (rt_state_driver rt))")
  then have "dag_step (re_crypto re) (re_hbbft re) (re_dag re) (sm_dag (rt_state_driver rt)) dm" by (metis dg_convergence snd_conv)
  with a Convergence show ?thesis
    by (auto simp: rt_handle_block_received_def handle_convergence_block_received_def sm_apply_block_def Let_def
        split: result.splits prod.splits)
next
  case (Proposal p)
  then show ?thesis
    by (simp add: rt_handle_block_received_def handle_proposal_block_received_def append_proposal_noop Let_def)
next
  case (Genesis g)
  obtain r dm where a: "append_genesis (re_crypto re) (re_hbbft re) (re_dag re) g (sm_dag (rt_state_driver rt)) = (r, dm)"
    by (cases "append_genesis (re_crypto re) (re_hbbft re) (re_dag re) g (sm_dag (rt_state_driver rt))")
  then have "dag_step (re_crypto re) (re_hbbft re) (re_dag re) (sm_dag (rt_state_driver rt)) dm" by (metis dg_genesis snd_conv)
  with a Genesis show ?thesis
    by (auto simp: rt_handle_block_received_def handle_genesis_block_received_def sm_apply_block_def Let_def
        split: result.splits prod.splits)
qed

lemma runtime_step_parts:
  assumes "runtime_step re rt rt'"
  shows "rt_mining_driver rt' = rt_mining_driver rt \<and> rt_setup rt' = rt_setup rt \<and> dag_moves re rt rt'"
  using assms
proof cases
  case (rs_event now ev r evs)
  from event_parts [OF this] manager_step_dag show ?thesis by metis
next
  case (rs_block b)
  with block_parts [of re b rt] show ?thesis by simp
qed (simp_all add: create_account_def sm_insert_account_def sm_update_account_def store_part_commitment_def Let_def
      split: prod.splits)

definition runtime_inv ::
  "('gen, 'part, 'ack, 'rng, 'pks, 'sks, 'd, 's, 't, 'c, 'm, 'r) runtime_env \<Rightarrow> ('gen, 'part, 'ack, 'rng, 'pks, 'sks, 'd, 's, 't, 'c, 'm) node_runtime \<Rightarrow> bool" where
  "runtime_inv re rt = (dag_laws (re_dag re) \<and> visits_all (re_order re)
     \<and> mi_dag (rt_mining_driver rt) = bd_new (re_dag re) \<and> \<not> mi_dag_poisoned (rt_mining_driver rt)
     \<and> mi_last_block (rt_mining_driver rt) = None
     \<and> dm_last_confirmed_block_header (sm_dag (rt_state_driver rt)) = None
     \<and> dag_typed (re_dag re) (sm_dag (rt_state_driver rt)))"

lemma runtime_new_parts:
  assumes "runtime_new re ns bus = Ok rt"
  shows "mi_dag (rt_mining_driver rt) = bd_new (re_dag re) \<and> \<not> mi_dag_poisoned (rt_mining_driver rt)
    \<and> mi_last_block (rt_mining_driver rt) = None \<and> rt_setup rt = ns \<and> rt_bus_open rt = bus
    \<and> (\<exists>c. rt_state_driver rt
        = state_manager_new (vrrb_db_new (re_db re)) (bd_new (re_dag re)) (lr_new (re_pool re)) c)"
  using assms
  by (cases "consensus_module_new (re_hbbft re) (ns_miner_secret_key ns) (ns_validator_public_key ns) (ns_config ns)
      (dkg_engine_new (nc_id (ns_config ns)) (nc_node_type (ns_config ns)) (ns_validator_secret_key ns)
        (nc_threshold_config (ns_config ns)))")
    (auto simp: runtime_new_def Let_def result_simps miner_new_def)

interpretation runtime_system: invariant_system "runtime_init re" "runtime_step re" "runtime_inv re" for re
proof unfold_locales
  show "runtime_inv re rt" if "runtime_init re rt" for rt
  proof -
    from that obtain ns bus where new: "runtime_new re ns bus = Ok rt" "dag_laws (re_dag re)" "visits_all (re_order re)"
      by (auto simp: runtime_init_def)
    then show ?thesis
      using runtime_new_parts [OF new(1)] dag_typed_new [OF new(2)]
      by (auto simp: runtime_inv_def state_manager_new_def new_module_header)
  qed
  show "runtime_inv re rt'" if "runtime_inv re rt" "runtime_step re rt rt'" for rt rt'
    using that(1) runtime_step_parts [OF that(2)] dag_step_header dag_typed_step
    unfolding runtime_inv_def by metis
qed

lemma build_on_new_dag:
  assumes "runtime_inv re rt"
  shows "build (re_crypto re) (re_vrf re) (re_order re) (re_dag re) now (rt_mining_driver rt) = Some (Ok None)"
proof -
  have "get_references (re_dag re) (rt_mining_driver rt) \<noteq> None"
    using assms by (simp add: runtime_inv_def get_references_def)
  moreover have "\<forall>b. dag_holds (re_dag re) (mi_dag (rt_mining_driver rt)) b \<longrightarrow> \<not> is_proposal b"
    using assms by (simp add: runtime_inv_def dag_new_empty)
  ultimately have refs: "get_references (re_dag re) (rt_mining_driver rt) = Some []"
    using no_references by blast
  have "resolve (re_order re) (re_dag re) (rt_mining_driver rt) [] 0 s = Some []" for s
    using assms by (intro resolve_nothing) (simp add: runtime_inv_def)
  moreover have "mi_last_block (rt_mining_driver rt) = None" using assms by (simp add: runtime_inv_def)
  ultimately show ?thesis
    by (simp add: build_def refs get_round_def Let_def build_header_def convert_last_block_to_static_def)
qed

text \<open>The pool of a node only ever grows: no event leads to a removal.\<close>

lemma update_state_pool: "sm_mempool (snd (update_state cr env bd i sm)) = sm_mempool sm"
  by (simp add: update_state_def split: option.splits prod.splits result.splits)

lemma event_pool:
  assumes "handle_event re now ev rt = Some (r, evs, rt')"
  shows "sm_mempool (rt_state_driver rt') = sm_mempool (rt_state_driver rt)
    \<or> (\<exists>t. ev = NewTxnCreated t \<and> sm_mempool (rt_state_driver rt')
         = snd (mempool_insert (re_record_size re) (re_pool re) now t (sm_mempool (rt_state_driver rt))))"
proof (cases ev)
  case (NewTxnCreated t)
  with assms show ?thesis
    by (auto simp: handle_event_def on_new_txn_def handle_new_txn_created_def publish_all_def split: if_splits)
next
  case (UpdateState i)
  with assms have "rt_state_driver rt'
      = snd (update_state (re_crypto re) (re_db re) (re_dag re) i (rt_state_driver rt))"
    by (auto simp: handle_event_def on_update_state_def split: result.splits prod.splits)
  then show ?thesis by (simp add: update_state_pool)
next
  case (BlockReceived b)
  with assms show ?thesis
    by (auto simp: handle_event_def on_block_def handle_block_received_def split: prod.splits)
qed (use assms in \<open>auto simp: handle_event_def on_event_defs handle_harvester_public_key_received_def Let_def
      split: result.splits prod.splits option.splits if_splits\<close>)

lemma insert_keeps:
  assumes "lr_laws absorb_first mempool_default lr" "mempool_handle lr h"
  shows "factory_get lr tid h \<noteq> None \<or> tid = txn_id t \<Longrightarrow> factory_get lr tid (snd (mempool_insert sz lr now t h)) \<noteq> None"
    and "mempool_handle lr (snd (mempool_insert sz lr now t h))"
  using assms(2) lr_view_commit [OF assms(1) mempool_handle_clean [OF assms(2)]]
  by (auto simp: factory_get_def mempool_insert_def Let_def lr_pool_def txn_record_new_def intro: handle_commit)

lemma events_keep:
  assumes "lr_laws absorb_first mempool_default (re_pool re)" "mempool_handle (re_pool re) (sm_mempool (rt_state_driver rt))"
    and "factory_get (re_pool re) tid (sm_mempool (rt_state_driver rt)) \<noteq> None" "handle_events re now evs rt = Some rt'"
  shows "factory_get (re_pool re) tid (sm_mempool (rt_state_driver rt')) \<noteq> None"
  using assms(2-4)
proof (induction evs arbitrary: rt)
  case (Cons ev evs)
  then obtain r out rt1 where h: "handle_event re now ev rt = Some (r, out, rt1)" "handle_events re now evs rt1 = Some rt'"
    by (auto split: option.splits result.splits)
  from event_pool [OF h(1)] Cons.prems insert_keeps [OF assms(1) Cons.prems(1)]
  have "mempool_handle (re_pool re) (sm_mempool (rt_state_driver rt1))"
    "factory_get (re_pool re) tid (sm_mempool (rt_state_driver rt1)) \<noteq> None" by metis+
  with Cons.IH h(2) show ?case by blast
qed simp

subsection \<open>Examples\<close>

definition example_setup :: "node_type \<Rightarrow> node_setup" where
  "example_setup ty = \<lparr> ns_config = example_config ty, ns_miner_secret_key = key_a, ns_miner_public_key = key_a,
     ns_validator_secret_key = [], ns_validator_public_key = [], ns_public_ip_address = ''127.0.0.1:80'' \<rparr>"

definition example_runtime_env where
  "example_runtime_env = \<lparr> re_crypto = example_crypto, re_hbbft = example_hbbft, re_dag = list_dag, re_db = example_db_env,
     re_pool = example_pool, re_record_size = 1, re_vrf = example_vrf, re_order = id \<rparr>"

lemma example_runtime_new: "\<exists>rt. runtime_new example_runtime_env (example_setup ty) True = Ok rt"
proof -
  have sig: "signature_for_valid_claim example_crypto key_a ''127.0.0.1:80'' key_a = Ok example_claim_sig"
    by (simp add: signature_for_valid_claim_def ecdsa_sign_def example_claim_sig_def)
  obtain c where claim: "claim_new example_crypto key_a (Address key_a) ''127.0.0.1:80'' example_claim_sig ''a'' = Ok c"
    by (simp add: claim_new_def Let_def is_valid_claim_def verify_ecdsa_sign_def example_claim_sig_def)
  have cm: "\<exists>cm. consensus_module_new example_hbbft key_a [] (example_config ty)
      (dkg_engine_new ''a'' ty [] threshold_config_default) = Ok cm"
    by (simp add: consensus_module_new_def dkg_engine_clone_def example_hbbft_def)
  show ?thesis
    using cm by (auto simp: runtime_new_def example_runtime_env_def example_setup_def example_config_def Let_def
        miner_new_def sig claim)
qed

subsection \<open>Properties\<close>

text \<open>C36: the guard on the node type refuses nothing and the guard on the quorum
  only asks for membership in some quorum: every node may produce genesis
  transactions and mine a genesis block, whatever its type.\<close>

theorem guards_accept_every_node:
  "has_required_node_type ty action rt = Ok ()
   \<and> (belongs_to_correct_quorum kind action rt = Ok () \<longleftrightarrow> quorum_membership rt \<noteq> None)
   \<and> produce_genesis_transactions rt = Ok []
   \<and> (\<nexists>e. rt_mine_genesis_block re now txns rt = Err e)"
  by (auto simp: has_required_node_type_def belongs_to_correct_quorum_def produce_genesis_transactions_def
      generate_genesis_txns_def rt_mine_genesis_block_def Let_def result_simps split: option.splits result.splits)

text \<open>C17: a node never mines a convergence block, never knows a round and never
  certifies a block.  Whatever events it handles, its miner keeps the empty DAG it was
  made with, which is not the DAG of the state manager, and no last block; and
  nothing sets the last confirmed header.\<close>

theorem node_never_mines:
  assumes "reachable (runtime_init re) (runtime_step re) rt"
  shows "mine_convergence_block re now rt = Some (Err (RtOther ''Could not mine convergence block''))
    \<and> rt_get_round rt = Err (RtOther ''failed to fetch latest block header from dag'')
    \<and> (\<exists>e. rt_certify_convergence_block b rt = Err e)"
proof -
  have inv: "runtime_inv re rt" by (rule runtime_system.reachable_inv [OF assms])
  then have "dm_last_confirmed_block_header (sm_dag (rt_state_driver rt)) = None" by (simp add: runtime_inv_def)
  with build_on_new_dag [OF inv] show ?thesis
    by (auto simp: mine_convergence_block_def has_required_node_type_def rt_get_round_def rt_certify_convergence_block_def
        belongs_to_correct_quorum_def split: option.splits)
qed

theorem node_never_mines_witness:
  "\<exists>rt. reachable (runtime_init example_runtime_env) (runtime_step example_runtime_env) rt
     \<and> nc_node_type (ns_config (rt_setup rt)) = NMiner
     \<and> mine_convergence_block example_runtime_env 0 rt = Some (Err (RtOther ''Could not mine convergence block''))"
proof -
  obtain rt where rt: "runtime_new example_runtime_env (example_setup NMiner) True = Ok rt"
    using example_runtime_new by blast
  then have "runtime_init example_runtime_env rt"
    by (auto simp: runtime_init_def example_runtime_env_def list_dag_laws visits_all_def)
  then have r: "reachable (runtime_init example_runtime_env) (runtime_step example_runtime_env) rt" by (rule reach_init)
  have "rt_setup rt = example_setup NMiner" using runtime_new_parts [OF rt] by blast
  with node_never_mines [OF r, of 0] r show ?thesis by (auto simp: example_setup_def example_config_def)
qed

text \<open>C30: a transaction that has entered the mempool of a node stays there: after its
  \<open>NewTxnCreated\<close>, and whatever events follow, among them that it has been validated, a
  lookup of its digest still finds it.\<close>

theorem mempool_never_forgets:
  assumes "lr_laws absorb_first mempool_default (re_pool re)" "mempool_handle (re_pool re) (sm_mempool (rt_state_driver rt))"
    and "handle_events re now (NewTxnCreated t # evs) rt = Some rt'"
  shows "factory_get (re_pool re) (txn_id t) (sm_mempool (rt_state_driver rt')) \<noteq> None"
proof -
  from assms(3) obtain r out rt1 where
    h: "handle_event re now (NewTxnCreated t) rt = Some (r, out, rt1)" "handle_events re now evs rt1 = Some rt'"
    by (auto split: option.splits result.splits)
  from h(1) have "sm_mempool (rt_state_driver rt1)
      = snd (mempool_insert (re_record_size re) (re_pool re) now t (sm_mempool (rt_state_driver rt)))"
    by (auto simp: handle_event_def on_new_txn_def handle_new_txn_created_def publish_all_def split: if_splits)
  then show ?thesis
    using events_keep [OF assms(1) _ _ h(2)] insert_keeps [OF assms(1,2)] by metis
qed

theorem mempool_never_forgets_witness:
  "\<exists>rt rt'. runtime_new example_runtime_env (example_setup NValidator) True = Ok rt
     \<and> handle_events example_runtime_env 0 [NewTxnCreated example_txn, TxnValidated example_txn] rt = Some rt'
     \<and> factory_get example_pool (txn_id example_txn) (sm_mempool (rt_state_driver rt')) \<noteq> None"
proof -
  obtain rt where rt: "runtime_new example_runtime_env (example_setup NValidator) True = Ok rt"
    using example_runtime_new by blast
  have bus: "rt_bus_open rt" and pool: "sm_mempool (rt_state_driver rt) = lr_new example_pool"
    using runtime_new_parts [OF rt] by (auto simp: state_manager_new_def example_runtime_env_def)
  have laws: "lr_laws absorb_first mempool_default (re_pool example_runtime_env)"
    by (simp add: example_runtime_env_def example_pool_laws)
  have handle: "mempool_handle (re_pool example_runtime_env) (sm_mempool (rt_state_driver rt))"
    unfolding pool by (simp add: example_runtime_env_def handle_new)
  obtain rt' where rt': "handle_events example_runtime_env 0 [NewTxnCreated example_txn, TxnValidated example_txn] rt = Some rt'"
    using bus by (simp add: handle_event_def on_new_txn_def handle_new_txn_created_def publish_all_def)
  from mempool_never_forgets [OF laws handle rt'] rt rt' show ?thesis
    by (auto simp: example_runtime_env_def)
qed

end
