(* ===== verification/Rpc.thy ===== *)
theory Rpc
  imports Node_Runtime
begin

text \<open>
  \<open>vrrb_rpc/src/rpc\<close>: the records of the JSON-RPC interface and the methods of the server.
  A method reads the database and the mempool through read handles and publishes events
  to the node.  The channel of events, the binary encoding of accounts and \<open>secp256k1\<close>
  are interfaces; a method that publishes returns the published events with its result.
  Methods that are \<open>todo!()\<close> in the source have no model.
\<close>

subsection \<open>The interface\<close>

record rpc_transaction_record =
  rr_id :: string
  rr_timestamp :: int
  rr_sender_address :: address
  rr_sender_public_key :: public_key
  rr_receiver_address :: address
  rr_token :: token
  rr_amount :: u128
  rr_signature :: string
  rr_validators :: validator_votes
  rr_nonce :: u128

definition rpc_record_of :: "crypto \<Rightarrow> transaction_kind \<Rightarrow> rpc_transaction_record" where
  "rpc_record_of cr t =
     \<lparr> rr_id = td_display (txn_id t), rr_timestamp = txn_timestamp t, rr_sender_address = txn_sender_address t,
       rr_sender_public_key = txn_sender_public_key t, rr_receiver_address = txn_receiver_address t,
       rr_token = tr_token (kind_transfer t), rr_amount = txn_amount t,
       rr_signature = cr_sig_display cr (txn_signature t),
       rr_validators = (case txn_validators t of Some v \<Rightarrow> v | None \<Rightarrow> []), rr_nonce = txn_nonce t \<rparr>"

record sign_opts =
  so_timestamp :: int
  so_sender_address :: string
  so_sender_public_key :: string
  so_receiver_address :: string
  so_amount :: u128
  so_token :: token
  so_nonce :: u128
  so_private_key :: string

subsection \<open>The server\<close>

record ('s, 't, 'c, 'm) rpc_server =
  sv_node_type :: node_type
  sv_db :: "('s, 't, 'c) vrrb_db"
  sv_mempool :: 'm
  sv_bus_open :: bool

text \<open>What the server uses of other crates: the stores, the mempool, \<open>secp256k1\<close> and
  \<open>bincode\<close>.\<close>

record ('s, 't, 'c, 'm) rpc_env =
  rv_crypto :: crypto
  rv_db :: "('s, 't, 'c) db_env"
  rv_pool :: "'m mempool_lr"
  rv_encode_account :: "account \<Rightarrow> (string, bytes) result"

type_synonym ('part, 'ack, 'pks, 'a) published = "(string, 'a) result \<times> ('part, 'ack, 'pks) event list"

text \<open>\<open>events_tx.send\<close> fails exactly if the node has dropped its receiver.\<close>

definition rpc_send ::
  "('s, 't, 'c, 'm) rpc_server \<Rightarrow> ('part, 'ack, 'pks) event \<Rightarrow> 'a \<Rightarrow> ('part, 'ack, 'pks, 'a) published" where
  "rpc_send sv ev x = (if sv_bus_open sv then (Ok x, [ev]) else (Err ''channel closed'', []))"

definition rpc_get_full_state ::
  "('s, 't, 'c, 'm) rpc_env \<Rightarrow> ('s, 't, 'c, 'm) rpc_server \<Rightarrow> (string, (address, account) amap) result" where
  "rpc_get_full_state rv sv = Ok (state_store_values (rv_db rv) (sv_db sv))"

definition rpc_get_full_mempool ::
  "('s, 't, 'c, 'm) rpc_env \<Rightarrow> ('s, 't, 'c, 'm) rpc_server \<Rightarrow> (string, rpc_transaction_record list) result" where
  "rpc_get_full_mempool rv sv = Ok (map (rpc_record_of (rv_crypto rv)) (factory_values (rv_pool rv) (sv_mempool sv)))"

definition rpc_get_node_type :: "('s, 't, 'c, 'm) rpc_server \<Rightarrow> (string, node_type) result" where
  "rpc_get_node_type sv = Ok (sv_node_type sv)"

definition rpc_create_txn ::
  "('s, 't, 'c, 'm) rpc_env \<Rightarrow> new_transfer_args \<Rightarrow> ('s, 't, 'c, 'm) rpc_server
     \<Rightarrow> ('part, 'ack, 'pks, rpc_transaction_record) published" where
  "rpc_create_txn rv args sv =
     (let txn = Transfer (transfer_new (rv_crypto rv) args) in
      rpc_send sv (NewTxnCreated txn) (rpc_record_of (rv_crypto rv) txn))"

definition rpc_get_transaction ::
  "('s, 't, 'c, 'm) rpc_env \<Rightarrow> string \<Rightarrow> ('s, 't, 'c, 'm) rpc_server \<Rightarrow> (string, rpc_transaction_record) result" where
  "rpc_get_transaction rv digest sv =
     rbind (map_err (\<lambda>_. ''unable to parse transaction digest'') (td_from_str (rv_crypto rv) digest)) (\<lambda>d.
     case map_of (transaction_store_values (rv_db rv) (sv_db sv)) d of
       Some txn \<Rightarrow> Ok (rpc_record_of (rv_crypto rv) txn)
     | None \<Rightarrow> Err ''unable to find transaction'')"

text \<open>A text that is not a digest stands for the default digest.\<close>

definition parse_or_default :: "crypto \<Rightarrow> string \<Rightarrow> transaction_digest" where
  "parse_or_default cr s = (case td_from_str cr s of Ok d \<Rightarrow> d | _ \<Rightarrow> td_default)"

fun list_step ::
  "crypto \<Rightarrow> (transaction_digest, transaction_kind) amap \<Rightarrow> string
     \<Rightarrow> (string, rpc_transaction_record) amap \<Rightarrow> (string, rpc_transaction_record) amap" where
  "list_step cr store s values = (case map_of store (parse_or_default cr s) of
     Some txn \<Rightarrow> map_insert (td_display (txn_id txn)) (rpc_record_of cr txn) values
   | None \<Rightarrow> values)"

definition rpc_list_transactions ::
  "('s, 't, 'c, 'm) rpc_env \<Rightarrow> string list \<Rightarrow> ('s, 't, 'c, 'm) rpc_server
     \<Rightarrow> (string, (string, rpc_transaction_record) amap) result" where
  "rpc_list_transactions rv digests sv =
     Ok (fold (list_step (rv_crypto rv) (transaction_store_values (rv_db rv) (sv_db sv))) digests [])"

definition rpc_create_account ::
  "('s, 't, 'c, 'm) rpc_env \<Rightarrow> address \<Rightarrow> account \<Rightarrow> ('s, 't, 'c, 'm) rpc_server
     \<Rightarrow> ('part, 'ack, 'pks, unit) published" where
  "rpc_create_account rv a acc sv = (case rv_encode_account rv acc of
     Ok b \<Rightarrow> rpc_send sv (CreateAccountRequested a b) ()
   | Err e \<Rightarrow> (Err e, [])
   | Panic \<Rightarrow> (Panic, []))"

definition rpc_update_account ::
  "('s, 't, 'c, 'm) rpc_env \<Rightarrow> account \<Rightarrow> ('s, 't, 'c, 'm) rpc_server \<Rightarrow> ('part, 'ack, 'pks, unit) published" where
  "rpc_update_account rv acc sv = (case rv_encode_account rv acc of
     Ok b \<Rightarrow> (case address_from_str (rv_crypto rv) (acc_hash acc) of
         Some a \<Rightarrow> rpc_send sv (AccountUpdateRequested a b) ()
       | None \<Rightarrow> (Err ''malformed public key'', []))
   | Err e \<Rightarrow> (Err e, [])
   | Panic \<Rightarrow> (Panic, []))"

definition rpc_get_account ::
  "('s, 't, 'c, 'm) rpc_env \<Rightarrow> address \<Rightarrow> ('s, 't, 'c, 'm) rpc_server \<Rightarrow> (string, account) result" where
  "rpc_get_account rv a sv = ok_or ''unable to find account'' (map_of (state_store_values (rv_db rv) (sv_db sv)) a)"

text \<open>\<open>SecretKey::from_str\<close> reads the hexadecimal bytes of a key.\<close>

definition secret_key_from_str :: "crypto \<Rightarrow> string \<Rightarrow> secret_key option" where
  "secret_key_from_str cr s = (case cr_unhex cr s of Some b \<Rightarrow> cr_sk_slice cr b | None \<Rightarrow> None)"

definition rpc_sign_transaction :: "crypto \<Rightarrow> sign_opts \<Rightarrow> (string, string) result" where
  "rpc_sign_transaction cr so =
     (let payload = dec_int (so_timestamp so) @ '','' @ so_sender_address so @ '','' @ so_sender_public_key so @ '',''
            @ so_receiver_address so @ '','' @ dec_nat (unat (so_amount so)) @ '','' @ token_debug (so_token so) @ '',''
            @ dec_nat (unat (so_nonce so));
          payload_hash = cr_sha256 cr (str_bytes payload);
          msg = cr_sha256 cr payload_hash in
      case secret_key_from_str cr (so_private_key so) of
        Some sk \<Rightarrow> Ok (cr_sig_display cr (cr_sign cr sk msg))
      | None \<Rightarrow> Err ''unable to parse secret_key'')"

definition rpc_get_claims_by_account_id ::
  "('s, 't, 'c, 'm) rpc_env \<Rightarrow> address \<Rightarrow> ('s, 't, 'c, 'm) rpc_server \<Rightarrow> (string, claim list) result" where
  "rpc_get_claims_by_account_id rv a sv =
     Ok (filter (\<lambda>c. cl_address c = a) (vals (claim_store_values (rv_db rv) (sv_db sv))))"

definition rpc_get_claim_hashes ::
  "('s, 't, 'c, 'm) rpc_env \<Rightarrow> ('s, 't, 'c, 'm) rpc_server \<Rightarrow> (string, u256 list) result" where
  "rpc_get_claim_hashes rv sv = Ok (map cl_hash (vals (claim_store_values (rv_db rv) (sv_db sv))))"

definition rpc_get_claims ::
  "('s, 't, 'c, 'm) rpc_env \<Rightarrow> u256 list \<Rightarrow> ('s, 't, 'c, 'm) rpc_server \<Rightarrow> (string, claim list) result" where
  "rpc_get_claims rv hashes sv =
     Ok (filter (\<lambda>c. cl_hash c \<in> set hashes) (vals (claim_store_values (rv_db rv) (sv_db sv))))"

subsection \<open>Facts\<close>

text \<open>The hash of an account is the hexadecimal text of a digest.\<close>

definition hash_is_digest :: "account \<Rightarrow> bool" where
  "hash_is_digest a = (length (acc_hash a) = 64)"

lemma hash_is_digest_rehash [simp]: "sha_laws cr \<Longrightarrow> hex_laws cr \<Longrightarrow> hash_is_digest (rehash cr a)"
  by (simp add: hash_is_digest_def rehash_def hex_lawsD sha_lawsD)

lemma field_hash: "acc_hash (snd (update_single_field_no_hash f a)) = acc_hash a"
  by (cases f) (simp_all split: option.splits)

lemma hash_is_digest_field: "hash_is_digest a \<Longrightarrow> hash_is_digest (snd (if_some F x a))"
  by (cases x) (simp_all add: hash_is_digest_def field_hash)

lemma hash_is_digest_nonce: "hash_is_digest a \<Longrightarrow> hash_is_digest (snd (apply_nonce n a))"
  by (auto simp: hash_is_digest_def apply_nonce_def bump_nonce_def update_nonce_def split: option.splits)

lemma hash_is_digest_update:
  assumes "sha_laws cr" "hex_laws cr" "hash_is_digest a"
  shows "hash_is_digest (snd (account_update cr now args a))"
  unfolding account_update_def
  by (intro seq_acc_inv [where P = hash_is_digest] hash_is_digest_nonce hash_is_digest_field) (simp_all add: assms)

interpretation account_hashes: invariant_system "account_init cr" "account_step cr"
  "\<lambda>a. sha_laws cr \<and> hex_laws cr \<longrightarrow> hash_is_digest a" for cr
proof unfold_locales
  show "sha_laws cr \<and> hex_laws cr \<longrightarrow> hash_is_digest s" if "account_init cr s" for s
    using that by (auto simp: account_init_def account_new_def hash_is_digest_def hex_lawsD sha_lawsD)
  show "sha_laws cr \<and> hex_laws cr \<longrightarrow> hash_is_digest t"
    if "sha_laws cr \<and> hex_laws cr \<longrightarrow> hash_is_digest s" "account_step cr s t" for s t
    using that(2,1)
  proof (cases rule: account_step.cases)
    case (step_update now args)
    then show ?thesis using that(1) hash_is_digest_update by blast
  next
    case (step_field f)
    then show ?thesis by (auto simp: update_field_def split: prod.splits)
  next
    case step_bump
    then show ?thesis using that(1) by (auto simp: bump_nonce_def hash_is_digest_def split: option.splits)
  qed
qed

text \<open>\<open>updateAccount\<close> takes the hash of an account for the text of its address.  A hash has 64
  characters and a public key 66 or 130, so the method fails for every account that the
  operations of accounts produce, and nothing is published.\<close>

theorem rpc_update_account_fails:
  assumes "sha_laws (rv_crypto rv)" "hex_laws (rv_crypto rv)" "secp_laws (rv_crypto rv)"
    and "reachable (account_init (rv_crypto rv)) (account_step (rv_crypto rv)) acc"
  shows "(\<forall>u. fst (rpc_update_account rv acc sv) \<noteq> Ok u) \<and> snd (rpc_update_account rv acc sv) = []"
proof -
  have "length (acc_hash acc) = 64"
    using account_hashes.reachable_inv [OF assms(4)] assms(1,2) by (simp add: hash_is_digest_def)
  then have "address_from_str (rv_crypto rv) (acc_hash acc) = None"
    using secp_lawsD(3) [OF assms(3), of "acc_hash acc"]
    by (cases "cr_pk_parse (rv_crypto rv) (acc_hash acc)") (auto simp: address_from_str_def)
  then show ?thesis by (simp add: rpc_update_account_def split: result.splits)
qed

text \<open>A transaction that is stored under its own digest is found by the text of that digest,
  and \<open>listTransactions\<close> lists it.\<close>

lemma list_fold_keeps:
  assumes "map_of store d = Some txn" "txn_id txn = d" "\<forall>(d, t)\<in>set store. txn_id t = d"
    and "map_of values (td_display d) = Some (rpc_record_of cr txn)"
    and "\<forall>d'\<in>set (keys store). td_display d' = td_display d \<longrightarrow> d' = d"
  shows "map_of (fold (list_step cr store) ss values) (td_display d) = Some (rpc_record_of cr txn)"
  using assms(4)
proof (induction ss arbitrary: "values")
  case (Cons s ss)
  have "map_of (list_step cr store s values) (td_display d) = Some (rpc_record_of cr txn)"
  proof (cases "map_of store (parse_or_default cr s)")
    case (Some t)
    then have "(parse_or_default cr s, t) \<in> set store" by (rule map_of_SomeD)
    with assms(3) have "txn_id t = parse_or_default cr s" "txn_id t \<in> set (keys store)" by force+
    with Some assms(1,5) Cons.prems show ?thesis by (auto)
  qed (simp add: Cons.prems)
  then show ?case by (simp add: Cons.IH del: list_step.simps)
qed simp

theorem stored_txn_is_served:
  assumes "hex_laws (rv_crypto rv)" "d = td_from_bytes (rv_crypto rv) b"
    and "map_of (transaction_store_values (rv_db rv) (sv_db sv)) d = Some txn"
    and "\<forall>(d, t)\<in>set (transaction_store_values (rv_db rv) (sv_db sv)).
           txn_id t = d \<and> (\<exists>b. d = td_from_bytes (rv_crypto rv) b)"
  shows "rpc_get_transaction rv (td_display d) sv = Ok (rpc_record_of (rv_crypto rv) txn)
    \<and> (\<exists>m. rpc_list_transactions rv (ss @ [td_display d] @ ss') sv = Ok m
          \<and> map_of m (td_display d) = Some (rpc_record_of (rv_crypto rv) txn))"
proof -
  let ?store = "transaction_store_values (rv_db rv) (sv_db sv)" and ?cr = "rv_crypto rv"
  have parse: "td_from_str ?cr (td_display d) = Ok d" using td_roundtrip [OF assms(1)] assms(2) by simp
  have own: "txn_id txn = d" using map_of_SomeD [OF assms(3)] assms(4) by blast
  have inj: "\<forall>d'\<in>set (keys ?store). td_display d' = td_display d \<longrightarrow> d' = d"
    using assms(2,4) hex_inj [OF assms(1)] by (fastforce simp: td_display_def td_from_bytes_def)
  have "map_of (list_step ?cr ?store (td_display d) m) (td_display d) = Some (rpc_record_of ?cr txn)" for m
    by (simp add: parse_or_default_def parse assms(3) own)
  from list_fold_keeps [OF assms(3) own _ this inj, of ss']
  have "map_of (fold (list_step ?cr ?store) (ss @ [td_display d] @ ss') []) (td_display d) = Some (rpc_record_of ?cr txn)"
    using assms(4) by (force simp del: list_step.simps)
  then show ?thesis by (simp add: rpc_get_transaction_def rpc_list_transactions_def parse assms(3) del: list_step.simps)
qed

text \<open>The signature that the server makes for the fields of a transfer verifies over the
  digest of that transfer.\<close>

theorem rpc_signature_verifies:
  assumes "secp_laws cr" "secret_key_from_str cr (so_private_key so) = Some sk"
    and "so_timestamp so = tr_timestamp t" "so_sender_address so = address_display cr (tr_sender_address t)"
    and "so_sender_public_key so = pk_display cr (tr_sender_public_key t)"
    and "so_receiver_address so = address_display cr (tr_receiver_address t)"
    and "so_amount so = tr_amount t" "so_token so = tr_token t" "so_nonce so = tr_nonce t"
  shows "\<exists>sg. rpc_sign_transaction cr so = Ok (cr_sig_display cr sg)
    \<and> cr_verify cr (cr_pk_of cr sk) (cr_sha256 cr (generate_txn_digest_vec cr t)) sg"
  using secp_lawsD(4) [OF assms(1)] assms(2-)
  by (auto simp: rpc_sign_transaction_def generate_txn_digest_vec_def generate_transfer_digest_vec_def
      transfer_payload_string_def Let_def)

definition example_rpc_env where
  "example_rpc_env = \<lparr> rv_crypto = example_crypto, rv_db = example_db_env, rv_pool = example_pool,
     rv_encode_account = (\<lambda>acc. Ok (acc_pubkey acc)) \<rparr>"

theorem rpc_update_account_fails_witness:
  "reachable (account_init example_crypto) (account_step example_crypto) (account_new example_crypto 0 key_a)
     \<and> snd (rpc_update_account example_rpc_env (account_new example_crypto 0 key_a)
         \<lparr> sv_node_type = NFull, sv_db = vrrb_db_new example_db_env, sv_mempool = lr_new example_pool, sv_bus_open = True \<rparr>)
       = ([] :: (unit, unit, unit) event list)"
proof -
  have r: "reachable (account_init (rv_crypto example_rpc_env)) (account_step (rv_crypto example_rpc_env))
      (account_new example_crypto 0 key_a)"
    by (rule reach_init) (auto simp: account_init_def example_rpc_env_def)
  have "sha_laws (rv_crypto example_rpc_env)" "hex_laws (rv_crypto example_rpc_env)" "secp_laws (rv_crypto example_rpc_env)"
    by (simp_all add: example_rpc_env_def)
  then have "snd (rpc_update_account example_rpc_env (account_new example_crypto 0 key_a)
         \<lparr> sv_node_type = NFull, sv_db = vrrb_db_new example_db_env, sv_mempool = lr_new example_pool, sv_bus_open = True \<rparr>)
       = ([] :: (unit, unit, unit) event list)"
    using rpc_update_account_fails [OF _ _ _ r] by blast
  with r show ?thesis by (simp add: example_rpc_env_def)
qed

end
