(* ===== verification/Wallets.thy ===== *)
theory Wallets
  imports Rpc
begin

text \<open>
  \<open>wallet/src/v2\<close>: the wallet, a client of the JSON-RPC interface.  The generated client of
  \<open>jsonrpsee\<close> is the record \<open>rpc_client\<close>: a call acts on the world outside the wallet and
  returns the answer of the server or an error of the transport.  The clock is an
  argument.
\<close>

datatype wallet_error = WalletRpcError string | WalletApiError string | WalletCustom string

record 'w rpc_client =
  rc_connect :: "'w \<Rightarrow> (string, unit) result"
  rc_get_full_mempool :: "'w \<Rightarrow> (string, rpc_transaction_record list) result"
  rc_create_txn :: "new_transfer_args \<Rightarrow> 'w \<Rightarrow> (string, rpc_transaction_record) result \<times> 'w"
  rc_get_transaction :: "string \<Rightarrow> 'w \<Rightarrow> (string, rpc_transaction_record) result"
  rc_get_account :: "address \<Rightarrow> 'w \<Rightarrow> (string, account) result"
  rc_list_transactions :: "string list \<Rightarrow> 'w \<Rightarrow> (string, (string, rpc_transaction_record) amap) result"
  rc_create_account :: "address \<Rightarrow> account \<Rightarrow> 'w \<Rightarrow> (string, unit) result \<times> 'w"

record wallet =
  wl_secret_key :: secret_key
  wl_welcome_message :: string
  wl_public_key :: public_key
  wl_addresses :: "(u32, address) amap"
  wl_accounts :: "(address, account) amap"
  wl_nonce :: u128

record wallet_config =
  wc_secret_key :: secret_key
  wc_public_key :: public_key
  wc_accounts :: "(address, account) amap"
  wc_addresses :: "(u32, address) amap"

record wallet_info =
  wi_secret_key :: secret_key
  wi_public_key :: string
  wi_addresses :: "(u32, address) amap"
  wi_nonce :: u128

definition key_texts :: "crypto \<Rightarrow> secret_key \<Rightarrow> public_key \<Rightarrow> string" where
  "key_texts cr sk pk = ''DO NOT SHARE OR LOSE YOUR SECRET KEY:'' @ [CHR 0x0A] @ ''SECRET KEY: '' @ cr_debug cr (SBytes sk)
     @ [CHR 0x0A] @ ''PUBLIC KEY: '' @ cr_debug cr (SBytes pk) @ [CHR 0x0A]"

definition wallet_new :: "crypto \<Rightarrow> 'w rpc_client \<Rightarrow> wallet_config \<Rightarrow> 'w \<Rightarrow> (wallet_error, wallet) result" where
  "wallet_new cr rc cfg w =
     rbind (map_err WalletApiError (rc_connect rc w)) (\<lambda>_.
     Ok \<lparr> wl_secret_key = wc_secret_key cfg, wl_welcome_message = key_texts cr (wc_secret_key cfg) (wc_public_key cfg),
          wl_public_key = wc_public_key cfg, wl_addresses = wc_addresses cfg, wl_accounts = wc_accounts cfg, wl_nonce = 0 \<rparr>)"

definition wallet_info_of :: "crypto \<Rightarrow> wallet \<Rightarrow> wallet_info" where
  "wallet_info_of cr wl = \<lparr> wi_secret_key = wl_secret_key wl, wi_public_key = pk_display cr (wl_public_key wl),
     wi_addresses = wl_addresses wl, wi_nonce = wl_nonce wl \<rparr>"

definition wallet_get_mempool :: "'w rpc_client \<Rightarrow> 'w \<Rightarrow> (wallet_error, rpc_transaction_record list) result" where
  "wallet_get_mempool rc w = map_err WalletRpcError (rc_get_full_mempool rc w)"

definition wallet_sign_transaction :: "crypto \<Rightarrow> bytes \<Rightarrow> wallet \<Rightarrow> ecdsa_sig" where
  "wallet_sign_transaction cr payload wl = cr_sign cr (wl_secret_key wl) (cr_sha256 cr payload)"

definition sender_of :: "u32 \<Rightarrow> wallet \<Rightarrow> (wallet_error, address) result" where
  "sender_of n wl = (case map_of (wl_addresses wl) n of
     Some a \<Rightarrow> Ok a
   | None \<Rightarrow> (case map_of (wl_addresses wl) 0 of
       Some a \<Rightarrow> Ok a
     | None \<Rightarrow> Err (WalletCustom ''wallet has no addresses'')))"

definition transfer_args ::
  "crypto \<Rightarrow> address \<Rightarrow> address \<Rightarrow> u128 \<Rightarrow> token \<Rightarrow> int \<Rightarrow> wallet \<Rightarrow> new_transfer_args" where
  "transfer_args cr sender receiver amount token timestamp wl =
     (let payload = hash_data cr [SInt timestamp, SStr (address_display cr sender), SStr (pk_display cr (wl_public_key wl)),
            SStr (address_display cr receiver), SInt (uint amount), token_sval token, SInt (uint (wl_nonce wl))];
          signature = wallet_sign_transaction cr payload wl in
      \<lparr> na_timestamp = timestamp, na_sender_address = sender, na_sender_public_key = wl_public_key wl,
        na_receiver_address = receiver, na_token = Some token, na_amount = amount, na_signature = signature,
        na_validators = Some [], na_nonce = wl_nonce wl \<rparr>)"

text \<open>The wallet itself is not changed: its nonce stays what it was.\<close>

definition wallet_send_transaction ::
  "crypto \<Rightarrow> 'w rpc_client \<Rightarrow> u32 \<Rightarrow> address \<Rightarrow> u128 \<Rightarrow> token \<Rightarrow> int \<Rightarrow> wallet \<Rightarrow> 'w
     \<Rightarrow> (wallet_error, string) result \<times> wallet \<times> 'w" where
  "wallet_send_transaction cr rc n receiver amount token timestamp wl w = (case sender_of n wl of
     Ok sender \<Rightarrow> (case rc_create_txn rc (transfer_args cr sender receiver amount token timestamp wl) w of
         (Ok txn, w') \<Rightarrow> (Ok (rr_id txn), wl, w')
       | (Err e, w') \<Rightarrow> (Err (WalletCustom (''API Error: '' @ e)), wl, w')
       | (Panic, w') \<Rightarrow> (Panic, wl, w'))
   | Err e \<Rightarrow> (Err e, wl, w)
   | Panic \<Rightarrow> (Panic, wl, w))"

definition wallet_get_transaction :: "'w rpc_client \<Rightarrow> string \<Rightarrow> 'w \<Rightarrow> rpc_transaction_record option" where
  "wallet_get_transaction rc digest w = (case rc_get_transaction rc digest w of Ok r \<Rightarrow> Some r | _ \<Rightarrow> None)"

definition wallet_get_account :: "'w rpc_client \<Rightarrow> address \<Rightarrow> 'w \<Rightarrow> (wallet_error, account) result" where
  "wallet_get_account rc a w = map_err (\<lambda>e. WalletCustom (''API Error: '' @ e)) (rc_get_account rc a w)"

definition wallet_list_transactions :: "'w rpc_client \<Rightarrow> string list \<Rightarrow> 'w \<Rightarrow> (string, rpc_transaction_record) amap" where
  "wallet_list_transactions rc ids w = (case rc_list_transactions rc ids w of Ok m \<Rightarrow> m | _ \<Rightarrow> [])"

definition wallet_get_new_address :: "wallet \<Rightarrow> wallet" where
  "wallet_get_new_address wl =
     wl \<lparr> wl_addresses := map_insert (of_nat (length (wl_addresses wl))) (Address (wl_public_key wl)) (wl_addresses wl) \<rparr>"

text \<open>The loop over the addresses of the wallet, which ends at the first failed call.\<close>

definition fetch_accounts ::
  "'w rpc_client \<Rightarrow> 'w \<Rightarrow> (u32, address) amap \<Rightarrow> (wallet_error, (address, account) amap) result" where
  "fetch_accounts rc w addresses =
     rfold (\<lambda>(_, a) accs. rbind (wallet_get_account rc a w) (\<lambda>acc. Ok (map_insert a acc accs))) addresses []"

definition restore_from_private_key ::
  "crypto \<Rightarrow> 'w rpc_client \<Rightarrow> string \<Rightarrow> 'w \<Rightarrow> (wallet_error, wallet) result" where
  "restore_from_private_key cr rc secret_key w = (case secret_key_from_str cr secret_key of
     None \<Rightarrow> Err (WalletCustom ''unable to restore wallet from secret key'')
   | Some sk \<Rightarrow>
       rbind (map_err WalletApiError (rc_connect rc w)) (\<lambda>_.
       let wl = wallet_get_new_address \<lparr> wl_secret_key = sk, wl_welcome_message = [], wl_public_key = cr_pk_of cr sk,
             wl_addresses = [], wl_accounts = [], wl_nonce = 0 \<rparr> in
       rbind (fetch_accounts rc w (wl_addresses wl)) (\<lambda>accounts.
       rbind (unwrap (map_of (wl_addresses wl) 1)) (\<lambda>address.
       Ok (wl \<lparr> wl_accounts := accounts, wl_welcome_message := key_texts cr sk (wl_public_key wl)
         @ ''ADDRESS: '' @ address_display cr address @ [CHR 0x0A] \<rparr>)))))"

definition wallet_create_account ::
  "crypto \<Rightarrow> 'w rpc_client \<Rightarrow> int \<Rightarrow> u32 \<Rightarrow> public_key \<Rightarrow> wallet \<Rightarrow> 'w
     \<Rightarrow> (wallet_error, address \<times> account) result \<times> wallet \<times> 'w" where
  "wallet_create_account cr rc now alias pk wl w =
     (let acc = account_new cr now pk; a = Address pk in
      case rc_create_account rc a acc w of
        (Ok _, w') \<Rightarrow> (Ok (a, acc), wl \<lparr> wl_addresses := map_insert alias a (wl_addresses wl),
            wl_accounts := map_insert a acc (wl_accounts wl) \<rparr>, w')
      | (Err e, w') \<Rightarrow> (Err (WalletCustom e), wl, w')
      | (Panic, w') \<Rightarrow> (Panic, wl, w'))"

subsection \<open>A wallet connected to a node\<close>

text \<open>The world outside is a node and the events it has not handled yet.  The server reads
  the stores and the mempool of the node.\<close>

definition node_server ::
  "('gen, 'part, 'ack, 'rng, 'pks, 'sks, 'd, 's, 't, 'c, 'm) node_runtime \<Rightarrow> ('s, 't, 'c, 'm) rpc_server" where
  "node_server rt = \<lparr> sv_node_type = nc_node_type (ns_config (rt_setup rt)), sv_db = sm_database (rt_state_driver rt),
     sv_mempool = sm_mempool (rt_state_driver rt), sv_bus_open = rt_bus_open rt \<rparr>"

definition node_client ::
  "('s, 't, 'c, 'm) rpc_env
     \<Rightarrow> (('gen, 'part, 'ack, 'rng, 'pks, 'sks, 'd, 's, 't, 'c, 'm) node_runtime \<times> ('part, 'ack, 'pks) event list) rpc_client" where
  "node_client rv =
     \<lparr> rc_connect = (\<lambda>_. Ok ()),
       rc_get_full_mempool = (\<lambda>(rt, _). rpc_get_full_mempool rv (node_server rt)),
       rc_create_txn = (\<lambda>args (rt, evs). case rpc_create_txn rv args (node_server rt) of (r, out) \<Rightarrow> (r, rt, evs @ out)),
       rc_get_transaction = (\<lambda>d (rt, _). rpc_get_transaction rv d (node_server rt)),
       rc_get_account = (\<lambda>a (rt, _). rpc_get_account rv a (node_server rt)),
       rc_list_transactions = (\<lambda>ds (rt, _). rpc_list_transactions rv ds (node_server rt)),
       rc_create_account = (\<lambda>a acc (rt, evs).
         case rpc_create_account rv a acc (node_server rt) of (r, out) \<Rightarrow> (r, rt, evs @ out)) \<rparr>"

subsection \<open>Facts\<close>

lemma get_new_address_first:
  "wl_addresses wl = [] \<Longrightarrow> wl_addresses (wallet_get_new_address wl) = [(0, Address (wl_public_key wl))]"
  by (simp add: wallet_get_new_address_def map_insert_def)

text \<open>C38: Restoring a wallet never succeeds.  The only address is filed under 0 and the welcome
  message asks for the one under 1, so once the key is read, the server is reached and
  the account is found, the wallet aborts; every other outcome is an error.\<close>

theorem restore_never_succeeds:
  "restore_from_private_key cr rc key w = (case secret_key_from_str cr key of
     None \<Rightarrow> Err (WalletCustom ''unable to restore wallet from secret key'')
   | Some sk \<Rightarrow> (case rc_connect rc w of
       Ok _ \<Rightarrow> (case rc_get_account rc (Address (cr_pk_of cr sk)) w of
           Err e \<Rightarrow> Err (WalletCustom (''API Error: '' @ e))
         | _ \<Rightarrow> Panic)
     | Err e \<Rightarrow> Err (WalletApiError e)
     | Panic \<Rightarrow> Panic))"
  by (simp add: restore_from_private_key_def Let_def get_new_address_first fetch_accounts_def wallet_get_account_def
      split: option.split result.split)

text \<open>What a wallet that is connected to a node sends.\<close>

lemma node_client_send:
  assumes "sender_of n wl = Ok sender" "rt_bus_open rt"
  shows "wallet_send_transaction cr (node_client rv) n receiver amount token ts wl (rt, evs)
    = (let t = Transfer (transfer_new (rv_crypto rv) (transfer_args cr sender receiver amount token ts wl)) in
       (Ok (td_display (txn_id t)), wl, rt, evs @ [NewTxnCreated t]))"
  using assms by (simp add: wallet_send_transaction_def node_client_def rpc_create_txn_def rpc_send_def node_server_def
      rpc_record_of_def Let_def)

lemma node_client_send_closed:
  assumes "\<not> rt_bus_open rt"
  shows "fst (wallet_send_transaction cr (node_client rv) n receiver amount token ts wl (rt, evs)) \<noteq> Ok d"
  using assms by (auto simp: wallet_send_transaction_def node_client_def rpc_create_txn_def rpc_send_def node_server_def Let_def
      split: result.splits)

lemma node_client_send_Ok:
  assumes "wallet_send_transaction cr (node_client rv) n receiver amount token ts wl (rt, []) = (Ok d, wl', rt1, evs)"
  obtains t sender where "rt1 = rt" "evs = [NewTxnCreated t]" "d = td_display (txn_id t)" "rt_bus_open rt" "wl' = wl"
    "t = Transfer (transfer_new (rv_crypto rv) (transfer_args cr sender receiver amount token ts wl))"
proof -
  have bus: "rt_bus_open rt" using node_client_send_closed [of rt cr rv n receiver amount token ts wl "[]" d] assms by force
  obtain sender where sender: "sender_of n wl = Ok sender"
    using assms by (auto simp: wallet_send_transaction_def split: result.splits)
  let ?t = "Transfer (transfer_new (rv_crypto rv) (transfer_args cr sender receiver amount token ts wl))"
  have "d = td_display (txn_id ?t) \<and> wl' = wl \<and> rt1 = rt \<and> evs = [NewTxnCreated ?t]"
    using trans [OF assms [symmetric] node_client_send [OF sender bus]]
    by (simp only: Let_def append_Nil prod.inject result.inject)
  then show ?thesis by (intro that [of ?t sender] bus) simp_all
qed

text \<open>A transaction that is inserted into the mempool is found there.\<close>

lemma txn_record_new_txn: "txr_txn (txn_record_new now t) = t"
  by (simp add: txn_record_new_def)

lemma mempool_insert_found:
  assumes "lr_laws absorb_first mempool_default lr" "mempool_handle lr h"
  shows "factory_get lr (txn_id t) (snd (mempool_insert sz lr now t h)) = Some (txn_record_new now t)"
  using lr_view_commit [OF assms(1) mempool_handle_clean [OF assms(2)]]
  by (simp add: factory_get_def mempool_insert_def Let_def lr_pool_def txn_record_new_def)

end
