(* ===== verification/Networks.thy ===== *)
theory Networks
  imports Node_Runtime
begin

text \<open>
  \<open>node/src/network\<close>: the module that joins a node to the network, broadcasts the events
  of its runtime to peers, and the handler that turns messages of peers into events.

  The crates \<open>kademlia_dht\<close> and \<open>dyswarm\<close> are the record \<open>net_ops\<close>.  \<open>net_laws\<close> states what is
  used of them: a lookup of the \<open>n\<close> closest nodes returns at most \<open>n\<close>, a successful broadcast
  or transmission sends its one message, and adding peers sends nothing.  \<open>dy_sent\<close> observes
  what a client has sent, with the address of a single receiver.  The actor's name and
  status are left out.
\<close>

subsection \<open>Messages and events\<close>

datatype ('part, 'ack) network_event =
    NetClaimCreated node_id claim
  | NetClaimAbandoned bytes string
  | NetPeerJoined node_id node_type kademlia_peer_id socket_addr socket_addr socket_addr bytes
  | NetAssignmentToQuorumCreated assigned_quorum_membership
  | NetAssignmentToQuorumReceived assigned_quorum_membership
  | NetPeerUnregistered bytes socket_addr
  | NetForwardedTxn txn_record
  | NetPartCommitmentCreated node_id 'part
  | NetPartCommitmentAcknowledged node_id node_id 'ack
  | NetConvergenceBlockCertified convergence_block
  | NetPing node_id
  | NetEmpty

text \<open>The events of a node: those of the runtime, and four that only the network tells apart.\<close>

datatype ('part, 'ack, 'pks) node_event =
    RuntimeEvent "('part, 'ack, 'pks) event"
  | PeerJoined peer_data
  | ClaimCreated claim
  | ClaimReceived claim
  | ConvergenceBlockCertified convergence_block

datatype topic = NetworkEvents | RuntimeEvents

type_synonym ('part, 'ack, 'pks) messages = "(topic \<times> ('part, 'ack, 'pks) node_event) list"

definition net_publish ::
  "bool \<Rightarrow> topic \<Rightarrow> ('part, 'ack, 'pks) node_event \<Rightarrow> (string, unit) result \<times> ('part, 'ack, 'pks) messages" where
  "net_publish is_open tp ev = (if is_open then (Ok (), [(tp, ev)]) else (Err ''channel closed'', []))"

subsection \<open>Messages from peers\<close>

record dyswarm_handler =
  dh_node_id :: node_id
  dh_bus_open :: bool

fun dyswarm_handle ::
  "('part, 'ack) network_event \<Rightarrow> dyswarm_handler \<Rightarrow> (string, unit) result \<times> ('part, 'ack, 'pks) messages" where
  "dyswarm_handle (NetPeerJoined n ty kid udp raptorq liveness pk) h =
     net_publish (dh_bus_open h) NetworkEvents (PeerJoined
       \<lparr> pd_node_id = n, pd_node_type = ty, pd_kademlia_peer_id = kid, pd_udp_gossip_addr = udp,
         pd_raptorq_gossip_addr = raptorq, pd_kademlia_liveness_addr = liveness, pd_validator_public_key = pk \<rparr>)"
| "dyswarm_handle (NetClaimCreated n c) h = net_publish (dh_bus_open h) NetworkEvents (ClaimReceived c)"
| "dyswarm_handle (NetAssignmentToQuorumCreated am) h =
     net_publish (dh_bus_open h) RuntimeEvents (RuntimeEvent (QuorumMembershipAssigmentCreated am))"
| "dyswarm_handle (NetPartCommitmentCreated n part) h =
     (Ok (), snd (net_publish (dh_bus_open h) RuntimeEvents (RuntimeEvent (PartCommitmentCreated n part))))"
| "dyswarm_handle (NetPartCommitmentAcknowledged n sender ack) h =
     net_publish (dh_bus_open h) RuntimeEvents (RuntimeEvent (PartCommitmentAcknowledged n sender ack))"
| "dyswarm_handle _ h = (Ok (), [])"

subsection \<open>The module\<close>

record kademlia_data =
  kn_id :: kademlia_peer_id
  kn_node_id :: node_id
  kn_addr :: socket_addr
  kn_udp_gossip_addr :: socket_addr

record bootstrap_config =
  bc_id :: kademlia_peer_id
  bc_udp_gossip_addr :: socket_addr
  bc_raptorq_gossip_addr :: socket_addr
  bc_kademlia_liveness_addr :: socket_addr

record ('k, 'c, 'part, 'ack) net_ops =
  kd_key_sval :: "kademlia_peer_id \<Rightarrow> sval"
  kd_key :: "bytes \<Rightarrow> (string, kademlia_peer_id) result"
  kd_new :: "kademlia_peer_id option \<Rightarrow> node_id \<Rightarrow> socket_addr \<Rightarrow> socket_addr \<Rightarrow> kademlia_data option \<Rightarrow> (string, 'k) result"
  kd_node_data :: "'k \<Rightarrow> kademlia_data"
  kd_closest :: "'k \<Rightarrow> kademlia_peer_id \<Rightarrow> nat \<Rightarrow> kademlia_data list"
  kd_insert :: "kademlia_peer_id \<Rightarrow> string \<Rightarrow> 'k \<Rightarrow> 'k"
  kd_kill :: "'k \<Rightarrow> 'k"
  dy_bind :: "socket_addr \<Rightarrow> (string, socket_addr) result"
  dy_client :: "socket_addr \<Rightarrow> (string, 'c) result"
  dy_run :: "dyswarm_handler \<Rightarrow> (string, unit) result"
  dy_default_unreliable :: bool
  dy_add_peers :: "socket_addr list \<Rightarrow> 'c \<Rightarrow> (string, unit) result \<times> 'c"
  dy_broadcast :: "bool \<Rightarrow> nat \<Rightarrow> ('part, 'ack) network_event \<Rightarrow> 'c \<Rightarrow> (string, unit) result \<times> 'c"
  dy_send :: "('part, 'ack) network_event \<Rightarrow> socket_addr \<Rightarrow> 'c \<Rightarrow> (string, unit) result \<times> 'c"
  dy_sent :: "'c \<Rightarrow> (socket_addr option \<times> ('part, 'ack) network_event) list"

definition net_laws :: "('k, 'c, 'part, 'ack) net_ops \<Rightarrow> bool" where
  "net_laws no \<longleftrightarrow> (\<forall>k i n. length (kd_closest no k i n) \<le> n)
     \<and> (\<forall>as c. dy_sent no (snd (dy_add_peers no as c)) = dy_sent no c)
     \<and> (\<forall>u e m c. fst (dy_broadcast no u e m c) = Ok () \<longrightarrow> dy_sent no (snd (dy_broadcast no u e m c)) = dy_sent no c @ [(None, m)])
     \<and> (\<forall>m a c. fst (dy_send no m a c) = Ok () \<longrightarrow> dy_sent no (snd (dy_send no m a c)) = dy_sent no c @ [(Some a, m)])"

record network_module_config =
  nf_node_id :: node_id
  nf_node_type :: node_type
  nf_udp_gossip_addr :: socket_addr
  nf_raptorq_gossip_addr :: socket_addr
  nf_kademlia_liveness_addr :: socket_addr
  nf_kademlia_peer_id :: "kademlia_peer_id option"
  nf_bootstrap_node_config :: "bootstrap_config option"
  nf_membership_config :: "quorum_membership_config option"
  nf_bus_open :: bool
  nf_validator_public_key :: bytes

record ('k, 'c) network_module =
  nm_node_id :: node_id
  nm_node_type :: node_type
  nm_bus_open :: bool
  nm_is_bootstrap :: bool
  nm_kademlia_node :: 'k
  nm_udp_gossip_addr :: socket_addr
  nm_raptorq_gossip_addr :: socket_addr
  nm_kademlia_liveness_addr :: socket_addr
  nm_dyswarm_client :: 'c
  nm_membership_config :: "quorum_membership_config option"
  nm_validator_public_key :: bytes

definition setup_kademlia_node ::
  "crypto \<Rightarrow> ('k, 'c, 'part, 'ack) net_ops \<Rightarrow> network_module_config \<Rightarrow> (string, 'k) result" where
  "setup_kademlia_node cr no cfg = (case nf_bootstrap_node_config cfg of
     Some bc \<Rightarrow>
       rbind (map_err (\<lambda>e. ''Node key should have a 32 byte length: '' @ e)
         (kd_key no (digest_data_to_bytes cr (kd_key_sval no (bc_id bc))))) (\<lambda>key.
       kd_new no (nf_kademlia_peer_id cfg) (nf_node_id cfg) (nf_kademlia_liveness_addr cfg) (nf_udp_gossip_addr cfg)
         (Some \<lparr> kn_id = key, kn_node_id = nf_node_id cfg, kn_addr = bc_kademlia_liveness_addr bc,
            kn_udp_gossip_addr = bc_udp_gossip_addr bc \<rparr>))
   | None \<Rightarrow>
       kd_new no (nf_kademlia_peer_id cfg) (nf_node_id cfg) (nf_kademlia_liveness_addr cfg) (nf_udp_gossip_addr cfg) None)"

definition network_module_new ::
  "crypto \<Rightarrow> ('k, 'c, 'part, 'ack) net_ops \<Rightarrow> network_module_config \<Rightarrow> (string, ('k, 'c) network_module) result" where
  "network_module_new cr no cfg =
     rbind (dy_bind no (nf_udp_gossip_addr cfg)) (\<lambda>resolved_addr.
     let cfg = cfg \<lparr> nf_udp_gossip_addr := resolved_addr \<rparr> in
     rbind (dy_client no (nf_udp_gossip_addr cfg)) (\<lambda>client.
     rbind (setup_kademlia_node cr no cfg) (\<lambda>kad.
     let cfg = cfg \<lparr> nf_kademlia_liveness_addr := kn_addr (kd_node_data no kad) \<rparr> in
     rbind (dy_run no \<lparr> dh_node_id = nf_node_id cfg, dh_bus_open = nf_bus_open cfg \<rparr>) (\<lambda>_.
     Ok \<lparr> nm_node_id = nf_node_id cfg, nm_node_type = nf_node_type cfg, nm_bus_open = nf_bus_open cfg,
          nm_is_bootstrap = (nf_bootstrap_node_config cfg = None), nm_kademlia_node = kad,
          nm_udp_gossip_addr = nf_udp_gossip_addr cfg, nm_raptorq_gossip_addr = nf_raptorq_gossip_addr cfg,
          nm_kademlia_liveness_addr = nf_kademlia_liveness_addr cfg, nm_dyswarm_client = client,
          nm_membership_config = nf_membership_config cfg,
          nm_validator_public_key = nf_validator_public_key cfg \<rparr>))))"

text \<open>A call of the client, and what follows when it succeeds.\<close>

definition on_client ::
  "('c \<Rightarrow> (string, unit) result \<times> 'c) \<Rightarrow> ('k, 'c) network_module \<Rightarrow> (string, unit) result \<times> ('k, 'c) network_module" where
  "on_client f nm = (case f (nm_dyswarm_client nm) of (r, c) \<Rightarrow> (r, nm \<lparr> nm_dyswarm_client := c \<rparr>))"

fun and_then :: "(string, unit) result \<times> 'a \<Rightarrow> ('a \<Rightarrow> (string, unit) result \<times> 'a) \<Rightarrow> (string, unit) result \<times> 'a" where
  "and_then (Ok _, s) f = f s"
| "and_then (r, s) f = (r, s)"

definition closest_nodes :: "('k, 'c, 'part, 'ack) net_ops \<Rightarrow> nat \<Rightarrow> ('k, 'c) network_module \<Rightarrow> kademlia_data list" where
  "closest_nodes no n nm = kd_closest no (nm_kademlia_node nm) (kn_id (kd_node_data no (nm_kademlia_node nm))) n"

definition DEFAULT_ERASURE_COUNT :: nat where "DEFAULT_ERASURE_COUNT = 100"

text \<open>A failed broadcast is logged.\<close>

definition broadcast_join_intent ::
  "('k, 'c, 'part, 'ack) net_ops \<Rightarrow> ('k, 'c) network_module \<Rightarrow> (string, unit) result \<times> ('k, 'c) network_module" where
  "broadcast_join_intent no nm =
     (let d = kd_node_data no (nm_kademlia_node nm);
          msg = NetPeerJoined (nm_node_id nm) (nm_node_type nm) (kn_id d) (nm_udp_gossip_addr nm)
            (nm_raptorq_gossip_addr nm) (kn_addr d) (nm_validator_public_key nm) in
      and_then (on_client (dy_add_peers no (map kn_udp_gossip_addr (closest_nodes no 7 nm))) nm) (\<lambda>nm.
      (Ok (), snd (on_client (dy_broadcast no False DEFAULT_ERASURE_COUNT msg) nm))))"

definition notify_quorum_membership_assignment ::
  "('k, 'c, 'part, 'ack) net_ops \<Rightarrow> assigned_quorum_membership \<Rightarrow> ('k, 'c) network_module
     \<Rightarrow> (string, unit) result \<times> ('k, 'c) network_module" where
  "notify_quorum_membership_assignment no am nm =
     (case find (\<lambda>n. kn_id n = am_kademlia_peer_id am) (closest_nodes no 8 nm) of
        None \<Rightarrow> (Err ''Could not find peer in routing table'', nm)
      | Some p \<Rightarrow> on_client (dy_send no (NetAssignmentToQuorumCreated am) (kn_udp_gossip_addr p)) nm)"

definition broadcast_claim ::
  "('k, 'c, 'part, 'ack) net_ops \<Rightarrow> claim \<Rightarrow> ('k, 'c) network_module \<Rightarrow> (string, unit) result \<times> ('k, 'c) network_module" where
  "broadcast_claim no claim nm =
     and_then (on_client (dy_add_peers no (map kn_udp_gossip_addr (closest_nodes no 8 nm))) nm) (\<lambda>nm.
     on_client (dy_broadcast no (dy_default_unreliable no) 0 (NetClaimCreated (nm_node_id nm) claim)) nm)"

definition broadcast_part_commitment ::
  "('k, 'c, 'part, 'ack) net_ops \<Rightarrow> node_id \<Rightarrow> 'part \<Rightarrow> ('k, 'c) network_module
     \<Rightarrow> (string, unit) result \<times> ('k, 'c) network_module" where
  "broadcast_part_commitment no n part nm =
     and_then (on_client (dy_add_peers no (map kn_udp_gossip_addr (closest_nodes no 8 nm))) nm) (\<lambda>nm.
     on_client (dy_broadcast no (dy_default_unreliable no) 0 (NetPartCommitmentCreated n part)) nm)"

definition broadcast_part_commitment_acknowledgement ::
  "('k, 'c, 'part, 'ack) net_ops \<Rightarrow> node_id \<Rightarrow> node_id \<Rightarrow> 'ack \<Rightarrow> ('k, 'c) network_module
     \<Rightarrow> (string, unit) result \<times> ('k, 'c) network_module" where
  "broadcast_part_commitment_acknowledgement no n sender ack nm =
     (case find (\<lambda>d. kn_node_id d = n) (closest_nodes no 8 nm) of
        None \<Rightarrow> (Err ''Could not find peer in routing table'', nm)
      | Some p \<Rightarrow> on_client (dy_send no (NetPartCommitmentAcknowledged n sender ack) (kn_udp_gossip_addr p)) nm)"

definition broadcast_certified_convergence_block ::
  "('k, 'c, 'part, 'ack) net_ops \<Rightarrow> convergence_block \<Rightarrow> ('k, 'c) network_module
     \<Rightarrow> (string, unit) result \<times> ('k, 'c) network_module" where
  "broadcast_certified_convergence_block no b nm =
     on_client (dy_broadcast no (dy_default_unreliable no) 0 (NetConvergenceBlockCertified b)) nm"

subsection \<open>Events of the node\<close>

datatype actor_state = ActorRunning | ActorStopped

type_synonym ('part, 'ack, 'pks, 'nm) net_handled = "(string, actor_state) result \<times> ('part, 'ack, 'pks) messages \<times> 'nm"

definition keeps_running :: "(string, unit) result \<times> 'nm \<Rightarrow> ('part, 'ack, 'pks, 'nm) net_handled" where
  "keeps_running r = (rbind (fst r) (\<lambda>_. Ok ActorRunning), [], snd r)"

definition network_handle ::
  "('k, 'c, 'part, 'ack) net_ops \<Rightarrow> ('part, 'ack, 'pks) node_event \<Rightarrow> ('k, 'c) network_module
     \<Rightarrow> ('part, 'ack, 'pks, ('k, 'c) network_module) net_handled" where
  "network_handle no ev nm = (case ev of
     PeerJoined p \<Rightarrow>
       (case net_publish (nm_bus_open nm) RuntimeEvents (RuntimeEvent (NodeAddedToPeerList p)) of
          (r, out) \<Rightarrow> (rbind r (\<lambda>_. Ok ActorRunning), out, nm \<lparr> nm_kademlia_node :=
            kd_insert no (pd_kademlia_peer_id p) (pd_kademlia_liveness_addr p) (nm_kademlia_node nm) \<rparr>))
   | ClaimCreated c \<Rightarrow> keeps_running (broadcast_claim no c nm)
   | ConvergenceBlockCertified b \<Rightarrow> keeps_running (broadcast_certified_convergence_block no b nm)
   | RuntimeEvent e \<Rightarrow> (case e of
        QuorumMembershipAssigmentCreated am \<Rightarrow> keeps_running (notify_quorum_membership_assignment no am nm)
      | PartCommitmentCreated n part \<Rightarrow> keeps_running (broadcast_part_commitment no n part nm)
      | PartCommitmentAcknowledged n sender ack \<Rightarrow>
          keeps_running (broadcast_part_commitment_acknowledgement no n sender ack nm)
      | StopEvent \<Rightarrow> (Ok ActorStopped, [], nm \<lparr> nm_kademlia_node := kd_kill no (nm_kademlia_node nm) \<rparr>)
      | _ \<Rightarrow> (Ok ActorRunning, [], nm))
   | _ \<Rightarrow> (Ok ActorRunning, [], nm))"

text \<open>The set-up of the module: a node with a bootstrap node announces itself.\<close>

definition network_setup ::
  "crypto \<Rightarrow> ('k, 'c, 'part, 'ack) net_ops \<Rightarrow> network_module_config \<Rightarrow> (string, ('k, 'c) network_module) result" where
  "network_setup cr no cfg =
     rbind (network_module_new cr no cfg) (\<lambda>nm.
     if \<not> nm_is_bootstrap nm then
       (case broadcast_join_intent no nm of (r, nm) \<Rightarrow> rbind r (\<lambda>_. Ok nm))
     else Ok nm)"

subsection \<open>What reaches a peer\<close>

text \<open>What the receiver of an event publishes: the three events of the key generation come to
  its runtime, a claim comes back to its network module, and everything else is dropped.\<close>

fun relayed :: "('part, 'ack, 'pks) node_event \<Rightarrow> ('part, 'ack, 'pks) messages" where
  "relayed (ClaimCreated c) = [(NetworkEvents, ClaimReceived c)]"
| "relayed (RuntimeEvent (QuorumMembershipAssigmentCreated am)) =
     [(RuntimeEvents, RuntimeEvent (QuorumMembershipAssigmentCreated am))]"
| "relayed (RuntimeEvent (PartCommitmentCreated n part)) = [(RuntimeEvents, RuntimeEvent (PartCommitmentCreated n part))]"
| "relayed (RuntimeEvent (PartCommitmentAcknowledged n sender ack)) =
     [(RuntimeEvents, RuntimeEvent (PartCommitmentAcknowledged n sender ack))]"
| "relayed _ = []"

fun is_sent :: "('part, 'ack, 'pks) node_event \<Rightarrow> bool" where
  "is_sent (ConvergenceBlockCertified b) = True"
| "is_sent ev = (relayed ev \<noteq> [])"

lemma on_client_simps [simp]:
  "nm_kademlia_node (snd (on_client f nm)) = nm_kademlia_node nm"
  "nm_dyswarm_client (snd (on_client f nm)) = snd (f (nm_dyswarm_client nm))"
  "fst (on_client f nm) = fst (f (nm_dyswarm_client nm))"
  by (simp_all add: on_client_def split: prod.split)

lemma and_then_Ok: "fst (and_then r f) = Ok u \<Longrightarrow> fst r = Ok () \<and> and_then r f = f (snd r)"
  by (cases r; cases "fst r") auto

lemma keeps_running_simps [simp]:
  "fst (keeps_running r) = Ok st \<longleftrightarrow> fst r = Ok () \<and> st = ActorRunning"
  "snd (snd (keeps_running r)) = snd r"
  by (auto simp: keeps_running_def result_simps)

text \<open>One message was sent.\<close>

definition sent_one ::
  "('k, 'c, 'part, 'ack) net_ops \<Rightarrow> ('part, 'ack) network_event \<Rightarrow> ('k, 'c) network_module \<Rightarrow> ('k, 'c) network_module \<Rightarrow> bool" where
  "sent_one no m nm nm' \<longleftrightarrow> (\<exists>a. dy_sent no (nm_dyswarm_client nm') = dy_sent no (nm_dyswarm_client nm) @ [(a, m)])"

lemma broadcast_sent:
  "net_laws no \<Longrightarrow> fst (on_client (dy_broadcast no u e m) nm) = Ok () \<Longrightarrow> sent_one no m nm (snd (on_client (dy_broadcast no u e m) nm))"
  unfolding net_laws_def sent_one_def on_client_simps by blast

lemma send_sent:
  "net_laws no \<Longrightarrow> fst (on_client (dy_send no m a) nm) = Ok () \<Longrightarrow> sent_one no m nm (snd (on_client (dy_send no m a) nm))"
  unfolding net_laws_def sent_one_def on_client_simps by blast

lemma add_peers_sent:
  "net_laws no \<Longrightarrow> sent_one no m (snd (on_client (dy_add_peers no as) nm)) nm' = sent_one no m nm nm'"
  by (simp add: net_laws_def sent_one_def)

lemma add_peers_broadcast_sent:
  assumes "net_laws no"
    and "fst (and_then (on_client (dy_add_peers no as) nm) (\<lambda>nm. on_client (dy_broadcast no u e (m (nm_node_id nm))) nm)) = Ok ()"
  shows "sent_one no (m (nm_node_id nm)) nm
    (snd (and_then (on_client (dy_add_peers no as) nm) (\<lambda>nm. on_client (dy_broadcast no u e (m (nm_node_id nm))) nm)))"
proof -
  let ?nm = "snd (on_client (dy_add_peers no as) nm)"
  have id: "nm_node_id ?nm = nm_node_id nm" by (simp add: on_client_def split: prod.split)
  note step = and_then_Ok [OF assms(2)]
  have "sent_one no (m (nm_node_id nm)) ?nm (snd (on_client (dy_broadcast no u e (m (nm_node_id nm))) ?nm))"
    by (rule broadcast_sent [OF assms(1)]) (use step assms(2) id in simp)
  then show ?thesis using step by (simp add: add_peers_sent [OF assms(1)] id)
qed

lemma broadcast_claim_sent:
  "net_laws no \<Longrightarrow> fst (broadcast_claim no c nm) = Ok () \<Longrightarrow> sent_one no (NetClaimCreated (nm_node_id nm) c) nm (snd (broadcast_claim no c nm))"
  unfolding broadcast_claim_def by (rule add_peers_broadcast_sent)

lemma broadcast_part_sent:
  "net_laws no \<Longrightarrow> fst (broadcast_part_commitment no n part nm) = Ok () \<Longrightarrow>
   sent_one no (NetPartCommitmentCreated n part) nm (snd (broadcast_part_commitment no n part nm))"
  unfolding broadcast_part_commitment_def by (rule add_peers_broadcast_sent)

lemma notify_sent:
  assumes "net_laws no" "fst (notify_quorum_membership_assignment no am nm) = Ok ()"
  shows "sent_one no (NetAssignmentToQuorumCreated am) nm (snd (notify_quorum_membership_assignment no am nm))"
  using assms(2) unfolding notify_quorum_membership_assignment_def
  by (auto split: option.split_asm simp del: on_client_simps intro: send_sent [OF assms(1)])

lemma acknowledgement_sent:
  assumes "net_laws no" "fst (broadcast_part_commitment_acknowledgement no n sender ack nm) = Ok ()"
  shows "sent_one no (NetPartCommitmentAcknowledged n sender ack) nm (snd (broadcast_part_commitment_acknowledgement no n sender ack nm))"
  using assms(2) unfolding broadcast_part_commitment_acknowledgement_def
  by (auto split: option.split_asm simp del: on_client_simps intro: send_sent [OF assms(1)])

lemma certified_sent:
  "net_laws no \<Longrightarrow> fst (broadcast_certified_convergence_block no b nm) = Ok () \<Longrightarrow>
   sent_one no (NetConvergenceBlockCertified b) nm (snd (broadcast_certified_convergence_block no b nm))"
  unfolding broadcast_certified_convergence_block_def by (rule broadcast_sent)

text \<open>The message that an event is sent as.\<close>

fun message_of :: "node_id \<Rightarrow> ('part, 'ack, 'pks) node_event \<Rightarrow> ('part, 'ack) network_event option" where
  "message_of n (ClaimCreated c) = Some (NetClaimCreated n c)"
| "message_of n (ConvergenceBlockCertified b) = Some (NetConvergenceBlockCertified b)"
| "message_of n (RuntimeEvent (QuorumMembershipAssigmentCreated am)) = Some (NetAssignmentToQuorumCreated am)"
| "message_of n (RuntimeEvent (PartCommitmentCreated i part)) = Some (NetPartCommitmentCreated i part)"
| "message_of n (RuntimeEvent (PartCommitmentAcknowledged i sender ack)) = Some (NetPartCommitmentAcknowledged i sender ack)"
| "message_of n _ = None"

lemma message_relayed:
  "message_of n ev = Some m \<Longrightarrow> dh_bus_open h \<Longrightarrow> dyswarm_handle m h = (Ok (), relayed ev) \<and> is_sent ev"
  by (cases "(n, ev)" rule: message_of.cases) (auto simp: net_publish_def)

lemma message_sent:
  assumes "net_laws no" "fst (network_handle no ev nm) = Ok st" "message_of (nm_node_id nm) ev = Some m"
  shows "sent_one no m nm (snd (snd (network_handle no ev nm)))"
  using assms
  by (cases "(nm_node_id nm, ev)" rule: message_of.cases)
    (auto simp: network_handle_def broadcast_claim_sent broadcast_part_sent notify_sent acknowledgement_sent certified_sent)

lemma nothing_sent:
  "message_of n ev = None \<Longrightarrow> nm_dyswarm_client (snd (snd (network_handle no ev nm))) = nm_dyswarm_client nm \<and> \<not> is_sent ev"
  by (cases "(n, ev)" rule: message_of.cases) (auto simp: network_handle_def net_publish_def)

text \<open>C19: The network carries an event as follows.  When the module has handled an assignment, a part
  or an acknowledgement it has sent one message, from which the handler of the receiver publishes
  that same event to the runtime there.  A claim arrives as \<open>ClaimReceived\<close> on the topic of the
  network module, which ignores it.  The message of a certified convergence block publishes
  nothing, and the winner of a miner election, like all other events, is not sent.\<close>

theorem network_relays:
  fixes ev :: "('part, 'ack, 'pks) node_event"
  assumes "net_laws no" and "fst (network_handle no ev nm) = Ok st"
  shows "\<exists>ds. dy_sent no (nm_dyswarm_client (snd (snd (network_handle no ev nm)))) = dy_sent no (nm_dyswarm_client nm) @ ds
    \<and> length ds = (if is_sent ev then 1 else 0)
    \<and> (\<forall>(a, msg)\<in>set ds. \<forall>h. dh_bus_open h \<longrightarrow> dyswarm_handle msg h = (Ok (), relayed ev))
    \<and> (\<forall>c. network_handle no (ClaimReceived c) nm = (Ok ActorRunning, [] :: ('part, 'ack, 'pks) messages, nm))"
proof -
  have ignored: "network_handle no (ClaimReceived c) nm = (Ok ActorRunning, [] :: ('part, 'ack, 'pks) messages, nm)" for c
    by (simp add: network_handle_def)
  show ?thesis
  proof (cases "message_of (nm_node_id nm) ev")
    case None
    then show ?thesis using nothing_sent [OF None, of no nm] ignored by (intro exI [of _ "[]"]) simp
  next
    case (Some m)
    obtain a where "dy_sent no (nm_dyswarm_client (snd (snd (network_handle no ev nm)))) = dy_sent no (nm_dyswarm_client nm) @ [(a, m)]"
      using message_sent [OF assms Some] by (auto simp: sent_one_def)
    moreover have "is_sent ev" using message_relayed [OF Some, of "\<lparr> dh_node_id = [], dh_bus_open = True \<rparr>"] by simp
    ultimately show ?thesis using message_relayed [OF Some] ignored by (intro exI [of _ "[(a, m)]"]) simp
  qed
qed

text \<open>A network that holds its own data and those of its peers in a list.\<close>

definition example_net :: "(kademlia_data list, (socket_addr option \<times> (nat, nat) network_event) list, nat, nat) net_ops" where
  "example_net = \<lparr> kd_key_sval = SBytes, kd_key = Ok,
     kd_new = (\<lambda>i n addr udp boot. Ok (\<lparr> kn_id = (case i of Some i \<Rightarrow> i | None \<Rightarrow> []), kn_node_id = n, kn_addr = addr,
       kn_udp_gossip_addr = udp \<rparr> # (case boot of Some b \<Rightarrow> [b] | None \<Rightarrow> []))),
     kd_node_data = hd, kd_closest = (\<lambda>k i n. take n (tl k)),
     kd_insert = (\<lambda>i t k. k @ [\<lparr> kn_id = i, kn_node_id = [], kn_addr = t, kn_udp_gossip_addr = t \<rparr>]), kd_kill = (\<lambda>k. k),
     dy_bind = Ok, dy_client = (\<lambda>_. Ok []), dy_run = (\<lambda>_. Ok ()), dy_default_unreliable = False,
     dy_add_peers = (\<lambda>_ c. (Ok (), c)), dy_broadcast = (\<lambda>_ _ m c. (Ok (), c @ [(None, m)])),
     dy_send = (\<lambda>m a c. (Ok (), c @ [(Some a, m)])), dy_sent = (\<lambda>c. c) \<rparr>"

lemma example_net_laws: "net_laws example_net"
  by (simp add: net_laws_def example_net_def)

definition example_network :: "(kademlia_data list, (socket_addr option \<times> (nat, nat) network_event) list) network_module" where
  "example_network = \<lparr> nm_node_id = ''a'', nm_node_type = NFull, nm_bus_open = True, nm_is_bootstrap = True,
     nm_kademlia_node = [\<lparr> kn_id = [1], kn_node_id = ''a'', kn_addr = ''10.0.0.1:1'', kn_udp_gossip_addr = ''10.0.0.1:2'' \<rparr>,
       \<lparr> kn_id = [2], kn_node_id = ''b'', kn_addr = ''10.0.0.2:1'', kn_udp_gossip_addr = ''10.0.0.2:2'' \<rparr>],
     nm_udp_gossip_addr = ''10.0.0.1:2'', nm_raptorq_gossip_addr = ''10.0.0.1:3'', nm_kademlia_liveness_addr = ''10.0.0.1:1'',
     nm_dyswarm_client = [], nm_membership_config = None, nm_validator_public_key = [] \<rparr>"

lemma example_acknowledgement:
  "network_handle example_net (RuntimeEvent (PartCommitmentAcknowledged ''b'' ''a'' 7)) example_network
   = (Ok ActorRunning, [] :: (nat, nat, unit) messages,
      example_network \<lparr> nm_dyswarm_client := [(Some ''10.0.0.2:2'', NetPartCommitmentAcknowledged ''b'' ''a'' 7)] \<rparr>)"
  by (simp add: network_handle_def keeps_running_def broadcast_part_commitment_acknowledgement_def closest_nodes_def
      on_client_def example_net_def example_network_def)

theorem network_relays_witness:
  "dyswarm_handle (NetPartCommitmentAcknowledged ''b'' ''a'' (7 :: nat) :: (nat, nat) network_event) \<lparr> dh_node_id = ''b'', dh_bus_open = True \<rparr>
     = (Ok (), [(RuntimeEvents, RuntimeEvent (PartCommitmentAcknowledged ''b'' ''a'' 7) :: (nat, nat, unit) node_event)])"
proof -
  let ?ev = "RuntimeEvent (PartCommitmentAcknowledged ''b'' ''a'' 7) :: (nat, nat, unit) node_event"
  have "fst (network_handle example_net ?ev example_network) = Ok ActorRunning" by (simp add: example_acknowledgement)
  from network_relays [OF example_net_laws this]
  have delivered: "\<forall>h. dh_bus_open h \<longrightarrow> dyswarm_handle (NetPartCommitmentAcknowledged ''b'' ''a'' (7 :: nat) :: (nat, nat) network_event) h
      = (Ok (), [(RuntimeEvents, ?ev)])"
    unfolding example_acknowledgement by (simp add: example_net_def example_network_def)
  show ?thesis by (rule delivered [rule_format]) simp
qed

subsection \<open>Who can be notified\<close>

lemma notify_kademlia:
  "nm_kademlia_node (snd (notify_quorum_membership_assignment no am nm)) = nm_kademlia_node nm"
  by (simp add: notify_quorum_membership_assignment_def split: option.split)

lemma notify_closest:
  "fst (notify_quorum_membership_assignment no am nm) = Ok () \<Longrightarrow> am_kademlia_peer_id am \<in> kn_id ` set (closest_nodes no 8 nm)"
  by (auto simp: notify_quorum_membership_assignment_def find_Some_iff split: option.split_asm) (metis imageI nth_mem)

text \<open>The results with which the module handles the assignments that a bootstrap node
  publishes, one after the other.\<close>

fun assignment_results ::
  "('k, 'c, 'part, 'ack) net_ops \<Rightarrow> assigned_quorum_membership list \<Rightarrow> ('k, 'c) network_module \<Rightarrow> (string, actor_state) result list" where
  "assignment_results no [] nm = []"
| "assignment_results no (am # ams) nm =
     (case network_handle no (RuntimeEvent (QuorumMembershipAssigmentCreated am) :: ('part, 'ack, unit) node_event) nm of
        (r, _, nm') \<Rightarrow> r # assignment_results no ams nm')"

lemma assignment_results_Cons:
  "assignment_results no (am # ams) nm
   = rbind (fst (notify_quorum_membership_assignment no am nm)) (\<lambda>_. Ok ActorRunning)
     # assignment_results no ams (snd (notify_quorum_membership_assignment no am nm))"
  by (simp add: network_handle_def keeps_running_def)

lemma notified_closest:
  assumes "nm_kademlia_node nm' = nm_kademlia_node nm"
  shows "(am, r) \<in> set (zip ams (assignment_results no ams nm')) \<Longrightarrow> is_ok r \<Longrightarrow>
    am_kademlia_peer_id am \<in> kn_id ` set (closest_nodes no 8 nm)"
  using assms
proof (induction ams arbitrary: nm')
  case (Cons a ams)
  have same: "closest_nodes no 8 nm' = closest_nodes no 8 nm" by (simp add: closest_nodes_def Cons.prems(3))
  show ?case
  proof (cases "(am, r) \<in> set (zip ams (assignment_results no ams (snd (notify_quorum_membership_assignment no a nm'))))")
    case True
    then show ?thesis using Cons.IH Cons.prems by (simp add: notify_kademlia)
  next
    case False
    with Cons.prems(1) have "am = a" "r = rbind (fst (notify_quorum_membership_assignment no a nm')) (\<lambda>_. Ok ActorRunning)"
      unfolding assignment_results_Cons by auto
    then show ?thesis using Cons.prems(2) notify_closest [of no a nm'] same by (auto simp: result_simps)
  qed
qed simp


definition example_assignment :: "nat \<Rightarrow> assigned_quorum_membership" where
  "example_assignment i = \<lparr> am_node_id = ''b'', am_kademlia_peer_id = [of_nat i], am_quorum_kind = QFarmer, am_peers = [] \<rparr>"


subsection \<open>From runtime to runtime\<close>

text \<open>The acknowledgement with which a runtime answers a part is sent to the network as one
  message, and every node that receives it hands its own runtime the same event.\<close>

lemma acknowledgement_returns:
  assumes "net_laws no" "handle_event re now (PartCommitmentCreated n part) rt = Some (Ok (), evs, rt')" "evs \<noteq> []"
    and "fst (network_handle no (RuntimeEvent (hd evs)) nm) = Ok st"
  shows "\<exists>ack. evs = [PartCommitmentAcknowledged n (nc_id (ns_config (rt_setup rt))) ack]
    \<and> sent_one no (NetPartCommitmentAcknowledged n (nc_id (ns_config (rt_setup rt))) ack) nm
        (snd (snd (network_handle no (RuntimeEvent (hd evs)) nm)))
    \<and> (\<forall>h. dh_bus_open h \<longrightarrow> dyswarm_handle (NetPartCommitmentAcknowledged n (nc_id (ns_config (rt_setup rt))) ack) h
        = (Ok (), [(RuntimeEvents, RuntimeEvent (hd evs))]))"
proof -
  obtain ack where evs: "evs = [PartCommitmentAcknowledged n (nc_id (ns_config (rt_setup rt))) ack]"
    using assms(2,3) by (auto simp: handle_event_def on_part_def publish_all_def split: prod.splits result.splits if_splits)
  show ?thesis using message_sent [OF assms(1,4)] by (auto simp: evs net_publish_def)
qed

text \<open>A node that announces itself is put into the routing table of the receiver, whose runtime
  is told of it.\<close>

lemma join_intent_received:
  assumes "dyswarm_handle (NetPeerJoined n ty kid udp raptorq liveness pk) h = (Ok (), out)" "dh_bus_open h" "nm_bus_open nm"
  shows "\<exists>p. out = [(NetworkEvents, PeerJoined p)] \<and> pd_node_id p = n \<and> pd_kademlia_peer_id p = kid
    \<and> network_handle no (PeerJoined p) nm = (Ok ActorRunning, [(RuntimeEvents, RuntimeEvent (NodeAddedToPeerList p))],
        nm \<lparr> nm_kademlia_node := kd_insert no kid liveness (nm_kademlia_node nm) \<rparr>)"
  using assms by (auto simp: net_publish_def network_handle_def)

end
