(* ===== verification/Node_Options.thy ===== *)
theory Node_Options
  imports Networks
begin

text \<open>
  How a node is configured: \<open>vrrb_config/src/node_config.rs\<close>, the options of
  \<open>cli/src/commands/node/run.rs\<close>, the part of the configuration that the network module gets
  (\<open>node/src/network/component.rs\<close>), and the look-up of \<open>service_config\<close>.  A fresh identifier and a
  random key pair are arguments.  A path is a text, or bytes that are not one.  The reading of
  options from a file by the crate \<open>config\<close> is deprecated and not modelled.
\<close>

subsection \<open>The configuration of a node\<close>

datatype path_buf = PathText string | PathBytes bytes

fun path_str :: "path_buf \<Rightarrow> string" where
  "path_str (PathText s) = s"
| "path_str (PathBytes b) = []"

record 'v node_configuration =
  cf_id :: node_id
  cf_data_dir :: path_buf
  cf_db_path :: path_buf
  cf_public_ip_address :: socket_addr
  cf_kademlia_peer_id :: "kademlia_peer_id option"
  cf_kademlia_liveness_address :: socket_addr
  cf_udp_gossip_address :: socket_addr
  cf_raptorq_gossip_address :: socket_addr
  cf_rendezvous_local_address :: socket_addr
  cf_rendezvous_server_address :: socket_addr
  cf_node_type :: node_type
  cf_http_api_address :: socket_addr
  cf_http_api_title :: string
  cf_http_api_version :: string
  cf_http_api_shutdown_timeout :: "nat option"
  cf_jsonrpc_server_address :: socket_addr
  cf_preload_mock_state :: bool
  cf_bootstrap_config :: "bootstrap_config option"
  cf_quorum_config :: "quorum_membership_config option"
  cf_bootstrap_quorum_config :: "bootstrap_quorum_config option"
  cf_keypair :: "'v keypair"
  cf_gui :: bool
  cf_disable_networking :: bool
  cf_enable_block_indexing :: bool
  cf_threshold_config :: threshold_config

definition localhost_random_port :: socket_addr where "localhost_random_port = ''127.0.0.1:0''"

definition node_configuration_default :: "node_id \<Rightarrow> 'v keypair \<Rightarrow> 'v node_configuration" where
  "node_configuration_default uuid kp =
     \<lparr> cf_id = uuid, cf_data_dir = PathText ''.vrrb'', cf_db_path = PathText ''.vrrb/node/db'',
       cf_public_ip_address = localhost_random_port, cf_kademlia_peer_id = None,
       cf_kademlia_liveness_address = localhost_random_port, cf_udp_gossip_address = localhost_random_port,
       cf_raptorq_gossip_address = localhost_random_port, cf_rendezvous_local_address = localhost_random_port,
       cf_rendezvous_server_address = localhost_random_port, cf_node_type = NFull,
       cf_http_api_address = localhost_random_port, cf_http_api_title = ''VRRB Node'', cf_http_api_version = ''v.0.1.0'',
       cf_http_api_shutdown_timeout = None, cf_jsonrpc_server_address = localhost_random_port,
       cf_preload_mock_state = False, cf_bootstrap_config = None, cf_quorum_config = None,
       cf_bootstrap_quorum_config = None, cf_keypair = kp, cf_gui = False, cf_disable_networking = False,
       cf_enable_block_indexing = False, cf_threshold_config = threshold_config_default \<rparr>"

definition node_configuration_merge :: "'v node_configuration \<Rightarrow> 'v node_configuration \<Rightarrow> 'v node_configuration" where
  "node_configuration_merge self other = other
     \<lparr> cf_id := (if cf_id other = [] then cf_id self else cf_id other), cf_data_dir := cf_data_dir self,
       cf_db_path := cf_db_path self, cf_raptorq_gossip_address := cf_raptorq_gossip_address self,
       cf_udp_gossip_address := cf_udp_gossip_address self, cf_node_type := cf_node_type self,
       cf_http_api_address := cf_http_api_address self, cf_http_api_title := cf_http_api_title self,
       cf_http_api_version := cf_http_api_version self,
       cf_http_api_shutdown_timeout := cf_http_api_shutdown_timeout self,
       cf_jsonrpc_server_address := cf_jsonrpc_server_address self,
       cf_preload_mock_state := cf_preload_mock_state self, cf_bootstrap_config := cf_bootstrap_config self,
       cf_keypair := cf_keypair self \<rparr>"

subsection \<open>The options of the command line\<close>

record run_opts =
  ro_dettached :: bool
  ro_debug_config :: bool
  ro_id :: "node_id option"
  ro_idx :: "u16 option"
  ro_node_type :: string
  ro_data_dir :: path_buf
  ro_db_path :: path_buf
  ro_udp_gossip_address :: socket_addr
  ro_raptorq_gossip_address :: socket_addr
  ro_http_api_address :: socket_addr
  ro_jsonrpc_api_address :: socket_addr
  ro_grpc_server_address :: socket_addr
  ro_bootstrap :: bool
  ro_bootstrap_node_addresses :: "socket_addr list option"
  ro_http_api_title :: string
  ro_http_api_version :: string
  ro_gui :: bool
  ro_disable_networking :: bool
  ro_rendezvous_local_address :: socket_addr
  ro_rendezvous_server_address :: socket_addr
  ro_public_ip_address :: socket_addr

definition run_opts_default :: run_opts where
  "run_opts_default =
     \<lparr> ro_dettached = False, ro_debug_config = False, ro_id = None, ro_idx = None, ro_node_type = [],
       ro_data_dir = PathText [], ro_db_path = PathText [], ro_udp_gossip_address = localhost_random_port,
       ro_raptorq_gossip_address = localhost_random_port, ro_http_api_address = localhost_random_port,
       ro_jsonrpc_api_address = localhost_random_port, ro_grpc_server_address = localhost_random_port,
       ro_bootstrap = False, ro_bootstrap_node_addresses = None, ro_http_api_title = [], ro_http_api_version = [],
       ro_gui = False, ro_disable_networking = False, ro_rendezvous_local_address = localhost_random_port,
       ro_rendezvous_server_address = localhost_random_port, ro_public_ip_address = localhost_random_port \<rparr>"

definition node_configuration_of :: "node_id \<Rightarrow> 'v keypair \<Rightarrow> run_opts \<Rightarrow> 'v node_configuration" where
  "node_configuration_of uuid kp opts =
     (let d = node_configuration_default uuid kp;
          node_type = (case node_type_from_str (ro_node_type opts) of Some t \<Rightarrow> t | None \<Rightarrow> cf_node_type d);
          title = (if ro_http_api_title opts \<noteq> [] then ro_http_api_title opts else cf_http_api_title d) in
      \<lparr> cf_id = (case ro_id opts of Some i \<Rightarrow> i | None \<Rightarrow> cf_id d), cf_data_dir = ro_data_dir opts,
        cf_db_path = ro_db_path opts, cf_public_ip_address = ro_raptorq_gossip_address opts,
        cf_kademlia_peer_id = cf_kademlia_peer_id d, cf_kademlia_liveness_address = cf_kademlia_liveness_address d,
        cf_udp_gossip_address = ro_udp_gossip_address opts, cf_raptorq_gossip_address = ro_raptorq_gossip_address opts,
        cf_rendezvous_local_address = ro_rendezvous_local_address opts,
        cf_rendezvous_server_address = ro_rendezvous_server_address opts, cf_node_type = node_type,
        cf_http_api_address = ro_http_api_address opts, cf_http_api_title = title,
        cf_http_api_version = ro_http_api_version opts, cf_http_api_shutdown_timeout = cf_http_api_shutdown_timeout d,
        cf_jsonrpc_server_address = ro_jsonrpc_api_address opts, cf_preload_mock_state = cf_preload_mock_state d,
        cf_bootstrap_config = cf_bootstrap_config d, cf_quorum_config = cf_quorum_config d,
        cf_bootstrap_quorum_config = cf_bootstrap_quorum_config d, cf_keypair = cf_keypair d, cf_gui = ro_gui opts,
        cf_disable_networking = ro_disable_networking opts, cf_enable_block_indexing = cf_enable_block_indexing d,
        cf_threshold_config = cf_threshold_config d \<rparr>)"

definition run_opts_merge :: "run_opts \<Rightarrow> run_opts \<Rightarrow> run_opts" where
  "run_opts_merge self other =
     \<lparr> ro_dettached = ro_dettached other, ro_debug_config = ro_debug_config other,
       ro_id = (case ro_id self of Some i \<Rightarrow> Some i | None \<Rightarrow> ro_id other),
       ro_idx = (case ro_idx self of Some i \<Rightarrow> Some i | None \<Rightarrow> ro_idx other),
       ro_node_type = (if node_type_from_str (ro_node_type self) \<noteq> None then ro_node_type self else ro_node_type other),
       ro_data_dir = (if path_str (ro_data_dir self) \<noteq> [] then ro_data_dir self else ro_data_dir other),
       ro_db_path = (if path_str (ro_db_path self) \<noteq> [] then ro_db_path self else ro_db_path other),
       ro_udp_gossip_address = ro_udp_gossip_address other, ro_raptorq_gossip_address = ro_raptorq_gossip_address other,
       ro_http_api_address = ro_http_api_address other, ro_jsonrpc_api_address = ro_jsonrpc_api_address other,
       ro_grpc_server_address = ro_grpc_server_address other, ro_bootstrap = ro_bootstrap other,
       ro_bootstrap_node_addresses = (if ro_bootstrap_node_addresses other = None
         then ro_bootstrap_node_addresses self else ro_bootstrap_node_addresses other),
       ro_http_api_title = (if ro_http_api_title self \<noteq> [] then ro_http_api_title self else ro_http_api_title other),
       ro_http_api_version = (if ro_http_api_version self \<noteq> [] then ro_http_api_version self else ro_http_api_version other),
       ro_gui = False, ro_disable_networking = False,
       ro_rendezvous_local_address = ro_rendezvous_local_address other,
       ro_rendezvous_server_address = ro_rendezvous_server_address other,
       ro_public_ip_address = ro_public_ip_address other \<rparr>"

text \<open>\<open>run\<close> replaces the random key pair by the one of the key file, or by a second random one that
  it then writes to that file.\<close>

definition run_configuration ::
  "node_id \<Rightarrow> 'v keypair \<Rightarrow> 'v keypair \<Rightarrow> (string, 'v keypair) result \<Rightarrow> ('v keypair \<Rightarrow> (string, unit) result) \<Rightarrow> run_opts
     \<Rightarrow> (string, 'v node_configuration) result" where
  "run_configuration uuid kp kp' stored write opts =
     rbind (case stored of
         Ok k \<Rightarrow> Ok k
       | Err _ \<Rightarrow> rbind (map_err (\<lambda>e. ''failed to write keypair file: '' @ e) (write kp')) (\<lambda>_. Ok kp')
       | Panic \<Rightarrow> Panic) (\<lambda>k.
     Ok (node_configuration_of uuid kp opts \<lparr> cf_keypair := k \<rparr>))"

subsection \<open>What the network module gets\<close>

definition network_config_of :: "bool \<Rightarrow> 'v node_configuration \<Rightarrow> network_module_config" where
  "network_config_of bus_open cf =
     \<lparr> nf_node_id = cf_id cf, nf_node_type = cf_node_type cf, nf_udp_gossip_addr = cf_udp_gossip_address cf,
       nf_raptorq_gossip_addr = cf_raptorq_gossip_address cf,
       nf_kademlia_liveness_addr = cf_kademlia_liveness_address cf, nf_kademlia_peer_id = cf_kademlia_peer_id cf,
       nf_bootstrap_node_config = cf_bootstrap_config cf, nf_membership_config = cf_quorum_config cf,
       nf_bus_open = bus_open, nf_validator_public_key = snd (kp_validator (cf_keypair cf)) \<rparr>"

subsection \<open>The services of a configuration file\<close>

record service_config =
  sc_name :: string
  sc_rpc_address :: string
  sc_rpc_port :: u32
  sc_pre_shared_key :: string
  sc_tls_private_key_file :: string
  sc_tls_public_cert_file :: string
  sc_tls_ca_cert_file :: string
  sc_exporter_address :: string
  sc_exporter_port :: string

record service_collection_config =
  sv_compute :: "service_config list"
  sv_storage :: "service_config list"
  sv_blockchain :: "service_config list"

definition find_service :: "string \<Rightarrow> string \<Rightarrow> service_collection_config \<Rightarrow> (string, service_config) result" where
  "find_service service_name service_type services =
     rbind (if service_type = ''compute'' then Ok (sv_compute services)
       else if service_type = ''storage'' then Ok (sv_storage services)
       else if service_type = ''blockchain'' then Ok (sv_blockchain services)
       else Err (''Invalid service type: '' @ service_type)) (\<lambda>collection.
     ok_or (''Service '' @ service_name @ '' not found as a '' @ service_type @ '' service'')
       (find (\<lambda>svc. sc_name svc = service_name) collection))"

subsection \<open>Facts\<close>

text \<open>Merging three sets of options gives the same in either order of the two merges.\<close>

lemma run_opts_merge_assoc: "run_opts_merge (run_opts_merge a b) c = run_opts_merge a (run_opts_merge b c)"
  by (rule run_opts.equality) (auto simp: run_opts_merge_def split: option.split)

lemma node_configuration_merge_assoc:
  "node_configuration_merge (node_configuration_merge a b) c = node_configuration_merge a (node_configuration_merge b c)"
  by (rule node_configuration.equality) (simp_all add: node_configuration_merge_def)

text \<open>Neither merge of options keeps the user interface or the wish to stay off the network.\<close>

lemma run_opts_merge_drops: "\<not> ro_gui (run_opts_merge a b) \<and> \<not> ro_disable_networking (run_opts_merge a b)"
  by (simp add: run_opts_merge_def)

lemma options_ignored:
  "node_configuration_of uuid kp (opts \<lparr> ro_public_ip_address := a, ro_bootstrap := b, ro_bootstrap_node_addresses := as,
     ro_grpc_server_address := g, ro_idx := i \<rparr>) = node_configuration_of uuid kp opts"
  by (simp add: node_configuration_of_def Let_def)

lemma network_config_ignores_disable:
  "network_config_of bus (node_configuration_of uuid kp (opts \<lparr> ro_disable_networking := True \<rparr>))
   = network_config_of bus (node_configuration_of uuid kp opts)"
  by (simp add: network_config_of_def node_configuration_of_def Let_def)

lemma find_service_name: "find_service n ty services = Ok svc \<Longrightarrow> sc_name svc = n"
  by (auto simp: find_service_def result_simps find_Some_iff split: if_splits)

lemma run_configuration_network:
  assumes "run_configuration uuid kp kp' stored write opts = Ok cf"
  shows "nf_bootstrap_node_config (network_config_of bus cf) = None"
proof -
  obtain k where "cf = node_configuration_of uuid kp opts \<lparr> cf_keypair := k \<rparr>"
    using assms unfolding run_configuration_def rbind_Ok_iff by blast
  then show ?thesis
    by (simp add: network_config_of_def node_configuration_of_def node_configuration_default_def Let_def)
qed

lemma network_module_new_Ok:
  assumes "network_module_new cr no cfg = Ok nm"
  shows "nm_is_bootstrap nm \<longleftrightarrow> nf_bootstrap_node_config cfg = None"
    "dy_client no (nm_udp_gossip_addr nm) = Ok (nm_dyswarm_client nm)"
  using assms by (auto simp: network_module_new_def result_simps Let_def)

text \<open>C23: A node that is started from the command line never joins a network: whatever options it is
  given, those that name bootstrap nodes included, its network module counts it as a bootstrap node
  and is set up without announcing it, with a client through which nothing was sent.\<close>

theorem cli_node_never_joins:
  assumes "run_configuration uuid kp kp' stored write opts = Ok cf"
    and "network_setup cr no (network_config_of bus cf) = Ok nm"
  shows "nm_is_bootstrap nm \<and> network_module_new cr no (network_config_of bus cf) = Ok nm
    \<and> dy_client no (nm_udp_gossip_addr nm) = Ok (nm_dyswarm_client nm)"
proof -
  have "nf_bootstrap_node_config (network_config_of bus cf) = None" by (rule run_configuration_network [OF assms(1)])
  moreover obtain nm' where new: "network_module_new cr no (network_config_of bus cf) = Ok nm'"
    using assms(2) by (auto simp: network_setup_def result_simps)
  ultimately have "nm_is_bootstrap nm'" using network_module_new_Ok(1) [OF new] by simp
  then have "nm = nm'" using assms(2) new by (simp add: network_setup_def)
  then show ?thesis using new network_module_new_Ok [OF new] \<open>nm_is_bootstrap nm'\<close> by simp
qed

definition example_keypair :: "unit keypair" where
  "example_keypair = \<lparr> kp_miner = (key_a, key_a), kp_validator = ((), []) \<rparr>"

theorem cli_node_never_joins_witness:
  "\<exists>cf nm. run_configuration ''u'' example_keypair example_keypair (Ok example_keypair) (\<lambda>_. Ok ())
       (run_opts_default \<lparr> ro_bootstrap_node_addresses := Some [''10.0.0.1:2''] \<rparr>) = Ok cf
     \<and> network_setup example_crypto example_net (network_config_of True cf) = Ok nm
     \<and> nm_is_bootstrap nm \<and> nm_dyswarm_client nm = []"
proof -
  obtain cf where cf: "run_configuration ''u'' example_keypair example_keypair (Ok example_keypair) (\<lambda>_. Ok ())
       (run_opts_default \<lparr> ro_bootstrap_node_addresses := Some [''10.0.0.1:2''] \<rparr>) = Ok cf"
    by (simp add: run_configuration_def)
  then have none: "nf_bootstrap_node_config (network_config_of True cf) = None" by (rule run_configuration_network)
  then obtain nm where nm: "network_setup example_crypto example_net (network_config_of True cf) = Ok nm"
    by (simp add: network_setup_def network_module_new_def setup_kademlia_node_def example_net_def Let_def)
  have "dy_client example_net (nm_udp_gossip_addr nm) = Ok []" by (simp add: example_net_def)
  with cli_node_never_joins [OF cf nm] cf nm show ?thesis by auto
qed

end
