(* ===== verification/Job_Tasks.thy ===== *)
theory Job_Tasks
  imports Prelude
begin

text \<open>
  \<open>consensus/job_pool/src/task.rs\<close>, \<open>poller.rs\<close> and \<open>builder.rs\<close>: the tasks and jobs of
  the job pool, how a job is polled and completed, how a task is waited for, and the
  builder of a pool.

  A closure takes no argument and is called once, so it is the result of that call.
  Futures are user code: their type and their function \<open>poll\<close> are parameters.  Wakers
  are numbers, and an operation that calls a waker returns its number.  The mutex of a
  task status is never poisoned while both sides of the task exist, so \<open>lock\<close> succeeds.
  Instants are natural numbers.
\<close>

subsection \<open>Tasks and jobs\<close>

text \<open>\<open>thread::Result\<close>: a value, or the payload of a panic.\<close>

datatype 'a thread_result = Finished 'a | Unwound string

fun is_unwound :: "'a thread_result \<Rightarrow> bool" where
  "is_unwound (Finished _) = False"
| "is_unwound (Unwound _) = True"

record 'a task_status =
  ts_result :: "'a thread_result option"
  ts_waker :: "nat option"
  ts_is_timeout :: bool

definition create_pending_task :: "'a task_status" where
  "create_pending_task = \<lparr> ts_result = None, ts_waker = None, ts_is_timeout = False \<rparr>"

definition has_timeout_occurred :: "'a task_status \<Rightarrow> bool" where
  "has_timeout_occurred st = ts_is_timeout st"

definition is_finished :: "'a task_status \<Rightarrow> bool" where
  "is_finished st = (ts_result st \<noteq> None)"

text \<open>The last argument of a poller is the task it reports to, an index into the
  statuses of all tasks.\<close>

datatype ('f, 'a) job_poller =
    SyncJobPoller (sync_job: "'a thread_result option") (poller_result: "'a thread_result option") (poller_task: nat)
  | AsyncJobPoller (future: 'f) (poller_result: "'a thread_result option") (poller_task: nat)

datatype job_execution_status = Yield | Complete bool | NoJobToPoll

datatype 'a polled = PollPending | PollReady 'a | PollPanics string

text \<open>The address of a job is that of its boxed poller; the waker of a job is the empty
  one, or it sends the address to a worker.\<close>

record ('f, 'a) job =
  jb_is_future :: bool
  jb_waker :: "(nat \<times> nat) option"
  jb_addr :: nat
  jb_poller :: "('f, 'a) job_poller"

abbreviation job_task :: "('f, 'a) job \<Rightarrow> nat" where
  "job_task j \<equiv> poller_task (jb_poller j)"

definition from_closure :: "nat \<Rightarrow> nat \<Rightarrow> 'a thread_result \<Rightarrow> 'a task_status \<times> ('f, 'a) job" where
  "from_closure addr t closure =
     (create_pending_task,
      \<lparr> jb_is_future = False, jb_waker = None, jb_addr = addr,
        jb_poller = SyncJobPoller (Some closure) None t \<rparr>)"

definition from_future :: "nat \<Rightarrow> nat \<Rightarrow> 'f \<Rightarrow> 'a task_status \<times> ('f, 'a) job" where
  "from_future addr t fut =
     (create_pending_task,
      \<lparr> jb_is_future = True, jb_waker = None, jb_addr = addr,
        jb_poller = AsyncJobPoller fut None t \<rparr>)"

fun run_job :: "('f \<Rightarrow> 'a polled \<times> 'f) \<Rightarrow> ('f, 'a) job_poller \<Rightarrow> job_execution_status \<times> ('f, 'a) job_poller" where
  "run_job poll (SyncJobPoller (Some result) _ t) =
     (Complete (is_unwound result), SyncJobPoller None (Some result) t)"
| "run_job poll (SyncJobPoller None r t) = (NoJobToPoll, SyncJobPoller None r t)"
| "run_job poll (AsyncJobPoller fut r t) = (case poll fut of
     (PollPending, fut') \<Rightarrow> (Yield, AsyncJobPoller fut' r t)
   | (PollReady v, fut') \<Rightarrow> (Complete False, AsyncJobPoller fut' (Some (Finished v)) t)
   | (PollPanics e, fut') \<Rightarrow> (Complete True, AsyncJobPoller fut' (Some (Unwound e)) t))"

definition job_run :: "('f \<Rightarrow> 'a polled \<times> 'f) \<Rightarrow> ('f, 'a) job \<Rightarrow> job_execution_status \<times> ('f, 'a) job" where
  "job_run poll j = (case run_job poll (jb_poller j) of (st, p) \<Rightarrow> (st, j \<lparr> jb_poller := p \<rparr>))"

text \<open>The same code for both pollers.  The first component holds the waker that is
  called.\<close>

definition poller_complete :: "('f, 'a) job_poller \<Rightarrow> 'a task_status list \<Rightarrow> nat list \<times> 'a task_status list" where
  "poller_complete p tasks = (case poller_result p of
     None \<Rightarrow> ([], tasks)
   | Some r \<Rightarrow>
       let t = poller_task p; st = tasks ! t in
       ((case ts_waker st of Some wk \<Rightarrow> [wk] | None \<Rightarrow> []), tasks[t := st \<lparr> ts_result := Some r \<rparr>]))"

subsection \<open>Waiting for a task\<close>

text \<open>\<open>Future::poll\<close> of a task, also the first part of \<open>join_catch\<close>, both under the lock:
  the result is taken, or the waker is stored.\<close>

definition task_poll :: "nat \<Rightarrow> 'a task_status \<Rightarrow> 'a thread_result option \<times> 'a task_status" where
  "task_poll wk st = (case ts_result st of
     Some r \<Rightarrow> (Some r, st \<lparr> ts_result := None \<rparr>)
   | None \<Rightarrow> (None, st \<lparr> ts_waker := Some wk \<rparr>))"

text \<open>The loop of \<open>join_catch\<close>.  Its argument has, for every return of \<open>thread::park\<close>, the
  result the task has then; \<open>None\<close> means that the thread is still parked.\<close>

fun park_loop :: "'a thread_result option list \<Rightarrow> 'a thread_result option" where
  "park_loop [] = None"
| "park_loop (Some r # seen) = Some r"
| "park_loop (None # seen) = park_loop seen"

definition join_catch :: "nat \<Rightarrow> 'a thread_result option list \<Rightarrow> 'a task_status \<Rightarrow> 'a thread_result option" where
  "join_catch wk seen st = (case fst (task_poll wk st) of Some r \<Rightarrow> Some r | None \<Rightarrow> park_loop seen)"

definition task_join :: "nat \<Rightarrow> 'a thread_result option list \<Rightarrow> 'a task_status \<Rightarrow> ('e, 'a) result option" where
  "task_join wk seen st = (case join_catch wk seen st of
     None \<Rightarrow> None
   | Some (Finished v) \<Rightarrow> Some (Ok v)
   | Some (Unwound e) \<Rightarrow> Some Panic)"

text \<open>The loop of \<open>join_deadline\<close>.  Every round reads the clock, parks and looks at the
  result; the argument has both for every round.\<close>

fun deadline_loop ::
  "nat \<Rightarrow> (nat \<times> 'a thread_result option) list \<Rightarrow> 'a task_status \<Rightarrow> ('a thread_result + 'a task_status) option" where
  "deadline_loop deadline [] st = None"
| "deadline_loop deadline ((now, r) # rounds) st =
     (if now \<le> deadline then
        (case r of
           Some r \<Rightarrow> Some (Inl r)
         | None \<Rightarrow> deadline_loop deadline rounds (st \<lparr> ts_is_timeout := True \<rparr>))
      else Some (Inr st))"

definition join_deadline ::
  "nat \<Rightarrow> nat \<Rightarrow> (nat \<times> 'a thread_result option) list \<Rightarrow> 'a task_status \<Rightarrow> ('a thread_result + 'a task_status) option" where
  "join_deadline wk deadline rounds st = (case task_poll wk st of
     (Some r, _) \<Rightarrow> Some (Inl r)
   | (None, st') \<Rightarrow> deadline_loop deadline rounds st')"

subsection \<open>The builder\<close>

datatype pool_error = InvalidPoolWorkerConfig string | FailedToEndTask

record pool_builder =
  plb_size :: "(nat \<times> nat) option"
  plb_stack_size :: "nat option"
  plb_job_queue_size :: "nat option"
  plb_concurrent_jobs_limit :: nat
  plb_keep_alive :: nat
  plb_no_completed_tasks_to_track :: nat

definition pool_builder_default :: pool_builder where
  "pool_builder_default =
     \<lparr> plb_size = Some (2, 4), plb_stack_size = Some (2 * 1024 * 1024), plb_job_queue_size = Some 10000,
       plb_concurrent_jobs_limit = 10, plb_keep_alive = 120, plb_no_completed_tasks_to_track = 0 \<rparr>"

definition with_workers_capacity :: "nat \<Rightarrow> nat \<Rightarrow> (pool_error, pool_builder) result" where
  "with_workers_capacity min_workers max_workers =
     (if max_workers < min_workers then
        Err (InvalidPoolWorkerConfig ''Job pool minimum size cannot be larger than maximum size'')
      else if max_workers = 0 then
        Err (InvalidPoolWorkerConfig ''Job pool maximum size must be greater than zero'')
      else Ok \<lparr> plb_size = Some (min_workers, max_workers), plb_stack_size = None, plb_job_queue_size = None,
          plb_concurrent_jobs_limit = 16, plb_keep_alive = 60, plb_no_completed_tasks_to_track = 100 \<rparr>)"

definition set_stack_size :: "nat \<Rightarrow> pool_builder \<Rightarrow> pool_builder" where
  "set_stack_size n b = b \<lparr> plb_stack_size := Some n \<rparr>"

definition set_job_queue_size :: "nat \<Rightarrow> pool_builder \<Rightarrow> pool_builder" where
  "set_job_queue_size limit b = b \<lparr> plb_job_queue_size := Some limit \<rparr>"

definition set_keep_alive :: "nat \<Rightarrow> pool_builder \<Rightarrow> pool_builder" where
  "set_keep_alive duration b = b \<lparr> plb_keep_alive := duration \<rparr>"

definition set_concurrent_jobs_limit :: "nat \<Rightarrow> pool_builder \<Rightarrow> pool_builder" where
  "set_concurrent_jobs_limit limit b = b \<lparr> plb_concurrent_jobs_limit := limit \<rparr>"

definition set_no_completed_tasks_to_track :: "nat \<Rightarrow> pool_builder \<Rightarrow> pool_builder" where
  "set_no_completed_tasks_to_track num b = b \<lparr> plb_no_completed_tasks_to_track := num \<rparr>"

text \<open>The builders a program can obtain: the two constructors and the setters.\<close>

inductive built :: "pool_builder \<Rightarrow> bool" where
  "built pool_builder_default"
| "with_workers_capacity lo hi = Ok b \<Longrightarrow> built b"
| "built b \<Longrightarrow> built (set_stack_size n b)"
| "built b \<Longrightarrow> built (set_job_queue_size n b)"
| "built b \<Longrightarrow> built (set_keep_alive n b)"
| "built b \<Longrightarrow> built (set_concurrent_jobs_limit n b)"
| "built b \<Longrightarrow> built (set_no_completed_tasks_to_track n b)"

subsection \<open>Lemmas\<close>

lemma run_job_task [simp]: "run_job poll p = (st, p') \<Longrightarrow> poller_task p' = poller_task p"
  by (induction poll p rule: run_job.induct) (auto split: prod.splits polled.splits)

lemma run_job_complete: "run_job poll p = (Complete e, p') \<Longrightarrow> \<exists>r. poller_result p' = Some r"
  by (induction poll p rule: run_job.induct) (auto split: prod.splits polled.splits)

lemma job_run_fields:
  "job_run poll j = (st, j') \<Longrightarrow> jb_addr j' = jb_addr j \<and> job_task j' = job_task j \<and> jb_is_future j' = jb_is_future j"
  by (auto simp: job_run_def split: prod.splits)

lemma built_size: "built b \<Longrightarrow> \<exists>lo hi. plb_size b = Some (lo, hi) \<and> lo \<le> hi \<and> 0 < hi"
  by (induction rule: built.induct)
    (auto simp: pool_builder_default_def with_workers_capacity_def set_stack_size_def set_job_queue_size_def
      set_keep_alive_def set_concurrent_jobs_limit_def set_no_completed_tasks_to_track_def split: if_splits)

text \<open>A wait with a deadline ends as soon as the clock passes it, and the task it hands
  back has its time-out mark exactly if some round was waited: a deadline that has
  passed at the first reading gives back a task that denies the time-out.\<close>

lemma deadline_loop_timeout:
  "deadline_loop d rounds st = Some (Inr st') \<Longrightarrow>
     has_timeout_occurred st' \<longleftrightarrow> has_timeout_occurred st \<or> fst (hd rounds) \<le> d"
  by (induction d rounds st rule: deadline_loop.induct)
    (auto simp: has_timeout_occurred_def split: if_splits option.splits)

lemma deadline_loop_ends: "\<exists>(now, r)\<in>set rounds. d < now \<Longrightarrow> \<exists>x. deadline_loop d rounds st = Some x"
  by (induction d rounds st rule: deadline_loop.induct) (auto split: option.splits)

lemma deadline_loop_result: "deadline_loop d rounds st = Some (Inl r) \<Longrightarrow> \<exists>now\<le>d. (now, Some r) \<in> set rounds"
  by (induction d rounds st rule: deadline_loop.induct) (auto split: if_splits option.splits)

text \<open>Waiting for a task with a deadline: it returns once the clock passes the deadline,
  with the result the task has in a round that began in time, or else with the task,
  whose time-out mark is set exactly if the first round began in time.\<close>

theorem join_deadline_returns:
  assumes "ts_result st = None" "ts_is_timeout st = False" "\<exists>(now, r)\<in>set rounds. d < now"
  shows "(\<exists>now r. join_deadline wk d rounds st = Some (Inl r) \<and> now \<le> d \<and> (now, Some r) \<in> set rounds)
    \<or> (\<exists>st'. join_deadline wk d rounds st = Some (Inr st')
          \<and> (has_timeout_occurred st' \<longleftrightarrow> fst (hd rounds) \<le> d))"
proof -
  obtain x where x: "deadline_loop d rounds (st \<lparr> ts_waker := Some wk \<rparr>) = Some x"
    using deadline_loop_ends [OF assms(3)] by blast
  show ?thesis
  proof (cases x)
    case (Inl r)
    then show ?thesis using deadline_loop_result [of d rounds _ r] x assms(1)
      by (auto simp: join_deadline_def task_poll_def)
  next
    case (Inr st')
    then show ?thesis using deadline_loop_timeout [of d rounds _ st'] x assms(1,2)
      by (auto simp: join_deadline_def task_poll_def has_timeout_occurred_def)
  qed
qed

theorem join_deadline_returns_witness:
  "\<exists>st'. join_deadline 3 5 [(7, None)] (create_pending_task :: nat task_status) = Some (Inr st')
     \<and> \<not> has_timeout_occurred st'"
  using join_deadline_returns [of "create_pending_task :: nat task_status" "[(7, None)]" 5 3]
  by (simp add: create_pending_task_def)

end
