(* ===== verification/Job_Pools.thy ===== *)
theory Job_Pools
  imports Job_Tasks "HOL-Library.Multiset"
begin

text \<open>
  \<open>consensus/job_pool/src/pool.rs\<close> and \<open>worker.rs\<close>: the pool, its worker threads and the
  channels between them, as a system of interleaved steps.

  A step is what a thread does between two points at which another thread can see the
  difference: handing a job over, taking one from a queue, the beginning and the end of
  a job, a time-out, reading the number of workers, leaving.  \<open>pool_do\<close> performs a step
  or is \<open>None\<close> when that step cannot be taken; the choices that the channels, the
  scheduler and the allocator make are arguments of the steps.  A boxed poller gets an
  address that no live job has.  The mutexes guard plain arithmetic, so \<open>lock\<close> succeeds.
\<close>

subsection \<open>Workers and pools\<close>

text \<open>\<open>Selecting\<close> is a worker that is blocked in \<open>select_timeout\<close>, \<open>TimedOut\<close> one that
  has seen a time-out and has not asked its listener yet.\<close>

datatype ('f, 'a) phase = Spawned | Looping | Selecting | TimedOut | Executing "('f, 'a) job" | Stopped

record ('f, 'a) worker =
  wk_concurrency_limit :: nat
  wk_initial_job :: "('f, 'a) job option"
  wk_pending_jobs :: "(nat, ('f, 'a) job) amap"
  wk_notifications :: "nat list"
  wk_active :: bool
  wk_phase :: "('f, 'a) phase"

datatype ('f, 'a) polling_status = New "('f, 'a) job" | Unpark nat | Timeout | ShutDown | Busy

record pool_state =
  ps_min_jobs :: nat
  ps_max_jobs :: nat
  ps_jobs_count :: nat
  ps_running_jobs_count :: u64
  ps_keep_alive :: nat
  ps_no_of_task_time_to_track :: nat
  ps_tasks_completion_time :: "nat list"

text \<open>How far a call of \<open>join\<close> or \<open>join_timeout\<close> is.\<close>

datatype join_state = NotJoined | JoinWaits | TimedJoinWaits | Joined bool

text \<open>\<open>jp_queue_limit\<close> is the capacity of the waiting queue, \<open>jp_blocked\<close> has the jobs whose
  submitters are blocked in \<open>send\<close>, \<open>jp_woken\<close> the wakers called so far and \<open>jp_returned\<close>
  the results that tasks have handed out.\<close>

record ('f, 'a) job_pool =
  jp_stack_size :: "nat option"
  jp_concurrency_limit :: nat
  jp_queue_limit :: "nat option"
  jp_waiting_queue :: "('f, 'a) job list"
  jp_sender_alive :: bool
  jp_blocked :: "('f, 'a) job list"
  jp_state :: pool_state
  jp_workers :: "('f, 'a) worker list"
  jp_tasks :: "'a task_status list"
  jp_woken :: "nat list"
  jp_returned :: "(nat \<times> 'a thread_result) list"
  jp_join :: join_state

definition worker_new :: "('f, 'a) job option \<Rightarrow> nat \<Rightarrow> ('f, 'a) worker" where
  "worker_new initial_task limit =
     \<lparr> wk_concurrency_limit = limit, wk_initial_job = initial_task, wk_pending_jobs = [],
       wk_notifications = [], wk_active = False, wk_phase = Spawned \<rparr>"

definition upd_worker ::
  "nat \<Rightarrow> (('f, 'a) worker \<Rightarrow> ('f, 'a) worker) \<Rightarrow> ('f, 'a) job_pool \<Rightarrow> ('f, 'a) job_pool" where
  "upd_worker w f s = s \<lparr> jp_workers := (jp_workers s)[w := f (jp_workers s ! w)] \<rparr>"

definition set_phase :: "nat \<Rightarrow> ('f, 'a) phase \<Rightarrow> ('f, 'a) job_pool \<Rightarrow> ('f, 'a) job_pool" where
  "set_phase w ph = upd_worker w (\<lambda>wk. wk \<lparr> wk_phase := ph \<rparr>)"

definition upd_state :: "(pool_state \<Rightarrow> pool_state) \<Rightarrow> ('f, 'a) job_pool \<Rightarrow> ('f, 'a) job_pool" where
  "upd_state f s = s \<lparr> jp_state := f (jp_state s) \<rparr>"

definition in_phase :: "('f, 'a) job_pool \<Rightarrow> nat \<Rightarrow> ('f, 'a) phase \<Rightarrow> bool" where
  "in_phase s w ph = (w < length (jp_workers s) \<and> wk_phase (jp_workers s ! w) = ph)"

definition pool_jobs :: "('f, 'a) job_pool \<Rightarrow> nat" where
  "pool_jobs s = ps_jobs_count (jp_state s)"

definition queued_tasks :: "('f, 'a) job_pool \<Rightarrow> nat" where
  "queued_tasks s = length (jp_waiting_queue s)"

definition running_tasks :: "('f, 'a) job_pool \<Rightarrow> u64" where
  "running_tasks s = ps_running_jobs_count (jp_state s)"

subsection \<open>The listener of a worker\<close>

definition on_job_started :: "pool_state \<Rightarrow> pool_state" where
  "on_job_started st = st \<lparr> ps_running_jobs_count := ps_running_jobs_count st + 1 \<rparr>"

definition on_job_finished :: "nat \<Rightarrow> bool \<Rightarrow> bool \<Rightarrow> pool_state \<Rightarrow> pool_state" where
  "on_job_finished duration is_async is_error st =
     (let st = st \<lparr> ps_running_jobs_count := ps_running_jobs_count st - 1 \<rparr>;
          times = ps_tasks_completion_time st; track = ps_no_of_task_time_to_track st in
      if \<not> is_async \<and> \<not> is_error then
        st \<lparr> ps_tasks_completion_time :=
          (if length times > track then drop (length times - track) times else times) @ [duration] \<rparr>
      else st)"

definition on_idle :: "pool_state \<Rightarrow> bool" where
  "on_idle st = (ps_jobs_count st > ps_min_jobs st)"

text \<open>Dropping the listener; \<open>notify_all\<close> reaches a caller of \<open>join\<close>.  A timed join goes
  on waiting while workers remain.\<close>

definition listener_drop :: "('f, 'a) job_pool \<Rightarrow> ('f, 'a) job_pool" where
  "listener_drop s =
     (let s = upd_state (\<lambda>st. st \<lparr> ps_jobs_count := ps_jobs_count st - 1 \<rparr>) s in
      s \<lparr> jp_join := (case jp_join s of
          JoinWaits \<Rightarrow> Joined True
        | TimedJoinWaits \<Rightarrow> if ps_jobs_count (jp_state s) > 0 then TimedJoinWaits else Joined True
        | j \<Rightarrow> j) \<rparr>)"

subsection \<open>The steps of a worker\<close>

text \<open>\<open>Worker::execute_job\<close> up to and including \<open>on_job_started\<close>, and the rest of it.\<close>

definition execute_job_begin :: "nat \<Rightarrow> ('f, 'a) job \<Rightarrow> ('f, 'a) job_pool \<Rightarrow> ('f, 'a) job_pool" where
  "execute_job_begin w j s =
     (let j = (if jb_is_future j then j \<lparr> jb_waker := Some (w, jb_addr j) \<rparr> else j) in
      set_phase w (Executing j) (upd_state on_job_started s))"

definition job_complete :: "('f, 'a) job \<Rightarrow> ('f, 'a) job_pool \<Rightarrow> ('f, 'a) job_pool" where
  "job_complete j s = (case poller_complete (jb_poller j) (jp_tasks s) of
     (wakers, tasks) \<Rightarrow> s \<lparr> jp_tasks := tasks, jp_woken := jp_woken s @ wakers \<rparr>)"

definition execute_job_end ::
  "('f \<Rightarrow> 'a polled \<times> 'f) \<Rightarrow> nat \<Rightarrow> nat \<Rightarrow> ('f, 'a) job \<Rightarrow> ('f, 'a) job_pool \<Rightarrow> ('f, 'a) job_pool" where
  "execute_job_end poll w duration j s = (case job_run poll j of
     (Complete is_err, j') \<Rightarrow>
       job_complete j' (set_phase w Looping (upd_state (on_job_finished duration (jb_is_future j') is_err) s))
   | (_, j') \<Rightarrow>
       upd_worker w (\<lambda>wk. wk \<lparr> wk_pending_jobs := map_insert (jb_addr j') j' (wk_pending_jobs wk),
         wk_phase := Looping \<rparr>) s)"

definition finish_pending_job ::
  "('f \<Rightarrow> 'a polled \<times> 'f) \<Rightarrow> nat \<Rightarrow> nat \<Rightarrow> ('f, 'a) job_pool \<Rightarrow> ('f, 'a) job_pool" where
  "finish_pending_job poll w addr s = (case map_of (wk_pending_jobs (jp_workers s ! w)) addr of
     None \<Rightarrow> s
   | Some j \<Rightarrow> (case job_run poll j of
       (Complete _, j') \<Rightarrow>
         job_complete j' (upd_worker w (\<lambda>wk. wk \<lparr> wk_pending_jobs := map_remove addr (wk_pending_jobs wk) \<rparr>) s)
     | (_, j') \<Rightarrow> upd_worker w (\<lambda>wk. wk \<lparr> wk_pending_jobs := map_insert addr j' (wk_pending_jobs wk) \<rparr>) s))"

text \<open>The channels on which \<open>poll_work\<close> waits.\<close>

definition takes_jobs :: "('f, 'a) worker \<Rightarrow> bool" where
  "takes_jobs wk = (wk_active wk \<and> length (wk_pending_jobs wk) < wk_concurrency_limit wk)"

definition takes_notifications :: "('f, 'a) worker \<Rightarrow> bool" where
  "takes_notifications wk = (wk_pending_jobs wk \<noteq> [])"

text \<open>Which operation of the selection is ready.  A queue without capacity has no
  elements: its receiver takes the job of a blocked sender.  The sender of the queue of
  immediate jobs is dropped with the pool, when \<open>join\<close> has returned.\<close>

datatype ready = QueueReady | SenderReady nat | ImmediateClosed | NotificationReady | NothingReady

definition queue_closed :: "('f, 'a) job_pool \<Rightarrow> bool" where
  "queue_closed s = (\<not> jp_sender_alive s \<and> jp_waiting_queue s = [])"

definition immediate_closed :: "('f, 'a) job_pool \<Rightarrow> bool" where
  "immediate_closed s = (jp_join s = Joined True \<or> jp_join s = Joined False)"

fun poll_work ::
  "ready \<Rightarrow> nat \<Rightarrow> ('f, 'a) job_pool \<Rightarrow> (('f, 'a) polling_status \<times> ('f, 'a) job_pool) option" where
  "poll_work QueueReady w s =
     (if \<not> takes_jobs (jp_workers s ! w) then None
      else case jp_waiting_queue s of
          j # js \<Rightarrow> Some (New j, s \<lparr> jp_waiting_queue := js \<rparr>)
        | [] \<Rightarrow> if queue_closed s then Some (ShutDown, s) else None)"
| "poll_work (SenderReady i) w s =
     (if takes_jobs (jp_workers s ! w) \<and> jp_queue_limit s = Some 0 \<and> i < length (jp_blocked s)
      then Some (New (jp_blocked s ! i), s \<lparr> jp_blocked := take i (jp_blocked s) @ drop (Suc i) (jp_blocked s) \<rparr>)
      else None)"
| "poll_work ImmediateClosed w s =
     (if takes_jobs (jp_workers s ! w) \<and> immediate_closed s then Some (ShutDown, s) else None)"
| "poll_work NotificationReady w s =
     (case wk_notifications (jp_workers s ! w) of
        addr # addrs \<Rightarrow>
          if takes_notifications (jp_workers s ! w)
          then Some (Unpark addr, upd_worker w (\<lambda>wk. wk \<lparr> wk_notifications := addrs \<rparr>) s)
          else None
      | [] \<Rightarrow> None)"
| "poll_work NothingReady w s =
     (let wk = jp_workers s ! w in
      if takes_jobs wk \<and> (jp_waiting_queue s \<noteq> [] \<or> queue_closed s \<or> immediate_closed s
          \<or> jp_queue_limit s = Some 0 \<and> jp_blocked s \<noteq> []) then None
      else if takes_notifications wk \<and> wk_notifications wk \<noteq> [] then None
      else Some (Timeout, s))"

text \<open>The body of the loop in \<open>Worker::run_job\<close>.\<close>

fun handle_polling ::
  "('f \<Rightarrow> 'a polled \<times> 'f) \<Rightarrow> nat \<Rightarrow> ('f, 'a) polling_status \<Rightarrow> ('f, 'a) job_pool \<Rightarrow> ('f, 'a) job_pool" where
  "handle_polling poll w (New j) s = execute_job_begin w j s"
| "handle_polling poll w (Unpark addr) s = finish_pending_job poll w addr (set_phase w Looping s)"
| "handle_polling poll w ShutDown s = upd_worker w (\<lambda>wk. wk \<lparr> wk_active := False, wk_phase := Looping \<rparr>) s"
| "handle_polling poll w Timeout s =
     set_phase w (if wk_pending_jobs (jp_workers s ! w) = [] then TimedOut else Looping) s"
| "handle_polling poll w Busy s = set_phase w Looping s"

text \<open>The beginning of \<open>Worker::run_job\<close>.\<close>

definition worker_starts :: "nat \<Rightarrow> ('f, 'a) job_pool \<Rightarrow> ('f, 'a) job_pool" where
  "worker_starts w s =
     (let wk = jp_workers s ! w;
          s = upd_worker w (\<lambda>wk. wk \<lparr> wk_active := True, wk_initial_job := None, wk_phase := Looping \<rparr>) s in
      case wk_initial_job wk of Some j \<Rightarrow> execute_job_begin w j s | None \<Rightarrow> s)"

definition worker_idles :: "nat \<Rightarrow> ('f, 'a) job_pool \<Rightarrow> ('f, 'a) job_pool" where
  "worker_idles w s =
     upd_worker w (\<lambda>wk. wk \<lparr> wk_active := (wk_active wk \<and> \<not> on_idle (jp_state s)), wk_phase := Looping \<rparr>) s"

subsection \<open>Submitting jobs\<close>

text \<open>\<open>created\<close> says whether the operating system creates the thread; when it does not,
  the worker is dropped with its job.\<close>

definition spawn_job ::
  "bool \<Rightarrow> ('f, 'a) job option \<Rightarrow> ('f, 'a) job_pool \<Rightarrow> (('f, 'a) job option, unit) result \<times> ('f, 'a) job_pool" where
  "spawn_job created task s =
     (if ps_jobs_count (jp_state s) \<ge> ps_max_jobs (jp_state s) then (Err task, s)
      else
        let s' = upd_state (\<lambda>st. st \<lparr> ps_jobs_count := ps_jobs_count st + 1 \<rparr>) s in
        if created then (Ok (), s' \<lparr> jp_workers := jp_workers s @ [worker_new task (jp_concurrency_limit s)] \<rparr>)
        else (Ok (), listener_drop s'))"

definition has_room :: "('f, 'a) job_pool \<Rightarrow> bool" where
  "has_room s = (case jp_queue_limit s of None \<Rightarrow> True | Some n \<Rightarrow> length (jp_waiting_queue s) < n)"

text \<open>The queue of immediate jobs has no capacity: \<open>try_send\<close> succeeds exactly if a worker
  waits for it, here \<open>receiver\<close>.  Here and in \<open>spawn_workers\<close> the thread of a new worker is
  assumed to be created.\<close>

definition try_execute_job ::
  "nat option \<Rightarrow> ('f, 'a) job \<Rightarrow> ('f, 'a) job_pool \<Rightarrow> (('f, 'a) job, unit) result \<times> ('f, 'a) job_pool" where
  "try_execute_job receiver j s = (case receiver of
     Some w \<Rightarrow> (Ok (), execute_job_begin w j s)
   | None \<Rightarrow> (case spawn_job True (Some j) s of
       (Err (Some j), s') \<Rightarrow>
         if has_room s' then (Ok (), s' \<lparr> jp_waiting_queue := jp_waiting_queue s' @ [j] \<rparr>) else (Err j, s')
     | (_, s') \<Rightarrow> (Ok (), s')))"

definition pool_execute_job :: "nat option \<Rightarrow> ('f, 'a) job \<Rightarrow> ('f, 'a) job_pool \<Rightarrow> ('f, 'a) job_pool" where
  "pool_execute_job receiver j s = (case try_execute_job receiver j s of
     (Err j, s') \<Rightarrow> s' \<lparr> jp_blocked := jp_blocked s' @ [j] \<rparr>
   | (_, s') \<Rightarrow> s')"

definition run_sync_job ::
  "'a thread_result \<Rightarrow> nat \<Rightarrow> nat option \<Rightarrow> ('f, 'a) job_pool \<Rightarrow> ('f, 'a) job_pool" where
  "run_sync_job closure addr receiver s = (case from_closure addr (length (jp_tasks s)) closure of
     (task, j) \<Rightarrow> pool_execute_job receiver j (s \<lparr> jp_tasks := jp_tasks s @ [task] \<rparr>))"

definition run_async_job ::
  "'f \<Rightarrow> nat \<Rightarrow> nat option \<Rightarrow> ('f, 'a) job_pool \<Rightarrow> ('f, 'a) job_pool" where
  "run_async_job fut addr receiver s = (case from_future addr (length (jp_tasks s)) fut of
     (task, j) \<Rightarrow> pool_execute_job receiver j (s \<lparr> jp_tasks := jp_tasks s @ [task] \<rparr>))"

text \<open>A blocked \<open>send\<close> goes through when the queue has room.\<close>

definition send_unblocks :: "nat \<Rightarrow> ('f, 'a) job_pool \<Rightarrow> ('f, 'a) job_pool" where
  "send_unblocks i s =
     s \<lparr> jp_blocked := take i (jp_blocked s) @ drop (Suc i) (jp_blocked s),
         jp_waiting_queue := jp_waiting_queue s @ [jp_blocked s ! i] \<rparr>"

text \<open>The two branches of \<open>JobPool::join_deadline\<close>.\<close>

definition pool_join_deadline :: "bool \<Rightarrow> ('f, 'a) job_pool \<Rightarrow> ('f, 'a) job_pool" where
  "pool_join_deadline timed s =
     s \<lparr> jp_sender_alive := False,
         jp_join := (if \<not> timed then JoinWaits
           else if ps_jobs_count (jp_state s) > 0 then TimedJoinWaits else Joined True) \<rparr>"

definition poll_task :: "nat \<Rightarrow> nat \<Rightarrow> ('f, 'a) job_pool \<Rightarrow> ('f, 'a) job_pool" where
  "poll_task t wk s = (case task_poll wk (jp_tasks s ! t) of
     (r, st) \<Rightarrow> s \<lparr> jp_tasks := (jp_tasks s)[t := st],
       jp_returned := jp_returned s @ (case r of Some r \<Rightarrow> [(t, r)] | None \<Rightarrow> []) \<rparr>)"

subsection \<open>Building a pool\<close>

fun spawn_workers :: "nat \<Rightarrow> ('f, 'a) job_pool \<Rightarrow> ('f, 'a) job_pool" where
  "spawn_workers 0 s = s"
| "spawn_workers (Suc n) s = spawn_workers n (snd (spawn_job True None s))"

definition pool_build :: "pool_builder \<Rightarrow> ('f, 'a) job_pool" where
  "pool_build b =
     (let sz = (case plb_size b of Some sz \<Rightarrow> sz | None \<Rightarrow> (1, 4)) in
      spawn_workers (fst sz)
        \<lparr> jp_stack_size = plb_stack_size b, jp_concurrency_limit = plb_concurrent_jobs_limit b,
          jp_queue_limit = plb_job_queue_size b, jp_waiting_queue = [], jp_sender_alive = True, jp_blocked = [],
          jp_state = \<lparr> ps_min_jobs = fst sz, ps_max_jobs = snd sz, ps_jobs_count = 0, ps_running_jobs_count = 0,
            ps_keep_alive = plb_keep_alive b,
            ps_no_of_task_time_to_track = plb_no_completed_tasks_to_track b, ps_tasks_completion_time = [] \<rparr>,
          jp_workers = [], jp_tasks = [], jp_woken = [], jp_returned = [], jp_join = NotJoined \<rparr>)"

subsection \<open>The pool as a system of steps\<close>

definition worker_jobs :: "('f, 'a) worker \<Rightarrow> ('f, 'a) job list" where
  "worker_jobs wk =
     (case wk_initial_job wk of Some j \<Rightarrow> [j] | None \<Rightarrow> []) @ vals (wk_pending_jobs wk)
     @ (case wk_phase wk of Executing j \<Rightarrow> [j] | _ \<Rightarrow> [])"

definition live_jobs :: "('f, 'a) job_pool \<Rightarrow> ('f, 'a) job list" where
  "live_jobs s = jp_waiting_queue s @ jp_blocked s @ concat (map worker_jobs (jp_workers s))"

text \<open>The receivers that a submission finds waiting.\<close>

definition waiting_workers :: "('f, 'a) job_pool \<Rightarrow> nat list" where
  "waiting_workers s =
     filter (\<lambda>w. in_phase s w Selecting \<and> takes_jobs (jp_workers s ! w)) [0..<length (jp_workers s)]"

definition may_submit :: "nat \<Rightarrow> nat option \<Rightarrow> ('f, 'a) job_pool \<Rightarrow> bool" where
  "may_submit addr receiver s =
     (jp_join s = NotJoined \<and> addr \<notin> set (map jb_addr (live_jobs s))
      \<and> (case receiver of Some w \<Rightarrow> w \<in> set (waiting_workers s) | None \<Rightarrow> waiting_workers s = []))"

datatype ('f, 'a) pool_action =
    RunSync "'a thread_result" nat "nat option"
  | RunAsync 'f nat "nat option"
  | SendUnblocks nat
  | WorkerStarts nat
  | WorkerSelects nat
  | WorkerPolls nat ready
  | WorkerIdles nat
  | WorkerEnds nat nat
  | WorkerExits nat
  | Wake nat nat
  | PollTask nat nat
  | JoinPool bool
  | JoinGivesUp

fun pool_do ::
  "('f \<Rightarrow> 'a polled \<times> 'f) \<Rightarrow> ('f, 'a) pool_action \<Rightarrow> ('f, 'a) job_pool \<Rightarrow> ('f, 'a) job_pool option" where
  "pool_do poll (RunSync closure addr receiver) s =
     (if may_submit addr receiver s then Some (run_sync_job closure addr receiver s) else None)"
| "pool_do poll (RunAsync fut addr receiver) s =
     (if may_submit addr receiver s then Some (run_async_job fut addr receiver s) else None)"
| "pool_do poll (SendUnblocks i) s =
     (if i < length (jp_blocked s) \<and> has_room s then Some (send_unblocks i s) else None)"
| "pool_do poll (WorkerStarts w) s = (if in_phase s w Spawned then Some (worker_starts w s) else None)"
| "pool_do poll (WorkerSelects w) s =
     (if in_phase s w Looping \<and> (wk_active (jp_workers s ! w) \<or> wk_pending_jobs (jp_workers s ! w) \<noteq> [])
      then Some (set_phase w Selecting s) else None)"
| "pool_do poll (WorkerPolls w r) s =
     (if in_phase s w Selecting then
        (case poll_work r w s of Some (st, s') \<Rightarrow> Some (handle_polling poll w st s') | None \<Rightarrow> None)
      else None)"
| "pool_do poll (WorkerIdles w) s = (if in_phase s w TimedOut then Some (worker_idles w s) else None)"
| "pool_do poll (WorkerEnds w duration) s =
     (if w < length (jp_workers s) then
        (case wk_phase (jp_workers s ! w) of
           Executing j \<Rightarrow> Some (execute_job_end poll w duration j s)
         | _ \<Rightarrow> None)
      else None)"
| "pool_do poll (WorkerExits w) s =
     (if in_phase s w Looping \<and> \<not> wk_active (jp_workers s ! w) \<and> wk_pending_jobs (jp_workers s ! w) = []
      then Some (listener_drop (set_phase w Stopped s)) else None)"
| "pool_do poll (Wake w addr) s =
     (if w < length (jp_workers s) \<and> wk_phase (jp_workers s ! w) \<noteq> Stopped
      then Some (upd_worker w (\<lambda>wk. wk \<lparr> wk_notifications := wk_notifications wk @ [addr] \<rparr>) s) else None)"
| "pool_do poll (PollTask t wk) s = (if t < length (jp_tasks s) then Some (poll_task t wk s) else None)"
| "pool_do poll (JoinPool timed) s =
     (if jp_join s = NotJoined \<and> jp_blocked s = [] then Some (pool_join_deadline timed s) else None)"
| "pool_do poll JoinGivesUp s =
     (case jp_join s of
        JoinWaits \<Rightarrow> Some (s \<lparr> jp_join := Joined True \<rparr>)
      | TimedJoinWaits \<Rightarrow> Some (s \<lparr> jp_join := Joined False \<rparr>)
      | _ \<Rightarrow> None)"

text \<open>\<open>JoinGivesUp\<close> is the end of the timed wait, and for the untimed one a wake-up without
  a notification, which condition variables may have.\<close>

fun pool_run ::
  "('f \<Rightarrow> 'a polled \<times> 'f) \<Rightarrow> ('f, 'a) pool_action list \<Rightarrow> ('f, 'a) job_pool \<Rightarrow> ('f, 'a) job_pool option" where
  "pool_run poll [] s = Some s"
| "pool_run poll (a # as) s = (case pool_do poll a s of Some s' \<Rightarrow> pool_run poll as s' | None \<Rightarrow> None)"

subsection \<open>Sums over the workers\<close>

lemma sum_list_map_update:
  fixes f :: "'a \<Rightarrow> 'b::comm_monoid_add"
  shows "k < length xs \<Longrightarrow> sum_list (map f (xs[k := v])) + f (xs ! k) = sum_list (map f xs) + f v"
proof (induction xs arbitrary: k)
  case (Cons x xs)
  then show ?case by (cases k) (auto simp: ac_simps)
qed simp

text \<open>What identifies a job: its address, its task and the closure it has not run yet.\<close>

fun job_closure :: "('f, 'a) job_poller \<Rightarrow> 'a thread_result option" where
  "job_closure (SyncJobPoller c _ _) = c"
| "job_closure (AsyncJobPoller _ _ _) = None"

definition job_tag :: "('f, 'a) job \<Rightarrow> nat \<times> nat \<times> 'a thread_result option" where
  "job_tag j = (jb_addr j, job_task j, job_closure (jb_poller j))"

definition worker_tags :: "('f, 'a) worker \<Rightarrow> (nat \<times> nat \<times> 'a thread_result option) multiset" where
  "worker_tags wk = image_mset job_tag (mset (worker_jobs wk))"

definition live_tags :: "('f, 'a) job_pool \<Rightarrow> (nat \<times> nat \<times> 'a thread_result option) multiset" where
  "live_tags s = image_mset job_tag (mset (jp_waiting_queue s)) + image_mset job_tag (mset (jp_blocked s))
     + sum_list (map worker_tags (jp_workers s))"

lemma live_tags_live_jobs: "live_tags s = image_mset job_tag (mset (live_jobs s))"
proof -
  have "sum_list (map worker_tags ws) = image_mset job_tag (mset (concat (map worker_jobs ws)))" for ws :: "('f, 'a) worker list"
    by (induction ws) (simp_all add: worker_tags_def)
  then show ?thesis by (simp add: live_tags_def live_jobs_def)
qed

fun is_executing :: "('f, 'a) phase \<Rightarrow> bool" where
  "is_executing (Executing _) = True"
| "is_executing _ = False"

definition live_workers :: "('f, 'a) job_pool \<Rightarrow> nat" where
  "live_workers s = (\<Sum>wk\<leftarrow>jp_workers s. if wk_phase wk = Stopped then 0 else 1)"

definition executing_workers :: "('f, 'a) job_pool \<Rightarrow> nat" where
  "executing_workers s = (\<Sum>wk\<leftarrow>jp_workers s. if is_executing (wk_phase wk) then 1 else 0)"

definition job_ok :: "('f, 'a) job \<Rightarrow> bool" where
  "job_ok j = (case jb_poller j of
     SyncJobPoller c _ _ \<Rightarrow> \<not> jb_is_future j \<and> c \<noteq> None
   | AsyncJobPoller _ _ _ \<Rightarrow> jb_is_future j)"

lemma job_run_cases:
  assumes "job_ok j" "job_run poll j = (st, j')"
  obtains (complete) e r where "st = Complete e" "poller_result (jb_poller j') = Some r"
      "\<And>c. job_closure (jb_poller j) = Some c \<Longrightarrow> r = c" "job_task j' = job_task j"
  | (yield) "st = Yield" "job_tag j' = job_tag j" "jb_addr j' = jb_addr j" "jb_is_future j'" "job_ok j'"
proof (cases "jb_poller j")
  case (SyncJobPoller c r t)
  then obtain x where "c = Some x" using assms(1) by (auto simp: job_ok_def)
  then show ?thesis using SyncJobPoller assms(2) by (auto simp: job_run_def intro: complete)
next
  case (AsyncJobPoller fut r t)
  then have "jb_is_future j" using assms(1) by (simp add: job_ok_def)
  obtain ans fut' where ans: "poll fut = (ans, fut')" by (cases "poll fut")
  show ?thesis
  proof (cases ans)
    case PollPending
    then show ?thesis using AsyncJobPoller assms(2) ans \<open>jb_is_future j\<close>
      by (auto simp: job_run_def job_tag_def job_ok_def intro!: yield)
  next
    case (PollReady v)
    then show ?thesis using AsyncJobPoller assms(2) ans by (auto simp: job_run_def intro!: complete)
  next
    case (PollPanics e)
    then show ?thesis using AsyncJobPoller assms(2) ans by (auto simp: job_run_def intro!: complete)
  qed
qed

definition worker_ok :: "nat \<Rightarrow> ('f, 'a) worker \<Rightarrow> bool" where
  "worker_ok limit wk \<longleftrightarrow> wk_concurrency_limit wk = limit
     \<and> wf_map (wk_pending_jobs wk)
     \<and> (\<forall>(a, j)\<in>set (wk_pending_jobs wk). jb_addr j = a)
     \<and> (\<forall>j\<in>set (worker_jobs wk). job_ok j)
     \<and> length (wk_pending_jobs wk) \<le> max 1 limit
     \<and> (is_executing (wk_phase wk) \<longrightarrow> length (wk_pending_jobs wk) < max 1 limit)
     \<and> (wk_phase wk \<noteq> Spawned \<longrightarrow> wk_initial_job wk = None)
     \<and> (wk_phase wk \<in> {Spawned, Stopped} \<longrightarrow> wk_pending_jobs wk = [])"

subsection \<open>The bookkeeping of tasks\<close>

text \<open>History variables: the closure of every submission, \<open>None\<close> for a future, and how
  many jobs have not completed when they were first run.\<close>

record 'a pool_history =
  ph_bodies :: "'a thread_result option list"
  ph_yielded :: nat

type_synonym 'a tags = "(nat \<times> nat \<times> 'a thread_result option) multiset"

definition stored :: "'a task_status list \<Rightarrow> nat \<Rightarrow> nat" where
  "stored ts t = (if t < length ts \<and> is_finished (ts ! t) then 1 else 0)"

text \<open>Every task has exactly one of these: a live job, a stored result, a result handed
  out.  Results of closures are what the closures returned, and no waker is forgotten.\<close>

definition each_once :: "'a tags \<Rightarrow> 'a task_status list \<Rightarrow> (nat \<times> 'a thread_result) list \<Rightarrow> bool" where
  "each_once T ts ret = (\<forall>t. count (image_mset (fst \<circ> snd) T) t + stored ts t + count_list (map fst ret) t
     = (if t < length ts then 1 else 0))"

definition results_right ::
  "'a thread_result option list \<Rightarrow> 'a task_status list \<Rightarrow> (nat \<times> 'a thread_result) list \<Rightarrow> bool" where
  "results_right bodies ts ret =
     ((\<forall>t<length ts. \<forall>c r. bodies ! t = Some c \<and> ts_result (ts ! t) = Some r \<longrightarrow> r = c)
      \<and> (\<forall>(t, r)\<in>set ret. t < length ts \<and> (\<forall>c. bodies ! t = Some c \<longrightarrow> r = c)))"

definition waiters_woken :: "'a task_status list \<Rightarrow> nat list \<Rightarrow> bool" where
  "waiters_woken ts woken =
     (\<forall>t<length ts. \<forall>wk. is_finished (ts ! t) \<and> ts_waker (ts ! t) = Some wk \<longrightarrow> wk \<in> set woken)"

definition tasks_inv ::
  "'a thread_result option list \<Rightarrow> 'a tags \<Rightarrow> 'a task_status list \<Rightarrow> (nat \<times> 'a thread_result) list \<Rightarrow> nat list \<Rightarrow> bool" where
  "tasks_inv bodies T ts ret woken \<longleftrightarrow> length bodies = length ts
     \<and> (\<forall>a. count (image_mset fst T) a \<le> 1)
     \<and> (\<forall>(a, t, c)\<in>set_mset T. t < length ts \<and> c = bodies ! t)
     \<and> each_once T ts ret \<and> results_right bodies ts ret \<and> waiters_woken ts woken"

lemma tasks_inv_submit:
  assumes "tasks_inv bodies T ts ret woken" "addr \<notin># image_mset fst T"
  shows "tasks_inv (bodies @ [c]) (add_mset (addr, length ts, c) T) (ts @ [create_pending_task]) ret woken"
proof -
  from assms have *: "length bodies = length ts" "\<forall>a. count (image_mset fst T) a \<le> 1"
    "\<forall>(a, t, c)\<in>set_mset T. t < length ts \<and> c = bodies ! t"
    "each_once T ts ret" "results_right bodies ts ret" "waiters_woken ts woken"
    by (simp_all add: tasks_inv_def)
  have "stored (ts @ [create_pending_task]) t = stored ts t" for t
    by (auto simp: stored_def nth_append create_pending_task_def is_finished_def)
  then have "each_once (add_mset (addr, length ts, c) T) (ts @ [create_pending_task]) ret"
    using *(4) unfolding each_once_def by (auto simp: less_Suc_eq split: if_splits)
  moreover have "results_right (bodies @ [c]) (ts @ [create_pending_task]) ret"
    using *(1,5) unfolding results_right_def
    by (fastforce simp: nth_append create_pending_task_def less_Suc_eq)
  moreover have "waiters_woken (ts @ [create_pending_task]) woken"
    using *(6) by (auto simp: waiters_woken_def nth_append create_pending_task_def)
  moreover have "\<forall>a. count (image_mset fst (add_mset (addr, length ts, c) T)) a \<le> 1"
    using *(2) assms(2) [unfolded not_in_iff] by simp
  moreover have "\<forall>(a, t, c')\<in>set_mset (add_mset (addr, length ts, c) T).
      t < length (ts @ [create_pending_task]) \<and> c' = (bodies @ [c]) ! t"
    using *(1,3) by (fastforce simp: nth_append)
  ultimately show ?thesis using *(1) by (simp add: tasks_inv_def)
qed

definition wakers_of :: "'a task_status \<Rightarrow> nat list" where
  "wakers_of st = (case ts_waker st of Some wk \<Rightarrow> [wk] | None \<Rightarrow> [])"

lemma tasks_inv_complete:
  assumes "tasks_inv bodies (add_mset (addr, t, c) T) ts ret woken" "\<And>x. c = Some x \<Longrightarrow> r = x"
  shows "tasks_inv bodies T (ts[t := (ts ! t) \<lparr> ts_result := Some r \<rparr>]) ret (woken @ wakers_of (ts ! t))"
proof -
  from assms(1) have *: "length bodies = length ts" "t < length ts" "c = bodies ! t"
    "each_once (add_mset (addr, t, c) T) ts ret" "results_right bodies ts ret" "waiters_woken ts woken"
    "\<forall>(a, t, c)\<in>set_mset T. t < length ts \<and> c = bodies ! t"
    by (auto simp: tasks_inv_def)
  from assms(1) have le: "count (image_mset fst (add_mset (addr, t, c) T)) a \<le> 1" for a
    unfolding tasks_inv_def by blast
  have addrs: "count (image_mset fst T) a \<le> 1" for a
    using le [of a] by (simp split: if_splits)
  let ?ts = "ts[t := (ts ! t) \<lparr> ts_result := Some r \<rparr>]"
  have once: "count (image_mset (fst \<circ> snd) T) u + (if u = t then 1 else 0) + stored ts u + count_list (map fst ret) u
      = (if u < length ts then 1 else 0)" for u
    using *(4) [unfolded each_once_def, rule_format, of u] by (cases "u = t") (auto split: if_splits)
  have "stored ?ts u = (if u = t then 1 else stored ts u)" for u
    using *(2) by (auto simp: stored_def is_finished_def nth_list_update)
  moreover have "stored ts t = 0" using once [of t] *(2) by simp
  ultimately have "each_once T ?ts ret"
    unfolding each_once_def by (auto simp: once [symmetric])
  moreover have "results_right bodies ?ts ret"
    using *(2,3,5) assms(2) by (auto simp: results_right_def nth_list_update)
  moreover have "waiters_woken ?ts (woken @ wakers_of (ts ! t))"
    using *(2,6) by (auto simp: waiters_woken_def wakers_of_def nth_list_update)
  ultimately show ?thesis using *(1,7) addrs by (simp add: tasks_inv_def)
qed

lemma tasks_inv_poll:
  assumes "tasks_inv bodies T ts ret woken" "t < length ts" "task_poll wk (ts ! t) = (r, st)"
  shows "tasks_inv bodies T (ts[t := st]) (ret @ (case r of Some r \<Rightarrow> [(t, r)] | None \<Rightarrow> [])) woken"
proof -
  from assms(1) have *: "length bodies = length ts" "\<forall>a. count (image_mset fst T) a \<le> 1"
    "\<forall>(a, t, c)\<in>set_mset T. t < length ts \<and> c = bodies ! t"
    "each_once T ts ret" "results_right bodies ts ret" "waiters_woken ts woken"
    by (simp_all add: tasks_inv_def)
  let ?ret = "ret @ (case r of Some r \<Rightarrow> [(t, r)] | None \<Rightarrow> [])"
  have "stored (ts[t := st]) u + count_list (map fst ?ret) u = stored ts u + count_list (map fst ret) u" for u
    using assms(2,3)
    by (auto simp: stored_def is_finished_def task_poll_def nth_list_update split: option.splits)
  then have "each_once T (ts[t := st]) ?ret"
    using *(4) by (simp add: each_once_def add.assoc del: map_append)
  moreover have "results_right bodies (ts[t := st]) ?ret"
    using *(5) assms(2,3) by (auto simp: results_right_def task_poll_def nth_list_update split: option.splits)
  moreover have "waiters_woken (ts[t := st]) woken"
    using *(6) assms(2,3)
    by (auto simp: waiters_woken_def task_poll_def is_finished_def nth_list_update split: option.splits)
  ultimately show ?thesis using *(1,2,3) by (simp add: tasks_inv_def)
qed

subsection \<open>The invariant of a pool\<close>

text \<open>\<open>X\<close> has the tag of the job that a step holds in its hands, between taking it from one
  place and putting it into another.\<close>

definition queue_fits :: "('f, 'a) job_pool \<Rightarrow> bool" where
  "queue_fits s = (\<forall>n. jp_queue_limit s = Some n \<longrightarrow> length (jp_waiting_queue s) \<le> n)"

definition jobs_inv :: "'a pool_history \<Rightarrow> 'a tags \<Rightarrow> ('f, 'a) job_pool \<Rightarrow> bool" where
  "jobs_inv h X s \<longleftrightarrow> (\<forall>wk\<in>set (jp_workers s). worker_ok (jp_concurrency_limit s) wk)
     \<and> (\<forall>j\<in>set (jp_waiting_queue s) \<union> set (jp_blocked s). job_ok j)
     \<and> queue_fits s
     \<and> ps_jobs_count (jp_state s) = live_workers s \<and> live_workers s \<le> ps_max_jobs (jp_state s)
     \<and> ps_running_jobs_count (jp_state s) = of_nat (executing_workers s + ph_yielded h)
     \<and> length (ps_tasks_completion_time (jp_state s)) \<le> ps_no_of_task_time_to_track (jp_state s) + 1
     \<and> tasks_inv (ph_bodies h) (live_tags s + X) (jp_tasks s) (jp_returned s) (jp_woken s)"

definition alive :: "('f, 'a) worker \<Rightarrow> nat" where
  "alive wk = (if wk_phase wk = Stopped then 0 else 1)"

definition busy :: "('f, 'a) worker \<Rightarrow> nat" where
  "busy wk = (if is_executing (wk_phase wk) then 1 else 0)"

lemma upd_worker_fields [simp]:
  "jp_concurrency_limit (upd_worker w f s) = jp_concurrency_limit s"
  "jp_queue_limit (upd_worker w f s) = jp_queue_limit s"
  "jp_waiting_queue (upd_worker w f s) = jp_waiting_queue s"
  "jp_blocked (upd_worker w f s) = jp_blocked s"
  "jp_sender_alive (upd_worker w f s) = jp_sender_alive s"
  "jp_state (upd_worker w f s) = jp_state s"
  "jp_tasks (upd_worker w f s) = jp_tasks s"
  "jp_woken (upd_worker w f s) = jp_woken s"
  "jp_returned (upd_worker w f s) = jp_returned s"
  "jp_join (upd_worker w f s) = jp_join s"
  "queue_fits (upd_worker w f s) = queue_fits s"
  "length (jp_workers (upd_worker w f s)) = length (jp_workers s)"
  by (simp_all add: upd_worker_def queue_fits_def)

lemma upd_worker_sums:
  assumes "w < length (jp_workers s)"
  shows "live_tags (upd_worker w f s) + worker_tags (jp_workers s ! w) = live_tags s + worker_tags (f (jp_workers s ! w))"
    and "live_workers (upd_worker w f s) + alive (jp_workers s ! w) = live_workers s + alive (f (jp_workers s ! w))"
    and "executing_workers (upd_worker w f s) + busy (jp_workers s ! w) = executing_workers s + busy (f (jp_workers s ! w))"
  using sum_list_map_update [OF assms, of worker_tags "f (jp_workers s ! w)"]
    sum_list_map_update [OF assms, of alive "f (jp_workers s ! w)"]
    sum_list_map_update [OF assms, of busy "f (jp_workers s ! w)"]
  by (simp_all add: live_tags_def live_workers_def executing_workers_def upd_worker_def ac_simps
      alive_def [abs_def] busy_def [abs_def])

lemma upd_state_fields [simp]:
  "jp_concurrency_limit (upd_state f s) = jp_concurrency_limit s"
  "jp_queue_limit (upd_state f s) = jp_queue_limit s"
  "jp_waiting_queue (upd_state f s) = jp_waiting_queue s"
  "jp_blocked (upd_state f s) = jp_blocked s"
  "jp_workers (upd_state f s) = jp_workers s"
  "jp_state (upd_state f s) = f (jp_state s)"
  "jp_tasks (upd_state f s) = jp_tasks s"
  "jp_woken (upd_state f s) = jp_woken s"
  "jp_returned (upd_state f s) = jp_returned s"
  "queue_fits (upd_state f s) = queue_fits s"
  "live_tags (upd_state f s) = live_tags s"
  "live_workers (upd_state f s) = live_workers s"
  "executing_workers (upd_state f s) = executing_workers s"
  by (simp_all add: upd_state_def queue_fits_def live_tags_def live_workers_def executing_workers_def)

lemma jobs_inv_worker:
  assumes "jobs_inv h X s" "w < length (jp_workers s)"
  shows "worker_ok (jp_concurrency_limit s) (jp_workers s ! w)"
  using assms by (simp add: jobs_inv_def)

text \<open>A change of one worker, with the jobs it gives away and receives.\<close>

lemma jobs_inv_upd_worker:
  assumes inv: "jobs_inv h X s" and w: "w < length (jp_workers s)"
    and ok: "worker_ok (jp_concurrency_limit s) (f (jp_workers s ! w))"
    and tags: "worker_tags (jp_workers s ! w) + X = worker_tags (f (jp_workers s ! w)) + Y"
    and alive: "alive (f (jp_workers s ! w)) = alive (jp_workers s ! w)"
    and busy: "busy (jp_workers s ! w) + ph_yielded h = busy (f (jp_workers s ! w)) + ph_yielded h'"
    and bodies: "ph_bodies h' = ph_bodies h"
  shows "jobs_inv h' Y (upd_worker w f s)"
proof -
  note sums = upd_worker_sums [OF w, of f]
  have "(live_tags (upd_worker w f s) + Y) + worker_tags (jp_workers s ! w)
      = live_tags (upd_worker w f s) + worker_tags (jp_workers s ! w) + Y"
    by (simp only: ac_simps)
  also have "\<dots> = live_tags s + (worker_tags (f (jp_workers s ! w)) + Y)"
    by (simp only: sums(1) add.assoc)
  also have "\<dots> = (live_tags s + X) + worker_tags (jp_workers s ! w)"
    by (simp only: tags [symmetric]) (simp only: ac_simps)
  finally have "live_tags (upd_worker w f s) + Y = live_tags s + X" by simp
  moreover have "live_workers (upd_worker w f s) = live_workers s" using sums(2) alive by simp
  moreover have "executing_workers (upd_worker w f s) + ph_yielded h' = executing_workers s + ph_yielded h"
    using sums(3) busy by linarith
  moreover have "\<forall>wk\<in>set (jp_workers (upd_worker w f s)). worker_ok (jp_concurrency_limit s) wk"
    using inv ok set_update_subset_insert [of "jp_workers s" w] by (fastforce simp: jobs_inv_def upd_worker_def)
  ultimately show ?thesis using inv bodies by (simp add: jobs_inv_def del: of_nat_add)
qed

lemmas worker_simps = worker_ok_def worker_tags_def worker_jobs_def alive_def busy_def

lemma jobs_inv_quiet:
  assumes "jobs_inv h X s" "w < length (jp_workers s)"
    and "worker_ok (jp_concurrency_limit s) (f (jp_workers s ! w))"
    and "worker_tags (f (jp_workers s ! w)) = worker_tags (jp_workers s ! w)"
    and "alive (f (jp_workers s ! w)) = alive (jp_workers s ! w)" "busy (f (jp_workers s ! w)) = busy (jp_workers s ! w)"
  shows "jobs_inv h X (upd_worker w f s)"
  by (rule jobs_inv_upd_worker [where h = h and X = X]) (simp_all add: assms)

text \<open>Steps of one worker that move no job.\<close>

definition at_rest :: "('f, 'a) phase \<Rightarrow> bool" where
  "at_rest ph = (ph \<in> {Looping, Selecting, TimedOut})"

lemma at_rest_simps:
  assumes "at_rest ph"
  shows "is_executing ph = False" "ph \<noteq> Spawned" "ph \<noteq> Stopped"
    "(case ph of Executing j \<Rightarrow> [j] | _ \<Rightarrow> []) = []"
  using assms by (auto simp: at_rest_def)

definition same_jobs :: "('f, 'a) worker \<Rightarrow> ('f, 'a) worker \<Rightarrow> bool" where
  "same_jobs wk wk' = (wk_concurrency_limit wk' = wk_concurrency_limit wk \<and> wk_initial_job wk' = wk_initial_job wk
     \<and> wk_pending_jobs wk' = wk_pending_jobs wk)"

lemma worker_rests:
  assumes "worker_ok limit wk" "at_rest (wk_phase wk)" "at_rest (wk_phase wk')" "same_jobs wk wk'"
  shows "worker_ok limit wk'" "worker_tags wk' = worker_tags wk" "alive wk' = alive wk" "busy wk' = busy wk"
  using assms(1,4)
  by (simp_all add: same_jobs_def worker_simps at_rest_simps [OF assms(2)] at_rest_simps [OF assms(3)])

lemma jobs_inv_at_rest:
  assumes "jobs_inv h X s" "w < length (jp_workers s)" "at_rest (wk_phase (jp_workers s ! w))"
    and "at_rest (wk_phase (f (jp_workers s ! w)))" "same_jobs (jp_workers s ! w) (f (jp_workers s ! w))"
  shows "jobs_inv h X (upd_worker w f s)"
  using worker_rests [OF jobs_inv_worker [OF assms(1,2)] assms(3-5)]
  by (intro jobs_inv_quiet [OF assms(1,2)])

lemma jobs_inv_notify:
  assumes "jobs_inv h X s" "w < length (jp_workers s)"
  shows "jobs_inv h X (upd_worker w (\<lambda>wk. wk \<lparr> wk_notifications := g wk \<rparr>) s)"
  using jobs_inv_worker [OF assms] by (intro jobs_inv_quiet assms) (simp_all add: worker_simps)

text \<open>The counter of running jobs and the completion times.\<close>

lemma jobs_inv_state:
  assumes "jobs_inv h X s" "ps_jobs_count (f (jp_state s)) = ps_jobs_count (jp_state s)"
    and "ps_max_jobs (f (jp_state s)) = ps_max_jobs (jp_state s)"
    and "ps_running_jobs_count (f (jp_state s)) = of_nat (executing_workers s + ph_yielded h')"
    and "length (ps_tasks_completion_time (f (jp_state s))) \<le> ps_no_of_task_time_to_track (f (jp_state s)) + 1"
    and "ph_bodies h' = ph_bodies h"
  shows "jobs_inv h' X (upd_state f s)"
  using assms by (simp add: jobs_inv_def del: of_nat_add)

lemma jobs_inv_running:
  "jobs_inv h X s \<Longrightarrow> ps_running_jobs_count (jp_state s) = of_nat (executing_workers s + ph_yielded h)"
  "jobs_inv h X s \<Longrightarrow>
     length (ps_tasks_completion_time (jp_state s)) \<le> ps_no_of_task_time_to_track (jp_state s) + 1"
  by (simp_all add: jobs_inv_def)

lemma jobs_inv_started:
  assumes "jobs_inv h X s"
  shows "jobs_inv (h \<lparr> ph_yielded := Suc (ph_yielded h) \<rparr>) X (upd_state on_job_started s)"
  using jobs_inv_running [OF assms] by (intro jobs_inv_state [OF assms]) (simp_all add: on_job_started_def)

lemma on_job_finished_fields:
  "ps_jobs_count (on_job_finished d a e st) = ps_jobs_count st"
  "ps_max_jobs (on_job_finished d a e st) = ps_max_jobs st"
  "ps_no_of_task_time_to_track (on_job_finished d a e st) = ps_no_of_task_time_to_track st"
  "ps_running_jobs_count (on_job_finished d a e st) = ps_running_jobs_count st - 1"
  by (simp_all add: on_job_finished_def Let_def)

lemma on_job_finished_times:
  "length (ps_tasks_completion_time st) \<le> ps_no_of_task_time_to_track st + 1 \<Longrightarrow>
     length (ps_tasks_completion_time (on_job_finished d a e st)) \<le> ps_no_of_task_time_to_track st + 1"
  by (auto simp: on_job_finished_def Let_def)

lemma jobs_inv_finished:
  assumes "jobs_inv (h \<lparr> ph_yielded := Suc (ph_yielded h) \<rparr>) X s"
  shows "jobs_inv h X (upd_state (on_job_finished d is_async e) s)"
  using jobs_inv_running [OF assms]
  by (intro jobs_inv_state [OF assms]) (simp_all add: on_job_finished_fields on_job_finished_times [simplified])

lemma set_phase_upd_state: "set_phase w ph (upd_state f s) = upd_state f (set_phase w ph s)"
  by (simp add: set_phase_def upd_worker_def upd_state_def)

lemma job_tag_waker [simp]: "job_tag (j \<lparr> jb_waker := x \<rparr>) = job_tag j"
  by (simp add: job_tag_def)

lemma job_ok_waker [simp]: "job_ok (j \<lparr> jb_waker := x \<rparr>) = job_ok j"
  by (simp add: job_ok_def split: job_poller.split)

lemma worker_begins:
  assumes "worker_ok limit wk" "at_rest (wk_phase wk)" "job_ok j" "length (wk_pending_jobs wk) < max 1 limit"
  shows "worker_ok limit (wk \<lparr> wk_phase := Executing j \<rparr>)"
    and "worker_tags (wk \<lparr> wk_phase := Executing j \<rparr>) = add_mset (job_tag j) (worker_tags wk)"
    and "alive (wk \<lparr> wk_phase := Executing j \<rparr>) = alive wk"
    and "busy (wk \<lparr> wk_phase := Executing j \<rparr>) = Suc (busy wk)"
  using assms(1,3,4) by (simp_all add: worker_simps at_rest_simps [OF assms(2)])

lemma jobs_inv_begin:
  assumes "jobs_inv h {#job_tag j#} s" "w < length (jp_workers s)" "at_rest (wk_phase (jp_workers s ! w))"
    and "job_ok j" "length (wk_pending_jobs (jp_workers s ! w)) < max 1 (jp_concurrency_limit s)"
  shows "jobs_inv h {#} (execute_job_begin w j s)"
proof -
  define k where "k = (if jb_is_future j then j \<lparr> jb_waker := Some (w, jb_addr j) \<rparr> else j)"
  have k: "job_ok k" "job_tag k = job_tag j" using assms(4) by (simp_all add: k_def)
  note begins = worker_begins [OF jobs_inv_worker [OF assms(1,2)] assms(3) k(1) assms(5)]
  have "jobs_inv h {#} (set_phase w (Executing k) (upd_state on_job_started s))"
    unfolding set_phase_def
    by (rule jobs_inv_upd_worker [OF jobs_inv_started [OF assms(1)]]) (simp_all add: begins assms(2) k(2))
  then show ?thesis by (simp add: execute_job_begin_def k_def)
qed

lemma jobs_inv_complete:
  assumes "jobs_inv h {#job_tag j#} s" "poller_result (jb_poller j') = Some r"
    and "\<And>c. job_closure (jb_poller j) = Some c \<Longrightarrow> r = c" "job_task j' = job_task j"
  shows "jobs_inv h {#} (job_complete j' s)"
proof -
  have eq: "job_complete j' s = s \<lparr>
      jp_tasks := (jp_tasks s)[job_task j := (jp_tasks s ! job_task j) \<lparr> ts_result := Some r \<rparr>],
      jp_woken := jp_woken s @ wakers_of (jp_tasks s ! job_task j) \<rparr>" (is "_ = ?s")
    using assms(2,4) by (simp add: job_complete_def poller_complete_def wakers_of_def Let_def)
  have views: "live_tags ?s = live_tags s" "live_workers ?s = live_workers s"
    "executing_workers ?s = executing_workers s" "queue_fits ?s = queue_fits s"
    by (simp_all add: live_tags_def live_workers_def executing_workers_def queue_fits_def)
  have "tasks_inv (ph_bodies h) (add_mset (jb_addr j, job_task j, job_closure (jb_poller j)) (live_tags s))
      (jp_tasks s) (jp_returned s) (jp_woken s)"
    using assms(1) by (simp add: jobs_inv_def job_tag_def)
  from tasks_inv_complete [OF this assms(3)] show ?thesis
    unfolding eq using assms(1) by (simp add: jobs_inv_def views)
qed

lemma worker_tags_live: "w < length (jp_workers s) \<Longrightarrow> worker_tags (jp_workers s ! w) \<subseteq># live_tags s"
  by (subst live_tags_def, subst id_take_nth_drop [of w "jp_workers s"]) (simp_all add: ac_simps)

lemma executing_addr_fresh:
  assumes "jobs_inv h X s" "w < length (jp_workers s)" "wk_phase (jp_workers s ! w) = Executing j"
  shows "jb_addr j \<notin> set (keys (wk_pending_jobs (jp_workers s ! w)))"
proof
  let ?pending = "wk_pending_jobs (jp_workers s ! w)"
  assume "jb_addr j \<in> set (keys ?pending)"
  then obtain q where q: "(jb_addr j, q) \<in> set ?pending" by auto
  with jobs_inv_worker [OF assms(1,2)] have addr: "jb_addr q = jb_addr j" by (auto simp: worker_ok_def)
  from q have "q \<in># mset (vals ?pending)" by force
  then obtain T where "mset (vals ?pending) = add_mset q T" by (blast dest: multi_member_split)
  then have "2 \<le> count (image_mset fst (worker_tags (jp_workers s ! w))) (jb_addr j)"
    using assms(3) addr by (simp add: worker_tags_def worker_jobs_def job_tag_def)
  also have "\<dots> \<le> count (image_mset fst (live_tags s + X)) (jb_addr j)"
    using worker_tags_live [OF assms(2)]
    by (intro mset_subset_eq_count image_mset_subseteq_mono) (simp add: subset_mset.add_increasing2)
  also have "\<dots> \<le> 1" using assms(1) unfolding jobs_inv_def tasks_inv_def by blast
  finally show False by simp
qed

lemma mset_vals_insert:
  "k \<notin> set (keys m) \<Longrightarrow> image_mset snd (mset (map_insert k v m)) = add_mset v (image_mset snd (mset m))"
  by (induction m) (auto simp: map_insert_def)

lemma length_map_insert: "length (map_insert k v m) = (if k \<in> set (keys m) then length m else Suc (length m))"
  by (induction m) (auto simp: map_insert_def)

lemma worker_ok_pend:
  assumes "worker_ok limit wk" "wk_phase wk = Executing j" "job_ok j'" "jb_addr j' \<notin> set (keys (wk_pending_jobs wk))"
  shows "worker_ok limit (wk \<lparr> wk_pending_jobs := map_insert (jb_addr j') j' (wk_pending_jobs wk), wk_phase := Looping \<rparr>)"
proof -
  have sub: "set (map_insert (jb_addr j') j' (wk_pending_jobs wk)) \<subseteq> insert (jb_addr j', j') (set (wk_pending_jobs wk))"
    by (rule set_map_insert_subset)
  have old: "\<forall>(a, q)\<in>set (wk_pending_jobs wk). jb_addr q = a" "\<forall>q\<in>snd ` set (wk_pending_jobs wk). job_ok q"
    "wk_initial_job wk = None" "length (wk_pending_jobs wk) < max 1 limit"
    "wk_concurrency_limit wk = limit" "wf_map (wk_pending_jobs wk)"
    using assms(1,2) by (simp_all add: worker_ok_def worker_jobs_def)
  have "\<forall>(a, q)\<in>set (map_insert (jb_addr j') j' (wk_pending_jobs wk)). jb_addr q = a"
    using old(1) sub by blast
  moreover have "\<forall>q\<in>snd ` set (map_insert (jb_addr j') j' (wk_pending_jobs wk)). job_ok q"
    using old(2) assms(3) sub by auto
  ultimately show ?thesis
    using assms(4) old(3-6) by (simp add: worker_ok_def worker_jobs_def length_map_insert)
qed

lemma jobs_inv_end:
  assumes "jobs_inv h {#} s" "w < length (jp_workers s)" "wk_phase (jp_workers s ! w) = Executing j"
  shows "jobs_inv (h \<lparr> ph_yielded := ph_yielded h + (case fst (job_run poll j) of Complete _ \<Rightarrow> 0 | _ \<Rightarrow> 1) \<rparr>) {#}
    (execute_job_end poll w d j s)"
proof -
  note wk = jobs_inv_worker [OF assms(1,2)]
  from wk assms(3) have ok: "job_ok j" by (simp add: worker_simps)
  obtain st j' where run: "job_run poll j = (st, j')" by (cases "job_run poll j")
  from ok run show ?thesis
  proof (cases rule: job_run_cases)
    case (complete e r)
    have "jobs_inv (h \<lparr> ph_yielded := Suc (ph_yielded h) \<rparr>) {#job_tag j#} (set_phase w Looping s)"
      unfolding set_phase_def
      by (rule jobs_inv_upd_worker [OF assms(1,2)]) (use wk assms(3) in \<open>auto simp: worker_simps\<close>)
    from jobs_inv_complete [OF jobs_inv_finished [OF this, folded set_phase_upd_state] complete(2-4)]
    show ?thesis using run complete(1) by (simp add: execute_job_end_def)
  next
    case yield
    have fresh: "jb_addr j' \<notin> set (keys (wk_pending_jobs (jp_workers s ! w)))"
      using executing_addr_fresh [OF assms] yield(3) by simp
    have "jobs_inv (h \<lparr> ph_yielded := Suc (ph_yielded h) \<rparr>) {#}
      (upd_worker w (\<lambda>wk. wk \<lparr> wk_pending_jobs := map_insert (jb_addr j') j' (wk_pending_jobs wk),
         wk_phase := Looping \<rparr>) s)"
    proof (rule jobs_inv_upd_worker [OF assms(1,2)])
      have "wk_initial_job (jp_workers s ! w) = None" using wk assms(3) by (simp add: worker_ok_def)
      then show "worker_tags (jp_workers s ! w) + {#} = worker_tags ((jp_workers s ! w) \<lparr> wk_pending_jobs :=
          map_insert (jb_addr j') j' (wk_pending_jobs (jp_workers s ! w)), wk_phase := Looping \<rparr>) + {#}"
        using assms(3) yield(2) by (simp add: worker_tags_def worker_jobs_def mset_vals_insert [OF fresh])
    qed (use worker_ok_pend [OF wk assms(3) yield(5) fresh] assms(3) in \<open>simp_all add: alive_def busy_def\<close>)
    then show ?thesis using run yield(1) by (simp add: execute_job_end_def)
  qed
qed

lemma mset_vals_remove:
  "wf_map m \<Longrightarrow> map_of m k = Some v \<Longrightarrow>
     image_mset snd (mset m) = add_mset v (image_mset snd (mset (map_remove k m)))"
proof (induction m)
  case (Cons x m)
  have "k \<notin> set (keys m) \<Longrightarrow> AList.delete k m = m"
    by (induction m) auto
  with Cons show ?case by (cases x) (auto simp: wf_map_def map_remove_def add_mset_commute)
qed simp

lemma length_map_remove: "length (map_remove k m) \<le> length m"
  by (simp add: map_remove_def length_delete_le)

lemma mset_vals_replace:
  "map_of m k = Some v \<Longrightarrow> f v' = f v \<Longrightarrow>
     image_mset f (image_mset snd (mset (map_insert k v' m))) = image_mset f (image_mset snd (mset m))"
  by (induction m) (auto simp: map_insert_def split: if_splits)

lemma pending_job:
  assumes "worker_ok limit wk" "map_of (wk_pending_jobs wk) addr = Some j"
  shows "job_ok j" "jb_addr j = addr" "addr \<in> set (keys (wk_pending_jobs wk))" "wf_map (wk_pending_jobs wk)"
  using assms map_of_SomeD [OF assms(2)] by (force simp: worker_ok_def worker_jobs_def)+

lemma worker_ok_remove:
  assumes "worker_ok limit wk"
  shows "worker_ok limit (wk \<lparr> wk_pending_jobs := map_remove addr (wk_pending_jobs wk) \<rparr>)"
proof -
  have sub: "set (map_remove addr (wk_pending_jobs wk)) \<subseteq> set (wk_pending_jobs wk)"
    by (rule set_map_remove_subset)
  have "length (map_remove addr (wk_pending_jobs wk)) \<le> length (wk_pending_jobs wk)"
    by (rule length_map_remove)
  moreover have "map_remove addr (wk_pending_jobs wk) = []" if "wk_pending_jobs wk = []"
    using sub that by simp
  moreover have "set (worker_jobs (wk \<lparr> wk_pending_jobs := map_remove addr (wk_pending_jobs wk) \<rparr>)) \<subseteq> set (worker_jobs wk)"
    using sub by (auto simp: worker_jobs_def)
  ultimately show ?thesis using assms sub unfolding worker_ok_def by (simp, blast intro: le_trans le_less_trans)
qed

lemma worker_ok_replace:
  assumes "worker_ok limit wk" "addr \<in> set (keys (wk_pending_jobs wk))" "job_ok j'" "jb_addr j' = addr"
  shows "worker_ok limit (wk \<lparr> wk_pending_jobs := map_insert addr j' (wk_pending_jobs wk) \<rparr>)"
proof -
  have sub: "set (map_insert addr j' (wk_pending_jobs wk)) \<subseteq> insert (addr, j') (set (wk_pending_jobs wk))"
    by (rule set_map_insert_subset)
  have "length (map_insert addr j' (wk_pending_jobs wk)) = length (wk_pending_jobs wk)"
    using assms(2) by (simp add: length_map_insert)
  moreover have "set (worker_jobs (wk \<lparr> wk_pending_jobs := map_insert addr j' (wk_pending_jobs wk) \<rparr>))
      \<subseteq> insert j' (set (worker_jobs wk))"
    using sub by (auto simp: worker_jobs_def)
  moreover have "wk_pending_jobs wk \<noteq> []" using assms(2) by auto
  ultimately show ?thesis using assms(1,3,4) sub unfolding worker_ok_def by (simp, blast)
qed

lemma jobs_inv_finish_pending:
  assumes "jobs_inv h {#} s" "w < length (jp_workers s)"
  shows "jobs_inv h {#} (finish_pending_job poll w addr s)"
proof (cases "map_of (wk_pending_jobs (jp_workers s ! w)) addr")
  case None
  then show ?thesis using assms(1) by (simp add: finish_pending_job_def)
next
  case (Some j)
  note wk = jobs_inv_worker [OF assms]
  note pj = pending_job [OF wk Some]
  obtain st j' where run: "job_run poll j = (st, j')" by (cases "job_run poll j")
  from pj(1) run show ?thesis
  proof (cases rule: job_run_cases)
    case (complete e r)
    have "jobs_inv h {#job_tag j#}
        (upd_worker w (\<lambda>wk. wk \<lparr> wk_pending_jobs := map_remove addr (wk_pending_jobs wk) \<rparr>) s)"
      by (rule jobs_inv_upd_worker [OF assms])
        (simp_all add: worker_ok_remove [OF wk] alive_def busy_def worker_tags_def worker_jobs_def
          mset_vals_remove [OF pj(4) Some])
    from jobs_inv_complete [OF this complete(2-4)] show ?thesis
      using Some run complete(1) by (simp add: finish_pending_job_def)
  next
    case yield
    have "jobs_inv h {#} (upd_worker w (\<lambda>wk. wk \<lparr> wk_pending_jobs := map_insert addr j' (wk_pending_jobs wk) \<rparr>) s)"
      by (rule jobs_inv_upd_worker [OF assms])
        (simp_all add: worker_ok_replace [OF wk pj(3) yield(5)] yield(3) pj(2) alive_def busy_def
          worker_tags_def worker_jobs_def mset_vals_replace [OF Some yield(2)])
    then show ?thesis using Some run yield(1) by (simp add: finish_pending_job_def)
  qed
qed

text \<open>Jobs that enter the pool, wait in a queue, or start a worker.\<close>

lemma jobs_inv_join [simp]:
  "jobs_inv h X (s \<lparr> jp_join := j \<rparr>) = jobs_inv h X s"
  "jobs_inv h X (s \<lparr> jp_sender_alive := b \<rparr>) = jobs_inv h X s"
  by (simp_all add: jobs_inv_def live_tags_def live_workers_def executing_workers_def queue_fits_def)

lemma jobs_inv_exit:
  assumes "jobs_inv h {#} s" "in_phase s w Looping" "wk_pending_jobs (jp_workers s ! w) = []"
  shows "jobs_inv h {#} (listener_drop (set_phase w Stopped s))"
proof -
  from assms(2) have w: "w < length (jp_workers s)" and ph: "wk_phase (jp_workers s ! w) = Looping"
    by (simp_all add: in_phase_def)
  let ?f = "\<lambda>wk. wk \<lparr> wk_phase := Stopped \<rparr>"
  note wk = jobs_inv_worker [OF assms(1) w]
  note sums = upd_worker_sums [OF w, of ?f]
  have "worker_ok (jp_concurrency_limit s) (?f (jp_workers s ! w))"
    using wk ph assms(3) by (simp add: worker_ok_def worker_jobs_def)
  then have "\<forall>wk\<in>set (jp_workers (upd_worker w ?f s)). worker_ok (jp_concurrency_limit s) wk"
    using assms(1) set_update_subset_insert [of "jp_workers s" w] by (fastforce simp: jobs_inv_def upd_worker_def)
  moreover have "live_tags (upd_worker w ?f s) = live_tags s" "executing_workers (upd_worker w ?f s) = executing_workers s"
    "Suc (live_workers (upd_worker w ?f s)) = live_workers s"
    using sums ph by (simp_all add: worker_tags_def worker_jobs_def alive_def busy_def)
  ultimately show ?thesis
    using assms(1) unfolding listener_drop_def set_phase_def Let_def jobs_inv_join
    by (simp add: jobs_inv_def)
qed

lemma jobs_inv_submit:
  assumes "jobs_inv h {#} s" "addr \<notin> set (map jb_addr (live_jobs s))"
  shows "jobs_inv (h \<lparr> ph_bodies := ph_bodies h @ [c] \<rparr>) {#(addr, length (jp_tasks s), c)#}
    (s \<lparr> jp_tasks := jp_tasks s @ [create_pending_task] \<rparr>)" (is "jobs_inv _ _ ?s")
proof -
  have views: "live_tags ?s = live_tags s" "live_workers ?s = live_workers s"
    "executing_workers ?s = executing_workers s" "queue_fits ?s = queue_fits s"
    by (simp_all add: live_tags_def live_workers_def executing_workers_def queue_fits_def)
  have "addr \<notin># image_mset fst (live_tags s)"
    using assms(2) by (auto simp: live_tags_live_jobs job_tag_def)
  moreover have "tasks_inv (ph_bodies h) (live_tags s) (jp_tasks s) (jp_returned s) (jp_woken s)"
    using assms(1) by (simp add: jobs_inv_def)
  ultimately show ?thesis
    using assms(1) tasks_inv_submit [of "ph_bodies h" "live_tags s" "jp_tasks s"] by (simp add: jobs_inv_def views)
qed

lemma jobs_inv_enqueue:
  assumes "jobs_inv h {#job_tag j#} s" "job_ok j"
  shows "has_room s \<Longrightarrow> jobs_inv h {#} (s \<lparr> jp_waiting_queue := jp_waiting_queue s @ [j] \<rparr>)"
    and "jobs_inv h {#} (s \<lparr> jp_blocked := jp_blocked s @ [j] \<rparr>)"
  using assms
  by (auto simp: jobs_inv_def live_tags_def live_workers_def executing_workers_def queue_fits_def has_room_def
      split: option.splits)

lemma jobs_inv_dequeue:
  assumes "jobs_inv h {#} s" "jp_waiting_queue s = j # js"
  shows "jobs_inv h {#job_tag j#} (s \<lparr> jp_waiting_queue := js \<rparr>)" "job_ok j"
  using assms
  by (auto simp: jobs_inv_def live_tags_def live_workers_def executing_workers_def queue_fits_def
      split: option.splits)

lemma jobs_inv_unblock:
  assumes "jobs_inv h {#} s" "i < length (jp_blocked s)"
  shows "jobs_inv h {#job_tag (jp_blocked s ! i)#}
      (s \<lparr> jp_blocked := take i (jp_blocked s) @ drop (Suc i) (jp_blocked s) \<rparr>)" (is "jobs_inv _ _ ?s")
    and "job_ok (jp_blocked s ! i)"
proof -
  have "mset (jp_blocked s) = add_mset (jp_blocked s ! i) (mset (take i (jp_blocked s) @ drop (Suc i) (jp_blocked s)))"
    by (subst id_take_nth_drop [OF assms(2)]) simp
  then have "live_tags ?s + {#job_tag (jp_blocked s ! i)#} = live_tags s" by (simp add: live_tags_def)
  moreover have "set (take i (jp_blocked s) @ drop (Suc i) (jp_blocked s)) \<subseteq> set (jp_blocked s)"
    using set_take_subset set_drop_subset by fastforce
  moreover have "live_workers ?s = live_workers s" "executing_workers ?s = executing_workers s" "queue_fits ?s = queue_fits s"
    by (simp_all add: live_workers_def executing_workers_def queue_fits_def)
  ultimately show "jobs_inv h {#job_tag (jp_blocked s ! i)#} ?s"
    using assms(1) unfolding jobs_inv_def by (auto simp del: of_nat_add)
  show "job_ok (jp_blocked s ! i)" using assms by (simp add: jobs_inv_def)
qed

lemma jobs_inv_spawn:
  assumes "jobs_inv h X s" "spawn_job True task s = (Ok (), s')"
    and "X = (case task of Some j \<Rightarrow> {#job_tag j#} | None \<Rightarrow> {#})" "\<forall>j. task = Some j \<longrightarrow> job_ok j"
  shows "jobs_inv h {#} s'"
proof -
  let ?wk = "worker_new task (jp_concurrency_limit s)"
  have "worker_tags ?wk = X" "worker_ok (jp_concurrency_limit s) ?wk"
    using assms(3,4) by (auto simp: worker_simps worker_new_def split: option.splits)
  moreover have "wk_phase ?wk = Spawned" by (simp add: worker_new_def)
  ultimately show ?thesis
    using assms(1,2)
    by (auto simp: spawn_job_def Let_def jobs_inv_def live_tags_def live_workers_def executing_workers_def
        upd_state_def queue_fits_def add.assoc split: if_splits option.splits)
qed

text \<open>A whole submission.\<close>

lemma waiting_workers_iff:
  "w \<in> set (waiting_workers s) \<longleftrightarrow> in_phase s w Selecting \<and> takes_jobs (jp_workers s ! w)"
  by (auto simp: waiting_workers_def in_phase_def)

lemma takes_jobs_room:
  assumes "jobs_inv h X s" "w < length (jp_workers s)" "takes_jobs (jp_workers s ! w)"
  shows "length (wk_pending_jobs (jp_workers s ! w)) < max 1 (jp_concurrency_limit s)"
  using jobs_inv_worker [OF assms(1,2)] assms(3) by (auto simp: worker_ok_def takes_jobs_def)

lemma jobs_inv_execute_job:
  assumes "jobs_inv h {#job_tag j#} s" "job_ok j"
    and "case receiver of Some w \<Rightarrow> w \<in> set (waiting_workers s) | None \<Rightarrow> True"
  shows "jobs_inv h {#} (pool_execute_job receiver j s)"
proof (cases receiver)
  case None
  obtain r s' where spawn: "spawn_job True (Some j) s = (r, s')" by (cases "spawn_job True (Some j) s")
  then consider "r = Ok ()" | "r = Err (Some j)" "s' = s"
    by (auto simp: spawn_job_def Let_def split: if_splits)
  then show ?thesis
  proof cases
    case 1
    then have "jobs_inv h {#} s'" using jobs_inv_spawn [OF assms(1) _ _ ] spawn assms(2) by simp
    then show ?thesis using None spawn 1 by (simp add: pool_execute_job_def try_execute_job_def)
  next
    case 2
    then show ?thesis using None spawn jobs_inv_enqueue [OF assms(1,2)]
      by (simp add: pool_execute_job_def try_execute_job_def)
  qed
next
  case (Some w)
  then have w: "w < length (jp_workers s)" "wk_phase (jp_workers s ! w) = Selecting" "takes_jobs (jp_workers s ! w)"
    using assms(3) by (simp_all add: waiting_workers_iff in_phase_def)
  have "jobs_inv h {#} (execute_job_begin w j s)"
    by (rule jobs_inv_begin [OF assms(1) w(1) _ assms(2) takes_jobs_room [OF assms(1) w(1,3)]])
      (simp add: w(2) at_rest_def)
  then show ?thesis using Some by (simp add: pool_execute_job_def try_execute_job_def)
qed

lemma waiting_workers_tasks [simp]: "waiting_workers (s \<lparr> jp_tasks := ts \<rparr>) = waiting_workers s"
  by (simp add: waiting_workers_def in_phase_def)

lemma jobs_inv_run_sync:
  assumes "jobs_inv h {#} s" "may_submit addr receiver s"
  shows "jobs_inv (h \<lparr> ph_bodies := ph_bodies h @ [Some c] \<rparr>) {#} (run_sync_job c addr receiver s)"
  using assms(2) jobs_inv_submit [OF assms(1), of addr "Some c"] unfolding run_sync_job_def from_closure_def prod.case
  by (intro jobs_inv_execute_job) (auto simp: may_submit_def job_tag_def job_ok_def split: option.splits)

lemma jobs_inv_run_async:
  assumes "jobs_inv h {#} s" "may_submit addr receiver s"
  shows "jobs_inv (h \<lparr> ph_bodies := ph_bodies h @ [None] \<rparr>) {#} (run_async_job fut addr receiver s)"
  using assms(2) jobs_inv_submit [OF assms(1), of addr None] unfolding run_async_job_def from_future_def prod.case
  by (intro jobs_inv_execute_job) (auto simp: may_submit_def job_tag_def job_ok_def split: option.splits)

lemma jobs_inv_starts:
  assumes "jobs_inv h {#} s" "in_phase s w Spawned"
  shows "jobs_inv h {#} (worker_starts w s)"
proof -
  from assms(2) have w: "w < length (jp_workers s)" and ph: "wk_phase (jp_workers s ! w) = Spawned"
    by (simp_all add: in_phase_def)
  note wk = jobs_inv_worker [OF assms(1) w]
  let ?f = "\<lambda>wk. wk \<lparr> wk_active := True, wk_initial_job := None, wk_phase := Looping \<rparr>"
  let ?X = "case wk_initial_job (jp_workers s ! w) of Some j \<Rightarrow> {#job_tag j#} | None \<Rightarrow> {#}"
  have inv: "jobs_inv h ?X (upd_worker w ?f s)"
    by (rule jobs_inv_upd_worker [OF assms(1) w])
      (use wk ph in \<open>auto simp: worker_simps split: option.splits\<close>)
  show ?thesis
  proof (cases "wk_initial_job (jp_workers s ! w)")
    case None
    then show ?thesis using inv by (simp add: worker_starts_def Let_def)
  next
    case (Some j)
    have "job_ok j" "wk_pending_jobs (jp_workers s ! w) = []"
      using wk ph Some by (simp_all add: worker_ok_def worker_jobs_def)
    then have "jobs_inv h {#} (execute_job_begin w j (upd_worker w ?f s))"
      using inv w Some by (intro jobs_inv_begin) (simp_all add: upd_worker_def at_rest_def)
    then show ?thesis using Some by (simp add: worker_starts_def Let_def)
  qed
qed

lemma jobs_inv_polls:
  assumes "jobs_inv h {#} s" "in_phase s w Selecting" "poll_work r w s = Some (st, s')"
  shows "jobs_inv h {#} (handle_polling poll w st s')"
proof -
  from assms(2) have w: "w < length (jp_workers s)" and ph: "wk_phase (jp_workers s ! w) = Selecting"
    by (simp_all add: in_phase_def)
  have rest: "at_rest (wk_phase (jp_workers s ! w))" by (simp add: ph at_rest_def)
  note room = takes_jobs_room [OF assms(1) w]
  show ?thesis
  proof (cases r)
    case QueueReady
    show ?thesis
    proof (cases "jp_waiting_queue s")
      case Nil
      then show ?thesis using QueueReady assms(3) rest w assms(1)
        by (auto simp: at_rest_def same_jobs_def intro!: jobs_inv_at_rest split: if_splits)
    next
      case (Cons j js)
      then show ?thesis using QueueReady assms(3) w rest room jobs_inv_dequeue [OF assms(1) Cons]
        by (auto intro!: jobs_inv_begin split: if_splits)
    qed
  next
    case (SenderReady i)
    then have "i < length (jp_blocked s)" using assms(3) by (simp split: if_splits)
    then show ?thesis using SenderReady assms(3) w rest room jobs_inv_unblock [OF assms(1)]
      by (auto intro!: jobs_inv_begin split: if_splits)
  next
    case ImmediateClosed
    then show ?thesis using assms(1,3) rest w
      by (auto simp: at_rest_def same_jobs_def intro!: jobs_inv_at_rest split: if_splits)
  next
    case NotificationReady
    then obtain addr addrs where s': "s' = upd_worker w (\<lambda>wk. wk \<lparr> wk_notifications := addrs \<rparr>) s" "st = Unpark addr"
      using assms(3) by (auto split: list.splits if_splits)
    have "jobs_inv h {#} (set_phase w Looping s')"
      unfolding s' set_phase_def
      by (rule jobs_inv_at_rest [OF jobs_inv_notify [OF assms(1) w]])
        (simp_all add: w upd_worker_def ph at_rest_def same_jobs_def)
    then show ?thesis using s' w by (simp add: jobs_inv_finish_pending set_phase_def)
  next
    case NothingReady
    then have "s' = s" "st = Timeout" using assms(3) by (auto simp: Let_def split: if_splits)
    then show ?thesis using rest w assms(1)
      by (auto simp: set_phase_def at_rest_def same_jobs_def intro!: jobs_inv_at_rest)
  qed
qed

text \<open>What a step adds to the history.\<close>

definition yields :: "('f \<Rightarrow> 'a polled \<times> 'f) \<Rightarrow> ('f, 'a) pool_action \<Rightarrow> ('f, 'a) job_pool \<Rightarrow> nat" where
  "yields poll a s = (case a of
     WorkerEnds w d \<Rightarrow> (case wk_phase (jp_workers s ! w) of
       Executing j \<Rightarrow> (case fst (job_run poll j) of Complete _ \<Rightarrow> 0 | _ \<Rightarrow> 1)
     | _ \<Rightarrow> 0)
   | _ \<Rightarrow> 0)"

definition history_after ::
  "('f \<Rightarrow> 'a polled \<times> 'f) \<Rightarrow> ('f, 'a) pool_action \<Rightarrow> ('f, 'a) job_pool \<Rightarrow> 'a pool_history \<Rightarrow> 'a pool_history" where
  "history_after poll a s h =
     \<lparr> ph_bodies = ph_bodies h @ (case a of RunSync c _ _ \<Rightarrow> [Some c] | RunAsync _ _ _ \<Rightarrow> [None] | _ \<Rightarrow> []),
       ph_yielded = ph_yielded h + yields poll a s \<rparr>"

definition pool_step ::
  "('f \<Rightarrow> 'a polled \<times> 'f) \<Rightarrow> 'a pool_history \<times> ('f, 'a) job_pool \<Rightarrow> 'a pool_history \<times> ('f, 'a) job_pool \<Rightarrow> bool" where
  "pool_step poll hs hs' = (\<exists>a. pool_do poll a (snd hs) = Some (snd hs') \<and> fst hs' = history_after poll a (snd hs) (fst hs))"

definition pool_start :: "'a pool_history \<times> ('f, 'a) job_pool \<Rightarrow> bool" where
  "pool_start hs = (fst hs = \<lparr> ph_bodies = [], ph_yielded = 0 \<rparr> \<and> (\<exists>b. built b \<and> snd hs = pool_build b))"

lemma history_eta [simp]:
  "\<lparr> ph_bodies = ph_bodies h, ph_yielded = ph_yielded h \<rparr> = h"
  "\<lparr> ph_bodies = bs, ph_yielded = ph_yielded h \<rparr> = h \<lparr> ph_bodies := bs \<rparr>"
  "\<lparr> ph_bodies = ph_bodies h, ph_yielded = n \<rparr> = h \<lparr> ph_yielded := n \<rparr>"
  by simp_all

lemma jobs_inv_poll_task:
  assumes "jobs_inv h {#} s" "t < length (jp_tasks s)"
  shows "jobs_inv h {#} (poll_task t wk s)"
proof -
  obtain r st where poll: "task_poll wk (jp_tasks s ! t) = (r, st)" by (cases "task_poll wk (jp_tasks s ! t)")
  have "tasks_inv (ph_bodies h) (live_tags s) (jp_tasks s) (jp_returned s) (jp_woken s)"
    using assms(1) by (simp add: jobs_inv_def)
  from tasks_inv_poll [OF this assms(2) poll] show ?thesis
    using assms(1) poll
    by (simp add: poll_task_def jobs_inv_def live_tags_def live_workers_def executing_workers_def queue_fits_def)
qed

lemma jobs_inv_do:
  assumes "jobs_inv h {#} s" "pool_do poll a s = Some s'"
  shows "jobs_inv (history_after poll a s h) {#} s'"
proof (cases a)
  case (RunSync c addr receiver)
  then show ?thesis using assms(2) jobs_inv_run_sync [OF assms(1), of addr receiver c]
    by (auto simp: history_after_def yields_def split: if_splits)
next
  case (RunAsync fut addr receiver)
  then show ?thesis using assms(2) jobs_inv_run_async [OF assms(1), of addr receiver fut]
    by (auto simp: history_after_def yields_def split: if_splits)
next
  case (SendUnblocks i)
  then have i: "i < length (jp_blocked s)" "has_room s" "s' = send_unblocks i s"
    using assms(2) by (auto split: if_splits)
  have "jobs_inv h {#} (send_unblocks i s)"
    using jobs_inv_enqueue(1) [OF jobs_inv_unblock [OF assms(1) i(1)]] i(2)
    by (auto simp: send_unblocks_def has_room_def split: option.splits)
  then show ?thesis using SendUnblocks i(3) by (simp add: history_after_def yields_def)
next
  case (WorkerStarts w)
  then show ?thesis using assms jobs_inv_starts by (auto simp: history_after_def yields_def split: if_splits)
next
  case (WorkerSelects w)
  then have "in_phase s w Looping" "s' = set_phase w Selecting s" using assms(2) by (auto split: if_splits)
  then show ?thesis using WorkerSelects assms(1)
    by (auto simp: history_after_def yields_def set_phase_def in_phase_def at_rest_def same_jobs_def
        intro!: jobs_inv_at_rest)
next
  case (WorkerPolls w r)
  then show ?thesis using assms jobs_inv_polls
    by (auto simp: history_after_def yields_def split: if_splits option.splits)
next
  case (WorkerIdles w)
  then have "in_phase s w TimedOut" "s' = worker_idles w s" using assms(2) by (auto split: if_splits)
  then show ?thesis using WorkerIdles assms(1)
    by (auto simp: history_after_def yields_def worker_idles_def in_phase_def at_rest_def same_jobs_def
        intro!: jobs_inv_at_rest)
next
  case (WorkerEnds w d)
  then show ?thesis using assms jobs_inv_end [OF assms(1), of w]
    by (auto simp: history_after_def yields_def split: if_splits phase.splits)
next
  case (WorkerExits w)
  then show ?thesis using assms jobs_inv_exit by (auto simp: history_after_def yields_def split: if_splits)
next
  case (Wake w addr)
  then show ?thesis using assms jobs_inv_notify by (auto simp: history_after_def yields_def split: if_splits)
next
  case (PollTask t wk)
  then show ?thesis using assms jobs_inv_poll_task by (auto simp: history_after_def yields_def split: if_splits)
next
  case (JoinPool timed)
  then show ?thesis using assms by (auto simp: history_after_def yields_def pool_join_deadline_def split: if_splits)
next
  case JoinGivesUp
  then show ?thesis using assms by (auto simp: history_after_def yields_def split: join_state.splits)
qed

lemma jobs_inv_build:
  assumes "built b"
  shows "jobs_inv \<lparr> ph_bodies = [], ph_yielded = 0 \<rparr> {#} (pool_build b)"
proof -
  have spawn: "jobs_inv h {#} (spawn_workers n s)" if "jobs_inv h {#} s" for h n and s :: "('f, 'a) job_pool"
    using that
  proof (induction n arbitrary: s)
    case (Suc n)
    have "jobs_inv h {#} (snd (spawn_job True None s))"
      using Suc.prems jobs_inv_spawn [OF Suc.prems, of None]
      by (cases "spawn_job True None s") (auto simp: spawn_job_def Let_def split: if_splits)
    then show ?case by (simp add: Suc.IH)
  qed simp
  show ?thesis
    unfolding pool_build_def Let_def
    by (rule spawn) (simp add: jobs_inv_def live_tags_def live_workers_def executing_workers_def queue_fits_def
        tasks_inv_def each_once_def results_right_def waiters_woken_def stored_def)
qed

interpretation job_pool_system: invariant_system pool_start "pool_step poll" "\<lambda>(h, s). jobs_inv h {#} s"
  for poll :: "'f \<Rightarrow> 'a polled \<times> 'f"
  by unfold_locales (auto simp: pool_start_def pool_step_def jobs_inv_build intro: jobs_inv_do)

subsection \<open>Properties of the pool\<close>

lemma pool_run_reachable:
  "reachable pool_start (pool_step poll) (h, s) \<Longrightarrow> pool_run poll as s = Some s' \<Longrightarrow>
     \<exists>h'. reachable pool_start (pool_step poll) (h', s')"
proof (induction as arbitrary: h s)
  case (Cons a as)
  then obtain t where t: "pool_do poll a s = Some t" "pool_run poll as t = Some s'" by (auto split: option.splits)
  have "pool_step poll (h, s) (history_after poll a s h, t)" using t(1) by (auto simp: pool_step_def)
  from Cons.IH [OF reach_step [OF Cons.prems(1) this] t(2)] show ?case .
qed auto

lemma build_reachable: "built b \<Longrightarrow> reachable pool_start (pool_step poll) (\<lparr> ph_bodies = [], ph_yielded = 0 \<rparr>, pool_build b)"
  by (rule reach_init) (auto simp: pool_start_def)

lemma sum_list_filter: "(\<Sum>x\<leftarrow>xs. if P x then 1 else 0) = length (filter P xs)"
  by (induction xs) simp_all

lemma count_live_tasks:
  "count (image_mset (fst \<circ> snd) (live_tags s)) t = length (filter (\<lambda>j. job_task j = t) (live_jobs s))"
proof -
  have "count (image_mset (fst \<circ> snd) (image_mset job_tag (mset js))) t = length (filter (\<lambda>j. job_task j = t) js)"
    for js :: "('f, 'a) job list"
    by (induction js) (auto simp: job_tag_def)
  then show ?thesis by (simp only: live_tags_live_jobs)
qed


text \<open>C14: The pool stays within its configuration: the number it reports is that of its live
  workers and at most the maximum, the queue holds at most its capacity, a worker holds
  at most its limit of unfinished futures (one if the limit is zero, for its first job),
  and the times of completed jobs are at most one more than asked for.\<close>

theorem pool_within_bounds:
  assumes "reachable pool_start (pool_step poll) (h, s)"
  shows "pool_jobs s = length (filter (\<lambda>wk. wk_phase wk \<noteq> Stopped) (jp_workers s))
    \<and> pool_jobs s \<le> ps_max_jobs (jp_state s)
    \<and> (\<forall>n. jp_queue_limit s = Some n \<longrightarrow> queued_tasks s \<le> n)
    \<and> (\<forall>wk\<in>set (jp_workers s). length (wk_pending_jobs wk) \<le> max 1 (jp_concurrency_limit s))
    \<and> length (ps_tasks_completion_time (jp_state s)) \<le> ps_no_of_task_time_to_track (jp_state s) + 1"
proof -
  have inv: "jobs_inv h {#} s" using job_pool_system.reachable_inv [OF assms] by simp
  have "live_workers s = length (filter (\<lambda>wk. wk_phase wk \<noteq> Stopped) (jp_workers s))"
    unfolding live_workers_def sum_list_filter [symmetric] by (rule arg_cong [where f = sum_list]) simp
  then show ?thesis
    using inv by (simp add: jobs_inv_def pool_jobs_def queued_tasks_def queue_fits_def worker_ok_def)
qed

text \<open>C15: The number of running tasks that the pool reports is the number of workers that execute
  a job plus the number of futures that were ever pending after their first poll: those
  are never counted as finished.\<close>

theorem running_tasks_counts_yielded:
  assumes "reachable pool_start (pool_step poll) (h, s)"
  shows "running_tasks s = of_nat (length (filter (\<lambda>wk. is_executing (wk_phase wk)) (jp_workers s)) + ph_yielded h)"
proof -
  have inv: "jobs_inv h {#} s" using job_pool_system.reachable_inv [OF assms] by simp
  show ?thesis
    using jobs_inv_running(1) [OF inv] unfolding running_tasks_def executing_workers_def sum_list_filter .
qed

subsection \<open>Concrete runs\<close>

text \<open>A future that is pending as often as its number says.\<close>

fun example_poll :: "nat \<Rightarrow> nat polled \<times> nat" where
  "example_poll 0 = (PollReady 5, 0)"
| "example_poll (Suc n) = (PollPending, n)"

text \<open>A closure is handed to a waiting worker and its task is awaited; a future starts a
  worker of its own, is pending once and is woken.\<close>

definition example_run :: "(nat, nat) pool_action list" where
  "example_run =
     [WorkerStarts 0, WorkerSelects 0, RunSync (Finished 7) 100 (Some 0), PollTask 0 9, WorkerEnds 0 3, PollTask 0 9,
      RunAsync 1 200 None, WorkerStarts 2, WorkerEnds 2 1, Wake 2 200, WorkerSelects 2, WorkerPolls 2 NotificationReady]"

definition after_run :: "pool_builder \<Rightarrow> (nat, nat) pool_action list \<Rightarrow> ((nat, nat) job_pool \<Rightarrow> bool) \<Rightarrow> bool" where
  "after_run b as P = (case pool_run example_poll as (pool_build b) of Some s \<Rightarrow> P s | None \<Rightarrow> False)"

lemma after_run_reachable:
  assumes "after_run b as P" "built b"
  obtains h s where "reachable pool_start (pool_step example_poll) (h, s)" "P s"
  using assms pool_run_reachable [OF build_reachable [OF assms(2)], of example_poll "as"]
  by (auto simp: after_run_def split: option.splits)

lemma may_submit_eval:
  "may_submit addr receiver s = (jp_join s = NotJoined \<and> addr \<notin> set (map jb_addr (live_jobs s))
     \<and> (case receiver of
          Some w \<Rightarrow> in_phase s w Selecting \<and> takes_jobs (jp_workers s ! w)
        | None \<Rightarrow> list_all (\<lambda>wk. wk_phase wk \<noteq> Selecting \<or> \<not> takes_jobs wk) (jp_workers s)))"
  by (auto simp: may_submit_def waiting_workers_iff waiting_workers_def filter_empty_conv in_phase_def list_all_length
      split: option.splits)

lemmas pool_eval = pool_build_def pool_builder_default_def spawn_job_def worker_new_def upd_worker_def
  set_phase_def upd_state_def in_phase_def worker_starts_def execute_job_begin_def execute_job_end_def job_complete_def
  poller_complete_def finish_pending_job_def takes_jobs_def takes_notifications_def queue_closed_def immediate_closed_def has_room_def
  try_execute_job_def pool_execute_job_def run_sync_job_def run_async_job_def from_closure_def from_future_def
  create_pending_task_def poll_task_def task_poll_def may_submit_eval live_jobs_def worker_jobs_def
  on_job_started_def on_job_finished_def on_idle_def listener_drop_def worker_idles_def pool_join_deadline_def job_run_def
  pool_jobs_def running_tasks_def queued_tasks_def is_finished_def map_insert_def map_remove_def send_unblocks_def


lemma example_run_result:
  "after_run pool_builder_default example_run (\<lambda>s. jp_returned s = [(0, Finished 7)] \<and> jp_woken s = [9]
     \<and> length (jp_tasks s) = 2 \<and> is_finished (jp_tasks s ! 1) \<and> live_jobs s = [] \<and> running_tasks s = 1
     \<and> filter (\<lambda>wk. is_executing (wk_phase wk)) (jp_workers s) = [] \<and> pool_jobs s = 3)"
  unfolding after_run_def by (simp add: pool_eval example_run_def numeral_2_eq_2 Let_def)

definition stranding_run :: "(nat, nat) pool_action list" where
  "stranding_run =
     [RunSync (Finished 1) 1 None, WorkerStarts 0, WorkerEnds 0 0, WorkerSelects 0, WorkerPolls 0 NothingReady,
      WorkerIdles 0, RunSync (Finished 2) 2 None, WorkerExits 0]"

definition submits :: "('f, 'a) pool_action \<Rightarrow> bool" where
  "submits a = (case a of RunSync _ _ _ \<Rightarrow> True | RunAsync _ _ _ \<Rightarrow> True | _ \<Rightarrow> False)"

definition stuck_with :: "nat \<Rightarrow> ('f, 'a) job_pool \<Rightarrow> bool" where
  "stuck_with t s = (t < length (jp_tasks s) \<and> \<not> is_finished (jp_tasks s ! t) \<and> jp_waiting_queue s \<noteq> []
     \<and> list_all (\<lambda>wk. wk_phase wk = Stopped) (jp_workers s))"

lemma stuck_step:
  assumes "stuck_with t s" "pool_do poll a s = Some s'" "\<not> submits a"
  shows "stuck_with t s'"
proof -
  have stopped: "wk_phase (jp_workers s ! w) = Stopped" if "w < length (jp_workers s)" for w
    using assms(1) that by (simp add: stuck_with_def list_all_length)
  then have no_phase: "\<not> in_phase s w ph" if "ph \<noteq> Stopped" for w ph
    using that by (auto simp: in_phase_def)
  from assms show ?thesis
    by (cases a)
      (auto simp: submits_def no_phase stopped stuck_with_def send_unblocks_def poll_task_def task_poll_def is_finished_def
        pool_join_deadline_def nth_list_update split: if_splits option.splits join_state.splits)
qed

lemma stuck_run:
  "stuck_with t s \<Longrightarrow> pool_run poll as s = Some s' \<Longrightarrow> list_all (Not \<circ> submits) as \<Longrightarrow> stuck_with t s'"
  by (induction "as" arbitrary: s) (auto split: option.splits dest: stuck_step)

lemma stranding_run_result:
  "\<exists>b. with_workers_capacity 0 1 = Ok b \<and> after_run b stranding_run (stuck_with 1)"
  unfolding after_run_def
  by (simp add: pool_eval stuck_with_def stranding_run_def with_workers_capacity_def numeral_2_eq_2 Let_def)

text \<open>A queued job can be stranded: a worker that leaves because it was idle counts as alive
  until it is gone, so a job submitted in between is queued and no worker is started for
  it.  Unless something else is submitted, no continuation ever runs it.\<close>

theorem queued_job_can_be_stranded:
  "\<exists>b s. with_workers_capacity 0 1 = Ok b \<and> pool_run example_poll stranding_run (pool_build b) = Some s
     \<and> (\<forall>as s'. list_all (Not \<circ> submits) as \<and> pool_run example_poll as s = Some s' \<longrightarrow>
          \<not> is_finished (jp_tasks s' ! 1) \<and> queued_tasks s' \<noteq> 0)"
proof -
  obtain b where b: "with_workers_capacity 0 1 = Ok b" "after_run b stranding_run (stuck_with 1)"
    using stranding_run_result by blast
  then obtain s where s: "pool_run example_poll stranding_run (pool_build b) = Some s" "stuck_with 1 s"
    by (auto simp: after_run_def split: option.splits)
  show ?thesis
    using b(1) s(1) stuck_run [OF s(2), of example_poll] by (fastforce simp: stuck_with_def queued_tasks_def)
qed

theorem queued_job_can_be_stranded_witness:
  "\<exists>b s s'. with_workers_capacity 0 1 = Ok b \<and> pool_run example_poll (stranding_run @ [JoinPool False]) (pool_build b) = Some s'
     \<and> pool_run example_poll stranding_run (pool_build b) = Some s
     \<and> \<not> is_finished (jp_tasks s' ! 1) \<and> queued_tasks s' \<noteq> 0"
proof -
  obtain b s where b: "with_workers_capacity 0 1 = Ok b" "pool_run example_poll stranding_run (pool_build b) = Some s"
    "\<forall>as s'. list_all (Not \<circ> submits) as \<and> pool_run example_poll as s = Some s' \<longrightarrow>
          \<not> is_finished (jp_tasks s' ! 1) \<and> queued_tasks s' \<noteq> 0"
    using queued_job_can_be_stranded by blast
  have run: "pool_run poll (as @ bs) s = (case pool_run poll as s of Some s' \<Rightarrow> pool_run poll bs s' | None \<Rightarrow> None)"
    for poll :: "nat \<Rightarrow> nat polled \<times> nat" and "as" bs s
    by (induction "as" arbitrary: s) (auto split: option.splits)
  have "\<exists>b. with_workers_capacity 0 1 = Ok b \<and> after_run b (stranding_run @ [JoinPool False]) (\<lambda>_. True)"
    unfolding after_run_def by (simp add: pool_eval stranding_run_def with_workers_capacity_def numeral_2_eq_2 Let_def)
  with b(1) obtain s' where s': "pool_run example_poll (stranding_run @ [JoinPool False]) (pool_build b) = Some s'"
    by (auto simp: after_run_def split: option.splits)
  with b(2) have "pool_run example_poll [JoinPool False] s = Some s'" by (simp only: run option.case)
  then have "\<not> is_finished (jp_tasks s' ! 1) \<and> queued_tasks s' \<noteq> 0"
    by (intro b(3) [rule_format, of "[JoinPool False]"] conjI) (simp_all add: submits_def)
  with b s' show ?thesis by blast
qed

text \<open>\<open>join\<close> waits for one notification only: it returns when the first worker leaves, here
  while the other one is executing a job.\<close>

definition early_join_run :: "(nat, nat) pool_action list" where
  "early_join_run =
     [WorkerStarts 0, WorkerStarts 1, WorkerSelects 0, WorkerSelects 1, RunSync (Finished 1) 1 (Some 0),
      JoinPool False, WorkerPolls 1 QueueReady, WorkerExits 1]"

lemma join_returns_while_a_job_runs:
  "\<exists>b. with_workers_capacity 2 2 = Ok b \<and>
     after_run b early_join_run (\<lambda>s. jp_join s = Joined True \<and> is_executing (wk_phase (jp_workers s ! 0))
       \<and> \<not> is_finished (jp_tasks s ! 0))"
  unfolding after_run_def by (simp add: pool_eval early_join_run_def with_workers_capacity_def numeral_2_eq_2 Let_def)

lemma joined_stays: "jp_join s = Joined b \<Longrightarrow> pool_do poll a s = Some s' \<Longrightarrow> \<not> submits a"
  by (cases a) (auto simp: submits_def may_submit_def)

lemma stuck_joined_step:
  assumes "stuck_with t s" "jp_join s = Joined b" "pool_do poll a s = Some s'"
  shows "jp_join s' = Joined b"
proof -
  have "\<not> in_phase s w ph" if "ph \<noteq> Stopped" for w ph
    using assms(1) that by (auto simp: in_phase_def stuck_with_def list_all_length)
  moreover have "wk_phase (jp_workers s ! w) = Stopped" if "w < length (jp_workers s)" for w
    using assms(1) that by (simp add: stuck_with_def list_all_length)
  ultimately show ?thesis using assms(2,3) joined_stays [OF assms(2,3)]
    by (cases a) (auto simp: submits_def send_unblocks_def poll_task_def upd_worker_def split: if_splits prod.splits)
qed

lemma stuck_joined_run:
  "stuck_with t s \<Longrightarrow> jp_join s = Joined b \<Longrightarrow> pool_run poll as s = Some s' \<Longrightarrow> stuck_with t s'"
  by (induction "as" arbitrary: s)
    (auto split: option.splits dest: stuck_joined_step stuck_step [OF _ _ joined_stays])

definition losing_join_run :: "(nat, nat) pool_action list" where
  "losing_join_run =
     [WorkerStarts 0, WorkerSelects 0, RunSync (Finished 1) 1 (Some 0), RunSync (Finished 2) 2 None,
      WorkerStarts 1, WorkerEnds 1 0, WorkerSelects 1, WorkerPolls 1 NothingReady, WorkerIdles 1,
      RunSync (Finished 3) 3 None, JoinPool False, WorkerExits 1,
      WorkerEnds 0 0, WorkerSelects 0, WorkerPolls 0 ImmediateClosed, WorkerExits 0]"

lemma losing_join_run_result:
  "\<exists>b. with_workers_capacity 1 2 = Ok b \<and>
     after_run b losing_join_run (\<lambda>s. stuck_with 2 s \<and> jp_join s = Joined True)"
  unfolding after_run_def
  by (simp add: pool_eval stuck_with_def losing_join_run_def with_workers_capacity_def numeral_2_eq_2 Let_def)

text \<open>C31: \<open>join\<close> can lose a queued job: it returns when the first worker leaves, and with the pool
  the sender of the queue of immediate jobs is dropped, at which the last worker may shut down
  although a job is queued.  No continuation whatever runs that job.\<close>

theorem join_can_lose_queued_job:
  "\<exists>b s. with_workers_capacity 1 2 = Ok b \<and> pool_run example_poll losing_join_run (pool_build b) = Some s
     \<and> jp_join s = Joined True
     \<and> (\<forall>as s'. pool_run example_poll as s = Some s' \<longrightarrow> \<not> is_finished (jp_tasks s' ! 2) \<and> queued_tasks s' \<noteq> 0)"
proof -
  obtain b s where "with_workers_capacity 1 2 = Ok b" "pool_run example_poll losing_join_run (pool_build b) = Some s"
    and s: "stuck_with 2 s" "jp_join s = Joined True"
    using losing_join_run_result by (auto simp: after_run_def split: option.splits)
  then show ?thesis
    using stuck_joined_run [OF s, of example_poll] by (fastforce simp: stuck_with_def queued_tasks_def)
qed

theorem join_can_lose_queued_job_witness:
  "\<exists>b s. with_workers_capacity 1 2 = Ok b \<and> pool_run example_poll losing_join_run (pool_build b) = Some s
     \<and> jp_join s = Joined True \<and> \<not> is_finished (jp_tasks s ! 2)"
proof -
  obtain b s where b: "with_workers_capacity 1 2 = Ok b" "pool_run example_poll losing_join_run (pool_build b) = Some s"
    "jp_join s = Joined True"
    "\<forall>as s'. pool_run example_poll as s = Some s' \<longrightarrow> \<not> is_finished (jp_tasks s' ! 2) \<and> queued_tasks s' \<noteq> 0"
    using join_can_lose_queued_job by blast
  have "pool_run example_poll [] s = Some s" by simp
  with b show ?thesis by blast
qed


theorem pool_within_bounds_witness:
  "\<exists>h s. reachable pool_start (pool_step example_poll) (h, s) \<and> pool_jobs s = 3 \<and> 3 \<le> ps_max_jobs (jp_state s)"
proof -
  obtain h s where s: "reachable pool_start (pool_step example_poll) (h, s)" "pool_jobs s = 3"
    using after_run_reachable [OF example_run_result built.intros(1)] by blast
  with pool_within_bounds [OF s(1)] show ?thesis by force
qed

theorem running_tasks_counts_yielded_witness:
  "\<exists>h s. reachable pool_start (pool_step example_poll) (h, s) \<and> live_jobs s = [] \<and> running_tasks s = 1
     \<and> of_nat (ph_yielded h) = (1 :: u64)"
proof -
  obtain h s where s: "reachable pool_start (pool_step example_poll) (h, s)" "live_jobs s = []" "running_tasks s = 1"
    "filter (\<lambda>wk. is_executing (wk_phase wk)) (jp_workers s) = []"
    using after_run_reachable [OF example_run_result built.intros(1)] by blast
  with running_tasks_counts_yielded [OF s(1)] show ?thesis by auto
qed

end
