(* ===== verification/Wasm_Tools.thy ===== *)
theory Wasm_Tools
  imports Prelude
begin

text \<open>
  \<open>wasm_loader\<close>, \<open>wasm_runtime\<close> and the commands of \<open>wasm_cli\<close>: reading a WebAssembly module,
  what is said about it, and running it.  The crates \<open>wasmparser\<close> and \<open>wasmer\<close> and the
  file system are interfaces: the sections of a module are the list that the parser
  yields, and running a module returns what it writes to its two output streams.
\<close>

subsection \<open>The loader\<close>

definition WASI_NAMESPACE_UNSTABLE :: string where "WASI_NAMESPACE_UNSTABLE = ''wasi_unstable''"

definition WASI_NAMESPACE_PREVIEW1 :: string where "WASI_NAMESPACE_PREVIEW1 = ''wasi_snapshot_preview1''"

definition WASIX_NAMESPACE_32V1 :: string where "WASIX_NAMESPACE_32V1 = ''wasix_32v1''"

definition WASIX_NAMESPACE_64V1 :: string where "WASIX_NAMESPACE_64V1 = ''wasix_64v1''"

definition JAVY_NAMESPACE_QUICKJS :: string where "JAVY_NAMESPACE_QUICKJS = ''javy_quickjs_provider_v1''"

definition WASM_MAGIC :: bytes where "WASM_MAGIC = [0x00, 0x61, 0x73, 0x6d]"

definition WASM_PARSE_OFFSET :: nat where "WASM_PARSE_OFFSET = 0"

definition WASI_ENTRY_POINT :: string where "WASI_ENTRY_POINT = ''_start''"

definition VRRB_WASM_MAGIC :: string where "VRRB_WASM_MAGIC = ''_vrrb_abi_magic''"

definition VRRB_WASM_VERSION :: string where "VRRB_WASM_VERSION = ''_vrrb_abi_version''"

text \<open>A section, with the names of its exports or the modules and names of its imports;
  every entry may be malformed.\<close>

datatype wasm_payload =
    VersionSection
  | ExportSection "(string, string) result list"
  | ImportSection "(string, string \<times> string) result list"
  | OtherSection

record wasm_ops =
  wo_wat2wasm :: "bytes \<Rightarrow> (string, bytes) result"
  wo_parse_all :: "nat \<Rightarrow> bytes \<Rightarrow> (string, wasm_payload) result list"

type_synonym import_map = "(string, string list) amap"

record wasm_loader =
  wa_wasm_bytes :: bytes
  wa_wasm_size :: nat
  wa_is_wasi :: bool
  wa_is_wasix :: bool
  wa_needs_javy :: bool
  wa_wat_text :: bytes
  wa_from_wat :: bool
  wa_has_start :: bool
  wa_has_vrrb :: bool
  wa_imports :: import_map

record wasm_loader_builder =
  wb_wasm_bytes :: "bytes option"
  wb_wasm_size :: "nat option"
  wb_is_wasi :: "bool option"
  wb_is_wasix :: "bool option"
  wb_needs_javy :: "bool option"
  wb_wat_text :: "bytes option"
  wb_from_wat :: "bool option"
  wb_has_start :: "bool option"
  wb_has_vrrb :: "bool option"
  wb_imports :: "import_map option"

definition loader_builder_default :: wasm_loader_builder where
  "loader_builder_default = \<lparr> wb_wasm_bytes = None, wb_wasm_size = None, wb_is_wasi = None, wb_is_wasix = None,
     wb_needs_javy = None, wb_wat_text = None, wb_from_wat = None, wb_has_start = None, wb_has_vrrb = None,
     wb_imports = None \<rparr>"

definition set_wasm_bytes :: "bytes \<Rightarrow> wasm_loader_builder \<Rightarrow> wasm_loader_builder" where
  "set_wasm_bytes b wb = wb \<lparr> wb_wasm_bytes := Some b \<rparr>"

definition set_wat_text :: "bytes \<Rightarrow> wasm_loader_builder \<Rightarrow> wasm_loader_builder" where
  "set_wat_text t wb = wb \<lparr> wb_wat_text := Some t \<rparr>"

text \<open>The slice \<open>bytes[0..4]\<close> of a shorter array aborts.\<close>

definition contains_magic :: "bytes \<Rightarrow> ('e, bool) result" where
  "contains_magic b = (if length b < 4 then Panic else Ok (take 4 b = WASM_MAGIC))"

definition loader_validate :: "wasm_loader_builder \<Rightarrow> (string, unit) result" where
  "loader_validate wb = (case wb_wasm_bytes wb of
     Some b \<Rightarrow> rbind (contains_magic b) (\<lambda>ok. if ok then Ok () else Err ''WASM Magic header invalid'')
   | None \<Rightarrow> Err ''WASM Magic header not found'')"

definition or_default :: "'a \<Rightarrow> 'a option \<Rightarrow> 'a" where
  "or_default d x = (case x of Some v \<Rightarrow> v | None \<Rightarrow> d)"

text \<open>The derived \<open>build\<close>: the validation, then the fields, of which two have no default.\<close>

definition loader_build :: "wasm_loader_builder \<Rightarrow> (string, wasm_loader) result" where
  "loader_build wb =
     rbind (loader_validate wb) (\<lambda>_.
     rbind (ok_or ''`wasm_bytes` must be initialized'' (wb_wasm_bytes wb)) (\<lambda>b.
     rbind (ok_or ''`imports` must be initialized'' (wb_imports wb)) (\<lambda>imports.
     Ok \<lparr> wa_wasm_bytes = b, wa_wasm_size = or_default 0 (wb_wasm_size wb), wa_is_wasi = or_default False (wb_is_wasi wb),
          wa_is_wasix = or_default False (wb_is_wasix wb), wa_needs_javy = or_default False (wb_needs_javy wb),
          wa_wat_text = or_default [] (wb_wat_text wb), wa_from_wat = or_default False (wb_from_wat wb),
          wa_has_start = or_default False (wb_has_start wb), wa_has_vrrb = or_default False (wb_has_vrrb wb),
          wa_imports = imports \<rparr>)))"

text \<open>One export and one import.  A malformed export ends the parsing with an error, a
  malformed import aborts.\<close>

fun on_export :: "(string, string) result \<Rightarrow> wasm_loader_builder \<Rightarrow> (string, wasm_loader_builder) result" where
  "on_export (Ok name) wb =
     (let wb = (if name = WASI_ENTRY_POINT then wb \<lparr> wb_has_start := Some True \<rparr> else wb) in
      Ok (if name = VRRB_WASM_MAGIC \<or> name = VRRB_WASM_VERSION then wb \<lparr> wb_has_vrrb := Some True \<rparr> else wb))"
| "on_export (Err e) wb = Err e"
| "on_export Panic wb = Panic"

definition add_import :: "string \<Rightarrow> string \<Rightarrow> import_map \<Rightarrow> ('e, import_map) result" where
  "add_import m name imports =
     (let imports = (if map_of imports m = None then map_insert m [] imports else imports) in
      rbind (unwrap (map_of imports m)) (\<lambda>names. Ok (map_insert m (names @ [name]) imports)))"

definition note_namespace :: "string \<Rightarrow> wasm_loader_builder \<Rightarrow> wasm_loader_builder" where
  "note_namespace m wb =
     (let wb = (if m = WASI_NAMESPACE_PREVIEW1 \<or> m = WASI_NAMESPACE_UNSTABLE then wb \<lparr> wb_is_wasi := Some True \<rparr> else wb);
          wb = (if m = WASIX_NAMESPACE_32V1 \<or> m = WASIX_NAMESPACE_64V1
                then wb \<lparr> wb_is_wasi := Some True, wb_is_wasix := Some True \<rparr> else wb) in
      if m = JAVY_NAMESPACE_QUICKJS then wb \<lparr> wb_needs_javy := Some True \<rparr> else wb)"

fun on_import ::
  "(string, string \<times> string) result \<Rightarrow> wasm_loader_builder \<times> import_map
     \<Rightarrow> (string, wasm_loader_builder \<times> import_map) result" where
  "on_import (Ok (m, name)) (wb, imports) =
     rbind (add_import m name imports) (\<lambda>imports. Ok (note_namespace m wb, imports))"
| "on_import _ _ = Panic"

fun on_payload ::
  "(string, wasm_payload) result \<Rightarrow> wasm_loader_builder \<times> import_map
     \<Rightarrow> (string, wasm_loader_builder \<times> import_map) result" where
  "on_payload (Ok (ExportSection es)) (wb, imports) = rbind (rfold on_export es wb) (\<lambda>wb. Ok (wb, imports))"
| "on_payload (Ok (ImportSection is)) s = rfold on_import is s"
| "on_payload (Ok _) s = Ok s"
| "on_payload (Err e) s = Err e"
| "on_payload Panic s = Panic"

text \<open>Text is compiled into the new builder, but the module that is parsed is the one of
  the old builder.\<close>

definition loader_parse :: "wasm_ops \<Rightarrow> wasm_loader_builder \<Rightarrow> (string, wasm_loader_builder) result" where
  "loader_parse wo wb =
     rbind (case wb_wat_text wb of
         Some wat \<Rightarrow> rbind (wo_wat2wasm wo wat) (\<lambda>b. Ok (wb \<lparr> wb_wasm_bytes := Some b, wb_from_wat := Some True \<rparr>))
       | None \<Rightarrow> Ok wb) (\<lambda>new.
     rbind (case wb_wasm_bytes wb of
         Some wasm \<Rightarrow> rfold on_payload (wo_parse_all wo WASM_PARSE_OFFSET wasm) (new, [])
       | None \<Rightarrow> Ok (new, [])) (\<lambda>(new, imports).
     Ok (new \<lparr> wb_imports := Some imports \<rparr>)))"

definition from_filename ::
  "wasm_ops \<Rightarrow> (string \<Rightarrow> (string, bytes) result) \<Rightarrow> string \<Rightarrow> (string, wasm_loader) result" where
  "from_filename wo read f =
     rbind (read f) (\<lambda>b. rbind (loader_parse wo (set_wasm_bytes b loader_builder_default)) loader_build)"

subsection \<open>The commands that describe and judge a module\<close>

text \<open>The path of a file is an argument that may not be a valid text.\<close>

type_synonym path = "string option"

type_synonym file_reader = "string \<Rightarrow> (string, bytes) result"

record description =
  ds_wasm :: bool
  ds_wasi :: bool
  ds_wasix :: bool
  ds_javy :: bool
  ds_start :: bool
  ds_vrrb :: bool
  ds_namespaces :: "string list"

definition describe_run :: "wasm_ops \<Rightarrow> file_reader \<Rightarrow> path \<Rightarrow> (string, description) result" where
  "describe_run wo read p =
     rbind (ok_or ''Failed to convert filename to valid string.'' p) (\<lambda>f.
     rbind (from_filename wo read f) (\<lambda>wa.
     Ok \<lparr> ds_wasm = wa_from_wat wa, ds_wasi = wa_is_wasi wa, ds_wasix = wa_is_wasix wa, ds_javy = wa_needs_javy wa,
          ds_start = wa_has_start wa, ds_vrrb = wa_has_vrrb wa, ds_namespaces = keys (wa_imports wa) \<rparr>))"

definition SUPPORTED_NAMESPACES :: "string list" where
  "SUPPORTED_NAMESPACES = [''env'', ''wasi_snapshot_preview1'']"

text \<open>The verdict that the command prints at its end.\<close>

definition expected_to_run :: "wasm_loader \<Rightarrow> bool" where
  "expected_to_run wa =
     (let expected = True;
          expected = (if \<not> wa_is_wasi wa \<and> \<not> wa_is_wasix wa then False else expected);
          expected = (if \<not> wa_has_start wa then False else expected);
          extra_namespaces = filter (\<lambda>k. k \<notin> set SUPPORTED_NAMESPACES) (keys (wa_imports wa)) in
      if extra_namespaces \<noteq> [] then False else expected)"

definition validate_run :: "wasm_ops \<Rightarrow> file_reader \<Rightarrow> path \<Rightarrow> (string, bool) result" where
  "validate_run wo read p = (case p of None \<Rightarrow> Panic | Some f \<Rightarrow> (case read f of
     Ok b \<Rightarrow> (case loader_parse wo (set_wasm_bytes b loader_builder_default) of
         Ok wb \<Rightarrow> rbind (loader_build wb) (\<lambda>wa. Ok (expected_to_run wa))
       | _ \<Rightarrow> Panic)
   | _ \<Rightarrow> Panic))"

subsection \<open>The runtime\<close>

definition MODULE_ARGV0 :: string where "MODULE_ARGV0 = ''vrrb-contract''"

record ('s, 'm) wasm_runtime =
  wr_store :: 's
  wr_module :: 'm
  wr_stdin :: bytes
  wr_stdout :: string
  wr_stderr :: string
  wr_args :: "string list"
  wr_env :: "(string, string) amap"

text \<open>Running a module changes the store.  Of a run that ends well, each output stream is a
  text, or cannot be read as one.\<close>

record ('s, 'm) wasmer_ops =
  wm_store :: 's
  wm_compile :: "'s \<Rightarrow> bytes \<Rightarrow> (string, 'm) result"
  wm_run :: "string \<Rightarrow> bytes \<Rightarrow> string list \<Rightarrow> (string, string) amap \<Rightarrow> 'm \<Rightarrow> 's
     \<Rightarrow> (string, (string, string) result \<times> (string, string) result) result \<times> 's"

definition wasm_runtime_new :: "('s, 'm) wasmer_ops \<Rightarrow> bytes \<Rightarrow> (string, ('s, 'm) wasm_runtime) result" where
  "wasm_runtime_new wm b =
     rbind (wm_compile wm (wm_store wm) b) (\<lambda>m.
     Ok \<lparr> wr_store = wm_store wm, wr_module = m, wr_stdin = [], wr_stdout = [], wr_stderr = [], wr_args = [], wr_env = [] \<rparr>)"

definition runtime_args :: "string list \<Rightarrow> ('s, 'm) wasm_runtime \<Rightarrow> (string, ('s, 'm) wasm_runtime) result" where
  "runtime_args as wr = Ok (wr \<lparr> wr_args := as \<rparr>)"

definition runtime_set_env :: "(string, string) amap \<Rightarrow> ('s, 'm) wasm_runtime \<Rightarrow> (string, ('s, 'm) wasm_runtime) result" where
  "runtime_set_env env wr = Ok (wr \<lparr> wr_env := env \<rparr>)"

definition runtime_stdin :: "bytes \<Rightarrow> ('s, 'm) wasm_runtime \<Rightarrow> (string, ('s, 'm) wasm_runtime) result" where
  "runtime_stdin b wr = Ok (wr \<lparr> wr_stdin := b \<rparr>)"

text \<open>\<open>read_to_string\<close> appends to the text that is there, and leaves it on an error.\<close>

definition runtime_execute ::
  "('s, 'm) wasmer_ops \<Rightarrow> ('s, 'm) wasm_runtime \<Rightarrow> (string, unit) result \<times> ('s, 'm) wasm_runtime" where
  "runtime_execute wm wr =
     (case wm_run wm MODULE_ARGV0 (wr_stdin wr) (wr_args wr) (wr_env wr) (wr_module wr) (wr_store wr) of (r, st) \<Rightarrow>
      let wr = wr \<lparr> wr_store := st \<rparr> in
      case r of
        Ok (out, err) \<Rightarrow> (case out of
            Ok o' \<Rightarrow> (let wr = wr \<lparr> wr_stdout := wr_stdout wr @ o' \<rparr> in
              (case err of Ok e' \<Rightarrow> (Ok (), wr \<lparr> wr_stderr := wr_stderr wr @ e' \<rparr>) | Err e \<Rightarrow> (Err e, wr) | Panic \<Rightarrow> (Panic, wr)))
          | Err e \<Rightarrow> (Err e, wr) | Panic \<Rightarrow> (Panic, wr))
      | Err e \<Rightarrow> (Err e, wr)
      | Panic \<Rightarrow> (Panic, wr))"

text \<open>\<open>str::split_once\<close>.\<close>

fun split_once :: "char \<Rightarrow> string \<Rightarrow> (string \<times> string) option" where
  "split_once c [] = None"
| "split_once c (x # xs) = (if x = c then Some ([], xs)
     else case split_once c xs of Some (k, v) \<Rightarrow> Some (x # k, v) | None \<Rightarrow> None)"

definition parse_env :: "string list \<Rightarrow> (string, string) amap" where
  "parse_env vars = fold (\<lambda>s m. case split_once (CHR ''='') s of Some (k, v) \<Rightarrow> map_insert k v m | None \<Rightarrow> m) vars []"

definition execute_run ::
  "('s, 'm) wasmer_ops \<Rightarrow> file_reader \<Rightarrow> path \<Rightarrow> path \<Rightarrow> string list \<Rightarrow> string list
     \<Rightarrow> (string, string \<times> string) result" where
  "execute_run wm read wasm json vars args =
     rbind (ok_or ''Failed to convert WASM filename to valid string.'' wasm) (\<lambda>wasmfile.
     rbind (ok_or ''Failed to convert JSON filename to valid string.'' json) (\<lambda>jsonfile.
     rbind (read wasmfile) (\<lambda>wasm_bytes.
     rbind (read jsonfile) (\<lambda>json_data.
     rbind (wasm_runtime_new wm wasm_bytes) (\<lambda>wr.
     rbind (runtime_stdin json_data wr) (\<lambda>wr.
     rbind (runtime_set_env (parse_env vars) wr) (\<lambda>wr.
     rbind (runtime_args args wr) (\<lambda>wr.
     case runtime_execute wm wr of (r, wr) \<Rightarrow>
     rbind r (\<lambda>_. Ok (wr_stdout wr, wr_stderr wr))))))))))"

subsection \<open>What the loader says of a module\<close>

text \<open>The names that the sections of a module export and import, in their order.\<close>

fun oks :: "('e, 'a) result list \<Rightarrow> 'a list" where
  "oks [] = []"
| "oks (Ok x # xs) = x # oks xs"
| "oks (_ # xs) = oks xs"

fun payload_exports :: "wasm_payload \<Rightarrow> string list" where
  "payload_exports (ExportSection es) = oks es"
| "payload_exports _ = []"

fun payload_imports :: "wasm_payload \<Rightarrow> (string \<times> string) list" where
  "payload_imports (ImportSection is) = oks is"
| "payload_imports _ = []"

definition module_exports :: "(string, wasm_payload) result list \<Rightarrow> string list" where
  "module_exports ps = concat (map payload_exports (oks ps))"

definition module_imports :: "(string, wasm_payload) result list \<Rightarrow> (string \<times> string) list" where
  "module_imports ps = concat (map payload_imports (oks ps))"

definition names_of :: "string \<Rightarrow> (string \<times> string) list \<Rightarrow> string list" where
  "names_of m im = map snd (filter (\<lambda>i. fst i = m) im)"

definition flagged :: "bool \<Rightarrow> bool option \<Rightarrow> bool option" where
  "flagged c x = (if c then Some True else x)"

definition noted :: "string list \<Rightarrow> (string \<times> string) list \<Rightarrow> wasm_loader_builder \<Rightarrow> wasm_loader_builder" where
  "noted ex im wb = wb \<lparr>
     wb_has_start := flagged (WASI_ENTRY_POINT \<in> set ex) (wb_has_start wb),
     wb_has_vrrb := flagged (VRRB_WASM_MAGIC \<in> set ex \<or> VRRB_WASM_VERSION \<in> set ex) (wb_has_vrrb wb),
     wb_is_wasi := flagged ({WASI_NAMESPACE_PREVIEW1, WASI_NAMESPACE_UNSTABLE, WASIX_NAMESPACE_32V1, WASIX_NAMESPACE_64V1}
        \<inter> fst ` set im \<noteq> {}) (wb_is_wasi wb),
     wb_is_wasix := flagged ({WASIX_NAMESPACE_32V1, WASIX_NAMESPACE_64V1} \<inter> fst ` set im \<noteq> {}) (wb_is_wasix wb),
     wb_needs_javy := flagged (JAVY_NAMESPACE_QUICKJS \<in> fst ` set im) (wb_needs_javy wb) \<rparr>"

fun joined :: "'a list option \<Rightarrow> 'a list \<Rightarrow> 'a list option" where
  "joined None xs = (if xs = [] then None else Some xs)"
| "joined (Some ys) xs = Some (ys @ xs)"

definition parsed ::
  "string list \<Rightarrow> (string \<times> string) list \<Rightarrow> wasm_loader_builder \<times> import_map \<Rightarrow> wasm_loader_builder \<times> import_map \<Rightarrow> bool" where
  "parsed ex im s t \<longleftrightarrow> fst t = noted ex im (fst s) \<and> (\<forall>m. map_of (snd t) m = joined (map_of (snd s) m) (names_of m im))"

lemma joined_joined: "joined (joined a xs) ys = joined a (xs @ ys)"
  by (cases a) auto

lemma joined_Nil [simp]: "joined a [] = a"
  by (cases a) auto

lemma names_of_append: "names_of m (im @ im') = names_of m im @ names_of m im'"
  by (simp add: names_of_def)

lemma flagged_flagged: "flagged c (flagged d x) = flagged (d \<or> c) x"
  by (simp add: flagged_def)

lemma noted_noted: "noted ex' im' (noted ex im wb) = noted (ex @ ex') (im @ im') wb"
  by (simp add: noted_def flagged_flagged image_Un Int_Un_distrib disj_ac)

lemma parsed_refl: "parsed [] [] s s"
  by (simp add: parsed_def noted_def flagged_def names_of_def)

lemma parsed_trans: "parsed ex im s t \<Longrightarrow> parsed ex' im' t u \<Longrightarrow> parsed (ex @ ex') (im @ im') s u"
  by (simp add: parsed_def noted_noted joined_joined names_of_append)

lemma parsed_export:
  assumes "on_export e wb = Ok wb'"
  shows "parsed (oks [e]) [] (wb, imports) (wb', imports)"
  using assms by (cases e) (auto simp: parsed_def noted_def flagged_def names_of_def Let_def)

lemma parsed_import:
  assumes "on_import i s = Ok t"
  shows "parsed [] (oks [i]) s t"
proof -
  obtain m name where i: "i = Ok (m, name)" using assms by (cases "(i, s)" rule: on_import.cases) auto
  obtain wb imps where s: "s = (wb, imps)" by (cases s)
  have "note_namespace m wb = noted [] [(m, name)] wb"
    by (auto simp: note_namespace_def noted_def flagged_def Let_def WASI_NAMESPACE_PREVIEW1_def
        WASI_NAMESPACE_UNSTABLE_def WASIX_NAMESPACE_32V1_def WASIX_NAMESPACE_64V1_def JAVY_NAMESPACE_QUICKJS_def)
  then show ?thesis
    using assms by (cases "map_of imps m")
      (auto simp: i s parsed_def add_import_def Let_def names_of_def)
qed

lemma oks_Cons: "oks (x # xs) = oks [x] @ oks xs"
  by (cases x) auto

lemma parsed_exports:
  "rfold on_export es wb = Ok wb' \<Longrightarrow> parsed (oks es) [] (wb, imports) (wb', imports)"
proof (induction es arbitrary: wb)
  case (Cons e es)
  then obtain w where "on_export e wb = Ok w" "rfold on_export es w = Ok wb'" by (auto simp: result_simps)
  then show ?case using parsed_trans [OF parsed_export Cons.IH] by (subst oks_Cons) fastforce
qed (simp add: parsed_refl)

lemma parsed_imports: "rfold on_import is s = Ok t \<Longrightarrow> parsed [] (oks is) s t"
proof (induction "is" arbitrary: s)
  case (Cons i "is")
  then obtain w where "on_import i s = Ok w" "rfold on_import is w = Ok t" by (auto simp: result_simps)
  then show ?case using parsed_trans [OF parsed_import Cons.IH] by (subst oks_Cons) fastforce
qed (simp add: parsed_refl)

lemma parsed_payload:
  "on_payload p s = Ok t \<Longrightarrow> parsed (module_exports [p]) (module_imports [p]) s t"
  by (cases "(p, s)" rule: on_payload.cases)
    (auto simp: module_exports_def module_imports_def result_simps parsed_refl parsed_exports parsed_imports)

lemma parsed_payloads:
  "rfold on_payload ps s = Ok t \<Longrightarrow> parsed (module_exports ps) (module_imports ps) s t"
proof (induction ps arbitrary: s)
  case (Cons p ps)
  then obtain w where "on_payload p s = Ok w" "rfold on_payload ps w = Ok t" by (auto simp: result_simps)
  then have "parsed (module_exports [p] @ module_exports ps) (module_imports [p] @ module_imports ps) s t"
    using parsed_trans [OF parsed_payload Cons.IH] by fastforce
  then show ?case by (cases p) (simp_all add: module_exports_def module_imports_def)
qed (simp add: parsed_refl module_exports_def module_imports_def)

lemma loader_build_Ok:
  assumes "loader_build wb = Ok wa"
  shows "wb_wasm_bytes wb = Some (wa_wasm_bytes wa)" "4 \<le> length (wa_wasm_bytes wa)"
    "take 4 (wa_wasm_bytes wa) = WASM_MAGIC" "wb_imports wb = Some (wa_imports wa)"
    "wa_has_start wa = or_default False (wb_has_start wb)" "wa_has_vrrb wa = or_default False (wb_has_vrrb wb)"
    "wa_is_wasi wa = or_default False (wb_is_wasi wb)" "wa_is_wasix wa = or_default False (wb_is_wasix wb)"
    "wa_needs_javy wa = or_default False (wb_needs_javy wb)" "wa_from_wat wa = or_default False (wb_from_wat wb)"
    "wa_wasm_size wa = or_default 0 (wb_wasm_size wb)"
  using assms
  by (auto simp: loader_build_def loader_validate_def contains_magic_def result_simps split: option.splits if_splits)

lemma parsed_file:
  assumes "loader_parse wo (set_wasm_bytes b loader_builder_default) = Ok wb"
  defines "ps \<equiv> wo_parse_all wo WASM_PARSE_OFFSET b"
  obtains imps where
    "wb = noted (module_exports ps) (module_imports ps) (set_wasm_bytes b loader_builder_default) \<lparr> wb_imports := Some imps \<rparr>"
    "\<And>m. map_of imps m = joined None (names_of m (module_imports ps))"
proof -
  obtain new imps where
    run: "rfold on_payload ps (set_wasm_bytes b loader_builder_default, []) = Ok (new, imps)"
    and wb: "wb = new \<lparr> wb_imports := Some imps \<rparr>"
    using assms by (auto simp: loader_parse_def set_wasm_bytes_def loader_builder_default_def result_simps)
  show thesis using parsed_payloads [OF run] that [of imps] by (simp add: parsed_def wb)
qed

lemma from_filename_split:
  "from_filename wo read f = Ok wa \<longleftrightarrow> (\<exists>b wb. read f = Ok b \<and>
     loader_parse wo (set_wasm_bytes b loader_builder_default) = Ok wb \<and> loader_build wb = Ok wa)"
  by (auto simp: from_filename_def result_simps)

lemmas noted_simps = noted_def flagged_def or_default_def set_wasm_bytes_def loader_builder_default_def

lemma from_filename_describes:
  assumes "from_filename wo read f = Ok wa"
  defines "ps \<equiv> wo_parse_all wo WASM_PARSE_OFFSET (wa_wasm_bytes wa)"
  shows "read f = Ok (wa_wasm_bytes wa)" "take 4 (wa_wasm_bytes wa) = WASM_MAGIC"
    "wa_has_start wa \<longleftrightarrow> WASI_ENTRY_POINT \<in> set (module_exports ps)"
    "wa_has_vrrb wa \<longleftrightarrow> VRRB_WASM_MAGIC \<in> set (module_exports ps) \<or> VRRB_WASM_VERSION \<in> set (module_exports ps)"
    "wa_is_wasi wa \<longleftrightarrow> {WASI_NAMESPACE_PREVIEW1, WASI_NAMESPACE_UNSTABLE, WASIX_NAMESPACE_32V1, WASIX_NAMESPACE_64V1}
        \<inter> fst ` set (module_imports ps) \<noteq> {}"
    "wa_is_wasix wa \<longleftrightarrow> {WASIX_NAMESPACE_32V1, WASIX_NAMESPACE_64V1} \<inter> fst ` set (module_imports ps) \<noteq> {}"
    "wa_needs_javy wa \<longleftrightarrow> JAVY_NAMESPACE_QUICKJS \<in> fst ` set (module_imports ps)"
    "map_of (wa_imports wa) m = joined None (names_of m (module_imports ps))"
    "\<not> wa_from_wat wa" "wa_wasm_size wa = 0"
proof -
  obtain b wb where b: "read f = Ok b" and wb: "loader_parse wo (set_wasm_bytes b loader_builder_default) = Ok wb"
    and wa: "loader_build wb = Ok wa" using assms(1) by (auto simp: from_filename_split)
  note built = loader_build_Ok [OF wa]
  obtain imps where imps: "wb = noted (module_exports (wo_parse_all wo WASM_PARSE_OFFSET b))
      (module_imports (wo_parse_all wo WASM_PARSE_OFFSET b)) (set_wasm_bytes b loader_builder_default) \<lparr> wb_imports := Some imps \<rparr>"
    "\<And>m. map_of imps m = joined None (names_of m (module_imports (wo_parse_all wo WASM_PARSE_OFFSET b)))"
    by (rule parsed_file [OF wb]) blast
  have same: "wa_wasm_bytes wa = b" "wa_imports wa = imps" using built(1,4) by (simp_all add: imps(1) noted_simps)
  show "read f = Ok (wa_wasm_bytes wa)" using b same by simp
  show "take 4 (wa_wasm_bytes wa) = WASM_MAGIC" by (rule built(3))
  show "map_of (wa_imports wa) m = joined None (names_of m (module_imports ps))" by (simp add: same imps(2) ps_def)
  show "wa_has_start wa \<longleftrightarrow> WASI_ENTRY_POINT \<in> set (module_exports ps)"
    "wa_has_vrrb wa \<longleftrightarrow> VRRB_WASM_MAGIC \<in> set (module_exports ps) \<or> VRRB_WASM_VERSION \<in> set (module_exports ps)"
    "wa_is_wasi wa \<longleftrightarrow> {WASI_NAMESPACE_PREVIEW1, WASI_NAMESPACE_UNSTABLE, WASIX_NAMESPACE_32V1, WASIX_NAMESPACE_64V1}
        \<inter> fst ` set (module_imports ps) \<noteq> {}"
    "wa_is_wasix wa \<longleftrightarrow> {WASIX_NAMESPACE_32V1, WASIX_NAMESPACE_64V1} \<inter> fst ` set (module_imports ps) \<noteq> {}"
    "wa_needs_javy wa \<longleftrightarrow> JAVY_NAMESPACE_QUICKJS \<in> fst ` set (module_imports ps)"
    "\<not> wa_from_wat wa" "wa_wasm_size wa = 0"
    unfolding built(5-11) same ps_def imps(1) by (simp_all add: noted_simps)
qed

lemma names_of_Nil_iff: "names_of m im = [] \<longleftrightarrow> m \<notin> fst ` set im"
  by (force simp: names_of_def filter_empty_conv)

lemma namespaces_of_file:
  assumes "from_filename wo read f = Ok wa"
  shows "set (keys (wa_imports wa)) = fst ` set (module_imports (wo_parse_all wo WASM_PARSE_OFFSET (wa_wasm_bytes wa)))"
proof -
  have member: "k \<in> set (keys (wa_imports wa)) \<longleftrightarrow> map_of (wa_imports wa) k \<noteq> None" for k
    by (simp add: map_of_eq_None_iff)
  show ?thesis by (rule set_eqI, subst member) (simp add: from_filename_describes(8) [OF assms] names_of_Nil_iff)
qed

text \<open>C34: The command \<open>validate\<close> expects a module to run exactly if the module exports \<open>_start\<close>, imports
  something from \<open>wasi_snapshot_preview1\<close>, and imports from no other namespace than that one and \<open>env\<close>.
  So a module of the older \<open>wasi_unstable\<close> or of WASIX, which the check before accepts, is never expected to run.\<close>

theorem validate_verdict:
  assumes "validate_run wo read (Some f) = Ok v" and "read f = Ok b"
  shows "v \<longleftrightarrow> WASI_ENTRY_POINT \<in> set (module_exports (wo_parse_all wo WASM_PARSE_OFFSET b)) \<and>
    WASI_NAMESPACE_PREVIEW1 \<in> fst ` set (module_imports (wo_parse_all wo WASM_PARSE_OFFSET b)) \<and>
    fst ` set (module_imports (wo_parse_all wo WASM_PARSE_OFFSET b)) \<subseteq> {''env'', WASI_NAMESPACE_PREVIEW1}"
proof -
  obtain wb wa where wb: "loader_parse wo (set_wasm_bytes b loader_builder_default) = Ok wb"
    and wa: "loader_build wb = Ok wa" and v: "v = expected_to_run wa"
    using assms by (auto simp: validate_run_def result_simps split: result.splits)
  have loaded: "from_filename wo read f = Ok wa" using assms(2) wb wa by (auto simp: from_filename_split)
  note says = from_filename_describes [OF loaded]
  have b: "wa_wasm_bytes wa = b" using says(1) assms(2) by simp
  let ?im = "fst ` set (module_imports (wo_parse_all wo WASM_PARSE_OFFSET b))"
  have extra: "filter (\<lambda>k. k \<notin> set SUPPORTED_NAMESPACES) (keys (wa_imports wa)) = [] \<longleftrightarrow> ?im \<subseteq> {''env'', WASI_NAMESPACE_PREVIEW1}"
    unfolding filter_empty_conv namespaces_of_file [OF loaded] b
    by (auto simp: SUPPORTED_NAMESPACES_def WASI_NAMESPACE_PREVIEW1_def)
  have wasi: "?im \<subseteq> {''env'', WASI_NAMESPACE_PREVIEW1} \<Longrightarrow> (wa_is_wasi wa \<or> wa_is_wasix wa) = (WASI_NAMESPACE_PREVIEW1 \<in> ?im)"
    unfolding says(5,6) b
    by (auto simp: WASI_NAMESPACE_PREVIEW1_def WASI_NAMESPACE_UNSTABLE_def WASIX_NAMESPACE_32V1_def WASIX_NAMESPACE_64V1_def)
  show ?thesis using extra wasi says(3) unfolding v expected_to_run_def Let_def b by auto
qed

definition example_wasm_ops :: wasm_ops where
  "example_wasm_ops = \<lparr> wo_wat2wasm = (\<lambda>_. Ok WASM_MAGIC),
     wo_parse_all = (\<lambda>_ b. [Ok VersionSection, Ok (ImportSection [Ok (WASI_NAMESPACE_PREVIEW1, ''fd_write'')]),
       Ok (ExportSection [Ok ''memory'', Ok WASI_ENTRY_POINT])]) \<rparr>"

theorem validate_verdict_witness:
  "validate_run example_wasm_ops (\<lambda>_. Ok WASM_MAGIC) (Some ''a.wasm'') = Ok True \<and>
   WASI_ENTRY_POINT \<in> set (module_exports (wo_parse_all example_wasm_ops WASM_PARSE_OFFSET WASM_MAGIC))"
proof -
  have run: "validate_run example_wasm_ops (\<lambda>_. Ok WASM_MAGIC) (Some ''a.wasm'') = Ok True"
    by code_simp
  show ?thesis using validate_verdict [OF run refl] run by simp
qed

text \<open>A module that is given as text is compiled, but nothing is said of it: whatever it imports and exports,
  the loader that is built has every flag unset and no imports.\<close>

theorem wat_module_undescribed:
  assumes "rbind (loader_parse wo (set_wat_text t loader_builder_default)) loader_build = Ok wa"
  shows "wo_wat2wasm wo t = Ok (wa_wasm_bytes wa) \<and> wa_from_wat wa \<and> wa_imports wa = [] \<and>
    \<not> wa_has_start wa \<and> \<not> wa_has_vrrb wa \<and> \<not> wa_is_wasi wa \<and> \<not> wa_is_wasix wa \<and> \<not> wa_needs_javy wa \<and>
    \<not> expected_to_run wa"
proof -
  obtain b where b: "wo_wat2wasm wo t = Ok b"
    and wa: "loader_build (set_wat_text t loader_builder_default
      \<lparr> wb_wasm_bytes := Some b, wb_from_wat := Some True, wb_imports := Some [] \<rparr>) = Ok wa"
    using assms by (auto simp: loader_parse_def set_wat_text_def loader_builder_default_def result_simps)
  show ?thesis using loader_build_Ok [OF wa] b
    by (simp add: set_wat_text_def loader_builder_default_def or_default_def expected_to_run_def Let_def)
qed

theorem wat_module_undescribed_witness:
  "\<exists>wa. rbind (loader_parse example_wasm_ops (set_wat_text [40, 41] loader_builder_default)) loader_build = Ok wa \<and>
     \<not> wa_has_start wa \<and> wa_imports wa = []"
proof -
  have "is_ok (rbind (loader_parse example_wasm_ops (set_wat_text [40, 41] loader_builder_default)) loader_build)"
    by code_simp
  then obtain wa where "rbind (loader_parse example_wasm_ops (set_wat_text [40, 41] loader_builder_default)) loader_build = Ok wa"
    by (auto simp: is_ok_iff)
  then show ?thesis using wat_module_undescribed by blast
qed

subsection \<open>What a module is run with\<close>

lemma split_once_iff: "split_once c s = Some (k, v) \<longleftrightarrow> s = k @ c # v \<and> c \<notin> set k"
proof
  show "split_once c s = Some (k, v) \<Longrightarrow> s = k @ c # v \<and> c \<notin> set k"
    by (induction s arbitrary: k) (auto split: if_splits option.splits)
  have "c \<notin> set k \<Longrightarrow> split_once c (k @ c # v) = Some (k, v)" by (induction k) auto
  then show "s = k @ c # v \<and> c \<notin> set k \<Longrightarrow> split_once c s = Some (k, v)" by blast
qed

text \<open>Two executions of one runtime: the outputs of the second follow those of the first.\<close>

lemma execute_appends:
  assumes "runtime_execute wm wr = (Ok (), wr')"
  shows "\<exists>out err. wr_stdout wr' = wr_stdout wr @ out \<and> wr_stderr wr' = wr_stderr wr @ err \<and>
    fst (wm_run wm MODULE_ARGV0 (wr_stdin wr) (wr_args wr) (wr_env wr) (wr_module wr) (wr_store wr)) = Ok (Ok out, Ok err)"
  using assms by (auto simp: runtime_execute_def Let_def split: prod.splits result.splits)

text \<open>What the command \<open>execute\<close> prints is what the module writes when it is run with the content of the
  JSON file as its input, with the arguments, and with the variables of the options of the form \<open>key=value\<close>.\<close>

lemma execute_run_output:
  assumes "execute_run wm read (Some w) (Some j) vars args = Ok (out, err)"
  shows "\<exists>wasm json m. read w = Ok wasm \<and> read j = Ok json \<and> wm_compile wm (wm_store wm) wasm = Ok m \<and>
    fst (wm_run wm MODULE_ARGV0 json args (parse_env vars) m (wm_store wm)) = Ok (Ok out, Ok err)"
proof -
  obtain wasm json wr wr' where files: "read w = Ok wasm" "read j = Ok json"
    and new: "wasm_runtime_new wm wasm = Ok wr"
    and run: "runtime_execute wm (wr \<lparr> wr_stdin := json, wr_env := parse_env vars, wr_args := args \<rparr>) = (Ok (), wr')"
    and out: "out = wr_stdout wr'" "err = wr_stderr wr'"
    using assms by (auto simp: execute_run_def runtime_stdin_def runtime_set_env_def runtime_args_def result_simps split: prod.splits) (metis surj_pair)
  show ?thesis using execute_appends [OF run] new files out
    by (auto simp: wasm_runtime_new_def result_simps)
qed

end
