(* ===== verification/Spec2Isabelle.thy ===== *)
theory Spec2Isabelle
  imports Accounts Quorums Blocks Mempools Databases Version_History Validators Wallets Node_Options Job_Pools Wasm_Tools
begin

text \<open>
  Verification library for the Versatus (VRRB) node, the Rust workspace under \<open>src/crates\<close>.

  \<^bold>\<open>The program.\<close>  A wallet (\<open>wallet\<close>) signs transfers and sends them to the JSON-RPC
  server of a node (\<open>vrrb_rpc\<close>), which publishes events.  The node (\<open>node/src/runtime\<close>)
  handles them with a state manager (the DAG of blocks, the database, the mempool), a
  consensus module (quorum assignment, distributed key generation, threshold signatures,
  elections) and a miner (proposal and convergence blocks, conflict resolution).  The
  database keeps accounts, transactions and claims in published tries over a versioned
  store.  A job pool runs closures and futures on worker threads, and a set of tools loads,
  judges and runs WebAssembly modules.

  \<^bold>\<open>Conventions.\<close>  A struct is a record, an enum a datatype, an integer a word of its
  width.  A fallible function returns \<open>result\<close> of \<open>Prelude\<close>: \<open>Ok\<close>, \<open>Err\<close>, or \<open>Panic\<close> for an
  \<open>unwrap\<close>, an index out of range or an overflow, as in a build with overflow checks.  A
  method that takes \<open>&mut self\<close> returns its result with the new state, also after an error.
  A \<open>HashMap\<close> is an association list with distinct keys; where the order of an iteration
  shows in the result, the order is an argument.  The clock and random draws are
  arguments.  Code outside the repository is a record of functions (\<open>crypto\<close>, \<open>vrf_ops\<close>,
  \<open>lr_ops\<close>, \<open>trie_ops\<close>, \<open>kv_ops\<close>, \<open>hbbft_ops\<close>, \<open>bls_ops\<close>, \<open>dag_ops\<close>, \<open>rpc_client\<close>,
  \<open>net_ops\<close>, \<open>wasm_ops\<close>, \<open>wasmer_ops\<close>); the \<open>_laws\<close> predicates state its documented behaviour, and the
  \<open>example_\<close> values satisfy them.

  \<^bold>\<open>Theories and sources.\<close>
  \<^item> \<open>Prelude\<close>, \<open>Ordered_Maps\<close>, \<open>Floats\<close>, \<open>Left_Right\<close>: results, maps, \<open>BTreeMap\<close>, the used
    part of \<open>f32\<close> and \<open>f64\<close>, the contract of \<open>left_right\<close>; the locales \<open>keyed_map\<close>, \<open>key_order\<close>
    and \<open>invariant_system\<close>.
  \<^item> \<open>Primitives\<close>, \<open>Crypto_Example\<close>, \<open>Transactions\<close>, \<open>Accounts\<close>, \<open>Keypairs\<close>, \<open>Claims\<close>:
    \<open>primitives\<close> and \<open>vrrb_core\<close>.  What two equal digests say of two transfers; the exact
    effect of \<open>Account::update\<close>; debits never exceed credits; the stake of a claim is the fold
    of its transactions.
  \<^item> \<open>Rewards\<close>, \<open>Vvrf\<close>, \<open>Quorums\<close>: \<open>consensus/reward\<close>, \<open>consensus/vrrb_vrf\<close>,
    \<open>consensus/quorum\<close>.  The bounds of rewards and of draws; who is elected.
  \<^item> \<open>Blocks\<close>: the crate \<open>block\<close>, with an invariant of every chain of headers.
  \<^item> \<open>Mempools\<close>: the crate \<open>mempool\<close>, which refines a map from digests to records.
  \<^item> \<open>State_Updates\<close>, \<open>Stores\<close>, \<open>Databases\<close>, \<open>Version_History\<close>: \<open>storage/vrrbdb\<close>.  When a
    transfer is applied, what a block does to the sum of all balances, and that the value
    history is a versioned map (locale \<open>versioned_map\<close>).
  \<^item> \<open>Dkg\<close>, \<open>Signers\<close>, \<open>Quorum_Assignment\<close>, \<open>Consensus\<close>: \<open>consensus/dkg_engine\<close>,
    \<open>consensus/signer\<close> and \<open>node/src/consensus\<close>.  Quorum signatures verify, peers are
    assigned to quorums by kind, memberships are final, and what the module never does.
  \<^item> \<open>Validators\<close>: the crate \<open>validator\<close>, what is accepted and what is refused.
  \<^item> \<open>Dags\<close>, \<open>Miners\<close>, \<open>State_Manager\<close>, \<open>Node_Runtime\<close>: \<open>node/src/state_manager\<close>, \<open>miner\<close> and
    \<open>node/src/runtime\<close>.  What enters the DAG, that a transaction survives conflict
    resolution once and when the resolution ends, how account updates are merged, and
    invariants over all sequences of events of a node.
  \<^item> \<open>Networks\<close>: \<open>node/src/network\<close>.  Which events of a runtime reach the runtimes of its peers
    and which are dropped, and how many peers can be told of their quorum.
  \<^item> \<open>Node_Options\<close>: \<open>vrrb_config/src/node_config.rs\<close>, \<open>cli/src/commands/node/run.rs\<close> and
    \<open>service_config\<close>.  What becomes of the options of a node, and that a node started with them
    never joins a network.
  \<^item> \<open>Job_Tasks\<close>, \<open>Job_Pools\<close>: \<open>consensus/job_pool\<close>, a system of interleaved steps of the
    workers and the callers.  Every result is delivered once, the pool keeps its bounds, what
    \<open>running_tasks\<close> counts, and two ways in which a queued job is never run.
  \<^item> \<open>Rpc\<close>, \<open>Wallets\<close>: \<open>vrrb_rpc/src/rpc\<close> and \<open>wallet/src/v2\<close>.  The RPC client of a wallet is
    instantiated with the server of a node in \<open>node_client\<close>, and the theorems below follow a
    request from the wallet through the server and the event handler and back.
  \<^item> \<open>Wasm_Tools\<close>: \<open>wasm_loader\<close>, \<open>wasm_runtime\<close> and the commands of \<open>wasm_cli\<close>.  What the flags
    and imports of a loaded module mean, and which modules are expected to run.

  \<^bold>\<open>Loops.\<close>  There is no fuel.  Loops over data are structural recursion.  The three loops
  that may run forever (the seed of a quorum, the winner of a miner election, the first
  eligible proposer of a conflict) are partial functions into \<open>option\<close>, and it is proved when
  they return.  The loops that wait for a thread or a clock take the list of what they see,
  and \<open>None\<close> says that they are still waiting at its end.

  \<^bold>\<open>Step systems.\<close>  \<open>reachable init step\<close> is the closure of the initial states under the
  operations of a component in any order; each invariant is an interpretation of
  \<open>invariant_system\<close> on the model of the component, and the properties follow from it.

  \<^bold>\<open>Not modelled.\<close>  Start-up, the reading of configuration files, the transport of messages
  between nodes, logging, the parsing of command lines and the HTTP server are input and
  output around other crates.  The job scheduler computes with logarithms of \<open>f32\<close>, which
  \<open>Floats\<close> does not cover.  Handlers of events that only log or forward, functions that are
  \<open>todo!()\<close>, modules that no \<open>mod.rs\<close> declares, and the deprecated first wallet have no model.
  In the job pool a thread is assumed to be created when a job asks for one, and memory is
  sequentially consistent.
\<close>

section \<open>A wallet and its node\<close>


definition example_wallet :: wallet where
  "example_wallet = \<lparr> wl_secret_key = key_a, wl_welcome_message = [], wl_public_key = key_a,
     wl_addresses = [(0, Address key_a)], wl_accounts = [], wl_nonce = 0 \<rparr>"


text \<open>C37: An account that a wallet creates exists in the wallet only: the server accepts the
  request and publishes it, and the node ignores the event, so its accounts are as
  before.\<close>

theorem wallet_account_stays_local:
  assumes "wallet_create_account cr (node_client rv) now alias pk wl (rt, []) = (Ok (a, acc), wl', rt1, evs)"
    and "handle_events re now' evs rt1 = Some rt2"
  shows "map_of (wl_accounts wl') a = Some acc \<and> map_of (wl_addresses wl') alias = Some a \<and> evs \<noteq> [] \<and> rt2 = rt
    \<and> wallet_get_account (node_client rv) a (rt2, []) = wallet_get_account (node_client rv) a (rt, [])"
proof -
  obtain b where "rv_encode_account rv (account_new cr now pk) = Ok b" "rt_bus_open rt"
    using assms(1) by (auto simp: wallet_create_account_def node_client_def rpc_create_account_def rpc_send_def
        node_server_def Let_def split: result.splits if_splits)
  with assms(1) have "rt1 = rt" "evs = [CreateAccountRequested a b]"
    "map_of (wl_accounts wl') a = Some acc" "map_of (wl_addresses wl') alias = Some a"
    by (auto simp: wallet_create_account_def node_client_def rpc_create_account_def rpc_send_def node_server_def Let_def)
  then show ?thesis using assms(2) by (auto simp: handle_event_def)
qed

theorem wallet_account_stays_local_witness:
  "\<exists>rt wl' evs. runtime_new example_runtime_env (example_setup NFull) True = Ok rt
     \<and> wallet_create_account example_crypto (node_client example_rpc_env) 0 1 key_b example_wallet (rt, [])
         = (Ok (Address key_b, account_new example_crypto 0 key_b), wl', rt, evs)
     \<and> handle_events example_runtime_env 0 evs rt = Some rt \<and> map_of (wl_addresses wl') 1 = Some (Address key_b)"
proof -
  obtain rt where rt: "runtime_new example_runtime_env (example_setup NFull) True = Ok rt"
    using example_runtime_new by blast
  have bus: "rt_bus_open rt" using runtime_new_parts [OF rt] by auto
  then obtain wl' b where create: "wallet_create_account example_crypto (node_client example_rpc_env) 0 1 key_b example_wallet (rt, [])
      = (Ok (Address key_b, account_new example_crypto 0 key_b), wl', rt, [CreateAccountRequested (Address key_b) b])"
    by (simp add: wallet_create_account_def node_client_def rpc_create_account_def rpc_send_def node_server_def
        example_rpc_env_def Let_def)
  have handled: "handle_events example_runtime_env 0 [CreateAccountRequested (Address key_b) b] rt = Some rt"
    by (simp add: handle_event_def)
  from wallet_account_stays_local [OF create handled] rt create handled show ?thesis by blast
qed

end
